(* ===== verification/Prelude.thy ===== *)
theory Prelude
  imports Main "HOL-Library.Char_ord" "HOL-Library.List_Lexorder" "HOL-Library.Multiset"
begin

text \<open>
  The shared base of the development: Python's exceptions as values, the
  state-and-exception monad in which the operator's stateful code is written, a
  Hoare-style calculus for it, and the string and dictionary operations of Python that
  the sources use.
\<close>

named_theorems monad_simps \<open>equations that run a monadic program on a state\<close>
named_theorems keeps \<open>introduction rules for state invariants of monadic programs\<close>

section \<open>Exceptions\<close>

text \<open>
  The exception classes that the sources raise or catch by name.  An exception value
  carries the classes it is an instance of (its method resolution order), so the class
  hierarchy of third-party exceptions (is \<open>ExecutionError\<close> of mysql_shell a
  \<open>RuntimeError\<close>?) is decided by the environment that raises them, never by the model.
\<close>

datatype pyclass =
    PyException | PyRuntimeError | PyValueError | PyKeyError | PyIndexError | PyOSError
  | PyFileNotFoundError | PyTypeError | ExecutionErrorC | ClientErrorC | SnapErrorC
  | ChangeErrorC | ExecErrorC | PebbleErrorC | ApiErrorC | ModelErrorC
  | SecretNotFoundErrorC | PrecheckFailedC | CalledProcessErrorC | GaiErrorC
  | UnableToWriteHostsC | PyAttributeError | InvalidTokenC | DataInterfacesErrorC | SecretErrorC
  | SecretAlreadyExistsErrorC | SecretsUnavailableErrorC | PrematureDataAccessErrorC | OtherErrorC

datatype exn = Exn (bases: "pyclass list") (message: string)

definition caught :: "pyclass list \<Rightarrow> exn \<Rightarrow> bool" where
  "caught cs e \<longleftrightarrow> list_ex (\<lambda>c. c \<in> set (bases e)) cs"

definition runtime_error :: "string \<Rightarrow> exn" where
  "runtime_error msg = Exn [PyRuntimeError, PyException] msg"

definition value_error :: "string \<Rightarrow> exn" where
  "value_error msg = Exn [PyValueError, PyException] msg"

definition key_error :: "string \<Rightarrow> exn" where
  "key_error k = Exn [PyKeyError, PyException] k"

definition index_error :: exn where
  "index_error = Exn [PyIndexError, PyException] ''index out of range''"

lemma caught_builtin [simp]:
  "caught cs (runtime_error m) \<longleftrightarrow> PyRuntimeError \<in> set cs \<or> PyException \<in> set cs"
  "caught cs (value_error m) \<longleftrightarrow> PyValueError \<in> set cs \<or> PyException \<in> set cs"
  "caught cs (key_error m) \<longleftrightarrow> PyKeyError \<in> set cs \<or> PyException \<in> set cs"
  "caught cs index_error \<longleftrightarrow> PyIndexError \<in> set cs \<or> PyException \<in> set cs"
  by (auto simp: caught_def runtime_error_def value_error_def key_error_def index_error_def
      list_ex_iff)

section \<open>The state-and-exception monad\<close>

type_synonym ('s, 'a) M = "'s \<Rightarrow> (exn + 'a) \<times> 's"

definition ret :: "'a \<Rightarrow> ('s, 'a) M" where
  "ret x = (\<lambda>s. (Inr x, s))"

definition raise :: "exn \<Rightarrow> ('s, 'a) M" where
  "raise e = (\<lambda>s. (Inl e, s))"

definition bindM :: "('s, 'a) M \<Rightarrow> ('a \<Rightarrow> ('s, 'b) M) \<Rightarrow> ('s, 'b) M" where
  "bindM m f = (\<lambda>s. case m s of (Inl e, s') \<Rightarrow> (Inl e, s') | (Inr x, s') \<Rightarrow> f x s')"

definition seqM :: "('s, 'a) M \<Rightarrow> ('s, 'b) M \<Rightarrow> ('s, 'b) M" where
  "seqM m k = bindM m (\<lambda>_. k)"

definition gets :: "('s \<Rightarrow> 'a) \<Rightarrow> ('s, 'a) M" where
  "gets f = (\<lambda>s. (Inr (f s), s))"

definition modify :: "('s \<Rightarrow> 's) \<Rightarrow> ('s, unit) M" where
  "modify f = (\<lambda>s. (Inr (), f s))"

definition lift :: "exn + 'a \<Rightarrow> ('s, 'a) M" where
  "lift r = (\<lambda>s. (r, s))"

text \<open>A statement list, run in order and left at the first exception.\<close>

fun block :: "('s, unit) M list \<Rightarrow> ('s, unit) M" where
  "block [] = ret ()"
| "block [m] = m"
| "block (m # ms) = seqM m (block ms)"

text \<open>\<open>try: m except cs as e: h e\<close>, and the same with an \<open>else\<close> clause.\<close>

definition try_except :: "('s, 'a) M \<Rightarrow> pyclass list \<Rightarrow> (exn \<Rightarrow> ('s, 'a) M) \<Rightarrow> ('s, 'a) M" where
  "try_except m cs h = (\<lambda>s. case m s of
     (Inl e, s') \<Rightarrow> if caught cs e then h e s' else (Inl e, s')
   | (Inr x, s') \<Rightarrow> (Inr x, s'))"

definition try_else ::
  "('s, 'a) M \<Rightarrow> pyclass list \<Rightarrow> (exn \<Rightarrow> ('s, 'b) M) \<Rightarrow> ('a \<Rightarrow> ('s, 'b) M) \<Rightarrow> ('s, 'b) M" where
  "try_else m cs h k = (\<lambda>s. case m s of
     (Inl e, s') \<Rightarrow> if caught cs e then h e s' else (Inl e, s')
   | (Inr x, s') \<Rightarrow> k x s')"

text \<open>\<open>try: m finally: f\<close>: an exception of \<open>f\<close> replaces the outcome of \<open>m\<close>.\<close>

definition try_finally :: "('s, 'a) M \<Rightarrow> ('s, unit) M \<Rightarrow> ('s, 'a) M" where
  "try_finally m f = (\<lambda>s. case m s of (r, s') \<Rightarrow>
     (case f s' of (Inl e, s'') \<Rightarrow> (Inl e, s'') | (Inr _, s'') \<Rightarrow> (r, s'')))"

definition suppress :: "pyclass list \<Rightarrow> ('s, unit) M \<Rightarrow> ('s, unit) M" where
  "suppress cs m = try_except m cs (\<lambda>_. ret ())"

fun for_each :: "('x \<Rightarrow> ('s, unit) M) \<Rightarrow> 'x list \<Rightarrow> ('s, unit) M" where
  "for_each f [] = ret ()"
| "for_each f (x # xs) = seqM (f x) (for_each f xs)"

fun mapM :: "('x \<Rightarrow> ('s, 'a) M) \<Rightarrow> 'x list \<Rightarrow> ('s, 'a list) M" where
  "mapM f [] = ret []"
| "mapM f (x # xs) = bindM (f x) (\<lambda>y. bindM (mapM f xs) (\<lambda>ys. ret (y # ys)))"

text \<open>Runs a program and hands over its outcome, an exception included, as a value.\<close>

definition outcome :: "('s, 'a) M \<Rightarrow> ('s, exn + 'a) M" where
  "outcome m = (\<lambda>s. case m s of (r, s') \<Rightarrow> (Inr r, s'))"

text \<open>
  \<open>tenacity.Retrying(stop=stop_after_attempt(n), reraise=True)\<close>: run the attempt until it
  succeeds, at most \<open>n\<close> times; every \<open>Exception\<close> but that of the last attempt is dropped.
\<close>

fun attempts :: "nat \<Rightarrow> ('s, 'a) M \<Rightarrow> ('s, 'a) M" where
  "attempts 0 m = m"
| "attempts (Suc n) m = (if n = 0 then m else (\<lambda>s. case m s of
     (Inl e, s') \<Rightarrow> if caught [PyException] e then attempts n m s' else (Inl e, s')
   | (Inr x, s') \<Rightarrow> (Inr x, s')))"

lemma run_simps [monad_simps]:
  "ret x s = (Inr x, s)"
  "raise e s = (Inl e, s)"
  "gets f s = (Inr (f s), s)"
  "modify g s = (Inr (), g s)"
  "lift r s = (r, s)"
  by (simp_all add: ret_def raise_def gets_def modify_def lift_def)

lemma bindM_simps [monad_simps]:
  "m s = (Inr x, s') \<Longrightarrow> bindM m f s = f x s'"
  "m s = (Inl e, s') \<Longrightarrow> bindM m f s = (Inl e, s')"
  by (simp_all add: bindM_def)

lemma seqM_simps [monad_simps]:
  "m s = (Inr x, s') \<Longrightarrow> seqM m k s = k s'"
  "m s = (Inl e, s') \<Longrightarrow> seqM m k s = (Inl e, s')"
  by (simp_all add: seqM_def monad_simps)

lemma bindM_ret [simp]: "bindM (ret x) f = f x" "seqM (ret y) k = k"
  by (simp_all add: bindM_def seqM_def ret_def)

lemma bindM_assoc: "bindM (bindM m f) g = bindM m (\<lambda>x. bindM (f x) g)"
  by (auto simp: bindM_def fun_eq_iff split: prod.splits sum.splits)

lemma attempts_one [simp]: "attempts (Suc 0) m = m" "attempts 1 m = m"
  by simp_all

text \<open>The case rules on a run: one per combinator, on the outcome of the first part.\<close>

lemma bindM_split:
  "P (bindM m f s) \<longleftrightarrow>
     (\<forall>e s'. m s = (Inl e, s') \<longrightarrow> P (Inl e, s')) \<and> (\<forall>x s'. m s = (Inr x, s') \<longrightarrow> P (f x s'))"
  by (auto simp: bindM_def split: prod.splits sum.splits)

lemma seqM_split:
  "P (seqM m k s) \<longleftrightarrow>
     (\<forall>e s'. m s = (Inl e, s') \<longrightarrow> P (Inl e, s')) \<and> (\<forall>x s'. m s = (Inr x, s') \<longrightarrow> P (k s'))"
  by (auto simp: seqM_def bindM_split)

lemma bindM_Inr_iff:
  "bindM m f s = (Inr y, t) \<longleftrightarrow> (\<exists>x s'. m s = (Inr x, s') \<and> f x s' = (Inr y, t))"
  by (auto simp: bindM_def split: prod.splits sum.splits)

lemma seqM_Inr_iff:
  "seqM m k s = (Inr y, t) \<longleftrightarrow> (\<exists>x s'. m s = (Inr x, s') \<and> k s' = (Inr y, t))"
  by (simp add: seqM_def bindM_Inr_iff)

section \<open>State invariants of programs\<close>

text \<open>
  \<open>keeps I m\<close>: from a state with \<open>I\<close> the program \<open>m\<close> ends in a state with \<open>I\<close>, whether it
  returns or raises.  The rules are syntax-directed, so an invariant of a whole handler
  is proved by its structure from the facts of the calls it makes.
\<close>

definition keeps :: "('s \<Rightarrow> bool) \<Rightarrow> ('s, 'a) M \<Rightarrow> bool" where
  "keeps I m \<longleftrightarrow> (\<forall>s. I s \<longrightarrow> I (snd (m s)))"

lemma keepsI: "(\<And>s. I s \<Longrightarrow> I (snd (m s))) \<Longrightarrow> keeps I m"
  by (simp add: keeps_def)

lemma keepsD: "keeps I m \<Longrightarrow> I s \<Longrightarrow> m s = (r, s') \<Longrightarrow> I s'"
  by (metis keeps_def snd_conv)

lemma keeps_basic [keeps]:
  "keeps I (ret x)" "keeps I (raise e)" "keeps I (gets f)" "keeps I (lift r)"
  by (simp_all add: keeps_def monad_simps)

lemma keeps_bindM [keeps]:
  "keeps I m \<Longrightarrow> (\<And>x. keeps I (f x)) \<Longrightarrow> keeps I (bindM m f)"
  by (auto simp: keeps_def bindM_def split: prod.splits sum.splits)

lemma keeps_seqM [keeps]: "keeps I m \<Longrightarrow> keeps I k \<Longrightarrow> keeps I (seqM m k)"
  by (simp add: seqM_def keeps_bindM)

lemma keeps_if [keeps]:
  "(b \<Longrightarrow> keeps I m) \<Longrightarrow> (\<not> b \<Longrightarrow> keeps I k) \<Longrightarrow> keeps I (if b then m else k)"
  by simp

lemma keeps_case_option [keeps]:
  "(x = None \<Longrightarrow> keeps I m) \<Longrightarrow> (\<And>y. x = Some y \<Longrightarrow> keeps I (f y)) \<Longrightarrow> keeps I (case_option m f x)"
  by (cases x) auto

lemma keeps_try_except [keeps]:
  "keeps I m \<Longrightarrow> (\<And>e. keeps I (h e)) \<Longrightarrow> keeps I (try_except m cs h)"
  by (auto simp: keeps_def try_except_def split: prod.splits sum.splits)

lemma keeps_try_else [keeps]:
  "keeps I m \<Longrightarrow> (\<And>e. keeps I (h e)) \<Longrightarrow> (\<And>x. keeps I (k x)) \<Longrightarrow> keeps I (try_else m cs h k)"
  by (auto simp: keeps_def try_else_def split: prod.splits sum.splits)

lemma keeps_try_finally [keeps]:
  "keeps I m \<Longrightarrow> keeps I f \<Longrightarrow> keeps I (try_finally m f)"
  by (auto simp: keeps_def try_finally_def split: prod.splits sum.splits)

lemma keeps_outcome [keeps]: "keeps I m \<Longrightarrow> keeps I (outcome m)"
  by (auto simp: keeps_def outcome_def split: prod.splits)

lemma keeps_suppress [keeps]: "keeps I m \<Longrightarrow> keeps I (suppress cs m)"
  by (simp add: suppress_def keeps)

lemma keeps_for_each [keeps]:
  "(\<And>x. x \<in> set xs \<Longrightarrow> keeps I (f x)) \<Longrightarrow> keeps I (for_each f xs)"
  by (induction xs) (simp_all add: keeps)

lemma keeps_mapM [keeps]: "(\<And>x. keeps I (f x)) \<Longrightarrow> keeps I (mapM f xs)"
  by (induction xs) (simp_all add: keeps)

lemma keeps_block_list: "list_all (keeps I) ms \<Longrightarrow> keeps I (block ms)"
  by (induction ms rule: block.induct) (simp_all add: keeps)

lemma block_Cons: "block (m # ms) = (if ms = [] then m else seqM m (block ms))"
  by (cases ms) simp_all

lemma keeps_block [keeps]:
  "keeps I (block [])" "keeps I m \<Longrightarrow> keeps I (block ms) \<Longrightarrow> keeps I (block (m # ms))"
  by (simp_all add: block_Cons keeps)

lemma keeps_case_prod [keeps]:
  "(\<And>a b. x = (a, b) \<Longrightarrow> keeps I (f a b)) \<Longrightarrow> keeps I (case_prod f x)"
  by (cases x) simp

lemma keeps_case_list [keeps]:
  "(x = [] \<Longrightarrow> keeps I m) \<Longrightarrow> (\<And>y ys. x = y # ys \<Longrightarrow> keeps I (f y ys)) \<Longrightarrow> keeps I (case_list m f x)"
  by (cases x) simp_all

lemma keeps_Let [keeps]: "keeps I (f t) \<Longrightarrow> keeps I (Let t f)"
  by simp

lemma keeps_attempts [keeps]: "keeps I m \<Longrightarrow> keeps I (attempts n m)"
proof (induction n)
  case (Suc n)
  then show ?case
    by (auto simp: keeps_def split: prod.splits sum.splits)
qed simp

end
