(* ===== verification/PyDict.thy ===== *)
theory PyDict
  imports PyString "HOL-Library.AList"
begin

text \<open>
  Python dictionaries as association lists with distinct keys, in insertion order: an
  update of a present key keeps its place, a new key goes to the end.
\<close>

type_synonym 'v dict = "(string \<times> 'v) list"

definition dict_keys :: "'v dict \<Rightarrow> string list" where
  "dict_keys d = map fst d"

definition dict_ok :: "'v dict \<Rightarrow> bool" where
  "dict_ok d \<longleftrightarrow> distinct (dict_keys d)"

definition dict_has :: "'v dict \<Rightarrow> string \<Rightarrow> bool" where
  "dict_has d k \<longleftrightarrow> k \<in> set (dict_keys d)"

text \<open>\<open>d[k]\<close> raises \<open>KeyError\<close> for a missing key; \<open>d.get(k)\<close> is \<open>map_of d k\<close>.\<close>

definition dict_index :: "'v dict \<Rightarrow> string \<Rightarrow> exn + 'v" where
  "dict_index d k = (case map_of d k of None \<Rightarrow> Inl (key_error k) | Some v \<Rightarrow> Inr v)"

text \<open>\<open>d.update(e)\<close> (and \<open>{**d, **e}\<close>), \<open>d.setdefault(k, v)\<close>.\<close>

definition dict_update :: "'v dict \<Rightarrow> 'v dict \<Rightarrow> 'v dict" where
  "dict_update d e = foldl (\<lambda>acc (k, v). AList.update k v acc) d e"

definition dict_setdefault :: "string \<Rightarrow> 'v \<Rightarrow> 'v dict \<Rightarrow> 'v dict" where
  "dict_setdefault k v d = (if dict_has d k then d else d @ [(k, v)])"

definition dict_map :: "('v \<Rightarrow> 'w) \<Rightarrow> 'v dict \<Rightarrow> 'w dict" where
  "dict_map f d = map (\<lambda>(k, v). (k, f v)) d"

lemma dict_has_iff: "dict_has d k \<longleftrightarrow> map_of d k \<noteq> None"
  by (simp add: dict_has_def dict_keys_def map_of_eq_None_iff)

lemma keys_dict_map [simp]: "dict_keys (dict_map f d) = dict_keys d"
  by (induction d) (auto simp: dict_keys_def dict_map_def)

lemma map_of_dict_map [simp]: "map_of (dict_map f d) k = map_option f (map_of d k)"
  by (induction d) (auto simp: dict_map_def)

lemma dict_map_append [simp]:
  "dict_map f (d @ e) = dict_map f d @ dict_map f e" "dict_map f [] = []"
  "dict_map f ((k, v) # d) = (k, f v) # dict_map f d"
  by (simp_all add: dict_map_def)

lemma dict_ok_map [simp]: "dict_ok (dict_map f d) = dict_ok d"
  by (simp add: dict_ok_def)

lemma map_of_dict_update:
  "map_of (dict_update d e) = map_of d ++ map_of (rev e)"
proof (induction e arbitrary: d)
  case (Cons p e)
  obtain k v where "p = (k, v)" by force
  with Cons show ?case
    by (simp add: dict_update_def update_conv' map_add_assoc [symmetric] fun_eq_iff map_add_def
        split: option.splits)
qed (simp add: dict_update_def)

lemma map_of_rev_distinct: "dict_ok e \<Longrightarrow> map_of (rev e) = map_of e"
proof
  fix k assume "dict_ok e"
  then have d: "distinct (map fst e)" "distinct (map fst (rev e))"
    by (simp_all add: dict_ok_def dict_keys_def flip: rev_map)
  show "map_of (rev e) k = map_of e k"
  proof (cases "map_of e k")
    case None
    then show ?thesis by (metis map_of_eq_None_iff set_rev)
  next
    case (Some v)
    then have "(k, v) \<in> set (rev e)" by (simp add: map_of_SomeD)
    with d(2) Some show ?thesis by (metis map_of_is_SomeI)
  qed
qed

lemma dict_ok_update: "dict_ok d \<Longrightarrow> dict_ok (dict_update d e)"
  by (induction e arbitrary: d) (auto simp: dict_update_def dict_ok_def dict_keys_def distinct_update)

lemma set_dict_keys: "set (dict_keys d) = dom (map_of d)"
  by (simp add: dict_keys_def dom_map_of_conv_image_fst)

lemma map_of_setdefault:
  "map_of (dict_setdefault k v d) = (if dict_has d k then map_of d else (map_of d)(k \<mapsto> v))"
  by (auto simp: dict_setdefault_def dict_has_iff map_add_def fun_eq_iff split: option.splits)

lemma dict_ok_setdefault: "dict_ok d \<Longrightarrow> dict_ok (dict_setdefault k v d)"
  by (auto simp: dict_setdefault_def dict_ok_def dict_has_def dict_keys_def)

end
