(* ===== verification/Paths.thy ===== *)
theory Paths
  imports PyDict
begin

text \<open>
  The file system layout of the two substrates (\<open>workload/systems/paths\<close>): the paths the
  other components use, for the workload container and for the snap.  A path is its string.
\<close>

datatype substrate = K8S | VM

record paths =
  home :: string
  backup_plugins :: string
  logrotate_config :: string
  mysql_config_custom :: string
  mysql_config_init :: string
  mysql_config_default :: string
  mysql_archive :: string
  mysql_data :: string
  mysql_logs :: string
  mysql_temp :: string
  mysql_plugins :: string
  mysql_socket :: string
  binary :: "string \<Rightarrow> string"

text \<open>\<open>path / name\<close> of \<open>pathlib\<close>; the root is the only path that ends in a slash.\<close>

definition path_div :: "string \<Rightarrow> string \<Rightarrow> string" where
  "path_div p n = (if p = ''/'' then p @ n else p @ ''/'' @ n)"

fun path_join :: "string \<Rightarrow> string list \<Rightarrow> string" where
  "path_join p [] = p"
| "path_join p (n # ns) = path_join (path_div p n) ns"

definition container_paths :: "string \<Rightarrow> paths" where
  "container_paths root =
     \<lparr>home = path_join root [''home''],
      backup_plugins = path_join root [''usr'', ''lib64'', ''xtrabackup'', ''plugin''],
      logrotate_config = path_join root [''etc'', ''logrotate.d'', ''flush_mysql_logs''],
      mysql_config_custom = path_join root [''etc'', ''mysql'', ''mysql.conf.d'', ''z-custom.cnf''],
      mysql_config_init = path_join root [''etc'', ''mysql'', ''mysql.conf.d'', ''z-init-mysqld.cnf''],
      mysql_config_default = path_join root [''etc'', ''mysql'', ''my.cnf''],
      mysql_archive = path_join root [''var'', ''lib'', ''mysql'', ''archive''],
      mysql_data = path_join root [''var'', ''lib'', ''mysql'', ''data''],
      mysql_logs = path_join root [''var'', ''lib'', ''mysql'', ''logs''],
      mysql_temp = path_join root [''var'', ''lib'', ''mysql'', ''temp''],
      mysql_plugins = path_join root [''usr'', ''lib'', ''mysql'', ''plugin''],
      mysql_socket = path_join root [''var'', ''run'', ''mysqld'', ''mysqld.sock''],
      binary = (\<lambda>command. path_join root [''usr'', ''bin'', command])\<rparr>"

definition machine_common :: "string \<Rightarrow> string \<Rightarrow> string" where
  "machine_common root snap = path_join root [''var'', ''snap'', snap, ''common'']"

definition machine_current :: "string \<Rightarrow> string \<Rightarrow> string" where
  "machine_current root snap = path_join root [''var'', ''snap'', snap, ''current'']"

definition machine_plugins :: "string \<Rightarrow> string \<Rightarrow> string" where
  "machine_plugins root snap = path_join root [''snap'', snap, ''current'', ''usr'', ''lib'']"

definition machine_paths :: "string \<Rightarrow> string \<Rightarrow> paths" where
  "machine_paths root snap =
     (let common = machine_common root snap; current = machine_current root snap;
          plugins = machine_plugins root snap in
     \<lparr>home = common,
      backup_plugins = path_join plugins [''xtrabackup'', ''plugin''],
      logrotate_config = path_join root [''etc'', ''logrotate.d'', ''flush_mysql_logs''],
      mysql_config_custom = path_join current [''etc'', ''mysql'', ''mysql.conf.d'', ''z-custom-mysqld.cnf''],
      mysql_config_init = path_join current [''etc'', ''mysql'', ''mysql.conf.d'', ''z-init-mysqld.cnf''],
      mysql_config_default = path_join current [''etc'', ''mysql'', ''mysql.cnf''],
      mysql_archive = path_join common [''var'', ''lib'', ''mysql'', ''archive''],
      mysql_data = path_join common [''var'', ''lib'', ''mysql'', ''data''],
      mysql_logs = path_join common [''var'', ''lib'', ''mysql'', ''logs''],
      mysql_temp = path_join common [''var'', ''lib'', ''mysql'', ''temp''],
      mysql_plugins = path_join plugins [''mysql'', ''plugin''],
      mysql_socket = path_join common [''var'', ''run'', ''mysqld'', ''mysqld.sock''],
      binary = (\<lambda>command. path_join root [''snap'', ''bin'', snap @ ''.'' @ command])\<rparr>)"

definition system_paths :: "substrate \<Rightarrow> paths" where
  "system_paths s = (case s of
     K8S \<Rightarrow> container_paths ''/'' | VM \<Rightarrow> machine_paths ''/'' ''charmed-mysql'')"

text \<open>The storage directories are pairwise different, so clearing one never clears another.\<close>

lemma storage_dirs_distinct:
  "distinct [mysql_archive (system_paths s), mysql_data (system_paths s),
     mysql_logs (system_paths s), mysql_temp (system_paths s)]"
proof -
  let ?d = "\<lambda>s. [mysql_archive (system_paths s), mysql_data (system_paths s),
     mysql_logs (system_paths s), mysql_temp (system_paths s)]"
  have "distinct (?d K8S)" "distinct (?d VM)" by code_simp+
  then show ?thesis by (cases s) simp_all
qed

end
