(* ===== verification/ConfigProfile.thy ===== *)
theory ConfigProfile
  imports Paths
begin

text \<open>
  The server configuration of the two profiles
  (\<open>managers/managers/config/config_profile.py\<close>): the memory auto-tuning of the InnoDB
  buffer pool, the connection limit, and the key/value pairs of each profile.  Python's
  integers are \<open>int\<close>.  \<open>int(memory * 0.75)\<close> goes through a double, which is exact for
  every amount of memory below \<open>2 ^ 51\<close> bytes; \<open>trunc_frac\<close> is its value there.
\<close>

definition BYTES_1MiB :: int where "BYTES_1MiB = 1048576"
definition BYTES_1GiB :: int where "BYTES_1GiB = 1073741824"
definition MIN_CONNS :: int where "MIN_CONNS = 10"
definition MIN_MEMORY :: int where "MIN_MEMORY = 200 * BYTES_1MiB"

lemmas byte_units = BYTES_1MiB_def BYTES_1GiB_def MIN_MEMORY_def MIN_CONNS_def

datatype Profile = Profile_PROD | Profile_TEST

text \<open>Values of a dictionary of options: numbers, strings and truth values, and \<open>str\<close> of them.\<close>

datatype cval = VInt int | VStr string | VBool bool

fun str_cval :: "cval \<Rightarrow> string" where
  "str_cval (VInt i) = str_int i"
| "str_cval (VStr s) = s"
| "str_cval (VBool b) = (if b then ''True'' else ''False'')"

text \<open>\<open>int(x * (n / d))\<close>: truncation towards zero.\<close>

definition trunc_frac :: "int \<Rightarrow> int \<Rightarrow> int \<Rightarrow> int" where
  "trunc_frac n d x = sgn x * ((\<bar>x\<bar> * n) div d)"

definition round_up :: "int \<Rightarrow> int \<Rightarrow> int" where
  "round_up c x = (if x mod c \<noteq> 0 then x + (c - x mod c) else x)"

definition calculate_buffer_pool :: "int \<Rightarrow> int \<times> int option \<times> int option" where
  "calculate_buffer_pool memory =
     (let chunk_size_minimum = BYTES_1MiB;
          chunk_size_default = BYTES_1MiB * 128;
          message_cache_default = BYTES_1GiB;
          pool_size = trunc_frac 3 4 memory - message_cache_default;
          (pool_size, message_cache_size) =
            (if pool_size < 0 \<or> memory - pool_size < BYTES_1GiB
             then (trunc_frac 1 2 memory, Some (BYTES_1MiB * 128))
             else (pool_size, None));
          pool_size = round_up chunk_size_default pool_size
      in if pool_size > BYTES_1GiB
         then (let chunk_size = round_up chunk_size_minimum (trunc_frac 1 8 pool_size)
               in (chunk_size * 8, Some chunk_size, message_cache_size))
         else (pool_size, None, message_cache_size))"

definition calculate_max_connections :: "int \<Rightarrow> int" where
  "calculate_max_connections memory = memory div (12 * BYTES_1MiB)"

text \<open>\<open>if n\<close> for an optional number: \<open>None\<close> and zero are false.\<close>

fun truthy_int :: "int option \<Rightarrow> bool" where
  "truthy_int None = False"
| "truthy_int (Some n) = (n \<noteq> 0)"

definition get_production_config :: "paths \<Rightarrow> int option \<Rightarrow> int \<Rightarrow> cval dict" where
  "get_production_config p max_connections memory =
     (let memory = (if truthy_int max_connections
                    then max (memory - the max_connections * 12 * BYTES_1MiB) MIN_MEMORY
                    else memory);
          (pool_size, pool_chunk_size, message_cache_size) = calculate_buffer_pool memory;
          memory = memory - (pool_size + (case message_cache_size of None \<Rightarrow> 0 | Some c \<Rightarrow> c));
          chunk = (if truthy_int pool_chunk_size then the pool_chunk_size else 128 * BYTES_1MiB);
          cache = (if truthy_int message_cache_size then the message_cache_size else 1 * BYTES_1GiB);
          conns = (if truthy_int max_connections then the max_connections
                   else max (calculate_max_connections memory) MIN_CONNS)
      in [(''innodb_buffer_pool_size'', VInt pool_size),
          (''innodb_buffer_pool_chunk_size'', VInt chunk),
          (''innodb_log_group_home_dir'', VStr (mysql_logs p)),
          (''innodb_temp_tablespaces_dir'', VStr (mysql_temp p)),
          (''innodb_undo_directory'', VStr (mysql_logs p)),
          (''loose-group_replication_message_cache_size'', VInt cache),
          (''loose-group_replication_paxos_single_leader'', VStr ''ON''),
          (''max_connections'', VInt conns)])"

definition get_testing_config :: "paths \<Rightarrow> int option \<Rightarrow> cval dict" where
  "get_testing_config p max_connections =
     [(''innodb_buffer_pool_size'', VInt (20 * BYTES_1MiB)),
      (''innodb_buffer_pool_chunk_size'', VInt (1 * BYTES_1MiB)),
      (''innodb_log_group_home_dir'', VStr (mysql_logs p)),
      (''innodb_temp_tablespaces_dir'', VStr (mysql_temp p)),
      (''innodb_undo_directory'', VStr (mysql_logs p)),
      (''loose-group_replication_message_cache_size'', VInt (128 * BYTES_1MiB)),
      (''loose-group_replication_paxos_single_leader'', VStr ''ON''),
      (''max_connections'', VInt (if truthy_int max_connections then the max_connections else 100))]"

definition profile_get_config :: "paths \<Rightarrow> Profile \<Rightarrow> int \<Rightarrow> int option \<Rightarrow> cval dict" where
  "profile_get_config p profile memory max_connections =
     (case profile of
        Profile_PROD \<Rightarrow> get_production_config p max_connections memory
      | Profile_TEST \<Rightarrow> get_testing_config p max_connections)"

definition profile_static_keys :: "string list" where
  "profile_static_keys =
     [''innodb_buffer_pool_size'', ''innodb_buffer_pool_chunk_size'',
      ''loose-group_replication_message_cache_size'']"

section \<open>Rounding\<close>

lemma round_up_props:
  assumes "0 < c"
  shows "c dvd round_up c x" "x \<le> round_up c x" "round_up c x < x + c"
proof -
  have m: "0 \<le> x mod c" "x mod c < c" using assms by simp_all
  have "x + (c - x mod c) = c * (x div c + 1)"
    by (simp add: algebra_simps)
  then show "c dvd round_up c x" by (auto simp: round_up_def dvd_eq_mod_eq_0)
  show "x \<le> round_up c x" "round_up c x < x + c" using m by (auto simp: round_up_def)
qed

lemma round_up_fixed: "c dvd x \<Longrightarrow> round_up c x = x"
  by (simp add: round_up_def dvd_eq_mod_eq_0)

lemma trunc_frac_nonneg: "0 \<le> x \<Longrightarrow> trunc_frac n d x = (x * n) div d"
  by (cases "x = 0") (simp_all add: trunc_frac_def)

text \<open>The pool is split in eight chunks without a remainder: no second rounding happens.\<close>

lemma pool_chunks:
  assumes "BYTES_1MiB * 128 dvd pool" and "0 \<le> pool"
  shows "round_up BYTES_1MiB (trunc_frac 1 8 pool) * 8 = pool"
    and "BYTES_1MiB dvd round_up BYTES_1MiB (trunc_frac 1 8 pool)"
proof -
  from assms(1) obtain k where k: "pool = BYTES_1MiB * 128 * k" ..
  then have t: "trunc_frac 1 8 pool = BYTES_1MiB * 16 * k"
    using assms(2) by (simp add: trunc_frac_nonneg)
  then have "BYTES_1MiB dvd trunc_frac 1 8 pool" by simp
  then have r: "round_up BYTES_1MiB (trunc_frac 1 8 pool) = BYTES_1MiB * 16 * k"
    using t by (simp add: round_up_fixed)
  then show "round_up BYTES_1MiB (trunc_frac 1 8 pool) * 8 = pool" using k by simp
  show "BYTES_1MiB dvd round_up BYTES_1MiB (trunc_frac 1 8 pool)" using r by simp
qed

text \<open>The pool and the cache as closed terms: what the other facts are read off.\<close>

definition small_memory :: "int \<Rightarrow> bool" where
  "small_memory memory \<longleftrightarrow> trunc_frac 3 4 memory < BYTES_1GiB
     \<or> memory - (trunc_frac 3 4 memory - BYTES_1GiB) < BYTES_1GiB"

definition pool_target :: "int \<Rightarrow> int" where
  "pool_target memory = (if small_memory memory then trunc_frac 1 2 memory
                         else trunc_frac 3 4 memory - BYTES_1GiB)"

lemma pool_target_nonneg: "0 \<le> memory \<Longrightarrow> 0 \<le> pool_target memory"
  by (auto simp: pool_target_def small_memory_def trunc_frac_nonneg)

lemma calculate_buffer_pool_eq:
  assumes "0 \<le> memory"
  shows "calculate_buffer_pool memory =
    (let pool = round_up (BYTES_1MiB * 128) (pool_target memory)
     in (pool, if pool > BYTES_1GiB then Some (pool div 8) else None,
         if small_memory memory then Some (BYTES_1MiB * 128) else None))"
proof -
  let ?pool = "round_up (BYTES_1MiB * 128) (pool_target memory)"
  have d: "BYTES_1MiB * 128 dvd ?pool" and n: "0 \<le> ?pool"
    using round_up_props [of "BYTES_1MiB * 128" "pool_target memory"] pool_target_nonneg [OF assms]
    by (simp_all add: byte_units)
  note c = pool_chunks [OF d n]
  then have "round_up BYTES_1MiB (trunc_frac 1 8 ?pool) = ?pool div 8" by linarith
  with c show ?thesis
    by (auto simp: calculate_buffer_pool_def Let_def pool_target_def small_memory_def)
qed

section \<open>What the auto-tuning guarantees\<close>

text \<open>
  The buffer pool handed to InnoDB is a whole number of 128 MiB blocks; when it is
  larger than 1 GiB it is exactly eight chunks, each a whole number of mebibytes, and
  otherwise no chunk size is set; the message cache is left at its default or set to 128 MiB.
\<close>

theorem calculate_buffer_pool_shape:
  assumes "0 \<le> memory" and "calculate_buffer_pool memory = (pool, chunk, cache)"
  shows "128 * BYTES_1MiB dvd pool \<and> 0 \<le> pool \<and>
    (case chunk of None \<Rightarrow> pool \<le> BYTES_1GiB
     | Some c \<Rightarrow> BYTES_1GiB < pool \<and> pool = 8 * c \<and> BYTES_1MiB dvd c) \<and>
    cache \<in> {None, Some (128 * BYTES_1MiB)}"
proof -
  let ?pool = "round_up (BYTES_1MiB * 128) (pool_target memory)"
  have d: "BYTES_1MiB * 128 dvd ?pool" and n: "0 \<le> ?pool"
    using round_up_props [of "BYTES_1MiB * 128" "pool_target memory"] pool_target_nonneg [OF assms(1)]
    by (simp_all add: byte_units)
  from d obtain k where k: "?pool = BYTES_1MiB * 128 * k" ..
  then have e: "?pool div 8 = BYTES_1MiB * (16 * k)" by simp
  from k e have "8 * (?pool div 8) = ?pool" "BYTES_1MiB dvd ?pool div 8" by simp_all
  with assms d n show ?thesis
    by (auto simp: calculate_buffer_pool_eq [OF assms(1)] Let_def mult.commute split: if_splits)
qed

theorem calculate_buffer_pool_shape_witness:
  "128 * BYTES_1MiB dvd 4966055936 \<and> (4966055936 :: int) = 8 * 620756992 \<and>
   calculate_buffer_pool 8000000000 = (4966055936, Some 620756992, None)"
proof -
  have e: "calculate_buffer_pool 8000000000 = (4966055936, Some 620756992, None)"
    by (simp add: calculate_buffer_pool_def trunc_frac_def round_up_def byte_units Let_def)
  show ?thesis using calculate_buffer_pool_shape [OF _ e] e by simp
qed

text \<open>
  (C34) On a host with at least 512 MiB, the buffer pool and the group replication message
  cache (1 GiB where none is set) together never exceed the memory they are derived from.
\<close>

theorem calculate_buffer_pool_fits:
  assumes "512 * BYTES_1MiB \<le> memory" and "calculate_buffer_pool memory = (pool, chunk, cache)"
  shows "pool + (case cache of None \<Rightarrow> BYTES_1GiB | Some c \<Rightarrow> c) \<le> memory"
proof -
  have nn: "0 \<le> memory" using assms(1) by (simp add: byte_units)
  have r: "pool < pool_target memory + BYTES_1MiB * 128"
    using assms(2) round_up_props(3) [of "BYTES_1MiB * 128" "pool_target memory"]
    by (simp add: calculate_buffer_pool_eq [OF nn] Let_def byte_units)
  show ?thesis
  proof (cases "small_memory memory")
    case True
    then have "cache = Some (BYTES_1MiB * 128)" "pool_target memory = (memory * 1) div 2"
      using assms(2) nn
      by (simp_all add: calculate_buffer_pool_eq Let_def pool_target_def trunc_frac_nonneg)
    with r assms(1) show ?thesis by (simp add: byte_units)
  next
    case False
    then have "cache = None" "pool_target memory = (memory * 3) div 4 - BYTES_1GiB"
      using assms(2) nn
      by (simp_all add: calculate_buffer_pool_eq Let_def pool_target_def trunc_frac_nonneg)
    with r assms(1) show ?thesis by (simp add: byte_units)
  qed
qed

theorem calculate_buffer_pool_fits_witness:
  "calculate_buffer_pool 1200000000 = (671088640, None, Some 134217728) \<and>
   (671088640 :: int) + 134217728 \<le> 1200000000"
proof -
  have e: "calculate_buffer_pool 1200000000 = (671088640, None, Some 134217728)"
    by (simp add: calculate_buffer_pool_def trunc_frac_def round_up_def byte_units Let_def)
  show ?thesis using calculate_buffer_pool_fits [OF _ e] e by (simp add: byte_units)
qed

text \<open>
  With two bytes of memory or more the pool is at least one 128 MiB block, with one
  exception: at exactly 1431655766 bytes (three quarters of it is 1 GiB) it is zero.
\<close>

theorem calculate_buffer_pool_positive:
  assumes "2 \<le> memory" and "calculate_buffer_pool memory = (pool, chunk, cache)"
  shows "if memory = 1431655766 then pool = 0 else 128 * BYTES_1MiB \<le> pool"
proof -
  have nn: "0 \<le> memory" using assms(1) by simp
  have p: "pool = round_up (BYTES_1MiB * 128) (pool_target memory)"
    using assms(2) by (simp add: calculate_buffer_pool_eq [OF nn] Let_def)
  have d: "BYTES_1MiB * 128 dvd pool" and l: "pool_target memory \<le> pool"
    and u: "pool < pool_target memory + BYTES_1MiB * 128"
    using p round_up_props [of "BYTES_1MiB * 128" "pool_target memory"] by (simp_all add: byte_units)
  have z: "pool_target memory = 0 \<longleftrightarrow> memory = 1431655766"
    using assms(1) nn
    by (auto simp: pool_target_def small_memory_def trunc_frac_nonneg byte_units)
  from d obtain k where k: "pool = BYTES_1MiB * 128 * k" ..
  then show ?thesis
    using z l u pool_target_nonneg [OF nn] by (auto simp: byte_units)
qed

theorem calculate_buffer_pool_positive_witness:
  "calculate_buffer_pool 1431655766 = (0, None, None) \<and>
   calculate_buffer_pool 1431655765 = (805306368, None, Some 134217728)
   \<and> 128 * BYTES_1MiB \<le> (805306368 :: int)"
proof -
  have e: "calculate_buffer_pool 1431655766 = (0, None, None)"
    "calculate_buffer_pool 1431655765 = (805306368, None, Some 134217728)"
    by (simp_all add: calculate_buffer_pool_def trunc_frac_def round_up_def byte_units Let_def)
  show ?thesis
    using calculate_buffer_pool_positive [OF _ e(1)] calculate_buffer_pool_positive [OF _ e(2)] e
    by simp
qed

end
