(* ===== verification/ConfigParser.thy ===== *)
theory ConfigParser
  imports ConfigProfile
begin

text \<open>
  Python's \<open>configparser.ConfigParser(interpolation=None)\<close> with its default options, as far
  as \<open>ConfigManager\<close> uses it: one section written from a dictionary, and the reading of a
  text into sections (comments, blank lines, section headers, \<open>key = value\<close> and
  \<open>key: value\<close> options, continuation lines, the \<open>DEFAULT\<close> section, the duplicate and
  syntax errors).  Keys are ASCII, so \<open>optionxform\<close> is the ASCII lower case.
\<close>

abbreviation newline :: char where "newline \<equiv> CHR 0x0A"
abbreviation tab :: char where "tab \<equiv> CHR 0x09"

definition lower :: "string \<Rightarrow> string" where
  "lower s = map to_lower s"

definition parser_error :: "string \<Rightarrow> exn" where
  "parser_error msg = Exn [OtherErrorC, PyException] msg"

section \<open>Writing\<close>

text \<open>\<open>parser[name] = d\<close>: values become strings, keys lower case, two equal keys are an error.\<close>

definition ini_options :: "cval dict \<Rightarrow> exn + string dict" where
  "ini_options d = (let o' = map (\<lambda>(k, v). (lower k, str_cval v)) d in
     if dict_ok o' then Inr o' else Inl (parser_error ''DuplicateOptionError''))"

definition ini_write :: "string \<Rightarrow> string dict \<Rightarrow> string" where
  "ini_write name d =
     ''['' @ name @ '']'' @ [newline] @
     concat (map (\<lambda>(k, v). k @ '' = '' @ replace_char newline [newline, tab] v @ [newline]) d) @
     [newline]"

section \<open>Reading\<close>

text \<open>
  The parser's state: the sections read so far with the lines of each value, the current
  section and option, and the indentation of the line that started the option.
\<close>

record ini =
  sections :: "string list dict dict"
  cursect :: "string option"
  optname :: "string option"
  indent_level :: nat

text \<open>\<open>\[(?P<header>.+)\]\<close> matched at the start: everything up to the last closing bracket.\<close>

definition section_header :: "string \<Rightarrow> string option" where
  "section_header s = (case s of
     [] \<Rightarrow> None
   | c # t \<Rightarrow> (if c = CHR ''['' \<and> CHR '']'' \<in> set t
               then (let h = rev (tl (dropWhile (\<lambda>x. x \<noteq> CHR '']'') (rev t)))
                     in if h = [] then None else Some h)
               else None))"

abbreviation is_delimiter :: "char \<Rightarrow> bool" where
  "is_delimiter c \<equiv> c = CHR ''='' \<or> c = CHR '':''"

text \<open>An option line, split at its first delimiter.\<close>

definition option_line :: "string \<Rightarrow> (string \<times> string) option" where
  "option_line s = (case dropWhile (\<lambda>c. \<not> is_delimiter c) s of
     [] \<Rightarrow> None
   | _ # v \<Rightarrow> Some (lower (strip (takeWhile (\<lambda>c. \<not> is_delimiter c) s)), strip v))"

definition append_value :: "ini \<Rightarrow> string \<Rightarrow> ini" where
  "append_value p v = (case (cursect p, optname p) of
     (Some sec, Some opt) \<Rightarrow> p\<lparr>sections := map (\<lambda>(n, d).
         if n = sec then (n, map (\<lambda>(k, ls). if k = opt then (k, ls @ [v]) else (k, ls)) d)
         else (n, d)) (sections p)\<rparr>
   | _ \<Rightarrow> p)"

definition open_section :: "ini \<Rightarrow> string \<Rightarrow> exn + ini" where
  "open_section p n =
     (if dict_has (sections p) n
      then (if n = ''DEFAULT'' then Inr (p\<lparr>cursect := Some n, optname := None\<rparr>)
            else Inl (parser_error ''DuplicateSectionError''))
      else Inr (p\<lparr>sections := sections p @ [(n, [])], cursect := Some n, optname := None\<rparr>))"

definition add_option :: "ini \<Rightarrow> string \<Rightarrow> string \<Rightarrow> string \<Rightarrow> exn + ini" where
  "add_option p sec k v =
     (if k = [] then Inl (parser_error ''ParsingError'')
      else if dict_has (the (map_of (sections p) sec)) k
      then Inl (parser_error ''DuplicateOptionError'')
      else Inr (p\<lparr>sections := map (\<lambda>(n, d). if n = sec then (n, d @ [(k, [v])]) else (n, d)) (sections p),
                  optname := Some k\<rparr>))"

definition ini_line :: "ini \<Rightarrow> string \<Rightarrow> exn + ini" where
  "ini_line p line =
     (let value = strip line;
          level = length (takeWhile is_space line)
      in if value = [] then Inr (append_value p [])
      else if hd value = CHR ''#'' \<or> hd value = CHR '';'' then Inr p
      else if cursect p \<noteq> None \<and> optname p \<noteq> None \<and> level > indent_level p
      then Inr (append_value p value)
      else (let p = p\<lparr>indent_level := level\<rparr> in
            (case section_header value of
               Some n \<Rightarrow> open_section p n
             | None \<Rightarrow> (case cursect p of
                 None \<Rightarrow> Inl (parser_error ''MissingSectionHeaderError'')
               | Some sec \<Rightarrow> (case option_line value of
                   None \<Rightarrow> Inl (parser_error ''ParsingError'')
                 | Some (k, v) \<Rightarrow> add_option p sec k v)))))"

fun ini_lines :: "ini \<Rightarrow> string list \<Rightarrow> exn + ini" where
  "ini_lines p [] = Inr p"
| "ini_lines p (l # ls) = (case ini_line p l of Inl e \<Rightarrow> Inl e | Inr p' \<Rightarrow> ini_lines p' ls)"

text \<open>The lines of a text: what follows the last newline is a line only when not empty.\<close>

definition text_lines :: "string \<Rightarrow> string list" where
  "text_lines s = (let ls = split_char newline s in if last ls = [] then butlast ls else ls)"

abbreviation rstrip :: "string \<Rightarrow> string" where
  "rstrip s \<equiv> rev (dropWhile is_space (rev s))"

definition ini_read :: "string \<Rightarrow> exn + string dict dict" where
  "ini_read s =
     (case ini_lines \<lparr>sections = [], cursect = None, optname = None, indent_level = 0\<rparr> (text_lines s) of
        Inl e \<Rightarrow> Inl e
      | Inr p \<Rightarrow> Inr (dict_map (dict_map (\<lambda>ls. rstrip (join_with [newline] ls))) (sections p)))"

text \<open>\<open>dict(parser[name])\<close>: the section's options, then those only \<open>DEFAULT\<close> has.\<close>

definition ini_section :: "string dict dict \<Rightarrow> string \<Rightarrow> exn + string dict" where
  "ini_section secs name =
     (let defaults = (case map_of secs ''DEFAULT'' of None \<Rightarrow> [] | Some d \<Rightarrow> d) in
      if name = ''DEFAULT'' then Inr defaults
      else (case map_of secs name of
              None \<Rightarrow> Inl (key_error name)
            | Some d \<Rightarrow> Inr (d @ filter (\<lambda>(k, _). \<not> dict_has d k) defaults)))"

section \<open>Round trip\<close>

text \<open>
  Keys and values that survive the text form: a key is non-empty, lower case, free of
  delimiters, white space and line starts that mean something else; a value has no newline and
  no white space at its ends.
\<close>

definition clean_key :: "string \<Rightarrow> bool" where
  "clean_key k \<longleftrightarrow> k \<noteq> [] \<and> lower k = k \<and> list_all (\<lambda>c. \<not> is_delimiter c \<and> \<not> is_space c) k
     \<and> hd k \<noteq> CHR ''#'' \<and> hd k \<noteq> CHR '';'' \<and> hd k \<noteq> CHR ''[''"

definition clean_value :: "string \<Rightarrow> bool" where
  "clean_value v \<longleftrightarrow> newline \<notin> set v \<and> strip v = v"

definition clean_dict :: "string dict \<Rightarrow> bool" where
  "clean_dict d \<longleftrightarrow> dict_ok d \<and> list_all (\<lambda>(k, v). clean_key k \<and> clean_value v) d"

lemma is_space_newline [simp]: "is_space newline" "is_space (CHR '' '')" "\<not> is_space (CHR ''='')"
  by (simp_all add: is_space_def)

lemma strip_cases:
  assumes "strip v = v"
  shows "v = [] \<or> \<not> is_space (hd v) \<and> \<not> is_space (last v)"
  using strip_chars_ends [of is_space v] assms by simp

lemma dropWhile_head: "k \<noteq> [] \<Longrightarrow> \<not> p (hd k) \<Longrightarrow> dropWhile p (k @ r) = k @ r"
  by (cases k) auto

lemma clean_line_strip:
  assumes "clean_key k" and "clean_value v"
  shows "strip (k @ '' = '' @ v) = k @ (if v = [] then '' ='' else '' = '' @ v)"
proof -
  have k: "k \<noteq> []" "\<not> is_space (hd k)"
    using assms(1) by (auto simp: clean_key_def list_all_iff hd_in_set)
  then have d: "dropWhile is_space (k @ r) = k @ r" for r by (rule dropWhile_head)
  have v: "v = [] \<or> \<not> is_space (last v)"
    using assms(2) strip_cases by (auto simp: clean_value_def)
  show ?thesis
  proof (cases "v = []")
    case True
    then show ?thesis by (simp add: strip_chars_def d)
  next
    case False
    then have "dropWhile is_space (rev v @ r) = rev v @ r" for r
      using v by (intro dropWhile_head) (auto simp: hd_rev)
    then show ?thesis using False by (simp add: strip_chars_def d)
  qed
qed

lemma strip_space_prefix: "strip (CHR '' '' # v) = strip v"
  by (simp add: strip_chars_def)

lemma clean_option_line:
  assumes "clean_key k" and "clean_value v"
  shows "option_line (k @ (if v = [] then '' ='' else '' = '' @ v)) = Some (k, v)"
proof -
  let ?p = "\<lambda>c. \<not> is_delimiter c"
  have p: "\<forall>c \<in> set k. ?p c" and sp: "\<forall>c \<in> set k. \<not> is_space c" and l: "lower k = k" and n: "k \<noteq> []"
    using assms(1) by (auto simp: clean_key_def list_all_iff)
  have t: "takeWhile ?p (k @ CHR '' '' # CHR ''='' # r) = k @ '' ''"
    and d: "dropWhile ?p (k @ CHR '' '' # CHR ''='' # r) = CHR ''='' # r" for r
    using p by (simp_all add: takeWhile_append dropWhile_append)
  have k: "strip (k @ '' '') = k"
  proof -
    have "dropWhile is_space (k @ '' '') = k @ '' ''" using n sp by (intro dropWhile_head) auto
    moreover have "dropWhile is_space (rev k) = rev k"
      using n sp by (intro dropWhile_idem_hd) (auto simp: hd_rev)
    ultimately show ?thesis by (simp add: strip_chars_def)
  qed
  show ?thesis
    using assms(2) t d k l
    by (auto simp: option_line_def clean_value_def strip_space_prefix strip_chars_def)
qed

lemma clean_no_header:
  assumes "clean_key k"
  shows "section_header (k @ r) = None"
  using assms by (cases k) (auto simp: section_header_def clean_key_def)

definition one_section :: "string \<Rightarrow> string dict \<Rightarrow> ini \<Rightarrow> bool" where
  "one_section n d p \<longleftrightarrow> sections p = [(n, dict_map (\<lambda>v. [v]) d)] \<and> cursect p = Some n \<and> indent_level p = 0"

lemma clean_ini_line:
  assumes "clean_key k" "clean_value v" "one_section n d p" "\<not> dict_has d k"
  shows "\<exists>p'. ini_line p (k @ '' = '' @ v) = Inr p' \<and> one_section n (d @ [(k, v)]) p' \<and> optname p' = Some k"
proof -
  have k: "k \<noteq> []" "\<not> is_space (hd k)" "hd k \<noteq> CHR ''#''" "hd k \<noteq> CHR '';''"
    using assms(1) by (auto simp: clean_key_def list_all_iff hd_in_set)
  have lv: "takeWhile is_space (k @ r) = []" for r using k by (cases k) auto
  let ?s = "k @ (if v = [] then '' ='' else '' = '' @ v)"
  have s: "strip (k @ '' = '' @ v) = ?s" using assms(1,2) by (rule clean_line_strip)
  have h: "?s \<noteq> []" "hd ?s = hd k" using k by simp_all
  have "ini_line p (k @ '' = '' @ v) = add_option (p\<lparr>indent_level := 0\<rparr>) n k v"
    using assms(3) clean_no_header [OF assms(1)] clean_option_line [OF assms(1,2)] k h
    unfolding ini_line_def s by (simp add: lv one_section_def Let_def del: append_assoc)
  with assms(3,4) k show ?thesis
    by (auto simp: add_option_def one_section_def dict_has_iff)
qed

lemma clean_ini_lines:
  assumes "list_all (\<lambda>(k, v). clean_key k \<and> clean_value v) d" "dict_ok (d0 @ d)" "one_section n d0 p"
  shows "\<exists>p'. ini_lines p (map (\<lambda>(k, v). k @ '' = '' @ v) d) = Inr p' \<and> one_section n (d0 @ d) p'"
  using assms
proof (induction d arbitrary: d0 p)
  case (Cons kv d)
  obtain k v where kv: "kv = (k, v)" by force
  have "\<not> dict_has d0 k" using Cons.prems(2) kv by (auto simp: dict_ok_def dict_has_def dict_keys_def)
  then obtain p' where p': "ini_line p (k @ '' = '' @ v) = Inr p'" "one_section n (d0 @ [(k, v)]) p'"
    using clean_ini_line [of k v n d0 p] Cons.prems kv by auto
  with Cons.IH [of "d0 @ [(k, v)]" p'] Cons.prems kv show ?case by auto
qed simp

lemma split_char_line: "c \<notin> set l \<Longrightarrow> split_char c (l @ c # s) = l # split_char c s"
  by (induction l) (auto split: list.splits)

lemma split_text:
  assumes "list_all (\<lambda>(k, v). clean_key k \<and> clean_value v) d"
  shows "split_char newline (concat (map (\<lambda>(k, v). k @ '' = '' @ replace_char newline [newline, tab] v @ [newline]) d) @ r)
    = map (\<lambda>(k, v). k @ '' = '' @ v) d @ split_char newline r"
  using assms
proof (induction d)
  case (Cons kv d)
  obtain k v where kv: "kv = (k, v)" by force
  then have c: "clean_key k" "clean_value v" using Cons.prems by simp_all
  have "newline \<notin> set k" using c(1) unfolding clean_key_def list_all_iff by (metis is_space_newline(1))
  moreover have "newline \<notin> set v" using c(2) by (simp add: clean_value_def)
  ultimately show ?case
    using Cons kv split_char_line [of newline "k @ '' = '' @ v"] by simp
qed simp

text \<open>Appended blank lines disappear when the value is joined and stripped.\<close>

lemma rstrip_blank:
  assumes "strip v = v"
  shows "rstrip (v @ [newline]) = v" "rstrip v = v"
proof -
  have "dropWhile is_space (rev v) = rev v"
    using strip_cases [OF assms] by (intro dropWhile_idem_hd) (auto simp: hd_rev)
  then show "rstrip (v @ [newline]) = v" "rstrip v = v" by simp_all
qed

lemma joined_values:
  assumes "list_all (\<lambda>(k, v). clean_key k \<and> clean_value v) d"
  shows "dict_map (\<lambda>ls. rstrip (join_with [newline] ls)) (dict_map (\<lambda>v. [v]) d) = d"
    and "dict_map (\<lambda>ls. rstrip (join_with [newline] ls))
       (map (\<lambda>(k, ls). if k = opt then (k, ls @ [[]]) else (k, ls)) (dict_map (\<lambda>v. [v]) d)) = d"
  using assms by (induction d) (auto simp: dict_map_def clean_value_def rstrip_blank split: if_splits)

lemma section_header_line: "n \<noteq> [] \<Longrightarrow> CHR '']'' \<notin> set n \<Longrightarrow> section_header (''['' @ n @ '']'') = Some n"
  by (auto simp: section_header_def)

theorem ini_round_trip:
  assumes "clean_dict d" and n: "n \<noteq> []" "CHR '']'' \<notin> set n" "newline \<notin> set n" "n \<noteq> ''DEFAULT''"
  shows "ini_read (ini_write n d) = Inr [(n, d)]"
proof -
  let ?d = "map (\<lambda>(k, v). k @ '' = '' @ v) d"
  let ?p0 = "\<lparr>sections = [], cursect = None, optname = None, indent_level = 0\<rparr> :: ini"
  have c: "dict_ok d" "list_all (\<lambda>(k, v). clean_key k \<and> clean_value v) d"
    using assms(1) by (auto simp: clean_dict_def)
  have sp: "split_char newline (ini_write n d) = (''['' @ n @ '']'') # ?d @ [[], []]"
    using split_text [OF c(2), of "[newline]"] n(3) split_char_line [of newline "''['' @ n @ '']''"]
    by (simp add: ini_write_def)
  have lines: "text_lines (ini_write n d) = (''['' @ n @ '']'') # ?d @ [[]]"
    by (simp add: text_lines_def sp Let_def butlast_append)
  have st: "strip (''['' @ n @ '']'') = ''['' @ n @ '']''"
    by (intro strip_chars_fixed) (simp add: is_space_def)
  have h: "ini_line ?p0 (''['' @ n @ '']'') = Inr (?p0\<lparr>sections := [(n, [])], cursect := Some n\<rparr>)"
    unfolding ini_line_def st using section_header_line [OF n(1,2)]
    by (simp add: Let_def open_section_def dict_has_def dict_keys_def is_space_def)
  have "one_section n [] (?p0\<lparr>sections := [(n, [])], cursect := Some n\<rparr>)"
    by (simp add: one_section_def dict_map_def)
  from clean_ini_lines [OF c(2) _ this] c(1) obtain p' where
    p': "ini_lines (?p0\<lparr>sections := [(n, [])], cursect := Some n\<rparr>) ?d = Inr p'" "one_section n d p'"
    by auto
  have app: "ini_lines p (ls @ [[]]) = (case ini_lines p ls of Inl e \<Rightarrow> Inl e | Inr q \<Rightarrow> Inr (append_value q []))"
    for p ls
    by (induction ls arbitrary: p) (auto simp: ini_line_def strip_chars_def split: sum.splits)
  have "ini_lines ?p0 (text_lines (ini_write n d)) = Inr (append_value p' [])"
    unfolding lines using h p'(1) by (simp add: app)
  then show ?thesis
    using p'(2) joined_values [OF c(2)]
    by (cases "optname p'") (simp_all add: ini_read_def one_section_def append_value_def dict_map_def)
qed

end
