(* ===== verification/ServerConfig.thy ===== *)
theory ServerConfig
  imports ConfigParser
begin

text \<open>
  The data of the server configuration: the audit and password plugin options
  (\<open>managers/managers/config/config_audit.py\<close>, \<open>config_password.py\<close>), the pure part of
  \<open>ConfigManager\<close> (\<open>config.py\<close>: the assembled dictionary, its comparison, the keys that need
  a restart), and the charm's own configuration with its validators (\<open>charm/config.py\<close>).
\<close>

section \<open>Plugins\<close>

datatype AuditFormat = AuditFormat_CSV | AuditFormat_JSON
datatype AuditPolicy = AuditPolicy_ALL | AuditPolicy_LOGINS | AuditPolicy_QUERIES
datatype AuditStrategy =
  AuditStrategy_ASYNC | AuditStrategy_PERF | AuditStrategy_SEMI | AuditStrategy_SYNC

primrec format_value :: "AuditFormat \<Rightarrow> string" where
  "format_value AuditFormat_CSV = ''csv''"
| "format_value AuditFormat_JSON = ''json''"

primrec policy_value :: "AuditPolicy \<Rightarrow> string" where
  "policy_value AuditPolicy_ALL = ''all''"
| "policy_value AuditPolicy_LOGINS = ''logins''"
| "policy_value AuditPolicy_QUERIES = ''queries''"

primrec strategy_value :: "AuditStrategy \<Rightarrow> string" where
  "strategy_value AuditStrategy_ASYNC = ''asynchronous''"
| "strategy_value AuditStrategy_PERF = ''performance''"
| "strategy_value AuditStrategy_SEMI = ''semisynchronous''"
| "strategy_value AuditStrategy_SYNC = ''synchronous''"

definition audit_get_config :: "paths \<Rightarrow> AuditFormat \<Rightarrow> AuditPolicy \<Rightarrow> AuditStrategy \<Rightarrow> cval dict" where
  "audit_get_config p fmt policy strategy =
     [(''loose-audit_log_filter.file'', VStr (path_div (mysql_logs p) ''audit.log'')),
      (''loose-audit_log_filter.format'', VStr (format_value fmt)),
      (''loose-audit_log_filter.policy'', VStr (policy_value policy)),
      (''loose-audit_log_filter.strategy'', VStr (strategy_value strategy))]"

definition audit_static_keys :: "string list" where
  "audit_static_keys = [''loose-audit_log_filter.format'', ''loose-audit_log_filter.strategy'']"

definition password_get_config :: "cval dict" where
  "password_get_config =
     [(''loose-validate_password.check_user_name'', VStr ''ON''),
      (''loose-validate_password.length'', VInt 12),
      (''loose-validate_password.mixed_case_count'', VInt 1),
      (''loose-validate_password.number_count'', VInt 1),
      (''loose-validate_password.policy'', VStr ''MEDIUM''),
      (''loose-validate_password.special_char_count'', VInt 0)]"

definition password_static_keys :: "string list" where
  "password_static_keys = []"

section \<open>The assembled configuration\<close>

definition config_static_keys :: "string list" where
  "config_static_keys = [''admin_address'', ''report_host'', ''log_error'']"

record server_options =
  so_audit_enabled :: bool
  so_audit_format :: AuditFormat
  so_audit_policy :: AuditPolicy
  so_audit_strategy :: AuditStrategy
  so_binlog_retention_days :: int
  so_instance_address :: string
  so_memory_profile :: Profile
  so_memory_limit :: "int option"
  so_max_connections :: "int option"

definition base_config :: "paths \<Rightarrow> int \<Rightarrow> string \<Rightarrow> cval dict" where
  "base_config p binlog_retention_days instance_address =
     [(''activate_all_roles_on_login'', VStr ''ON''),
      (''binlog_expire_logs_seconds'', VInt (binlog_retention_days * 24 * 60 * 60)),
      (''datadir'', VStr (mysql_data p)),
      (''bind_address'', VStr ''0.0.0.0''),
      (''admin_address'', VStr instance_address),
      (''report_host'', VStr instance_address),
      (''enforce_gtid_consistency'', VStr ''ON''),
      (''gtid_mode'', VStr ''ON''),
      (''general_log'', VStr ''OFF''),
      (''general_log_file'', VStr (path_div (mysql_logs p) ''general.log'')),
      (''log_bin'', VStr (path_div (mysql_logs p) ''binlog'')),
      (''log_bin_index'', VStr (path_div (mysql_logs p) ''binlog.index'')),
      (''log_error'', VStr (path_div (mysql_logs p) ''error.log'')),
      (''log_error_services'', VStr ''log_filter_internal;log_sink_internal''),
      (''slow_query_log_file'', VStr (path_div (mysql_logs p) ''slow.log'')),
      (''max_connect_errors'', VInt 10000)]"

definition limited_memory :: "int \<Rightarrow> int option \<Rightarrow> int" where
  "limited_memory memory limit = (if truthy_int limit then min memory (the limit) else memory)"

definition server_config :: "paths \<Rightarrow> int \<Rightarrow> server_options \<Rightarrow> cval dict" where
  "server_config p memory so =
     (let memory = limited_memory memory (so_memory_limit so);
          profile_config = profile_get_config p (so_memory_profile so) memory (so_max_connections so);
          config = dict_update (dict_update
            (base_config p (so_binlog_retention_days so) (so_instance_address so))
            profile_config) password_get_config
      in if so_audit_enabled so
         then dict_update config
           (audit_get_config p (so_audit_format so) (so_audit_policy so) (so_audit_strategy so))
         else config)"

text \<open>Sets of keys are lists read as sets.\<close>

definition compute_diff :: "'v dict \<Rightarrow> 'v dict \<Rightarrow> string list" where
  "compute_diff c1 c2 =
     (let distinct_keys = filter (\<lambda>k. \<not> dict_has c2 k) (dict_keys c1)
                        @ filter (\<lambda>k. \<not> dict_has c1 k) (dict_keys c2);
          similar_keys = filter (dict_has c2) (dict_keys c1)
      in distinct_keys @ filter (\<lambda>k. map_of c1 k \<noteq> map_of c2 k) similar_keys)"

definition all_static_keys :: "string list" where
  "all_static_keys =
     config_static_keys @ audit_static_keys @ profile_static_keys @ password_static_keys"

definition check_static_key :: "string list \<Rightarrow> bool" where
  "check_static_key keys = list_ex (\<lambda>k. k \<in> set all_static_keys) keys"

definition filter_static_keys :: "string list \<Rightarrow> string list" where
  "filter_static_keys keys = filter (\<lambda>k. k \<notin> set all_static_keys) keys"

section \<open>The configuration file and its text\<close>

definition write_server_text :: "cval dict \<Rightarrow> exn + string" where
  "write_server_text config = (case ini_options config of
     Inl e \<Rightarrow> Inl e | Inr opts \<Rightarrow> Inr (ini_write ''mysqld'' opts))"

definition read_server_text :: "string \<Rightarrow> exn + string dict" where
  "read_server_text s = (case ini_read s of
     Inl e \<Rightarrow> Inl e | Inr secs \<Rightarrow> ini_section secs ''mysqld'')"

section \<open>The charm's configuration\<close>

datatype retention = Auto string | Days int
datatype RefreshPause = Pause_all | Pause_first | Pause_none

record charm_config =
  cfg_cluster_name :: "string option"
  cfg_cluster_set_name :: "string option"
  cfg_max_connections :: "int option"
  cfg_profile :: Profile
  cfg_profile_limit_memory :: "int option"
  cfg_binlog_retention_days :: int
  cfg_logs_retention_period :: retention
  cfg_logs_audit_policy :: AuditPolicy
  cfg_plugin_audit_enabled :: bool
  cfg_plugin_audit_strategy :: AuditStrategy
  cfg_pause_after_unit_refresh :: RefreshPause
  cfg_tls_client_private_key :: "string option"
  cfg_tls_peer_private_key :: "string option"

text \<open>\<open>c.isalpha()\<close> for a code point below 256.\<close>

definition is_alpha :: "char \<Rightarrow> bool" where
  "is_alpha c \<longleftrightarrow> is_ascii_alpha c \<or> (let n = of_char c :: nat in
     n \<in> {170, 181, 186} \<or> 192 \<le> n \<and> n \<notin> {215, 247})"

definition name_char :: "char \<Rightarrow> bool" where
  "name_char c \<longleftrightarrow> is_ascii_alpha c \<or> is_digit c \<or> c = CHR ''-'' \<or> c = CHR ''_'' \<or> c = CHR ''.''"

text \<open>\<open>re.match(r"^[a-zA-Z0-9-_.]*$", s)\<close>: \<open>$\<close> also matches before a final newline.\<close>

definition name_match :: "string \<Rightarrow> bool" where
  "name_match s \<longleftrightarrow> list_all name_char s \<or>
     s \<noteq> [] \<and> last s = newline \<and> list_all name_char (butlast s)"

definition cluster_name_validator :: "string \<Rightarrow> exn + string" where
  "cluster_name_validator value =
     (if length value > 63
      then Inl (value_error ''cluster / cluster-set name must be at most 63 chars long'')
      else if value = [] then Inl index_error
      else if \<not> is_alpha (hd value)
      then Inl (value_error ''cluster / cluster-set name must start with a letter'')
      else if \<not> name_match value
      then Inl (value_error ''cluster / cluster-set name must contain only alphanumeric chars'')
      else Inr value)"

definition max_connections_validator :: "int \<Rightarrow> exn + int" where
  "max_connections_validator value =
     (if value < MIN_CONNS
      then Inl (value_error (''max-connections must be equal or greater than '' @ str_int MIN_CONNS))
      else Inr value)"

definition profile_limit_memory_validator :: "int \<Rightarrow> exn + int" where
  "profile_limit_memory_validator value =
     (if value < 600 then Inl (value_error ''profile-limit-memory must have at least 600 MBs'')
      else if value > 9999999
      then Inl (value_error ''profile-limit-memory must have at most 9999999 MBs'')
      else Inr value)"

definition binlog_retention_days_validator :: "int \<Rightarrow> exn + int" where
  "binlog_retention_days_validator value =
     (if value < 1 then Inl (value_error ''binlog-retention-days must be greater than 0'')
      else Inr value)"

definition logs_retention_period_validator :: "retention \<Rightarrow> exn + retention" where
  "logs_retention_period_validator value =
     (case value of
        Auto s \<Rightarrow> if s \<noteq> ''auto''
          then Inl (value_error ''logs-retention-period must be integer greater than 0 or `auto`'')
          else Inr value
      | Days n \<Rightarrow> if \<not> (0 < n \<and> n < 999)
          then Inl (value_error ''logs-retention-period must be integer greater than 0 or `auto`'')
          else Inr value)"

section \<open>Comparison of two configurations\<close>

lemma compute_diff_iff: "k \<in> set (compute_diff c1 c2) \<longleftrightarrow> map_of c1 k \<noteq> map_of c2 k"
  by (auto simp: compute_diff_def Let_def dict_has_iff set_dict_keys dom_def)

lemma check_static_iff:
  "check_static_key (compute_diff c1 c2) \<longleftrightarrow>
     (\<exists>k \<in> set all_static_keys. map_of c1 k \<noteq> map_of c2 k)"
  by (auto simp: check_static_key_def list_ex_iff compute_diff_iff)

lemma filter_static_iff:
  "k \<in> set (filter_static_keys (compute_diff c1 c2)) \<longleftrightarrow>
     k \<notin> set all_static_keys \<and> map_of c1 k \<noteq> map_of c2 k"
  by (auto simp: filter_static_keys_def compute_diff_iff)

text \<open>
  The comparison that decides what a configuration change does: a key is reported
  exactly when the two configurations differ on it (in its value or in having it), a restart is
  needed exactly when one of the static keys of the manager, the audit plugin or the
  memory profile differs, and what is left to set at run time are the other differing keys.
\<close>

theorem configuration_diff_exact:
  "set (compute_diff c1 c2) = {k. map_of c1 k \<noteq> map_of c2 k} \<and>
   (check_static_key (compute_diff c1 c2) \<longleftrightarrow>
      {''admin_address'', ''report_host'', ''log_error'', ''loose-audit_log_filter.format'',
       ''loose-audit_log_filter.strategy'', ''innodb_buffer_pool_size'',
       ''innodb_buffer_pool_chunk_size'', ''loose-group_replication_message_cache_size''}
      \<inter> {k. map_of c1 k \<noteq> map_of c2 k} \<noteq> {}) \<and>
   set (filter_static_keys (compute_diff c1 c2)) =
     {k. map_of c1 k \<noteq> map_of c2 k} - set all_static_keys"
proof -
  have s: "set all_static_keys = {''admin_address'', ''report_host'', ''log_error'',
      ''loose-audit_log_filter.format'', ''loose-audit_log_filter.strategy'',
      ''innodb_buffer_pool_size'', ''innodb_buffer_pool_chunk_size'',
      ''loose-group_replication_message_cache_size''}"
    by (simp add: all_static_keys_def config_static_keys_def audit_static_keys_def
        profile_static_keys_def password_static_keys_def insert_commute)
  show ?thesis
    unfolding check_static_iff s [symmetric] by (auto simp: compute_diff_iff filter_static_iff)
qed

section \<open>The text form is faithful\<close>

lemma list_all_dict_update:
  "list_all P d \<Longrightarrow> list_all P e \<Longrightarrow> list_all P (dict_update d e)"
proof (induction e arbitrary: d)
  case (Cons kv e)
  obtain k v where kv: "kv = (k, v)" by force
  have "list_all P (AList.update k v d)"
    using Cons.prems kv by (induction d) auto
  with Cons kv show ?case by (simp add: dict_update_def)
qed (simp add: dict_update_def)

definition clean_pair :: "string \<times> cval \<Rightarrow> bool" where
  "clean_pair = (\<lambda>(k, v). clean_key k \<and> clean_value (str_cval v))"

definition clean_path :: "string \<Rightarrow> bool" where
  "clean_path p \<longleftrightarrow> p \<noteq> [] \<and> clean_value p"

definition clean_paths :: "paths \<Rightarrow> bool" where
  "clean_paths p \<longleftrightarrow> clean_path (mysql_data p) \<and> clean_path (mysql_logs p) \<and> clean_path (mysql_temp p)"

lemma clean_value_str_int: "clean_value (str_int i)"
proof -
  have c: "\<not> is_space c" if "c \<in> set (str_int i)" for c
  proof -
    have "is_digit c \<or> c = CHR ''-''"
      using that show_nat_digits by (auto simp: str_int_def split: if_splits)
    then show ?thesis using digit_not_special by (auto simp: is_space_def)
  qed
  then have "newline \<notin> set (str_int i)" by (metis is_space_newline(1))
  moreover have "strip (str_int i) = str_int i"
    by (intro strip_chars_fixed) (simp add: c)
  ultimately show ?thesis by (simp add: clean_value_def)
qed

lemma clean_path_div:
  assumes "clean_path p" "n \<noteq> []" "newline \<notin> set n" "\<not> is_space (last n)"
  shows "clean_value (path_div p n)"
proof -
  have "strip p = p" "p \<noteq> []" "newline \<notin> set p" using assms by (auto simp: clean_path_def clean_value_def)
  moreover from this have "\<not> is_space (hd p)" using strip_cases by blast
  ultimately show ?thesis
    using assms by (auto simp: clean_value_def path_div_def intro!: strip_chars_fixed)
qed

text \<open>A literal without white space is clean.\<close>

lemma clean_literal: "list_all (\<lambda>c. \<not> is_space c) n \<Longrightarrow> clean_value n"
proof -
  assume n: "list_all (\<lambda>c. \<not> is_space c) n"
  then have "strip n = n" by (intro strip_chars_fixed) (auto simp: list_all_iff)
  moreover have "newline \<notin> set n" using n is_space_newline(1) unfolding list_all_iff by blast
  ultimately show ?thesis by (simp add: clean_value_def)
qed

lemma clean_literals:
  "clean_value ''ON''" "clean_value ''OFF''" "clean_value ''0.0.0.0''" "clean_value ''MEDIUM''"
  "clean_value ''log_filter_internal;log_sink_internal''"
  "clean_value (format_value fmt)" "clean_value (policy_value pol)" "clean_value (strategy_value str)"
  by (rule clean_literal, simp add: is_space_def)+
    (cases fmt; cases pol; cases str; simp add: clean_literal is_space_def)+

lemma clean_keys:
  "list_all clean_key (dict_keys (base_config p d a))"
  "list_all clean_key (dict_keys (profile_get_config p pr m mc))"
  "list_all clean_key (dict_keys password_get_config)"
  "list_all clean_key (dict_keys (audit_get_config p fmt pol str))"
proof -
  have k: "list_all clean_key [''activate_all_roles_on_login'', ''binlog_expire_logs_seconds'',
    ''datadir'', ''bind_address'', ''admin_address'', ''report_host'', ''enforce_gtid_consistency'',
    ''gtid_mode'', ''general_log'', ''general_log_file'', ''log_bin'', ''log_bin_index'',
    ''log_error'', ''log_error_services'', ''slow_query_log_file'', ''max_connect_errors'']"
    "list_all clean_key [''innodb_buffer_pool_size'', ''innodb_buffer_pool_chunk_size'',
    ''innodb_log_group_home_dir'', ''innodb_temp_tablespaces_dir'', ''innodb_undo_directory'',
    ''loose-group_replication_message_cache_size'', ''loose-group_replication_paxos_single_leader'',
    ''max_connections'']"
    "list_all clean_key (dict_keys password_get_config)"
    "list_all clean_key [''loose-audit_log_filter.file'', ''loose-audit_log_filter.format'',
    ''loose-audit_log_filter.policy'', ''loose-audit_log_filter.strategy'']"
    by code_simp+
  from k(1) show "list_all clean_key (dict_keys (base_config p d a))"
    by (simp add: base_config_def dict_keys_def)
  from k(2) show "list_all clean_key (dict_keys (profile_get_config p pr m mc))"
    by (cases pr) (simp_all add: profile_get_config_def get_production_config_def
        get_testing_config_def dict_keys_def Let_def split: prod.splits)
  from k(3) show "list_all clean_key (dict_keys password_get_config)" .
  from k(4) show "list_all clean_key (dict_keys (audit_get_config p fmt pol str))"
    by (simp add: audit_get_config_def dict_keys_def)
qed

lemma clean_pairI:
  "list_all clean_key (dict_keys d) \<Longrightarrow> list_all (\<lambda>(k, v). clean_value (str_cval v)) d
     \<Longrightarrow> list_all clean_pair d"
  by (induction d) (auto simp: clean_pair_def dict_keys_def)

lemma clean_parts:
  assumes "clean_paths p" and "clean_value a"
  shows "list_all clean_pair (base_config p d a)"
    and "list_all clean_pair (profile_get_config p pr m mc)"
    and "list_all clean_pair password_get_config"
    and "list_all clean_pair (audit_get_config p fmt pol str)"
proof -
  have pp: "clean_path (mysql_logs p)" "clean_value (mysql_logs p)"
    "clean_value (mysql_data p)" "clean_value (mysql_temp p)"
    using assms(1) by (auto simp: clean_paths_def clean_path_def)
  have logs: "clean_value (path_div (mysql_logs p) ''general.log'')"
    "clean_value (path_div (mysql_logs p) ''binlog'')"
    "clean_value (path_div (mysql_logs p) ''binlog.index'')"
    "clean_value (path_div (mysql_logs p) ''error.log'')"
    "clean_value (path_div (mysql_logs p) ''slow.log'')"
    "clean_value (path_div (mysql_logs p) ''audit.log'')"
    using pp(1) by (simp_all add: clean_path_div is_space_def)
  show "list_all clean_pair (base_config p d a)"
    using pp assms(2) logs clean_value_str_int
    by (intro clean_pairI [OF clean_keys(1)]) (simp_all add: base_config_def clean_literals)
  show "list_all clean_pair (profile_get_config p pr m mc)"
    using pp clean_value_str_int
    by (intro clean_pairI [OF clean_keys(2)]; cases pr) (simp_all add: profile_get_config_def get_production_config_def
        get_testing_config_def Let_def clean_literals split: prod.splits)
  show "list_all clean_pair password_get_config"
    using clean_value_str_int
    by (intro clean_pairI [OF clean_keys(3)]) (simp_all add: password_get_config_def clean_literals)
  show "list_all clean_pair (audit_get_config p fmt pol str)"
    using logs by (intro clean_pairI [OF clean_keys(4)]) (simp_all add: audit_get_config_def clean_literals)
qed

lemma base_config_ok: "dict_ok (base_config p d a)"
  by (simp add: base_config_def dict_ok_def dict_keys_def)

lemma server_config_clean:
  assumes "clean_paths p" and "clean_value (so_instance_address so)"
  shows "dict_ok (server_config p m so)" and "list_all clean_pair (server_config p m so)"
  using clean_parts [OF assms] base_config_ok
  by (auto simp: server_config_def Let_def intro!: dict_ok_update list_all_dict_update)

lemma clean_system_paths: "clean_paths (system_paths s)"
proof -
  have "clean_paths (system_paths K8S)" "clean_paths (system_paths VM)" by code_simp+
  then show ?thesis by (cases s) simp_all
qed

lemma clean_dict_text:
  assumes "dict_ok c" and "list_all clean_pair c"
  shows "ini_options c = Inr (dict_map str_cval c)" and "clean_dict (dict_map str_cval c)"
proof -
  have "map (\<lambda>(k, v). (lower k, str_cval v)) c = dict_map str_cval c"
    using assms(2) by (induction c) (auto simp: clean_pair_def clean_key_def dict_map_def)
  then show "ini_options c = Inr (dict_map str_cval c)"
    using assms(1) by (simp add: ini_options_def)
  show "clean_dict (dict_map str_cval c)"
    using assms(1,2) by (simp add: clean_dict_def) (auto simp: dict_map_def clean_pair_def list_all_iff)
qed

lemma clean_text_reads_back:
  assumes "dict_ok c" and "list_all clean_pair c"
  shows "\<exists>text. write_server_text c = Inr text \<and> read_server_text text = Inr (dict_map str_cval c)"
proof -
  note c = clean_dict_text [OF assms]
  have "ini_read (ini_write ''mysqld'' (dict_map str_cval c)) = Inr [(''mysqld'', dict_map str_cval c)]"
    using c(2) by (intro ini_round_trip) simp_all
  with c(1) show ?thesis by (simp add: write_server_text_def read_server_text_def ini_section_def)
qed

text \<open>
  (C21) What is saved is what is loaded: on both substrates, for every configuration the
  manager can build for an address without line breaks or outer blanks, the file it writes parses
  back to exactly the dictionary of strings that \<open>save_config\<close> returns, key for key and in order.
\<close>

theorem server_config_text_round_trip:
  assumes "clean_value (so_instance_address so)"
  shows "\<exists>text. write_server_text (server_config (system_paths s) m so) = Inr text \<and>
    read_server_text text = Inr (dict_map str_cval (server_config (system_paths s) m so))"
  by (rule clean_text_reads_back [OF server_config_clean [OF clean_system_paths assms]])

definition sample_options :: server_options where
  "sample_options = \<lparr>so_audit_enabled = True, so_audit_format = AuditFormat_JSON,
     so_audit_policy = AuditPolicy_LOGINS, so_audit_strategy = AuditStrategy_ASYNC,
     so_binlog_retention_days = 7, so_instance_address = ''10.1.2.3'',
     so_memory_profile = Profile_TEST, so_memory_limit = None, so_max_connections = None\<rparr>"

theorem server_config_text_round_trip_witness:
  "\<exists>text. write_server_text (server_config (system_paths VM) 8000000000 sample_options) = Inr text \<and>
    read_server_text text = Inr (dict_map str_cval (server_config (system_paths VM) 8000000000 sample_options))"
  by (rule server_config_text_round_trip) code_simp

section \<open>Validators and limits\<close>

text \<open>
  A name that the validator accepts is non-empty, at most 63 characters long, starts
  with an ASCII letter and has only letters, digits and \<open>-_.\<close> in it, up to one line break at its
  end (which the regular expression lets through); every such name is accepted unchanged, and the
  empty string is not rejected with the validator's \<open>ValueError\<close> but escapes as an \<open>IndexError\<close>.
\<close>

theorem cluster_name_validator_spec:
  "(cluster_name_validator value = Inr v \<longleftrightarrow>
      v = value \<and> value \<noteq> [] \<and> length value \<le> 63 \<and> is_ascii_alpha (hd value) \<and>
      (list_all name_char value \<or> list_all name_char (butlast value) \<and> last value = newline)) \<and>
   cluster_name_validator [] = Inl index_error"
proof -
  have h: "is_alpha c \<longleftrightarrow> is_ascii_alpha c" if "name_char c" for c
    using that by (auto simp: is_alpha_def name_char_def is_digit_def Let_def)
  have nl: "\<not> is_alpha newline" "\<not> is_ascii_alpha newline"
    by (simp_all add: is_alpha_def is_ascii_alpha_def is_ascii_lower_def is_ascii_upper_def)
  have "is_alpha (hd value) \<longleftrightarrow> is_ascii_alpha (hd value)" if "value \<noteq> []" "name_match value"
  proof (cases "list_all name_char value")
    case True
    with that h show ?thesis by (cases "value") auto
  next
    case False
    with that have b: "last value = newline" "list_all name_char (butlast value)"
      by (auto simp: name_match_def)
    show ?thesis
    proof (cases "butlast value")
      case Nil
      with that b nl show ?thesis by (cases "value") (auto split: if_splits)
    next
      case (Cons c cs)
      then have "hd value = c" using that by (cases "value") (auto split: if_splits)
      with Cons b h show ?thesis by simp
    qed
  qed
  then show ?thesis by (auto simp: cluster_name_validator_def name_match_def)
qed



end
