(* ===== verification/World.thy ===== *)
theory World
  imports ServerConfig
begin

text \<open>
  The state the operator's handlers run on and the environment they talk to.

  The environment (MySQL Shell, the Juju framework, Pebble, snapd, the Kubernetes API, the
  object storage, DNS, the operating system) is not part of the sources.  It is a parameter: a
  record \<open>env\<close> of answer functions, one per result type, each of which may answer any call in
  any way, raise any exception, and depend on the whole history of the calls made so far.
  Every call is recorded in the \<open>trace\<close> of the \<open>world\<close>, so the order of the operator's
  actions is part of what the theorems speak about.  What the operator itself stores
  (databags, secrets, statuses, the outcome of an action, files) is state of the \<open>world\<close>.
\<close>

section \<open>Calls to the environment\<close>

text \<open>
  SQL that the sources spell out is \<open>RawSql\<close>; what the query builders of
  \<open>mysql_shell\<close> write is named by the builder and its arguments.
\<close>

datatype lock_task = INSTANCE_ADDITION_TASK | INSTANCE_REMOVAL_TASK
datatype log_type = LogType_ERROR | LogType_GENERAL | LogType_SLOW

datatype query =
    RawSql string
  | ReaderRoleUpdate string
  | WriterRoleUpdate string
  | DatabaseAdminRole string string
  | InstanceAuthRoles
  | LogsFlushing "string list"
  | LockAcquire lock_task string
  | LockRelease lock_task string
  | LockFetchAcquired lock_task
  | LockTableCreation

datatype variable_scope = Scope_PERSIST | Scope_GLOBAL

text \<open>\<open>mysql_shell.clients.InstanceClient\<close> and the executor.\<close>

datatype sql_call =
    SearchRoles string
  | CreateInstanceDatabase string
  | CreateInstanceUser string string string "string list option"
  | DeleteInstanceUser string string
  | DeleteInstanceUsers "string list"
  | SearchInstanceUsers string "(string \<times> string) list"
  | UpdateInstanceUser string string string
  | SearchInstanceDatabases string
  | GetReplicationRole
  | GetReplicationState
  | GetVersion
  | GetClusterLabels
  | SearchReplicationMembers "string list option"
  | SearchComponents string
  | InstallComponent string
  | SearchConnectionProcesses string
  | StopProcesses "string list"
  | ReloadCerts
  | SetVariable variable_scope string cval
  | StopReplication
  | ExecuteSql "query list"
  | ExecutePy string
  | CheckConnection

text \<open>\<open>mysql_shell.clients.ClusterClient\<close>.\<close>

datatype cluster_call =
    AttachInstance string string string "cval dict"
  | DetachInstance string string string "cval dict"
  | RejoinInstance string string string
  | PromoteInstance string string string
  | ForceInstanceQuorum string string string
  | UpdateInstance string string string "cval dict"
  | CreateCluster string "cval dict"
  | FetchClusterStatus string
  | RebootCluster string
  | RescanCluster string
  | SetupInstanceConfig "cval dict"
  | RemoveRouter string string string
  | CreateClusterSet string string
  | CreateClusterSetReplica string string string "cval dict"
  | FetchClusterSetStatus
  | PromoteClusterSetReplica string "bool option"
  | RemoveClusterSetReplica string "bool option"
  | DestroyCluster string bool
  | RejoinClusterSetCluster string

text \<open>The operating system: processes, files, names, time, random numbers.\<close>

datatype sys_call =
    RunProcess string string "string list" "string dict"
  | SpawnProcess string string "string list" "string dict"
  | WaitProcess "string list"
  | ReadPipe "string list"
  | WriteFile string string
  | ReadFile string
  | UnlinkFile string
  | MakeTemp
  | MakeDir string
  | GetAddrInfo string
  | GetFqdn
  | GetHostname
  | LocalAddress
  | Connect string nat
  | Sleep nat
  | Monotonic
  | SleepMicros nat
  | CurrentTime
  | RandomBits nat
  | RandomChoice nat
  | ProcessCheck int
  | SpawnService string string string
  | KillProcess int
  | JujuExec string string string
  | HostsRemove
  | HostsAdd string "string list"

text \<open>Pebble, snapd and the Kubernetes API.\<close>

datatype workload_call =
    CanConnect
  | ContainerExec string string "string list" "string dict"
  | ContainerSpawn string string "string list" "string dict"
  | ContainerWait "string list"
  | GetServices string
  | IsRunning string
  | AddLayer string "string list" "string dict"
  | ContainerStart string
  | ContainerStop string
  | PinnedRevision
  | SnapPresent
  | SnapActive string
  | SnapEnsure string
  | SnapHold
  | SnapAlias string
  | SnapStart string
  | SnapStop string
  | SnapSet "(string \<times> string) list"
  | GetPod string
  | GetNode string
  | PatchPod string "string dict"
  | CreateService string "string dict" nat

datatype store_call =
    BuildClient string string string "string option"
  | UploadObject string "string option" string
  | GetObject string string
  | ListObjects string string

datatype juju_call =
    RequestLock string
  | IsWaitingCallback string string
  | SetPorts nat
  | EmitRefreshCertificates
  | GetAssignedCertificates
  | SetRelationField nat string string
  | SetCredentials nat string string
  | GetRelationField nat string
  | GetBinding string

datatype event =
    Sql string sql_call
  | Clu string cluster_call
  | Sys sys_call
  | Wkl workload_call
  | Sto store_call
  | Juju juju_call

section \<open>Answers of the environment\<close>

text \<open>
  The parts of \<open>cluster.status()\<close> and \<open>clusterset.status()\<close> that the sources read.  The
  members of the string enumerations of \<open>mysql_shell.models\<close> (\<open>InstanceState.ONLINE\<close>,
  \<open>ClusterStatus.NO_QUORUM\<close>, ...) are equal to their names in MySQL's status tables.  A \<open>param\<close> is a value that may be a string or
  a list of strings.
\<close>

datatype param = ParamStr string | ParamList "string list"

record instance_info =
  ii_status :: string
  ii_mode :: string
  ii_errors :: param
  ii_hidden :: bool

record cluster_status =
  cs_role :: string
  cs_state :: string
  cs_primary :: string
  cs_topology :: "instance_info dict"

record set_member =
  sm_role :: string
  sm_state :: string
  sm_primary :: "string option"

record cluster_set_status =
  css_primary :: string
  css_clusters :: "set_member dict"

record db_user =
  u_name :: string
  u_attributes :: "string dict"

text \<open>What the runtime reads of a pod and of a node: \<open>None\<close> is an absent part.\<close>

record container_info =
  ct_name :: string
  ct_limits :: "string dict option option"

record pod_spec =
  pod_node_name :: "string option"
  pod_containers :: "container_info list"

record pod =
  pod_spec :: "pod_spec option"
  pod_labels :: "string dict option"

type_synonym node = "string dict option option"

text \<open>The certificates of a TLS relation: CA and certificate, and the private key.\<close>

type_synonym certificates = "(string \<times> string) list \<times> string option"

text \<open>
  The context of a hook (which unit runs, is it the leader, is a refresh in progress, its
  configuration, its peers and other relations, the names and the host its MySQL clients were
  built with) does not change while a handler runs.  \<open>refresh\<close> is the refresh object, \<open>None\<close>
  when it could not be built, with whether a refresh is in progress.  \<open>set_order\<close> is the iteration order of a Python set, the
  \<open>_members\<close> are the values of the enumerations that the sources convert to, \<open>log_type_value\<close> are the values of the
  enumeration of the types of logs, \<open>retry_budget\<close> is
  how many attempts fit into a retry that is bounded by time, and \<open>loop_fuel\<close> bounds the loops
  that have no bound in the code.  \<open>md5_hexdigest\<close> is the MD5 digest in hexadecimal, and
  \<open>construct_endpoint\<close> the domain suffix and host name that \<open>botocore\<close> has for a region.
\<close>

record env =
  unit_name :: string
  app_name :: string
  model_name :: string
  model_uuid :: string
  juju_version :: string
  charm_dir :: string
  substrate :: substrate
  is_leader :: bool
  refresh :: "bool option"
  planned_units :: nat
  has_peers :: bool
  peer_units :: "string list"
  database_relations :: "(nat \<times> string list) list"
  has_backup_relation :: bool
  storage_info :: "param dict"
  config :: charm_config
  os_environ :: "string \<Rightarrow> string option"
  client_host :: string
  client_port :: string
  client_cluster :: string
  client_cluster_set :: string
  set_order :: "string list \<Rightarrow> string list"
  ClusterRole_members :: "string list"
  ClusterState_members :: "string list"
  GlobalState_members :: "string list"
  retry_budget :: nat
  loop_fuel :: nat
  task_name :: "lock_task \<Rightarrow> string"
  log_type_value :: "log_type \<Rightarrow> string"
  api_code :: "exn \<Rightarrow> nat"
  md5_hexdigest :: "string \<Rightarrow> string"
  construct_endpoint :: "string \<Rightarrow> (string \<times> string) option"
  ans_unit :: "event list \<Rightarrow> event \<Rightarrow> exn + unit"
  ans_bool :: "event list \<Rightarrow> event \<Rightarrow> exn + bool"
  ans_nat :: "event list \<Rightarrow> event \<Rightarrow> exn + nat"
  ans_str :: "event list \<Rightarrow> event \<Rightarrow> exn + string"
  ans_ostr :: "event list \<Rightarrow> event \<Rightarrow> exn + string option"
  ans_strs :: "event list \<Rightarrow> event \<Rightarrow> exn + string list"
  ans_users :: "event list \<Rightarrow> event \<Rightarrow> exn + db_user list"
  ans_status :: "event list \<Rightarrow> event \<Rightarrow> exn + cluster_status"
  ans_set_status :: "event list \<Rightarrow> event \<Rightarrow> exn + cluster_set_status"
  ans_proc :: "event list \<Rightarrow> event \<Rightarrow> exn + (int \<times> string)"
  ans_pod :: "event list \<Rightarrow> event \<Rightarrow> exn + pod"
  ans_node :: "event list \<Rightarrow> event \<Rightarrow> exn + node"
  ans_certs :: "event list \<Rightarrow> event \<Rightarrow> exn + certificates"

section \<open>The state\<close>

datatype status =
    ActiveStatus string
  | BlockedStatus string
  | WaitingStatus string
  | MaintenanceStatus string

type_synonym databag = "string \<rightharpoonup> string"

record world =
  trace :: "event list"
  app_bag :: databag
  unit_bags :: "string \<Rightarrow> databag"
  secrets :: "string \<rightharpoonup> databag"
  files :: "string \<rightharpoonup> string"
  unit_status :: status
  app_status :: status
  deferred :: bool
  action_failure :: "string option"
  action_results :: "(string \<times> string) list"

type_synonym 'a op = "(world, 'a) M"

definition ask :: "(event list \<Rightarrow> event \<Rightarrow> exn + 'a) \<Rightarrow> event \<Rightarrow> 'a op" where
  "ask f e = (\<lambda>w. (f (trace w) e, w\<lparr>trace := trace w @ [e]\<rparr>))"

abbreviation act :: "env \<Rightarrow> event \<Rightarrow> unit op" where
  "act E e \<equiv> ask (ans_unit E) e"

text \<open>The event API of Juju: a deferred event is queued again, an action fails or has results.\<close>

definition defer_event :: "unit op" where
  "defer_event = modify (\<lambda>w. w\<lparr>deferred := True\<rparr>)"

definition event_fail :: "string \<Rightarrow> unit op" where
  "event_fail msg = modify (\<lambda>w. w\<lparr>action_failure := Some msg\<rparr>)"

definition event_set_results :: "(string \<times> string) list \<Rightarrow> unit op" where
  "event_set_results r = modify (\<lambda>w. w\<lparr>action_results := r\<rparr>)"

text \<open>
  \<open>write_text\<close> and \<open>read_text\<close> of a path.  A loop that runs out of fuel ends in an exception
  that no \<open>except\<close> clause catches: it stands for a loop that does not end.
\<close>

definition write_text :: "env \<Rightarrow> string \<Rightarrow> string \<Rightarrow> unit op" where
  "write_text E p t = seqM (act E (Sys (WriteFile p t))) (modify (\<lambda>w. w\<lparr>files := (files w)(p \<mapsto> t)\<rparr>))"

definition unlink :: "env \<Rightarrow> string \<Rightarrow> unit op" where
  "unlink E p = seqM (act E (Sys (UnlinkFile p))) (modify (\<lambda>w. w\<lparr>files := (files w)(p := None)\<rparr>))"

definition file_not_found :: "string \<Rightarrow> exn" where
  "file_not_found p = Exn [PyFileNotFoundError, PyOSError, PyException] p"

definition read_text :: "env \<Rightarrow> string \<Rightarrow> string op" where
  "read_text E p = seqM (act E (Sys (ReadFile p)))
     (bindM (gets (\<lambda>w. files w p)) (\<lambda>t. case t of None \<Rightarrow> raise (file_not_found p) | Some t \<Rightarrow> ret t))"

definition diverges :: exn where
  "diverges = Exn [] ''the loop does not end''"

lemma diverges_uncaught [simp]: "\<not> caught cs diverges"
  by (simp add: caught_def diverges_def list_ex_iff)

lemma caught_file_not_found [simp]:
  "caught cs (file_not_found p) \<longleftrightarrow> {PyFileNotFoundError, PyOSError, PyException} \<inter> set cs \<noteq> {}"
  by (auto simp: caught_def file_not_found_def list_ex_iff)

lemma run_ask [monad_simps]:
  "ask f e w = (f (trace w) e, w\<lparr>trace := trace w @ [e]\<rparr>)"
  by (simp add: ask_def)

lemma run_event_api [monad_simps]:
  "defer_event w = (Inr (), w\<lparr>deferred := True\<rparr>)"
  "event_fail msg w = (Inr (), w\<lparr>action_failure := Some msg\<rparr>)"
  "event_set_results r w = (Inr (), w\<lparr>action_results := r\<rparr>)"
  by (simp_all add: defer_event_def event_fail_def event_set_results_def monad_simps)

text \<open>
  An environment in which every call succeeds with an empty answer: the base of the concrete
  environments that the witnesses evaluate, each of which overrides the answers it is about.
\<close>

definition quiet_config :: charm_config where
  "quiet_config = \<lparr>cfg_cluster_name = None, cfg_cluster_set_name = None, cfg_max_connections = None,
     cfg_profile = Profile_PROD, cfg_profile_limit_memory = None, cfg_binlog_retention_days = 7,
     cfg_logs_retention_period = Auto ''auto'', cfg_logs_audit_policy = AuditPolicy_LOGINS,
     cfg_plugin_audit_enabled = True, cfg_plugin_audit_strategy = AuditStrategy_ASYNC,
     cfg_pause_after_unit_refresh = Pause_first, cfg_tls_client_private_key = None,
     cfg_tls_peer_private_key = None\<rparr>"

definition quiet_env :: env where
  "quiet_env = \<lparr>unit_name = ''mysql/0'', app_name = ''mysql'', model_name = ''dev'',
     model_uuid = ''12345678-9abc-def0-1234-56789abcdef0'', juju_version = ''3.6'', charm_dir = ''/charm'', substrate = VM,
     is_leader = True, refresh = Some False, planned_units = 3, has_peers = True,
     peer_units = [''mysql/1'', ''mysql/2''],
     database_relations = [], has_backup_relation = True, storage_info = [], config = quiet_config, os_environ = (\<lambda>_. None),
     client_host = ''h0'', client_port = ''33062'', client_cluster = ''c'', client_cluster_set = ''s'',
     set_order = (\<lambda>xs. xs), ClusterRole_members = [''PRIMARY'', ''REPLICA''],
     ClusterState_members = [''OK'', ''NO_QUORUM''], GlobalState_members = [''OK''],
     retry_budget = 1, loop_fuel = 3, task_name = (\<lambda>_. ''task''), log_type_value = (\<lambda>_. ''LOG''), api_code = (\<lambda>_. 500),
     md5_hexdigest = (\<lambda>_. replicate 32 (CHR ''0'')), construct_endpoint = (\<lambda>_. None),
     ans_unit = (\<lambda>_ _. Inr ()), ans_bool = (\<lambda>_ _. Inr True), ans_nat = (\<lambda>_ _. Inr 0),
     ans_str = (\<lambda>_ _. Inr []), ans_ostr = (\<lambda>_ _. Inr None), ans_strs = (\<lambda>_ _. Inr []),
     ans_users = (\<lambda>_ _. Inr []),
     ans_status = (\<lambda>_ _. Inr \<lparr>cs_role = ''PRIMARY'', cs_state = ''OK'', cs_primary = ''h0:3306'', cs_topology = []\<rparr>),
     ans_set_status = (\<lambda>_ _. Inr \<lparr>css_primary = ''c'', css_clusters = []\<rparr>),
     ans_proc = (\<lambda>_ _. Inr (0, [])), ans_pod = (\<lambda>_ _. Inr \<lparr>pod_spec = None, pod_labels = None\<rparr>),
     ans_node = (\<lambda>_ _. Inr None), ans_certs = (\<lambda>_ _. Inr ([], None))\<rparr>"

definition quiet_world :: world where
  "quiet_world = \<lparr>trace = [], app_bag = Map.empty, unit_bags = (\<lambda>_. Map.empty), secrets = Map.empty,
     files = Map.empty, unit_status = ActiveStatus [], app_status = ActiveStatus [],
     deferred = False, action_failure = None, action_results = []\<rparr>"

section \<open>Which calls a program makes\<close>

text \<open>
  \<open>calls R m\<close>: every call \<open>e\<close> that \<open>m\<close> adds to the trace, made when the trace was \<open>tr\<close>, satisfies
  \<open>R tr e\<close>, from every state and whether \<open>m\<close> returns or raises.  \<open>emits P m\<close> is the special
  case that does not look at the history.
\<close>

named_theorems emits \<open>introduction rules for the calls of a program\<close>

fun chain :: "(event list \<Rightarrow> event \<Rightarrow> bool) \<Rightarrow> event list \<Rightarrow> event list \<Rightarrow> bool" where
  "chain R tr [] = True"
| "chain R tr (e # es) = (R tr e \<and> chain R (tr @ [e]) es)"

lemma chain_append [simp]: "chain R tr (es @ fs) \<longleftrightarrow> chain R tr es \<and> chain R (tr @ es) fs"
  by (induction es arbitrary: tr) simp_all

lemma chain_const [simp]: "chain (\<lambda>_. P) tr es = list_all P es"
  by (induction es arbitrary: tr) simp_all

lemma chain_at: "chain R tr es \<Longrightarrow> es = xs @ e # ys \<Longrightarrow> R (tr @ xs) e"
  by simp

lemma chain_mono: "chain R tr es \<Longrightarrow> (\<And>tr e. R tr e \<Longrightarrow> Q tr e) \<Longrightarrow> chain Q tr es"
  by (induction es arbitrary: tr) simp_all

definition calls :: "(event list \<Rightarrow> event \<Rightarrow> bool) \<Rightarrow> 'a op \<Rightarrow> bool" where
  "calls R m \<longleftrightarrow> (\<forall>w. \<exists>es. trace (snd (m w)) = trace w @ es \<and> chain R (trace w) es)"

abbreviation emits :: "(event \<Rightarrow> bool) \<Rightarrow> 'a op \<Rightarrow> bool" where
  "emits P \<equiv> calls (\<lambda>_. P)"

lemma emits_def: "emits P m \<longleftrightarrow> (\<forall>w. \<exists>es. trace (snd (m w)) = trace w @ es \<and> list_all P es)"
  by (simp add: calls_def)

lemma callsI:
  "(\<And>w. \<exists>es. trace (snd (m w)) = trace w @ es \<and> chain R (trace w) es) \<Longrightarrow> calls R m"
  by (simp add: calls_def)

lemma callsE:
  assumes "calls R m" and "m w = (r, w')"
  obtains es where "trace w' = trace w @ es" and "chain R (trace w) es"
  using assms unfolding calls_def by (metis snd_conv)

lemma emitsE:
  assumes "emits P m" and "m w = (r, w')"
  obtains es where "trace w' = trace w @ es" and "list_all P es"
  using callsE [OF assms] by auto

lemma calls_mono: "calls R m \<Longrightarrow> (\<And>tr e. R tr e \<Longrightarrow> Q tr e) \<Longrightarrow> calls Q m"
  unfolding calls_def using chain_mono by blast

lemma calls_emits: "emits P m \<Longrightarrow> (\<And>tr e. P e \<Longrightarrow> R tr e) \<Longrightarrow> calls R m"
  by (rule calls_mono)

lemma emits_basic [emits]:
  "calls R (ret x)" "calls R (raise e)" "calls R (gets f)" "calls R (lift r)"
  by (simp_all add: calls_def monad_simps)

lemma emits_modify [emits]: "(\<And>w. trace (f w) = trace w) \<Longrightarrow> calls R (modify f)"
  by (simp add: calls_def monad_simps)

lemma emits_event_api [emits]:
  "calls R defer_event" "calls R (event_fail msg)" "calls R (event_set_results r)"
  by (simp_all add: calls_def monad_simps)

lemma emits_ask [emits]: "(\<And>tr. R tr e) \<Longrightarrow> calls R (ask f e)"
  by (simp add: calls_def monad_simps)

lemma emits_bindM [emits]:
  assumes m: "calls R m" and f: "\<And>x. calls R (f x)"
  shows "calls R (bindM m f)"
proof (rule callsI)
  fix w
  obtain r w' where r: "m w = (r, w')" by force
  then obtain es where es: "trace w' = trace w @ es" "chain R (trace w) es" using m callsE by metis
  show "\<exists>es. trace (snd (bindM m f w)) = trace w @ es \<and> chain R (trace w) es"
  proof (cases r)
    case (Inl e)
    with r es show ?thesis by (simp add: bindM_def)
  next
    case (Inr x)
    obtain r2 w2 where r2: "f x w' = (r2, w2)" by force
    then obtain es2 where "trace w2 = trace w' @ es2" "chain R (trace w') es2" using f callsE by metis
    with r r2 Inr es show ?thesis
      by (intro exI [where x = "es @ es2"]) (simp add: bindM_def)
  qed
qed

lemma emits_seqM [emits]: "calls R m \<Longrightarrow> calls R k \<Longrightarrow> calls R (seqM m k)"
  by (simp add: seqM_def emits_bindM)

lemma emits_if [emits]:
  "(b \<Longrightarrow> calls R m) \<Longrightarrow> (\<not> b \<Longrightarrow> calls R k) \<Longrightarrow> calls R (if b then m else k)"
  by simp

lemma emits_case_option [emits]:
  "(x = None \<Longrightarrow> calls R m) \<Longrightarrow> (\<And>y. x = Some y \<Longrightarrow> calls R (f y)) \<Longrightarrow> calls R (case_option m f x)"
  by (cases x) auto

text \<open>A handler \<open>h\<close> that follows \<open>m\<close>, whatever the outcome of \<open>m\<close> was.\<close>

lemma emits_then:
  assumes m: "calls R m" and h: "\<And>r. calls R (h r)"
    and k: "\<And>w. k w = (case m w of (r, w') \<Rightarrow> h r w')"
  shows "calls R k"
proof (rule callsI)
  fix w
  obtain r w' where r: "m w = (r, w')" by force
  then obtain es where es: "trace w' = trace w @ es" "chain R (trace w) es" using m callsE by metis
  obtain r2 w2 where r2: "h r w' = (r2, w2)" by force
  then obtain es2 where "trace w2 = trace w' @ es2" "chain R (trace w') es2" using h callsE by metis
  with r r2 es show "\<exists>es. trace (snd (k w)) = trace w @ es \<and> chain R (trace w) es"
    by (intro exI [where x = "es @ es2"]) (simp add: k)
qed

lemma emits_try_except [emits]:
  assumes "calls R m" and "\<And>e. calls R (h e)"
  shows "calls R (try_except m cs h)"
proof (rule emits_then [OF assms(1)])
  let ?h = "\<lambda>r. case r of Inl e \<Rightarrow> if caught cs e then h e else raise e | Inr x \<Rightarrow> ret x"
  show "calls R (?h r)" for r by (cases r) (auto intro: emits assms)
  show "try_except m cs h w = (case m w of (r, w') \<Rightarrow> ?h r w')" for w
    by (auto simp: try_except_def monad_simps split: prod.splits sum.splits)
qed

lemma emits_try_else [emits]:
  assumes "calls R m" and "\<And>e. calls R (h e)" and "\<And>x. calls R (k x)"
  shows "calls R (try_else m cs h k)"
proof (rule emits_then [OF assms(1)])
  let ?h = "\<lambda>r. case r of Inl e \<Rightarrow> if caught cs e then h e else raise e | Inr x \<Rightarrow> k x"
  show "calls R (?h r)" for r by (cases r) (auto intro: emits assms)
  show "try_else m cs h k w = (case m w of (r, w') \<Rightarrow> ?h r w')" for w
    by (auto simp: try_else_def monad_simps split: prod.splits sum.splits)
qed

lemma emits_try_finally [emits]:
  assumes "calls R m" and "calls R f"
  shows "calls R (try_finally m f)"
proof (rule emits_then [OF assms(1)])
  show "calls R (bindM f (\<lambda>_. lift r))" for r by (intro emits assms)
  show "try_finally m f w = (case m w of (r, w') \<Rightarrow> bindM f (\<lambda>_. lift r) w')" for w
    by (auto simp: try_finally_def bindM_def monad_simps split: prod.splits sum.splits)
qed

lemma emits_outcome [emits]: "calls R m \<Longrightarrow> calls R (outcome m)"
  by (auto simp: calls_def outcome_def split: prod.splits) (metis snd_conv)

lemma emits_suppress [emits]: "calls R m \<Longrightarrow> calls R (suppress cs m)"
  by (simp add: suppress_def emits)

lemma emits_for_each [emits]:
  "(\<And>x. x \<in> set xs \<Longrightarrow> calls R (f x)) \<Longrightarrow> calls R (for_each f xs)"
  by (induction xs) (simp_all add: emits)

lemma emits_mapM [emits]: "(\<And>x. calls R (f x)) \<Longrightarrow> calls R (mapM f xs)"
  by (induction xs) (simp_all add: emits)

lemma emits_block_list: "list_all (calls R) ms \<Longrightarrow> calls R (block ms)"
  by (induction ms rule: block.induct) (simp_all add: emits)

lemma emits_block [emits]:
  "calls R (block [])" "calls R m \<Longrightarrow> calls R (block ms) \<Longrightarrow> calls R (block (m # ms))"
  by (simp_all add: block_Cons emits)

lemma emits_case_prod [emits]:
  "(\<And>a b. x = (a, b) \<Longrightarrow> calls R (f a b)) \<Longrightarrow> calls R (case_prod f x)"
  by (cases x) simp

lemma emits_case_list [emits]:
  "(x = [] \<Longrightarrow> calls R m) \<Longrightarrow> (\<And>y ys. x = y # ys \<Longrightarrow> calls R (f y ys)) \<Longrightarrow> calls R (case_list m f x)"
  by (cases x) simp_all

lemma emits_case_substrate [emits]:
  "calls R m \<Longrightarrow> calls R k \<Longrightarrow> calls R (case_substrate m k x)"
  by (cases x) simp_all

lemma emits_Let [emits]: "calls R (f t) \<Longrightarrow> calls R (Let t f)"
  by simp

lemma emits_attempts [emits]: "calls R m \<Longrightarrow> calls R (attempts n m)"
proof (induction n)
  case (Suc n)
  show ?case
  proof (cases "n = 0")
    case False
    then have "attempts (Suc n) m = try_except m [PyException] (\<lambda>_. attempts n m)"
      by (auto simp: try_except_def fun_eq_iff)
    with Suc show ?thesis by (simp add: emits)
  qed (use Suc in simp)
qed simp

lemma emits_files [emits]:
  "(\<And>tr. R tr (Sys (WriteFile p t))) \<Longrightarrow> calls R (write_text E p t)"
  "(\<And>tr. R tr (Sys (UnlinkFile p))) \<Longrightarrow> calls R (unlink E p)"
  "(\<And>tr. R tr (Sys (ReadFile p))) \<Longrightarrow> calls R (read_text E p)"
  by (auto simp: write_text_def unlink_def read_text_def intro!: emits)

text \<open>State that a program cannot touch: only the trace changes in a call.\<close>

lemma keeps_ask [keeps]: "(\<And>w es. I w \<Longrightarrow> I (w\<lparr>trace := es\<rparr>)) \<Longrightarrow> keeps I (ask f e)"
  by (simp add: keeps_def monad_simps)

lemma keeps_files [keeps]:
  assumes "\<And>w es. I w \<Longrightarrow> I (w\<lparr>trace := es\<rparr>)"
  shows "keeps I (read_text E p)"
    "(\<And>w fs. I w \<Longrightarrow> I (w\<lparr>files := fs\<rparr>)) \<Longrightarrow> keeps I (write_text E p t)"
    "(\<And>w fs. I w \<Longrightarrow> I (w\<lparr>files := fs\<rparr>)) \<Longrightarrow> keeps I (unlink E p)"
  using assms
  by (auto simp: read_text_def write_text_def unlink_def intro!: keeps)
    (auto simp: keeps_def monad_simps)

lemma keeps_case_substrate [keeps]:
  "keeps I m \<Longrightarrow> keeps I k \<Longrightarrow> keeps I (case_substrate m k x)"
  by (cases x) simp_all

text \<open>
  The calls of a program from a given state: what the program reads of the state decides which
  way it goes.
\<close>

definition emits_at :: "(event \<Rightarrow> bool) \<Rightarrow> 'a op \<Rightarrow> world \<Rightarrow> bool" where
  "emits_at P m w \<longleftrightarrow> (\<exists>es. trace (snd (m w)) = trace w @ es \<and> list_all P es)"

lemma emits_atI: "emits P m \<Longrightarrow> emits_at P m w"
  by (simp add: emits_at_def emits_def)

text \<open>The rest of the program may use which value the first part has returned.\<close>

lemma emits_at_bind_value:
  assumes "emits P m" "\<And>x w1. m w = (Inr x, w1) \<Longrightarrow> emits_at P (f x) w1"
  shows "emits_at P (bindM m f) w"
proof -
  obtain r w1 where r: "m w = (r, w1)" by force
  then obtain es where es: "trace w1 = trace w @ es" "list_all P es" using assms(1) emitsE by metis
  show ?thesis
  proof (cases r)
    case (Inl e)
    with r es show ?thesis by (simp add: emits_at_def bindM_def)
  next
    case (Inr x)
    then obtain es2 where "trace (snd (f x w1)) = trace w1 @ es2" "list_all P es2"
      using assms(2) r unfolding emits_at_def by blast
    with r Inr es show ?thesis
      by (auto simp: emits_at_def bindM_def intro!: exI [where x = "es @ es2"])
  qed
qed

lemma emits_at_bindM:
  assumes "emits P m" "keeps I m" "I w" "\<And>x w1. I w1 \<Longrightarrow> emits_at P (f x) w1"
  shows "emits_at P (bindM m f) w"
  using assms by (intro emits_at_bind_value) (auto dest: keepsD)

lemma emits_at_seqM:
  assumes "emits P m" "keeps I m" "I w" "\<And>w1. I w1 \<Longrightarrow> emits_at P k w1"
  shows "emits_at P (seqM m k) w"
  unfolding seqM_def by (rule emits_at_bindM [OF assms(1-3)]) (rule assms(4))

lemma emits_at_gets: "emits_at P (f (g w)) w \<Longrightarrow> emits_at P (bindM (gets g) f) w"
  by (simp add: emits_at_def bindM_def monad_simps)

lemma emits_at_if:
  "(b \<Longrightarrow> emits_at P m w) \<Longrightarrow> (\<not> b \<Longrightarrow> emits_at P k w) \<Longrightarrow> emits_at P (if b then m else k) w"
  by simp

lemma emits_at_then:
  assumes "emits_at P m w" "emits P k"
  shows "emits_at P (seqM m k) w"
proof -
  obtain r v where r: "m w = (r, v)" by force
  with assms(1) obtain es where es: "trace v = trace w @ es" "list_all P es"
    by (auto simp: emits_at_def)
  obtain es2 where "trace (snd (k v)) = trace v @ es2" "list_all P es2"
    using emits_atI [OF assms(2)] unfolding emits_at_def by blast
  with r es show ?thesis
    by (cases r) (auto simp: emits_at_def seqM_def bindM_def intro!: exI [where x = "es @ es2"])
qed

lemma emits_at_pure: "m w = (Inr x, w) \<Longrightarrow> emits_at P (f x) w \<Longrightarrow> emits_at P (bindM m f) w"
  by (simp add: emits_at_def bindM_def)

lemma emits_at_try_else:
  assumes "emits P m" "keeps I m" "I w" "\<And>e v. I v \<Longrightarrow> emits_at P (h e) v" "\<And>x v. I v \<Longrightarrow> emits_at P (f x) v"
  shows "emits_at P (try_else m cs h f) w"
proof -
  obtain r v where r: "m w = (r, v)" by force
  obtain es where es: "trace v = trace w @ es" "list_all P es" using assms(1) r emitsE by metis
  have v: "I v" using assms(2,3) r by (metis keepsD)
  have ext: "\<exists>fs. trace (snd (k v)) = trace w @ fs \<and> list_all P fs" if "emits_at P k v" for k :: "'b op"
    using that es by (auto simp: emits_at_def)
  show ?thesis
    using r es ext [OF assms(4) [OF v]] ext [OF assms(5) [OF v]]
    by (auto simp: emits_at_def try_else_def split: sum.splits)
qed

lemma chain_history:
  assumes "list_all P es" "\<And>ys e. list_all P ys \<Longrightarrow> P e \<Longrightarrow> R (tr @ ys) e"
  shows "chain R tr es"
proof -
  have "list_all P xs \<Longrightarrow> list_all P es \<Longrightarrow> chain R (tr @ xs) es" for xs
  proof (induction es arbitrary: xs)
    case (Cons e es)
    from Cons.IH [of "xs @ [e]"] Cons.prems assms(2) [of xs e] show ?case by simp
  qed simp
  from this [of "[]"] assms(1) show ?thesis by simp
qed

text \<open>The calls from one state: what is known of the history there may be used for the rest.\<close>

definition calls_at :: "(event list \<Rightarrow> event \<Rightarrow> bool) \<Rightarrow> 'a op \<Rightarrow> world \<Rightarrow> bool" where
  "calls_at R m w \<longleftrightarrow> (\<exists>es. trace (snd (m w)) = trace w @ es \<and> chain R (trace w) es)"

lemma calls_iff_calls_at: "calls R m \<longleftrightarrow> (\<forall>w. calls_at R m w)"
  by (simp add: calls_def calls_at_def)

lemma calls_at_bindM:
  assumes "calls_at R m w" "\<And>x v. m w = (Inr x, v) \<Longrightarrow> calls_at R (f x) v"
  shows "calls_at R (bindM m f) w"
proof -
  obtain r v where r: "m w = (r, v)" by force
  then obtain es where es: "trace v = trace w @ es" "chain R (trace w) es"
    using assms(1) by (auto simp: calls_at_def)
  show ?thesis
  proof (cases r)
    case (Inl e)
    with r es show ?thesis by (auto simp: calls_at_def bindM_def)
  next
    case (Inr x)
    then obtain fs where "trace (snd (f x v)) = trace v @ fs" "chain R (trace v) fs"
      using assms(2) r unfolding calls_at_def by blast
    with r es Inr show ?thesis by (auto simp: calls_at_def bindM_def intro!: exI [where x = "es @ fs"])
  qed
qed

lemma calls_at_history:
  assumes "emits (\<lambda>_. True) m" "Q (trace w)" "\<And>tr es. Q tr \<Longrightarrow> Q (tr @ es)" "\<And>tr e. Q tr \<Longrightarrow> R tr e"
  shows "calls_at R m w"
proof -
  obtain es where es: "trace (snd (m w)) = trace w @ es" using assms(1) unfolding emits_def by blast
  have "chain R (trace w) es" by (rule chain_history [where P = "\<lambda>_. True"]) (simp_all add: list_all_iff assms)
  with es show ?thesis by (auto simp: calls_at_def)
qed

end
