(* ===== verification/Json.thy ===== *)
theory Json
  imports PyDict
begin

text \<open>
  The part of Python's \<open>json\<close> module that the sources use: values made of strings,
  integers, arrays and objects, as written by \<open>json.dumps\<close> with its default separators and ASCII escapes, and read
  by \<open>json.loads\<close>.  The theorem at the end says that what is written reads back.  Texts
  with fractions, literals or characters above \<open>U+00FF\<close>, which the sources never write, are not read.
\<close>

datatype json = JStr string | JInt int | JArr "json list" | JObj "(string \<times> json) list"

section \<open>Writing\<close>

definition hex_digit :: "nat \<Rightarrow> char" where
  "hex_digit n = (if n < 10 then digit_char n else char_of (87 + n))"

definition json_escape :: "char \<Rightarrow> string" where
  "json_escape c = (let n = of_char c :: nat in
     if n = 34 \<or> n = 92 then [CHR 0x5C, c]
     else if n = 10 then [CHR 0x5C, CHR ''n''] else if n = 13 then [CHR 0x5C, CHR ''r'']
     else if n = 9 then [CHR 0x5C, CHR ''t''] else if n = 8 then [CHR 0x5C, CHR ''b'']
     else if n = 12 then [CHR 0x5C, CHR ''f'']
     else if 32 \<le> n \<and> n \<le> 126 then [c]
     else [CHR 0x5C, CHR ''u'', CHR ''0'', CHR ''0'', hex_digit (n div 16), hex_digit (n mod 16)])"

definition json_string :: "string \<Rightarrow> string" where
  "json_string s = CHR 0x22 # concat (map json_escape s) @ [CHR 0x22]"

definition json_member :: "string \<Rightarrow> string \<Rightarrow> string" where
  "json_member k v = json_string k @ '': '' @ v"

fun json_dumps :: "json \<Rightarrow> string" where
  "json_dumps (JStr s) = json_string s"
| "json_dumps (JInt i) = str_int i"
| "json_dumps (JArr xs) = ''['' @ join_with '', '' (map json_dumps xs) @ '']''"
| "json_dumps (JObj ms) =
     ''{'' @ join_with '', '' (map (\<lambda>(k, v). json_member k (json_dumps v)) ms) @ ''}''"

section \<open>Reading\<close>

definition hex_value :: "char \<Rightarrow> nat option" where
  "hex_value c = (let n = of_char c :: nat in
     if 48 \<le> n \<and> n \<le> 57 then Some (n - 48) else if 97 \<le> n \<and> n \<le> 102 then Some (n - 87)
     else if 65 \<le> n \<and> n \<le> 70 then Some (n - 55) else None)"

definition json_unescape :: "char \<Rightarrow> char option" where
  "json_unescape c = map_of [(CHR 0x22, CHR 0x22), (CHR 0x5C, CHR 0x5C), (CHR ''/'', CHR ''/''),
     (CHR ''b'', CHR 0x08), (CHR ''f'', CHR 0x0C), (CHR ''n'', CHR 0x0A), (CHR ''r'', CHR 0x0D),
     (CHR ''t'', CHR 0x09)] c"

definition code_point :: "char \<Rightarrow> char \<Rightarrow> char \<Rightarrow> char \<Rightarrow> char option" where
  "code_point a b c d = (case (hex_value a, hex_value b, hex_value c, hex_value d) of
     (Some a, Some b, Some c, Some d) \<Rightarrow> let n = 4096 * a + 256 * b + 16 * c + d in
       if n < 256 then Some (char_of n) else None
   | _ \<Rightarrow> None)"

text \<open>The rest of a string after its opening quote.\<close>

fun read_string :: "string \<Rightarrow> (string \<times> string) option" where
  "read_string [] = None"
| "read_string (c # s) =
     (if c = CHR 0x22 then Some ([], s)
      else if c = CHR 0x5C then
        (case s of
           [] \<Rightarrow> None
         | e # t \<Rightarrow>
           if e = CHR ''u'' then
             (case t of a # b # c # d # t' \<Rightarrow>
                (case code_point a b c d of None \<Rightarrow> None
                 | Some x \<Rightarrow> map_option (apfst (Cons x)) (read_string t'))
              | _ \<Rightarrow> None)
           else (case json_unescape e of None \<Rightarrow> None
                 | Some x \<Rightarrow> map_option (apfst (Cons x)) (read_string t)))
      else if (of_char c :: nat) < 32 then None
      else map_option (apfst (Cons c)) (read_string s))"

definition skip_ws :: "string \<Rightarrow> string" where
  "skip_ws = dropWhile (\<lambda>c. c \<in> {CHR '' '', CHR 0x09, CHR 0x0A, CHR 0x0D})"

text \<open>A number: a sign, then digits without a leading zero.  A fraction or an exponent is not read.\<close>

definition read_digits :: "string \<Rightarrow> (nat \<times> string) option" where
  "read_digits s =
     (let n = (if starts_with ''0'' s then 1 else length (takeWhile is_digit s)); r = drop n s in
      if n = 0 \<or> (r \<noteq> [] \<and> hd r \<in> {CHR ''.'', CHR ''e'', CHR ''E''}) then None else Some (read_nat (take n s), r))"

definition read_int :: "string \<Rightarrow> (int \<times> string) option" where
  "read_int s = (if starts_with ''-'' s then map_option (apfst (\<lambda>n. - int n)) (read_digits (tl s))
     else map_option (apfst int) (read_digits s))"

text \<open>
  A value, the items of an array after \<open>[\<close>, the members of an object after the opening brace.  Every call
  consumes a character, so the length of the text is enough fuel.
\<close>

fun parse_value :: "nat \<Rightarrow> string \<Rightarrow> (json \<times> string) option"
  and parse_items :: "nat \<Rightarrow> string \<Rightarrow> (json list \<times> string) option"
  and parse_members :: "nat \<Rightarrow> string \<Rightarrow> ((string \<times> json) list \<times> string) option" where
  "parse_value 0 s = None"
| "parse_value (Suc n) s = (case s of
     [] \<Rightarrow> None
   | c # t \<Rightarrow>
     if c = CHR 0x22 then map_option (apfst JStr) (read_string t)
     else if c = CHR ''['' then
       (case skip_ws t of [] \<Rightarrow> None
        | e # u \<Rightarrow> if e = CHR '']'' then Some (JArr [], u)
            else map_option (apfst JArr) (parse_items n (e # u)))
     else if c = CHR ''{'' then
       (case skip_ws t of [] \<Rightarrow> None
        | e # u \<Rightarrow> if e = CHR ''}'' then Some (JObj [], u)
            else map_option (apfst (\<lambda>ms. JObj (dict_update [] ms))) (parse_members n (e # u)))
     else map_option (apfst JInt) (read_int s))"
| "parse_items 0 s = None"
| "parse_items (Suc n) s = (case parse_value n s of
     None \<Rightarrow> None
   | Some (x, t) \<Rightarrow> (case skip_ws t of [] \<Rightarrow> None
       | c # u \<Rightarrow> if c = CHR '','' then map_option (apfst (Cons x)) (parse_items n (skip_ws u))
           else if c = CHR '']'' then Some ([x], u) else None))"
| "parse_members 0 s = None"
| "parse_members (Suc n) s = (case s of
     [] \<Rightarrow> None
   | q # s' \<Rightarrow> if q \<noteq> CHR 0x22 then None else
     (case read_string s' of None \<Rightarrow> None
      | Some (k, t) \<Rightarrow> (case skip_ws t of [] \<Rightarrow> None
        | c # u \<Rightarrow> if c \<noteq> CHR '':'' then None else
          (case parse_value n (skip_ws u) of None \<Rightarrow> None
           | Some (v, t') \<Rightarrow> (case skip_ws t' of [] \<Rightarrow> None
             | c # u \<Rightarrow> if c = CHR '','' then map_option (apfst (Cons (k, v))) (parse_members n (skip_ws u))
                 else if c = CHR ''}'' then Some ([(k, v)], u) else None)))))"

definition json_loads :: "string \<Rightarrow> exn + json" where
  "json_loads s = (case parse_value (Suc (length s)) (skip_ws s) of
     Some (j, r) \<Rightarrow> if skip_ws r = [] then Inr j else Inl (value_error ''Extra data'')
   | None \<Rightarrow> Inl (value_error ''Expecting value''))"

section \<open>What is written reads back\<close>

fun json_ok :: "json \<Rightarrow> bool" where
  "json_ok (JStr s) = True"
| "json_ok (JInt i) = True"
| "json_ok (JArr xs) = list_all json_ok xs"
| "json_ok (JObj ms) = (dict_ok ms \<and> list_all (\<lambda>(k, v). json_ok v) ms)"

fun json_fuel :: "json \<Rightarrow> nat" where
  "json_fuel (JStr s) = 1"
| "json_fuel (JInt i) = 1"
| "json_fuel (JArr xs) = Suc (sum_list (map (\<lambda>x. Suc (json_fuel x)) xs))"
| "json_fuel (JObj ms) = Suc (sum_list (map (\<lambda>(k, v). Suc (json_fuel v)) ms))"

lemma hex_value_digit [simp]: "n < 16 \<Longrightarrow> hex_value (hex_digit n) = Some n"
  by (simp add: hex_value_def hex_digit_def)

lemma code_point_hex: "n < 256 \<Longrightarrow>
  code_point (CHR ''0'') (CHR ''0'') (hex_digit (n div 16)) (hex_digit (n mod 16)) = Some (char_of n)"
proof -
  assume n: "n < 256"
  then have "n div 16 < 16" by (simp add: less_mult_imp_div_less)
  moreover have "hex_value (CHR ''0'') = Some 0" by (simp add: hex_value_def)
  ultimately show ?thesis using n by (simp add: code_point_def Let_def)
qed

lemma char_eq_iff_code: "(c::char) = d \<longleftrightarrow> (of_char c :: nat) = of_char d"
  by (metis char_of_char)

definition escaped_chars :: string where
  "escaped_chars = [CHR 0x22, CHR 0x5C, CHR 0x0A, CHR 0x0D, CHR 0x09, CHR 0x08, CHR 0x0C]"

lemma escaped_codes: "c \<notin> set escaped_chars \<longleftrightarrow> (of_char c :: nat) \<notin> {34, 92, 10, 13, 9, 8, 12}"
  by (simp add: escaped_chars_def char_eq_iff_code)

lemma read_escaped_short:
  "c \<in> set escaped_chars \<Longrightarrow> read_string (json_escape c @ s) = map_option (apfst (Cons c)) (read_string s)"
  unfolding escaped_chars_def
  by (simp, elim disjE) (simp_all add: json_escape_def json_unescape_def)

lemma read_escaped: "read_string (json_escape c @ s) = map_option (apfst (Cons c)) (read_string s)"
proof (cases "c \<in> set escaped_chars")
  case False
  define n where "n = (of_char c :: nat)"
  have c: "c = char_of n" "n < 256" by (simp_all add: n_def)
  have n: "n \<noteq> 34" "n \<noteq> 92" "n \<noteq> 10" "n \<noteq> 13" "n \<noteq> 9" "n \<noteq> 8" "n \<noteq> 12"
    using False unfolding escaped_codes n_def by auto
  have q: "c \<noteq> CHR 0x22" "c \<noteq> CHR 0x5C" using n by (auto simp: n_def)
  show ?thesis
  proof (cases "32 \<le> n \<and> n \<le> 126")
    case True
    then have "json_escape c = [c]" using n by (simp add: json_escape_def n_def [symmetric])
    moreover have "\<not> (of_char c :: nat) < 32" using True by (simp add: n_def)
    ultimately show ?thesis using q by simp
  next
    case wide: False
    then have "json_escape c = [CHR 0x5C, CHR ''u'', CHR ''0'', CHR ''0'', hex_digit (n div 16), hex_digit (n mod 16)]"
      unfolding json_escape_def Let_def n_def [symmetric] using n by auto
    then show ?thesis using code_point_hex [OF c(2)] c(1) by simp
  qed
qed (rule read_escaped_short)

lemma read_string_json: "read_string (concat (map json_escape s) @ CHR 0x22 # r) = Some (s, r)"
  by (induction s) (simp_all add: read_escaped)

lemma read_json_string: "json_string s @ r = CHR 0x22 # (concat (map json_escape s) @ CHR 0x22 # r)"
  by (simp add: json_string_def)

lemma skip_ws_solid [simp]:
  "c \<notin> {CHR '' '', CHR 0x09, CHR 0x0A, CHR 0x0D} \<Longrightarrow> skip_ws (c # s) = c # s"
  "skip_ws (CHR '' '' # s) = skip_ws s" "skip_ws [] = []"
  by (simp_all add: skip_ws_def)

lemma show_nat_hd: "\<exists>c t. show_nat n = c # t \<and> is_digit c \<and> (c = CHR ''0'' \<longrightarrow> t = [])"
proof (induction n rule: show_nat.induct)
  case (1 n)
  show ?case
  proof (cases "n < 10")
    case True
    then show ?thesis by (subst show_nat.simps) simp
  next
    case False
    with 1 obtain c t where c: "show_nat (n div 10) = c # t" "is_digit c" "c = CHR ''0'' \<longrightarrow> t = []" by blast
    moreover have "c \<noteq> CHR ''0''"
    proof
      assume "c = CHR ''0''"
      with c have "read_nat (show_nat (n div 10)) = 0" by (simp add: read_nat_def digit_val_def)
      with False show False by simp
    qed
    ultimately show ?thesis using False by (subst show_nat.simps) simp
  qed
qed

text \<open>What may follow a number so that the number ends there.\<close>

definition ends_number :: "string \<Rightarrow> bool" where
  "ends_number r \<longleftrightarrow> r = [] \<or> \<not> is_digit (hd r) \<and> hd r \<notin> {CHR ''.'', CHR ''e'', CHR ''E''}"

lemma ends_number_simps [simp]:
  "ends_number []" "ends_number (CHR '','' # r)" "ends_number (CHR '']'' # r)" "ends_number (CHR ''}'' # r)"
  by (simp_all add: ends_number_def is_digit_def)

lemma read_digits_show: "ends_number r \<Longrightarrow> read_digits (show_nat n @ r) = Some (n, r)"
proof -
  assume r: "ends_number r"
  have t: "takeWhile is_digit (show_nat n @ r) = show_nat n"
    using r by (cases r) (auto simp: ends_number_def takeWhile_append2 show_nat_digits)
  obtain c u where c: "show_nat n = c # u" "is_digit c" "c = CHR ''0'' \<longrightarrow> u = []" using show_nat_hd by blast
  then have "(if starts_with ''0'' (show_nat n @ r) then 1 else length (takeWhile is_digit (show_nat n @ r))) = length (show_nat n)"
    unfolding t by (auto simp: starts_with_def)
  then show ?thesis using r unfolding read_digits_def Let_def by (auto simp: ends_number_def)
qed

lemma str_int_hd: "\<exists>c t. str_int i = c # t \<and> (c = CHR ''-'' \<or> is_digit c)"
  using show_nat_hd by (fastforce simp: str_int_def)

lemma read_int_str: "ends_number r \<Longrightarrow> read_int (str_int i @ r) = Some (i, r)"
proof -
  assume r: "ends_number r"
  have "\<not> starts_with ''-'' (show_nat n @ r)" for n
    using show_nat_hd [of n] digit_not_special by (auto simp: starts_with_def)
  then show ?thesis using r by (simp add: read_int_def str_int_def read_digits_show) (simp add: starts_with_def)
qed

lemma json_dumps_hd: "\<exists>c t. json_dumps j = c # t \<and> c \<notin> {CHR '' '', CHR 0x09, CHR 0x0A, CHR 0x0D, CHR '']''}"
proof (cases j)
  case (JInt i)
  then show ?thesis using str_int_hd [of i] by (auto simp: is_digit_def)
qed (auto simp: json_string_def)

lemma skip_ws_dumps [simp]: "skip_ws (json_dumps j @ r) = json_dumps j @ r"
  using json_dumps_hd [of j] by auto

lemma skip_ws_string [simp]: "skip_ws (json_string s @ r) = json_string s @ r"
  by (simp add: json_string_def)

lemma skip_ws_join [simp]:
  "xs \<noteq> [] \<Longrightarrow> skip_ws (join_with p (map json_dumps xs) @ r) = join_with p (map json_dumps xs) @ r"
  "ms \<noteq> [] \<Longrightarrow> skip_ws (join_with p (map (\<lambda>(k, v). json_member k (json_dumps v)) ms) @ r) =
     join_with p (map (\<lambda>(k, v). json_member k (json_dumps v)) ms) @ r"
  by (cases xs; cases "tl xs"; simp) (cases ms; cases "tl ms"; auto simp: json_member_def)

lemma dict_update_distinct: "dict_ok (d @ e) \<Longrightarrow> dict_update d e = d @ e"
proof (induction e arbitrary: d)
  case (Cons p e)
  obtain k v where p: "p = (k, v)" by force
  have "AList.update k v d = d @ [(k, v)]" if "k \<notin> fst ` set d" for d :: "(string \<times> 'a) list"
    using that by (induction d) auto
  with Cons.prems p have "AList.update k v d = d @ [(k, v)]" by (auto simp: dict_ok_def dict_keys_def)
  with Cons p show ?case by (auto simp: dict_update_def)
qed (simp add: dict_update_def)

lemma parse_dumps:
  "json_ok j \<Longrightarrow> json_fuel j \<le> n \<Longrightarrow> ends_number r \<Longrightarrow> parse_value n (json_dumps j @ r) = Some (j, r)"
  "list_all json_ok xs \<Longrightarrow> xs \<noteq> [] \<Longrightarrow> sum_list (map (\<lambda>x. Suc (json_fuel x)) xs) \<le> n \<Longrightarrow>
     parse_items n (join_with '', '' (map json_dumps xs) @ '']'' @ r) = Some (xs, r)"
  "list_all (\<lambda>(k, v). json_ok v) ms \<Longrightarrow> ms \<noteq> [] \<Longrightarrow> sum_list (map (\<lambda>(k, v). Suc (json_fuel v)) ms) \<le> n \<Longrightarrow>
     parse_members n (join_with '', '' (map (\<lambda>(k, v). json_member k (json_dumps v)) ms) @ ''}'' @ r)
       = Some (ms, r)"
proof (induction n arbitrary: j xs ms r)
  case 0
  {
    case 1
    then show ?case by (cases j) simp_all
  next
    case 2
    then show ?case by (cases xs) simp_all
  next
    case 3
    then show ?case by (cases ms) auto
  }
next
  case (Suc n)
  {
    case 1
    show ?case
    proof (cases j)
      case (JStr s)
      then show ?thesis by (simp add: json_string_def read_string_json)
    next
      case (JInt i)
      obtain c t where c: "str_int i = c # t" "c = CHR ''-'' \<or> is_digit c" using str_int_hd by blast
      then have "c \<notin> {CHR 0x22, CHR ''['', CHR ''{''}" by (auto simp: is_digit_def)
      then show ?thesis using JInt c(1) read_int_str [of r i] 1(3) by simp
    next
      case (JArr xs)
      show ?thesis
      proof (cases "xs = []")
        case False
        then obtain x ys where "xs = x # ys" by (cases xs) auto
        then obtain c t where c: "join_with '', '' (map json_dumps xs) = c # t" "c \<notin> {CHR '' '', CHR 0x09, CHR 0x0A, CHR 0x0D, CHR '']''}"
          using json_dumps_hd [of x] by (cases ys) auto
        from Suc.IH(2) [of xs r] False 1 JArr have "parse_items n (c # t @ CHR '']'' # r) = Some (xs, r)"
          by (simp add: c(1))
        with c JArr show ?thesis by auto
      qed (simp add: JArr)
    next
      case (JObj ms)
      show ?thesis
      proof (cases "ms = []")
        case False
        then obtain p qs where "ms = p # qs" by (cases ms) auto
        then obtain t where c: "join_with '', '' (map (\<lambda>(k, v). json_member k (json_dumps v)) ms) = CHR 0x22 # t"
          by (cases p; cases qs) (auto simp: json_string_def json_member_def)
        from Suc.IH(3) [of ms r] False 1 JObj have "parse_members n (CHR 0x22 # t @ CHR ''}'' # r) = Some (ms, r)"
          by (simp add: c)
        with c JObj 1 show ?thesis by (simp add: dict_update_distinct [of "[]", simplified])
      qed (simp add: JObj dict_update_def)
    qed
  next
    case 2
    then obtain x ys where xs: "xs = x # ys" by (cases xs) auto
    with 2 have x: "ends_number s \<Longrightarrow> parse_value n (json_dumps x @ s) = Some (x, s)" for s by (intro Suc.IH(1)) auto
    show ?case
    proof (cases "ys = []")
      case True
      with xs x show ?thesis by simp
    next
      case False
      then obtain z zs where "ys = z # zs" by (cases ys) auto
      with xs have "join_with '', '' (map json_dumps xs) = json_dumps x @ '', '' @ join_with '', '' (map json_dumps ys)"
        by simp
      with xs x 2 False Suc.IH(2) [of ys r] show ?thesis by simp
    qed
  next
    case 3
    let ?show = "\<lambda>ms. join_with '', '' (map (\<lambda>(k, v). json_member k (json_dumps v)) ms)"
    from 3 obtain k v qs where ms: "ms = (k, v) # qs" by (cases ms) auto
    with 3 have v: "ends_number s \<Longrightarrow> parse_value n (json_dumps v @ s) = Some (v, s)" for s by (intro Suc.IH(1)) auto
    show ?case
    proof (cases "qs = []")
      case True
      with ms v show ?thesis by (simp add: json_member_def json_string_def read_string_json)
    next
      case False
      then obtain q rs where "qs = q # rs" by (cases qs) auto
      with ms have "?show ms = json_member k (json_dumps v) @ '', '' @ ?show qs" by simp
      then have eq: "?show ms @ t = CHR 0x22 # (concat (map json_escape k) @ CHR 0x22 #
        (CHR '':'' # CHR '' '' # json_dumps v @ CHR '','' # CHR '' '' # ?show qs @ t))" for t
        by (simp add: json_member_def json_string_def)
      show ?thesis
        using ms v 3 False Suc.IH(3) [of qs r] unfolding eq by (simp add: read_string_json)
    qed
  }
qed

lemma length_join_with: "sum_list (map (\<lambda>s. Suc (length s)) ss) \<le> Suc (length (join_with '', '' ss))"
  by (induction "'', ''" ss rule: join_with.induct) auto

lemma json_fuel_length: "json_fuel j \<le> length (json_dumps j)"
proof (induction j)
  case (JStr s)
  then show ?case by (simp add: json_string_def)
next
  case (JInt i)
  then show ?case using str_int_hd [of i] by auto
next
  case (JArr xs)
  have "sum_list (map (\<lambda>x. Suc (json_fuel x)) xs) \<le> sum_list (map (\<lambda>s. Suc (length s)) (map json_dumps xs))"
    unfolding map_map by (rule sum_list_mono) (use JArr in auto)
  also note length_join_with
  finally show ?case by simp
next
  case (JObj ms)
  have le: "Suc (json_fuel (snd p)) \<le> Suc (length (json_member (fst p) (json_dumps (snd p))))" if "p \<in> set ms" for p
    using JObj [OF that, of "snd p"] by (cases p) (simp add: json_member_def)
  have "sum_list (map (\<lambda>(k, v). Suc (json_fuel v)) ms) \<le>
    sum_list (map (\<lambda>s. Suc (length s)) (map (\<lambda>(k, v). json_member k (json_dumps v)) ms))"
    unfolding map_map by (rule sum_list_mono) (use le in \<open>auto simp: case_prod_beta\<close>)
  also note length_join_with
  finally show ?case by simp
qed

theorem json_round_trip:
  assumes "json_ok j"
  shows "json_loads (json_dumps j) = Inr j"
proof -
  have "parse_value (Suc (length (json_dumps j))) (json_dumps j @ []) = Some (j, [])"
    by (rule parse_dumps(1) [OF assms]) (simp_all add: json_fuel_length le_SucI)
  then show ?thesis
    using skip_ws_dumps [of j "[]"] by (simp add: json_loads_def del: parse_value.simps)
qed

lemma json_dumps_nonempty [simp]: "json_dumps j \<noteq> []"
  by (cases j) (simp_all add: json_string_def)

end
