(* ===== verification/PeerState.thy ===== *)
theory PeerState
  imports World Json
begin

text \<open>
  The databag accessors of \<open>state/peers\<close> and \<open>state/replication\<close>: \<open>PeerStateApp\<close>,
  \<open>PeerStateUnit\<close> and \<open>ReplicationAppState\<close>.  A databag maps strings to strings; the
  classes give its keys types.  Each class is shown to implement a record of typed fields.
\<close>

section \<open>Encodings of one field\<close>

text \<open>\<open>str(flag).lower()\<close>, and the three ways in which a getter reads a key back.\<close>

definition str_flag :: "bool \<Rightarrow> string" where
  "str_flag b = (if b then ''true'' else ''false'')"

definition get_text :: "string \<Rightarrow> databag \<Rightarrow> string option" where
  "get_text k d = (if falsy (d k) then None else d k)"

definition get_flag :: "string \<Rightarrow> databag \<Rightarrow> bool option" where
  "get_flag k d = (if falsy (d k) then None else Some (d k = Some ''true''))"

definition get_number :: "string \<Rightarrow> databag \<Rightarrow> exn + int option" where
  "get_number k d = (if falsy (d k) then Inr None else map_sum id Some (int_of_str (the (d k))))"

definition pop_key :: "string \<Rightarrow> databag \<Rightarrow> databag" where
  "pop_key k d = d(k := None)"

text \<open>
  What a typed field of a databag promises: a value that was stored is read back, a removed
  one reads as absent, and neither touches the other keys.  \<open>stored v\<close> is what a reader sees
  of \<open>v\<close>; it is \<open>None\<close> for an empty string, which the getters take for absence.
\<close>

locale bag_field =
  fixes key :: string
    and read_f :: "databag \<Rightarrow> 'r"
    and write_f :: "'v \<Rightarrow> databag \<Rightarrow> databag"
    and stored :: "'v \<Rightarrow> 'r"
    and absent :: 'r
  assumes read_write: "read_f (write_f v d) = stored v"
    and read_pop: "read_f (pop_key key d) = absent"
    and read_local: "d key = d' key \<Longrightarrow> read_f d = read_f d'"
    and write_frame: "k \<noteq> key \<Longrightarrow> write_f v d k = d k"
begin

lemma write_write: "write_f u (write_f v d) key = write_f u d key \<Longrightarrow>
    write_f u (write_f v d) = write_f u d"
proof
  fix k assume "write_f u (write_f v d) key = write_f u d key"
  then show "write_f u (write_f v d) k = write_f u d k"
    by (cases "k = key") (simp_all add: write_frame)
qed

lemma read_other_write: "k \<noteq> key \<Longrightarrow> read_f (d(k := x)) = read_f d"
  by (rule read_local) simp

lemma read_other_pop: "k \<noteq> key \<Longrightarrow> read_f (pop_key k d) = read_f d"
  unfolding pop_key_def by (rule read_other_write)

end

text \<open>Two fields under different keys do not see each other.\<close>

locale two_bag_fields =
  f: bag_field key1 read1 write1 stored1 absent1 + g: bag_field key2 read2 write2 stored2 absent2
  for key1 :: string and read1 :: "databag \<Rightarrow> 'r" and write1 :: "'v \<Rightarrow> databag \<Rightarrow> databag"
    and stored1 and absent1 and key2 :: string and read2 :: "databag \<Rightarrow> 'q"
    and write2 :: "'u \<Rightarrow> databag \<Rightarrow> databag" and stored2 and absent2 +
  assumes keys_differ: "key1 \<noteq> key2"
begin

lemma first_unseen: "read1 (write2 v d) = read1 d" "read1 (pop_key key2 d) = read1 d"
  using keys_differ by (auto intro!: f.read_local simp: g.write_frame pop_key_def)

lemma second_unseen: "read2 (write1 v d) = read2 d" "read2 (pop_key key1 d) = read2 d"
  using keys_differ by (auto intro!: g.read_local simp: f.write_frame pop_key_def)

end

abbreviation text_stored :: "string \<Rightarrow> string option" where
  "text_stored s \<equiv> (if s = [] then None else Some s)"

abbreviation put_text :: "string \<Rightarrow> string \<Rightarrow> databag \<Rightarrow> databag" where
  "put_text k v d \<equiv> d(k \<mapsto> v)"

abbreviation put_flag :: "string \<Rightarrow> bool \<Rightarrow> databag \<Rightarrow> databag" where
  "put_flag k b d \<equiv> d(k \<mapsto> str_flag b)"

abbreviation put_number :: "string \<Rightarrow> int \<Rightarrow> databag \<Rightarrow> databag" where
  "put_number k n d \<equiv> d(k \<mapsto> str_int n)"

interpretation text_field: bag_field k "get_text k" "put_text k" text_stored None for k
  by unfold_locales (auto simp: get_text_def pop_key_def)

interpretation flag_field: bag_field k "get_flag k" "put_flag k" Some None for k
  by unfold_locales (auto simp: get_flag_def pop_key_def str_flag_def)

interpretation number_field: bag_field k "get_number k" "put_number k" "\<lambda>n. Inr (Some n)" "Inr None" for k
  by unfold_locales (auto simp: get_number_def pop_key_def)

lemma field_own [simp]:
  "get_text k (d(k \<mapsto> s)) = text_stored s"
  "get_flag k (d(k \<mapsto> str_flag b)) = Some b"
  "get_number k (d(k \<mapsto> str_int n)) = Inr (Some n)"
  "get_text k (d(k := None)) = None" "get_flag k (d(k := None)) = None"
  "get_number k (d(k := None)) = Inr None"
  using text_field.read_write flag_field.read_write number_field.read_write
    text_field.read_pop flag_field.read_pop number_field.read_pop
  by (auto simp: pop_key_def)

lemma field_other [simp]:
  "j \<noteq> k \<Longrightarrow> get_text k (d(j := x)) = get_text k d"
  "j \<noteq> k \<Longrightarrow> get_flag k (d(j := x)) = get_flag k d"
  "j \<noteq> k \<Longrightarrow> get_number k (d(j := x)) = get_number k d"
  by (simp_all add: text_field.read_other_write flag_field.read_other_write
      number_field.read_other_write)

section \<open>PeerStateApp\<close>

definition cluster_name_key :: string where "cluster_name_key = ''cluster-name''"
definition cluster_set_name_key :: string where "cluster_set_name_key = ''cluster-set-domain-name''"
definition cluster_removed_key :: string where "cluster_removed_key = ''removed-from-cluster-set''"
definition cluster_rejoin_key :: string where "cluster_rejoin_key = ''rejoin-secondaries''"

definition build_secret_uri_key :: "string \<Rightarrow> string" where
  "build_secret_uri_key pre = pre @ ''-private-key''"

definition app_get_cluster_name :: "databag \<Rightarrow> string option" where
  "app_get_cluster_name = get_text cluster_name_key"
definition app_get_cluster_set_name :: "databag \<Rightarrow> string option" where
  "app_get_cluster_set_name = get_text cluster_set_name_key"
definition app_get_cluster_removed_flag :: "databag \<Rightarrow> bool option" where
  "app_get_cluster_removed_flag = get_flag cluster_removed_key"
definition app_get_cluster_rejoin_flag :: "databag \<Rightarrow> bool option" where
  "app_get_cluster_rejoin_flag = get_flag cluster_rejoin_key"
definition app_get_private_key_uri :: "string \<Rightarrow> databag \<Rightarrow> string option" where
  "app_get_private_key_uri pre = get_text (build_secret_uri_key pre)"

text \<open>
  The setters store \<open>str(x)\<close>.  An argument that may be \<open>None\<close> is an option: \<open>str(None)\<close> is the
  text \<open>None\<close>.
\<close>

definition str_opt :: "string option \<Rightarrow> string" where
  "str_opt x = (case x of None \<Rightarrow> ''None'' | Some s \<Rightarrow> s)"

definition app_set_cluster_name :: "string option \<Rightarrow> databag \<Rightarrow> databag" where
  "app_set_cluster_name name d = d(cluster_name_key \<mapsto> str_opt name)"
definition app_set_cluster_set_name :: "string option \<Rightarrow> databag \<Rightarrow> databag" where
  "app_set_cluster_set_name name d = d(cluster_set_name_key \<mapsto> str_opt name)"
definition app_set_cluster_removed_flag :: "bool \<Rightarrow> databag \<Rightarrow> databag" where
  "app_set_cluster_removed_flag flag d = d(cluster_removed_key \<mapsto> str_flag flag)"
definition app_set_cluster_rejoin_flag :: "bool \<Rightarrow> databag \<Rightarrow> databag" where
  "app_set_cluster_rejoin_flag flag d = d(cluster_rejoin_key \<mapsto> str_flag flag)"
definition app_set_private_key_uri :: "string \<Rightarrow> string option \<Rightarrow> databag \<Rightarrow> databag" where
  "app_set_private_key_uri pre uri d = d(build_secret_uri_key pre \<mapsto> str_opt uri)"
definition app_delete_cluster_removed_flag :: "databag \<Rightarrow> databag" where
  "app_delete_cluster_removed_flag = pop_key cluster_removed_key"
definition app_delete_cluster_rejoin_flag :: "databag \<Rightarrow> databag" where
  "app_delete_cluster_rejoin_flag = pop_key cluster_rejoin_key"
definition app_delete_private_key_uri :: "string \<Rightarrow> databag \<Rightarrow> databag" where
  "app_delete_private_key_uri pre = pop_key (build_secret_uri_key pre)"

lemmas app_keys = cluster_name_key_def cluster_set_name_key_def cluster_removed_key_def
  cluster_rejoin_key_def

lemma secret_key_fresh [simp]:
  "build_secret_uri_key pre \<noteq> cluster_name_key" "build_secret_uri_key pre \<noteq> cluster_set_name_key"
  "build_secret_uri_key pre \<noteq> cluster_removed_key" "build_secret_uri_key pre \<noteq> cluster_rejoin_key"
  "build_secret_uri_key pre = build_secret_uri_key q \<longleftrightarrow> pre = q"
  by (auto simp: build_secret_uri_key_def app_keys dest!: arg_cong [where f = rev])

lemma app_keys_distinct [simp]:
  "cluster_name_key \<noteq> cluster_set_name_key" "cluster_name_key \<noteq> cluster_removed_key"
  "cluster_name_key \<noteq> cluster_rejoin_key" "cluster_set_name_key \<noteq> cluster_removed_key"
  "cluster_set_name_key \<noteq> cluster_rejoin_key" "cluster_removed_key \<noteq> cluster_rejoin_key"
  by (simp_all add: app_keys)

lemmas app_keys_distinct_sym [simp] = app_keys_distinct [THEN not_sym]
lemmas secret_key_fresh_sym [simp] = secret_key_fresh(1-4) [THEN not_sym]

text \<open>The abstract state of an application, and its operations.\<close>

record peer_app =
  pa_cluster_name :: "string option"
  pa_cluster_set_name :: "string option"
  pa_removed :: "bool option"
  pa_rejoin :: "bool option"
  pa_key_uri :: "string \<Rightarrow> string option"

datatype app_write =
    SetClusterName "string option" | SetClusterSetName "string option"
  | SetRemovedFlag bool | SetRejoinFlag bool | SetKeyUri string "string option"
  | DeleteRemovedFlag | DeleteRejoinFlag | DeleteKeyUri string

fun app_exec :: "app_write \<Rightarrow> databag \<Rightarrow> databag" where
  "app_exec (SetClusterName x) = app_set_cluster_name x"
| "app_exec (SetClusterSetName x) = app_set_cluster_set_name x"
| "app_exec (SetRemovedFlag b) = app_set_cluster_removed_flag b"
| "app_exec (SetRejoinFlag b) = app_set_cluster_rejoin_flag b"
| "app_exec (SetKeyUri p u) = app_set_private_key_uri p u"
| "app_exec DeleteRemovedFlag = app_delete_cluster_removed_flag"
| "app_exec DeleteRejoinFlag = app_delete_cluster_rejoin_flag"
| "app_exec (DeleteKeyUri p) = app_delete_private_key_uri p"

fun app_spec :: "app_write \<Rightarrow> peer_app \<Rightarrow> peer_app" where
  "app_spec (SetClusterName x) a = a\<lparr>pa_cluster_name := text_stored (str_opt x)\<rparr>"
| "app_spec (SetClusterSetName x) a = a\<lparr>pa_cluster_set_name := text_stored (str_opt x)\<rparr>"
| "app_spec (SetRemovedFlag b) a = a\<lparr>pa_removed := Some b\<rparr>"
| "app_spec (SetRejoinFlag b) a = a\<lparr>pa_rejoin := Some b\<rparr>"
| "app_spec (SetKeyUri p u) a = a\<lparr>pa_key_uri := (pa_key_uri a)(p := text_stored (str_opt u))\<rparr>"
| "app_spec DeleteRemovedFlag a = a\<lparr>pa_removed := None\<rparr>"
| "app_spec DeleteRejoinFlag a = a\<lparr>pa_rejoin := None\<rparr>"
| "app_spec (DeleteKeyUri p) a = a\<lparr>pa_key_uri := (pa_key_uri a)(p := None)\<rparr>"

definition app_abs :: "databag \<Rightarrow> peer_app" where
  "app_abs d = \<lparr>pa_cluster_name = app_get_cluster_name d,
     pa_cluster_set_name = app_get_cluster_set_name d,
     pa_removed = app_get_cluster_removed_flag d,
     pa_rejoin = app_get_cluster_rejoin_flag d,
     pa_key_uri = (\<lambda>p. app_get_private_key_uri p d)\<rparr>"

lemmas app_access = app_get_cluster_name_def app_get_cluster_set_name_def
  app_get_cluster_removed_flag_def app_get_cluster_rejoin_flag_def app_get_private_key_uri_def
  app_set_cluster_name_def app_set_cluster_set_name_def app_set_cluster_removed_flag_def
  app_set_cluster_rejoin_flag_def app_set_private_key_uri_def app_delete_cluster_removed_flag_def
  app_delete_cluster_rejoin_flag_def app_delete_private_key_uri_def

text \<open>
  (C18) The databag of an application, written through \<open>PeerStateApp\<close>, behaves as a record of
  typed fields: after any sequence of setter and delete calls, each getter reads what the
  last write to its own field left there, and no write is visible in another field.
\<close>

theorem peer_app_refines:
  "app_abs (fold app_exec ws d) = fold app_spec ws (app_abs d)"
proof (induction ws arbitrary: d)
  case (Cons w ws)
  have "app_abs (app_exec w d) = app_spec w (app_abs d)"
    by (cases w) (simp_all add: app_abs_def app_access pop_key_def fun_eq_iff)
  with Cons show ?case by simp
qed simp

section \<open>PeerStateUnit\<close>

definition instance_role_key :: string where "instance_role_key = ''member-role''"
definition instance_state_key :: string where "instance_state_key = ''member-state''"
definition unit_leader_key :: string where "unit_leader_key = ''leader''"
definition unit_status_key :: string where "unit_status_key = ''unit-status''"
definition service_address_hostname_key :: string where "service_address_hostname_key = ''hostname-details''"
definition service_address_pid_key :: string where "service_address_pid_key = ''ip-address-manager-pid''"
definition service_healing_pid_key :: string where "service_healing_pid_key = ''self-healing-manager-pid''"
definition service_logrotate_pid_key :: string where "service_logrotate_pid_key = ''log-rotate-manager-pid''"
definition service_logrotate_sync_key :: string where "service_logrotate_sync_key = ''logs-synced''"

definition unit_address_key :: "string \<Rightarrow> string" where
  "unit_address_key relation = relation @ ''-address''"

text \<open>
  \<open>MachineHost\<close> of \<open>managers/models\<close>: its dictionary form is what the databag keeps as JSON.  A value of
  another shape, which the operator never writes, is a \<open>TypeError\<close>.
\<close>

record machine_host =
  mh_address :: string
  mh_names :: "string list"

definition into_dict :: "machine_host \<Rightarrow> json" where
  "into_dict h = JObj [(''address'', JStr (mh_address h)), (''names'', JArr (map JStr (mh_names h)))]"

definition json_text :: "json \<Rightarrow> string option" where
  "json_text j = (case j of JStr s \<Rightarrow> Some s | _ \<Rightarrow> None)"

definition from_dict :: "json \<Rightarrow> exn + machine_host" where
  "from_dict data = (case data of
     JObj ms \<Rightarrow> (case (map_of ms ''address'', map_of ms ''names'') of
         (Some (JStr a), Some (JArr ns)) \<Rightarrow>
           if list_all (\<lambda>(k, _). k = ''address'' \<or> k = ''names'') ms \<and> list_all (\<lambda>j. json_text j \<noteq> None) ns
           then Inr \<lparr>mh_address = a, mh_names = map (the \<circ> json_text) ns\<rparr>
           else Inl (Exn [PyTypeError, PyException] ''MachineHost'')
       | _ \<Rightarrow> Inl (Exn [PyTypeError, PyException] ''MachineHost''))
   | _ \<Rightarrow> Inl (Exn [PyTypeError, PyException] ''MachineHost''))"

lemma from_into_dict [simp]: "from_dict (into_dict h) = Inr h"
  by (simp add: from_dict_def into_dict_def json_text_def list_all_iff comp_def)

lemma json_ok_into_dict [simp]: "json_ok (into_dict h)"
  by (simp add: into_dict_def dict_ok_def dict_keys_def list_all_iff)

definition get_address_hostname :: "databag \<Rightarrow> exn + json option" where
  "get_address_hostname d = (if falsy (d service_address_hostname_key) then Inr None
     else map_sum id Some (json_loads (the (d service_address_hostname_key))))"
definition get_address_service_pid :: "databag \<Rightarrow> exn + int option" where
  "get_address_service_pid = get_number service_address_pid_key"
definition get_healing_service_pid :: "databag \<Rightarrow> exn + int option" where
  "get_healing_service_pid = get_number service_healing_pid_key"
definition get_logrotate_service_pid :: "databag \<Rightarrow> exn + int option" where
  "get_logrotate_service_pid = get_number service_logrotate_pid_key"
definition get_instance_role :: "databag \<Rightarrow> string" where
  "get_instance_role d = (if falsy (d instance_role_key) then ''UNKNOWN'' else the (d instance_role_key))"
definition get_instance_state :: "databag \<Rightarrow> string" where
  "get_instance_state d = (if falsy (d instance_state_key) then ''UNKNOWN'' else the (d instance_state_key))"
definition get_logrotate_sync_flag :: "databag \<Rightarrow> bool option" where
  "get_logrotate_sync_flag = get_flag service_logrotate_sync_key"
definition state_get_unit_address :: "string \<Rightarrow> databag \<Rightarrow> string option" where
  "state_get_unit_address relation = get_text (unit_address_key relation)"
definition get_unit_leader_flag :: "databag \<Rightarrow> bool option" where
  "get_unit_leader_flag = get_flag unit_leader_key"
definition get_unit_removing_flag :: "databag \<Rightarrow> bool option" where
  "get_unit_removing_flag d =
     (if falsy (d unit_status_key) then None else Some (d unit_status_key = Some ''removing''))"

definition set_address_hostname :: "json \<Rightarrow> databag \<Rightarrow> databag" where
  "set_address_hostname details d = d(service_address_hostname_key \<mapsto> json_dumps details)"
definition set_address_service_pid :: "int \<Rightarrow> databag \<Rightarrow> databag" where
  "set_address_service_pid pid d = d(service_address_pid_key \<mapsto> str_int pid)"
definition set_healing_service_pid :: "int \<Rightarrow> databag \<Rightarrow> databag" where
  "set_healing_service_pid pid d = d(service_healing_pid_key \<mapsto> str_int pid)"
definition set_logrotate_service_pid :: "int \<Rightarrow> databag \<Rightarrow> databag" where
  "set_logrotate_service_pid pid d = d(service_logrotate_pid_key \<mapsto> str_int pid)"
definition set_instance_role :: "string option \<Rightarrow> databag \<Rightarrow> databag" where
  "set_instance_role role d = d(instance_role_key \<mapsto> (if falsy role then ''UNKNOWN'' else the role))"
definition set_instance_state :: "string option \<Rightarrow> databag \<Rightarrow> databag" where
  "set_instance_state state d = d(instance_state_key \<mapsto> (if falsy state then ''UNKNOWN'' else the state))"
definition set_logrotate_sync_flag :: "bool \<Rightarrow> databag \<Rightarrow> databag" where
  "set_logrotate_sync_flag flag d = d(service_logrotate_sync_key \<mapsto> str_flag flag)"
definition state_set_unit_address :: "string \<Rightarrow> string \<Rightarrow> databag \<Rightarrow> databag" where
  "state_set_unit_address relation address d = d(unit_address_key relation \<mapsto> address)"
definition set_unit_leader_flag :: "bool \<Rightarrow> databag \<Rightarrow> databag" where
  "set_unit_leader_flag flag d = d(unit_leader_key \<mapsto> str_flag flag)"
definition set_unit_removing_flag :: "databag \<Rightarrow> databag" where
  "set_unit_removing_flag d = d(unit_status_key \<mapsto> ''removing'')"
definition delete_address_service_pid :: "databag \<Rightarrow> databag" where
  "delete_address_service_pid = pop_key service_address_pid_key"
definition delete_healing_service_pid :: "databag \<Rightarrow> databag" where
  "delete_healing_service_pid = pop_key service_healing_pid_key"
definition delete_logrotate_service_pid :: "databag \<Rightarrow> databag" where
  "delete_logrotate_service_pid = pop_key service_logrotate_pid_key"
definition delete_logrotate_sync_flag :: "databag \<Rightarrow> databag" where
  "delete_logrotate_sync_flag = pop_key service_logrotate_sync_key"

lemmas unit_keys = instance_role_key_def instance_state_key_def unit_leader_key_def
  unit_status_key_def service_address_pid_key_def service_healing_pid_key_def
  service_logrotate_pid_key_def service_logrotate_sync_key_def service_address_hostname_key_def

lemmas unit_access = get_address_hostname_def set_address_hostname_def get_address_service_pid_def get_healing_service_pid_def
  get_logrotate_service_pid_def get_instance_role_def get_instance_state_def
  get_logrotate_sync_flag_def state_get_unit_address_def get_unit_leader_flag_def
  get_unit_removing_flag_def set_address_service_pid_def set_healing_service_pid_def
  set_logrotate_service_pid_def set_instance_role_def set_instance_state_def
  set_logrotate_sync_flag_def state_set_unit_address_def set_unit_leader_flag_def
  set_unit_removing_flag_def delete_address_service_pid_def delete_healing_service_pid_def
  delete_logrotate_service_pid_def delete_logrotate_sync_flag_def

lemma unit_address_key_inj [simp]: "unit_address_key r = unit_address_key q \<longleftrightarrow> r = q"
  by (simp add: unit_address_key_def)

lemma unit_address_key_fresh [simp]:
  "unit_address_key r \<noteq> instance_role_key" "unit_address_key r \<noteq> instance_state_key"
  "unit_address_key r \<noteq> unit_leader_key" "unit_address_key r \<noteq> unit_status_key"
  "unit_address_key r \<noteq> service_address_pid_key" "unit_address_key r \<noteq> service_healing_pid_key"
  "unit_address_key r \<noteq> service_logrotate_pid_key" "unit_address_key r \<noteq> service_logrotate_sync_key"
  "unit_address_key r \<noteq> service_address_hostname_key"
  by (auto simp: unit_address_key_def unit_keys dest!: arg_cong [where f = rev])

lemmas unit_address_key_fresh_sym [simp] = unit_address_key_fresh [THEN not_sym]

text \<open>Role and state of an instance are two independent fields of the unit's databag.\<close>

interpretation role_state: two_bag_fields
  instance_role_key get_instance_role set_instance_role
    "\<lambda>r. if falsy r then ''UNKNOWN'' else the r" "''UNKNOWN''"
  instance_state_key get_instance_state set_instance_state
    "\<lambda>s. if falsy s then ''UNKNOWN'' else the s" "''UNKNOWN''"
proof unfold_locales
  show "instance_role_key \<noteq> instance_state_key" by (simp add: unit_keys)
  fix v d
  show "get_instance_role (set_instance_role v d) = (if falsy v then ''UNKNOWN'' else the v)"
    "get_instance_state (set_instance_state v d) = (if falsy v then ''UNKNOWN'' else the v)"
    by (cases v; simp add: unit_access)+
qed (simp_all add: unit_access pop_key_def)

record peer_unit =
  pu_hostname :: "exn + json option"
  pu_address_pid :: "exn + int option"
  pu_healing_pid :: "exn + int option"
  pu_logrotate_pid :: "exn + int option"
  pu_role :: string
  pu_state :: string
  pu_synced :: "bool option"
  pu_leader :: "bool option"
  pu_removing :: "bool option"
  pu_address :: "string \<Rightarrow> string option"

datatype unit_write =
    SetHostname machine_host | SetAddressPid int | SetHealingPid int | SetLogrotatePid int
  | SetRole "string option" | SetState "string option" | SetSyncFlag bool
  | SetAddress string string | SetLeaderFlag bool | SetRemovingFlag
  | DeleteAddressPid | DeleteHealingPid | DeleteLogrotatePid | DeleteSyncFlag

fun unit_exec :: "unit_write \<Rightarrow> databag \<Rightarrow> databag" where
  "unit_exec (SetHostname h) = set_address_hostname (into_dict h)"
| "unit_exec (SetAddressPid n) = set_address_service_pid n"
| "unit_exec (SetHealingPid n) = set_healing_service_pid n"
| "unit_exec (SetLogrotatePid n) = set_logrotate_service_pid n"
| "unit_exec (SetRole r) = set_instance_role r"
| "unit_exec (SetState s) = set_instance_state s"
| "unit_exec (SetSyncFlag b) = set_logrotate_sync_flag b"
| "unit_exec (SetAddress r a) = state_set_unit_address r a"
| "unit_exec (SetLeaderFlag b) = set_unit_leader_flag b"
| "unit_exec SetRemovingFlag = set_unit_removing_flag"
| "unit_exec DeleteAddressPid = delete_address_service_pid"
| "unit_exec DeleteHealingPid = delete_healing_service_pid"
| "unit_exec DeleteLogrotatePid = delete_logrotate_service_pid"
| "unit_exec DeleteSyncFlag = delete_logrotate_sync_flag"

fun unit_spec :: "unit_write \<Rightarrow> peer_unit \<Rightarrow> peer_unit" where
  "unit_spec (SetHostname h) u = u\<lparr>pu_hostname := Inr (Some (into_dict h))\<rparr>"
| "unit_spec (SetAddressPid n) u = u\<lparr>pu_address_pid := Inr (Some n)\<rparr>"
| "unit_spec (SetHealingPid n) u = u\<lparr>pu_healing_pid := Inr (Some n)\<rparr>"
| "unit_spec (SetLogrotatePid n) u = u\<lparr>pu_logrotate_pid := Inr (Some n)\<rparr>"
| "unit_spec (SetRole r) u = u\<lparr>pu_role := (if falsy r then ''UNKNOWN'' else the r)\<rparr>"
| "unit_spec (SetState s) u = u\<lparr>pu_state := (if falsy s then ''UNKNOWN'' else the s)\<rparr>"
| "unit_spec (SetSyncFlag b) u = u\<lparr>pu_synced := Some b\<rparr>"
| "unit_spec (SetAddress r a) u = u\<lparr>pu_address := (pu_address u)(r := text_stored a)\<rparr>"
| "unit_spec (SetLeaderFlag b) u = u\<lparr>pu_leader := Some b\<rparr>"
| "unit_spec SetRemovingFlag u = u\<lparr>pu_removing := Some True\<rparr>"
| "unit_spec DeleteAddressPid u = u\<lparr>pu_address_pid := Inr None\<rparr>"
| "unit_spec DeleteHealingPid u = u\<lparr>pu_healing_pid := Inr None\<rparr>"
| "unit_spec DeleteLogrotatePid u = u\<lparr>pu_logrotate_pid := Inr None\<rparr>"
| "unit_spec DeleteSyncFlag u = u\<lparr>pu_synced := None\<rparr>"

definition unit_abs :: "databag \<Rightarrow> peer_unit" where
  "unit_abs d = \<lparr>pu_hostname = get_address_hostname d, pu_address_pid = get_address_service_pid d, pu_healing_pid = get_healing_service_pid d,
     pu_logrotate_pid = get_logrotate_service_pid d, pu_role = get_instance_role d,
     pu_state = get_instance_state d, pu_synced = get_logrotate_sync_flag d,
     pu_leader = get_unit_leader_flag d, pu_removing = get_unit_removing_flag d,
     pu_address = (\<lambda>r. state_get_unit_address r d)\<rparr>"

text \<open>
  (C17) The databag of a unit, written through \<open>PeerStateUnit\<close>, behaves as a record of typed
  fields: process ids come back as the numbers that were stored, the details of the host as
  the dictionary that was stored, an unset role or state
  reads as \<open>UNKNOWN\<close>, and the address kept for one relation is independent of every other
  relation and of every other field.
\<close>

theorem peer_unit_refines:
  "unit_abs (fold unit_exec ws d) = fold unit_spec ws (unit_abs d)"
proof (induction ws arbitrary: d)
  case (Cons w ws)
  have "unit_abs (unit_exec w d) = unit_spec w (unit_abs d)"
    by (cases w; simp add: unit_abs_def unit_access pop_key_def fun_eq_iff)
      (auto simp: unit_keys the_empty_falsy json_round_trip)
  with Cons show ?case by simp
qed simp

section \<open>ReplicationAppState\<close>

definition repl_cluster_name_key :: string where "repl_cluster_name_key = ''cluster-name''"
definition repl_cluster_version_key :: string where "repl_cluster_version_key = ''cluster-version''"
definition repl_instance_address_key :: string where "repl_instance_address_key = ''instance-address''"
definition repl_instance_label_key :: string where "repl_instance_label_key = ''instance-label''"
definition repl_replication_name_key :: string where "repl_replication_name_key = ''replication-name''"
definition repl_replication_ready_key :: string where "repl_replication_ready_key = ''replication-ready''"
definition repl_replica_key :: string where "repl_replica_key = ''replica-state''"
definition repl_secret_key :: string where "repl_secret_key = ''secret-id''"
definition repl_switchover_key :: string where "repl_switchover_key = ''switchover''"

lemmas repl_keys = repl_cluster_name_key_def repl_cluster_version_key_def
  repl_instance_address_key_def repl_instance_label_key_def repl_replication_name_key_def
  repl_replication_ready_key_def repl_replica_key_def repl_secret_key_def repl_switchover_key_def

definition repl_get_cluster_name :: "databag \<Rightarrow> string option" where
  "repl_get_cluster_name = get_text repl_cluster_name_key"
definition repl_get_cluster_version :: "databag \<Rightarrow> string option" where
  "repl_get_cluster_version = get_text repl_cluster_version_key"
definition repl_get_instance_address :: "databag \<Rightarrow> string option" where
  "repl_get_instance_address = get_text repl_instance_address_key"
definition repl_get_instance_label :: "databag \<Rightarrow> string option" where
  "repl_get_instance_label = get_text repl_instance_label_key"
definition repl_get_replication_ready_flag :: "databag \<Rightarrow> bool option" where
  "repl_get_replication_ready_flag = get_flag repl_replication_ready_key"
definition repl_get_replica_flag :: "databag \<Rightarrow> bool option" where
  "repl_get_replica_flag = get_flag repl_replica_key"
definition repl_get_secret_id :: "databag \<Rightarrow> string option" where
  "repl_get_secret_id = get_text repl_secret_key"
definition repl_get_switchover_count :: "databag \<Rightarrow> exn + int" where
  "repl_get_switchover_count d =
     (if falsy (d repl_switchover_key) then Inr 0 else int_of_str (the (d repl_switchover_key)))"

definition repl_set_cluster_name :: "string \<Rightarrow> databag \<Rightarrow> databag" where
  "repl_set_cluster_name name d = d(repl_cluster_name_key \<mapsto> name)"
definition repl_set_cluster_version :: "string \<Rightarrow> databag \<Rightarrow> databag" where
  "repl_set_cluster_version version d = d(repl_cluster_version_key \<mapsto> version)"
definition repl_set_instance_address :: "string \<Rightarrow> databag \<Rightarrow> databag" where
  "repl_set_instance_address address d = d(repl_instance_address_key \<mapsto> address)"
definition repl_set_instance_label :: "string \<Rightarrow> databag \<Rightarrow> databag" where
  "repl_set_instance_label label d = d(repl_instance_label_key \<mapsto> label)"
definition repl_set_replication_name :: "string \<Rightarrow> databag \<Rightarrow> databag" where
  "repl_set_replication_name label d = d(repl_replication_name_key \<mapsto> label)"
definition repl_set_replication_ready_flag :: "bool \<Rightarrow> databag \<Rightarrow> databag" where
  "repl_set_replication_ready_flag flag d = d(repl_replication_ready_key \<mapsto> str_flag flag)"
definition repl_set_replica_flag :: "bool \<Rightarrow> databag \<Rightarrow> databag" where
  "repl_set_replica_flag flag d = d(repl_replica_key \<mapsto> str_flag flag)"
definition repl_set_secret_id :: "string \<Rightarrow> databag \<Rightarrow> databag" where
  "repl_set_secret_id secret_id d = d(repl_secret_key \<mapsto> secret_id)"
definition repl_set_switchover_count :: "int \<Rightarrow> databag \<Rightarrow> databag" where
  "repl_set_switchover_count n d = d(repl_switchover_key \<mapsto> str_int n)"
definition repl_delete_replication_ready_flag :: "databag \<Rightarrow> databag" where
  "repl_delete_replication_ready_flag = pop_key repl_replication_ready_key"

lemmas repl_access = repl_get_cluster_name_def repl_get_cluster_version_def
  repl_get_instance_address_def repl_get_instance_label_def repl_get_replication_ready_flag_def
  repl_get_replica_flag_def repl_get_secret_id_def repl_get_switchover_count_def
  repl_set_cluster_name_def repl_set_cluster_version_def repl_set_instance_address_def
  repl_set_instance_label_def repl_set_replication_name_def repl_set_replication_ready_flag_def
  repl_set_replica_flag_def repl_set_secret_id_def repl_set_switchover_count_def
  repl_delete_replication_ready_flag_def

record replication_app =
  ra_cluster_name :: "string option"
  ra_version :: "string option"
  ra_address :: "string option"
  ra_label :: "string option"
  ra_ready :: "bool option"
  ra_replica :: "bool option"
  ra_secret :: "string option"
  ra_switchovers :: "exn + int"

datatype repl_write =
    ReplClusterName string | ReplVersion string | ReplAddress string | ReplLabel string
  | ReplName string | ReplReady bool | ReplReplica bool | ReplSecret string
  | ReplSwitchovers int | ReplDeleteReady

fun repl_exec :: "repl_write \<Rightarrow> databag \<Rightarrow> databag" where
  "repl_exec (ReplClusterName x) = repl_set_cluster_name x"
| "repl_exec (ReplVersion x) = repl_set_cluster_version x"
| "repl_exec (ReplAddress x) = repl_set_instance_address x"
| "repl_exec (ReplLabel x) = repl_set_instance_label x"
| "repl_exec (ReplName x) = repl_set_replication_name x"
| "repl_exec (ReplReady b) = repl_set_replication_ready_flag b"
| "repl_exec (ReplReplica b) = repl_set_replica_flag b"
| "repl_exec (ReplSecret x) = repl_set_secret_id x"
| "repl_exec (ReplSwitchovers n) = repl_set_switchover_count n"
| "repl_exec ReplDeleteReady = repl_delete_replication_ready_flag"

fun repl_spec :: "repl_write \<Rightarrow> replication_app \<Rightarrow> replication_app" where
  "repl_spec (ReplClusterName x) a = a\<lparr>ra_cluster_name := text_stored x\<rparr>"
| "repl_spec (ReplVersion x) a = a\<lparr>ra_version := text_stored x\<rparr>"
| "repl_spec (ReplAddress x) a = a\<lparr>ra_address := text_stored x\<rparr>"
| "repl_spec (ReplLabel x) a = a\<lparr>ra_label := text_stored x\<rparr>"
| "repl_spec (ReplName x) a = a"
| "repl_spec (ReplReady b) a = a\<lparr>ra_ready := Some b\<rparr>"
| "repl_spec (ReplReplica b) a = a\<lparr>ra_replica := Some b\<rparr>"
| "repl_spec (ReplSecret x) a = a\<lparr>ra_secret := text_stored x\<rparr>"
| "repl_spec (ReplSwitchovers n) a = a\<lparr>ra_switchovers := Inr n\<rparr>"
| "repl_spec ReplDeleteReady a = a\<lparr>ra_ready := None\<rparr>"

definition repl_abs :: "databag \<Rightarrow> replication_app" where
  "repl_abs d = \<lparr>ra_cluster_name = repl_get_cluster_name d, ra_version = repl_get_cluster_version d,
     ra_address = repl_get_instance_address d, ra_label = repl_get_instance_label d,
     ra_ready = repl_get_replication_ready_flag d, ra_replica = repl_get_replica_flag d,
     ra_secret = repl_get_secret_id d, ra_switchovers = repl_get_switchover_count d\<rparr>"

text \<open>
  The databag of a cluster-to-cluster replication relation, written through
  \<open>ReplicationAppState\<close>, behaves as a record of typed fields; the switchover counter reads as
  zero until it is set and then as the number last stored.
\<close>

theorem replication_app_refines:
  "repl_abs (fold repl_exec ws d) = fold repl_spec ws (repl_abs d)"
proof (induction ws arbitrary: d)
  case (Cons w ws)
  have "repl_abs (repl_exec w d) = repl_spec w (repl_abs d)"
    by (cases w; simp add: repl_abs_def repl_access pop_key_def) (simp_all add: repl_keys)
  with Cons show ?case by simp
qed simp

end
