(* ===== verification/Clients.thy ===== *)
theory Clients
  imports World
begin

text \<open>
  The clients through which the operator drives MySQL (\<open>managers/clients\<close>): the instance, the
  cluster and the cluster-set client and the wrapper that builds them for another host.  Each
  operation takes the environment and the host its executor is connected to; the
  wrapper's copies differ from the unit's own clients in that host only.  A handler that logs
  and raises again is the same program as its body, and logging has no effect here.
\<close>

section \<open>The cluster client\<close>

definition enum_value :: "string list \<Rightarrow> string \<Rightarrow> string op" where
  "enum_value members x = (if x \<in> set members then ret x
     else raise (value_error (x @ '' is not a valid member'')))"

abbreviation acquire_event :: "string \<Rightarrow> string \<Rightarrow> lock_task \<Rightarrow> event" where
  "acquire_event h l t \<equiv> Sql h (ExecuteSql [LockAcquire t l, LockFetchAcquired t])"

abbreviation release_event :: "string \<Rightarrow> string \<Rightarrow> lock_task \<Rightarrow> event" where
  "release_event h l t \<equiv> Sql h (ExecuteSql [LockRelease t l, LockFetchAcquired t])"

definition acquire_lock :: "env \<Rightarrow> string \<Rightarrow> string \<Rightarrow> lock_task \<Rightarrow> unit op" where
  "acquire_lock E h instance_label instance_task =
     bindM (ask (ans_strs E) (acquire_event h instance_label instance_task)) (\<lambda>locks.
       if instance_label \<notin> set locks
       then raise (runtime_error (''Failed to acquire lock '' @ task_name E instance_task)) else ret ())"

definition release_lock :: "env \<Rightarrow> string \<Rightarrow> string \<Rightarrow> lock_task \<Rightarrow> unit op" where
  "release_lock E h instance_label instance_task =
     bindM (ask (ans_strs E) (release_event h instance_label instance_task)) (\<lambda>locks.
       if instance_label \<in> set locks
       then raise (runtime_error (''Failed to release lock '' @ task_name E instance_task)) else ret ())"

definition locking :: "env \<Rightarrow> string \<Rightarrow> string \<Rightarrow> lock_task \<Rightarrow> 'a op \<Rightarrow> 'a op" where
  "locking E h instance_label instance_task body =
     seqM (attempts 10 (acquire_lock E h instance_label instance_task))
       (try_finally body (release_lock E h instance_label instance_task))"

definition cluster_add_instance :: "env \<Rightarrow> string \<Rightarrow> string \<Rightarrow> string \<Rightarrow> string \<Rightarrow> unit op" where
  "cluster_add_instance E h instance_label instance_host meth =
     (let options = [(''label'', VStr instance_label), (''recoveryMethod'', VStr meth)] in
      locking E h instance_label INSTANCE_ADDITION_TASK
        (try_except
          (act E (Clu h (AttachInstance (client_cluster E) instance_host ''3306'' options)))
          [ExecutionErrorC]
          (\<lambda>e. if meth = ''clone'' then raise e
               else act E (Clu h (AttachInstance (client_cluster E) instance_host ''3306''
                 (dict_update options [(''recoveryMethod'', VStr ''clone'')]))))))"

definition cluster_create :: "env \<Rightarrow> string \<Rightarrow> string \<Rightarrow> unit op" where
  "cluster_create E h instance_label = block
     [act E (Clu h (CreateCluster (client_cluster E) [(''communicationStack'', VStr ''MySQL'')])),
      act E (Clu h (UpdateInstance (client_cluster E) h (client_port E) [(''label'', VStr instance_label)]))]"

definition drop_metadata :: "env \<Rightarrow> string \<Rightarrow> unit op" where
  "drop_metadata E h = act E (Sql h (ExecutePy ''dba.drop_metadata_schema()''))"

definition fetch_cluster_status :: "env \<Rightarrow> string \<Rightarrow> cluster_status op" where
  "fetch_cluster_status E h = ask (ans_status E) (Clu h (FetchClusterStatus (client_cluster E)))"

definition fetch_instances :: "env \<Rightarrow> string \<Rightarrow> instance_info dict op" where
  "fetch_instances E h = try_else (fetch_cluster_status E h) [ExecutionErrorC]
     (\<lambda>_. ret []) (\<lambda>status. ret (cs_topology status))"

definition host_of :: "string \<Rightarrow> string" where
  "host_of address = hd (split_char (CHR '':'') address)"

definition cluster_fetch_primary_host :: "env \<Rightarrow> string \<Rightarrow> string option op" where
  "cluster_fetch_primary_host E h = try_else (fetch_cluster_status E h) [ExecutionErrorC]
     (\<lambda>_. ret None)
     (\<lambda>status. if cs_state status = ''NO_QUORUM'' then ret None
               else ret (Some (host_of (cs_primary status))))"

definition cluster_fetch_role :: "env \<Rightarrow> string \<Rightarrow> string option op" where
  "cluster_fetch_role E h = try_else (fetch_cluster_status E h) [ExecutionErrorC]
     (\<lambda>_. ret None)
     (\<lambda>status. bindM (enum_value (ClusterRole_members E) (cs_role status)) (\<lambda>r. ret (Some r)))"

definition cluster_fetch_state :: "env \<Rightarrow> string \<Rightarrow> string option op" where
  "cluster_fetch_state E h = try_else (fetch_cluster_status E h) [ExecutionErrorC]
     (\<lambda>_. ret None)
     (\<lambda>status. bindM (enum_value (ClusterState_members E) (cs_state status)) (\<lambda>r. ret (Some r)))"

definition init_locks_table :: "env \<Rightarrow> string \<Rightarrow> unit op" where
  "init_locks_table E h = act E (Sql h (ExecuteSql [LockTableCreation]))"

definition cluster_promote_instance :: "env \<Rightarrow> string \<Rightarrow> string \<Rightarrow> bool \<Rightarrow> unit op" where
  "cluster_promote_instance E h instance_host force =
     (if force then act E (Clu h (ForceInstanceQuorum (client_cluster E) instance_host ''3306''))
      else act E (Clu h (PromoteInstance (client_cluster E) instance_host ''3306'')))"

definition cluster_rejoin_instance :: "env \<Rightarrow> string \<Rightarrow> string \<Rightarrow> string \<Rightarrow> unit op" where
  "cluster_rejoin_instance E h instance_label instance_host =
     locking E h instance_label INSTANCE_ADDITION_TASK
       (act E (Clu h (RejoinInstance (client_cluster E) instance_host ''3306'')))"

definition set_instance_option :: "env \<Rightarrow> string \<Rightarrow> string \<Rightarrow> cval \<Rightarrow> unit op" where
  "set_instance_option E h opt v =
     act E (Clu h (UpdateInstance (client_cluster E) h (client_port E) [(opt, v)]))"

definition set_instance_config :: "env \<Rightarrow> string \<Rightarrow> string \<Rightarrow> string \<Rightarrow> unit op" where
  "set_instance_config E h username password =
     act E (Clu h (SetupInstanceConfig
       (if username \<noteq> [] \<and> password \<noteq> []
        then [(''clusterAdmin'', VStr username), (''clusterAdminPassword'', VStr password), (''restart'', VBool True)]
        else [(''restart'', VBool True)])))"

definition cluster_remove_instance :: "env \<Rightarrow> string \<Rightarrow> string \<Rightarrow> string \<Rightarrow> unit op" where
  "cluster_remove_instance E h instance_label instance_host =
     bindM (cluster_fetch_primary_host E h) (\<lambda>primary.
       if primary = Some instance_host then ret ()
       else locking E h instance_label INSTANCE_REMOVAL_TASK
         (act E (Clu h (DetachInstance (client_cluster E) instance_host ''3306'' [(''force'', VBool True)]))))"

text \<open>\<open>router_name, router_mode = router_id.split("::")\<close>: any other number of parts is a \<open>ValueError\<close>.\<close>

definition cluster_remove_router :: "env \<Rightarrow> string \<Rightarrow> string \<Rightarrow> unit op" where
  "cluster_remove_router E h router_id =
     (case split_str ''::'' router_id of
        [router_name, router_mode] \<Rightarrow>
          act E (Clu h (RemoveRouter (client_cluster E) router_name router_mode))
      | _ \<Rightarrow> raise (value_error ''wrong number of values to unpack''))"

definition cluster_reboot :: "env \<Rightarrow> string \<Rightarrow> unit op" where
  "cluster_reboot E h = act E (Clu h (RebootCluster (client_cluster E)))"

definition cluster_rescan :: "env \<Rightarrow> string \<Rightarrow> unit op" where
  "cluster_rescan E h = act E (Clu h (RescanCluster (client_cluster E)))"

section \<open>The cluster-set client\<close>

definition cset_create :: "env \<Rightarrow> string \<Rightarrow> string \<Rightarrow> unit op" where
  "cset_create E h cluster_name = act E (Clu h (CreateClusterSet cluster_name (client_cluster_set E)))"

text \<open>The recursive call has \<open>method = "clone"\<close>, which does not recurse again.\<close>

definition replica_options :: "string option \<Rightarrow> string option \<Rightarrow> cval dict" where
  "replica_options donor meth =
     [(''communicationStack'', VStr ''MySQL''), (''recoveryProgress'', VInt 0), (''timeout'', VInt 0)]
     @ (if falsy donor then [] else [(''cloneDonor'', VStr (the donor))])
     @ (if falsy meth then [] else [(''recoveryMethod'', VStr (the meth))])"

function cset_create_replica_cluster ::
  "env \<Rightarrow> string \<Rightarrow> string \<Rightarrow> string \<Rightarrow> string \<Rightarrow> string option \<Rightarrow> string option \<Rightarrow> unit op" where
  "cset_create_replica_cluster E h instance_label instance_host cluster_name donor meth =
     try_except
       (block [act E (Clu h (CreateClusterSetReplica cluster_name instance_host ''3306''
                 (replica_options donor meth))),
               act E (Clu h (UpdateInstance cluster_name instance_host ''3306''
                 [(''label'', VStr instance_label)]))])
       [ExecutionErrorC]
       (\<lambda>e. if meth = Some ''clone'' then raise e
            else cset_create_replica_cluster E h instance_label instance_host cluster_name donor
              (Some ''clone''))"
  by pat_completeness auto
termination
  by (relation "measure (\<lambda>(_, _, _, _, _, _, m). if m = Some ''clone'' then 0 else 1)") auto

definition fetch_cluster_set_status :: "env \<Rightarrow> string \<Rightarrow> cluster_set_status op" where
  "fetch_cluster_set_status E h = ask (ans_set_status E) (Clu h FetchClusterSetStatus)"

definition cset_fetch_primary_host :: "env \<Rightarrow> string \<Rightarrow> string option op" where
  "cset_fetch_primary_host E h =
     bindM (fetch_cluster_set_status E h) (\<lambda>status.
     bindM (lift (dict_index (css_clusters status) (css_primary status))) (\<lambda>cluster.
       if falsy (sm_primary cluster) then ret None
       else ret (Some (host_of (the (sm_primary cluster))))))"

definition cset_fetch_clusters :: "env \<Rightarrow> string \<Rightarrow> set_member dict op" where
  "cset_fetch_clusters E h = bindM (fetch_cluster_set_status E h) (\<lambda>status. ret (css_clusters status))"

definition cset_fetch_cluster_state :: "env \<Rightarrow> string \<Rightarrow> string \<Rightarrow> string option op" where
  "cset_fetch_cluster_state E h cluster_name =
     bindM (fetch_cluster_set_status E h) (\<lambda>status.
       case map_of (css_clusters status) cluster_name of
         None \<Rightarrow> ret None
       | Some cluster \<Rightarrow> bindM (enum_value (GlobalState_members E) (sm_state cluster)) (\<lambda>s. ret (Some s)))"

definition cset_dissolve_cluster :: "env \<Rightarrow> string \<Rightarrow> string \<Rightarrow> bool \<Rightarrow> unit op" where
  "cset_dissolve_cluster E h cluster_name force =
     bindM (fetch_cluster_set_status E h) (\<lambda>status.
       case map_of (css_clusters status) cluster_name of
         None \<Rightarrow> ret ()
       | Some cluster \<Rightarrow>
           bindM (enum_value (ClusterRole_members E) (sm_role cluster)) (\<lambda>role.
           let clusters = dict_keys (css_clusters status);
               another_cluster = hd (set_order E (filter (\<lambda>c. c \<noteq> cluster_name) clusters)) in
           seqM (if length clusters > 1 \<and> role \<noteq> ''REPLICA''
                 then seqM (act E (Clu h (PromoteClusterSetReplica another_cluster None)))
                        (act E (Clu h (RemoveClusterSetReplica cluster_name None)))
                 else ret ())
                (if force then act E (Clu h (DestroyCluster cluster_name force)) else ret ())))"

definition cset_promote_replica_cluster :: "env \<Rightarrow> string \<Rightarrow> string \<Rightarrow> bool \<Rightarrow> unit op" where
  "cset_promote_replica_cluster E h cluster_name force =
     act E (Clu h (PromoteClusterSetReplica cluster_name (Some force)))"

definition cset_remove_replica_cluster :: "env \<Rightarrow> string \<Rightarrow> string \<Rightarrow> bool \<Rightarrow> unit op" where
  "cset_remove_replica_cluster E h cluster_name force =
     act E (Clu h (RemoveClusterSetReplica cluster_name (Some force)))"

definition cset_rejoin_replica_cluster :: "env \<Rightarrow> string \<Rightarrow> string \<Rightarrow> unit op" where
  "cset_rejoin_replica_cluster E h cluster_name = act E (Clu h (RejoinClusterSetCluster cluster_name))"

section \<open>The instance client\<close>

definition system_password_len :: nat where "system_password_len = 24"
definition system_rolename_len :: nat where "system_rolename_len = 32"

definition system_databases :: "string list" where
  "system_databases = [''information_schema'', ''mysql'', ''mysql_innodb_cluster_metadata'',
     ''performance_schema'', ''sys'']"

definition system_components :: "string dict" where
  "system_components =
     [(''audit_log_filter'', ''file://component_audit_log_filter''),
      (''binlog_utils_udf'', ''file://component_binlog_utils_udf''),
      (''validate_password'', ''file://component_validate_password'')]"

definition zfill :: "nat \<Rightarrow> string \<Rightarrow> string" where
  "zfill n s = replicate (n - length s) (CHR ''0'') @ s"

definition build_database_dba_role :: "env \<Rightarrow> string \<Rightarrow> string \<Rightarrow> string op" where
  "build_database_dba_role E h database_name =
     (let role_prefix = ''charmed_dba''; role_suffix = ''XX'';
          role_name_available = system_rolename_len - length role_prefix - length role_suffix - 2;
          role_name_trimmed = take role_name_available database_name;
          role_name_pattern = role_prefix @ ''_'' @ role_name_trimmed @ ''_%'' in
      bindM (ask (ans_strs E) (Sql h (SearchRoles role_name_pattern))) (\<lambda>collisions.
        ret (join_with ''_'' [role_prefix, role_name_trimmed,
               zfill (length role_suffix) (show_nat (length collisions))])))"

definition set_variable :: "env \<Rightarrow> string \<Rightarrow> variable_scope \<Rightarrow> string \<Rightarrow> cval \<Rightarrow> unit op" where
  "set_variable E h scope name v = act E (Sql h (SetVariable scope name v))"

definition inst_create_database :: "env \<Rightarrow> string \<Rightarrow> string \<Rightarrow> unit op" where
  "inst_create_database E h database =
     seqM (act E (Sql h (CreateInstanceDatabase database)))
       (bindM (build_database_dba_role E h database) (\<lambda>rolename.
          act E (Sql h (ExecuteSql [ReaderRoleUpdate database, WriterRoleUpdate database,
            DatabaseAdminRole rolename database]))))"

definition inst_create_database_user ::
  "env \<Rightarrow> string \<Rightarrow> string \<Rightarrow> string \<Rightarrow> string \<Rightarrow> string list option \<Rightarrow> unit op" where
  "inst_create_database_user E h database username password roles =
     seqM (act E (Sql h (CreateInstanceUser username ''%'' password roles)))
       (if roles \<noteq> None \<and> roles \<noteq> Some [] then ret ()
        else act E (Sql h (ExecuteSql
          [RawSql (''GRANT USAGE ON *.* TO `'' @ username @ ''`''),
           RawSql (''GRANT ALL PRIVILEGES ON `'' @ database @ ''`.* TO `'' @ username @ ''`'')])))"

definition create_router_role :: "env \<Rightarrow> string \<Rightarrow> string \<Rightarrow> unit op" where
  "create_router_role E h rolename =
     act E (Sql h (ExecuteSql
       [RawSql (''CREATE ROLE '' @ rolename),
        RawSql (''GRANT CREATE ON *.* TO '' @ rolename),
        RawSql (''GRANT CREATE USER ON *.* TO '' @ rolename),
        RawSql (''GRANT ALL ON *.* TO '' @ rolename @ '' WITH GRANT OPTION'')]))"

definition create_auth_roles :: "env \<Rightarrow> string \<Rightarrow> unit op" where
  "create_auth_roles E h = act E (Sql h (ExecuteSql [InstanceAuthRoles]))"

definition password_choices :: string where
  "password_choices = ''abcdefghijklmnopqrstuvwxyzABCDEFGHIJKLMNOPQRSTUVWXYZ0123456789''"

text \<open>\<open>secrets.choice\<close> draws an index below the number of choices.\<close>

definition secrets_choice :: "env \<Rightarrow> string \<Rightarrow> char op" where
  "secrets_choice E choices =
     bindM (ask (ans_nat E) (Sys (RandomChoice (length choices)))) (\<lambda>i.
       ret (choices ! (i mod length choices)))"

definition strong_password :: "string \<Rightarrow> bool" where
  "strong_password p \<longleftrightarrow> list_ex is_ascii_lower p \<and> list_ex is_ascii_upper p \<and> list_ex is_digit p"

fun create_password_loop :: "env \<Rightarrow> nat \<Rightarrow> string op" where
  "create_password_loop E 0 = raise diverges"
| "create_password_loop E (Suc n) =
     bindM (mapM (\<lambda>_. secrets_choice E password_choices) [0..<system_password_len]) (\<lambda>password.
       if strong_password password then ret password else create_password_loop E n)"

definition create_password :: "env \<Rightarrow> string op" where
  "create_password E = create_password_loop E (loop_fuel E)"

definition inst_create_user :: "env \<Rightarrow> string \<Rightarrow> string \<Rightarrow> string \<Rightarrow> string list option \<Rightarrow> unit op" where
  "inst_create_user E h username password roles =
     act E (Sql h (CreateInstanceUser username ''%'' password roles))"

definition inst_delete_user :: "env \<Rightarrow> string \<Rightarrow> string \<Rightarrow> unit op" where
  "inst_delete_user E h username = act E (Sql h (DeleteInstanceUser username ''%''))"

definition inst_delete_root :: "env \<Rightarrow> string \<Rightarrow> unit op" where
  "inst_delete_root E h = act E (Sql h (DeleteInstanceUser ''root'' ''localhost''))"

definition inst_delete_users_by_attrs :: "env \<Rightarrow> string \<Rightarrow> (string \<times> string) list \<Rightarrow> unit op" where
  "inst_delete_users_by_attrs E h attributes =
     bindM (ask (ans_users E) (Sql h (SearchInstanceUsers ''%'' attributes))) (\<lambda>users.
       act E (Sql h (DeleteInstanceUsers (map u_name users))))"

definition inst_fetch_user_by_attrs :: "env \<Rightarrow> string \<Rightarrow> (string \<times> string) list \<Rightarrow> db_user option op" where
  "inst_fetch_user_by_attrs E h attributes =
     bindM (ask (ans_users E) (Sql h (SearchInstanceUsers ''%'' attributes))) (\<lambda>users.
       ret (case users of [] \<Rightarrow> None | u # _ \<Rightarrow> Some u))"

definition inst_fetch_databases :: "env \<Rightarrow> string \<Rightarrow> string list op" where
  "inst_fetch_databases E h =
     bindM (ask (ans_strs E) (Sql h (SearchInstanceDatabases ''%''))) (\<lambda>databases.
       ret (set_order E (remdups (filter (\<lambda>d. d \<notin> set system_databases) databases))))"

definition falsy_none :: "string option \<Rightarrow> string option" where
  "falsy_none x = (if falsy x then None else x)"

definition inst_fetch_role :: "env \<Rightarrow> string \<Rightarrow> string option op" where
  "inst_fetch_role E h = bindM (ask (ans_ostr E) (Sql h GetReplicationRole)) (\<lambda>r. ret (falsy_none r))"

definition inst_fetch_state :: "env \<Rightarrow> string \<Rightarrow> string option op" where
  "inst_fetch_state E h = bindM (ask (ans_ostr E) (Sql h GetReplicationState)) (\<lambda>r. ret (falsy_none r))"

definition inst_fetch_version :: "env \<Rightarrow> string \<Rightarrow> string op" where
  "inst_fetch_version E h =
     bindM (ask (ans_ostr E) (Sql h GetVersion)) (\<lambda>v. ret (if falsy v then [] else the v))"

definition inst_fetch_cluster_labels :: "env \<Rightarrow> string \<Rightarrow> string list op" where
  "inst_fetch_cluster_labels E h =
     try_except (ask (ans_strs E) (Sql h GetClusterLabels)) [ExecutionErrorC] (\<lambda>_. ret [])"

definition inst_flush_native_logs :: "env \<Rightarrow> string \<Rightarrow> string list \<Rightarrow> unit op" where
  "inst_flush_native_logs E h logs = act E (Sql h (ExecuteSql [LogsFlushing logs]))"

definition inst_flush_audit_log :: "env \<Rightarrow> string \<Rightarrow> unit op" where
  "inst_flush_audit_log E h = act E (Sql h (ExecuteSql [RawSql ''SELECT audit_log_rotate()'']))"

definition inst_flush_host_cache :: "env \<Rightarrow> string \<Rightarrow> unit op" where
  "inst_flush_host_cache E h =
     act E (Sql h (ExecuteSql [RawSql ''TRUNCATE TABLE performance_schema.host_cache'']))"

definition count_cluster_members :: "env \<Rightarrow> string \<Rightarrow> string list option \<Rightarrow> nat op" where
  "count_cluster_members E h states =
     try_else (ask (ans_strs E) (Sql h (SearchReplicationMembers states))) [ExecutionErrorC]
       (\<lambda>_. ret 0) (\<lambda>members. ret (length members))"

definition install_components :: "env \<Rightarrow> string \<Rightarrow> string list \<Rightarrow> unit op" where
  "install_components E h components =
     bindM (ask (ans_strs E) (Sql h (SearchComponents ''%''))) (\<lambda>installed.
       for_each (\<lambda>component_name.
         case map_of system_components component_name of
           None \<Rightarrow> ret ()
         | Some component_urn \<Rightarrow>
             if component_urn \<in> set installed then ret ()
             else act E (Sql h (InstallComponent component_urn))) components)"

definition kill_client_sessions :: "env \<Rightarrow> string \<Rightarrow> unit op" where
  "kill_client_sessions E h =
     bindM (ask (ans_strs E) (Sql h (SearchConnectionProcesses ''%''))) (\<lambda>procs.
       act E (Sql h (StopProcesses procs)))"

definition set_client_tls :: "env \<Rightarrow> string \<Rightarrow> string \<Rightarrow> string \<Rightarrow> string \<Rightarrow> bool \<Rightarrow> unit op" where
  "set_client_tls E h ca_path cert_path key_path enable =
     (let tls_usage = (if enable then ''ON'' else ''OFF'') in block
      [set_variable E h Scope_PERSIST ''ssl_ca'' (VStr ca_path),
       set_variable E h Scope_PERSIST ''ssl_cert'' (VStr cert_path),
       set_variable E h Scope_PERSIST ''ssl_key'' (VStr key_path),
       set_variable E h Scope_PERSIST ''require_secure_transport'' (VStr tls_usage),
       act E (Sql h ReloadCerts)])"

definition set_group_tls :: "env \<Rightarrow> string \<Rightarrow> string \<Rightarrow> string \<Rightarrow> string \<Rightarrow> bool \<Rightarrow> unit op" where
  "set_group_tls E h ca_path cert_path key_path enable =
     (let tls_usage = (if enable then ''ON'' else ''OFF'');
          tls_mode = (if enable then ''REQUIRED'' else ''DISABLED'') in block
      [set_variable E h Scope_PERSIST ''group_replication_recovery_ssl_ca'' (VStr ca_path),
       set_variable E h Scope_PERSIST ''group_replication_recovery_ssl_cert'' (VStr cert_path),
       set_variable E h Scope_PERSIST ''group_replication_recovery_ssl_key'' (VStr key_path),
       set_variable E h Scope_PERSIST ''group_replication_recovery_use_ssl'' (VStr tls_usage),
       set_variable E h Scope_PERSIST ''group_replication_ssl_mode'' (VStr tls_mode)])"

definition inst_stop_replication :: "env \<Rightarrow> string \<Rightarrow> unit op" where
  "inst_stop_replication E h = suppress [ExecutionErrorC] (act E (Sql h StopReplication))"

definition update_variable :: "env \<Rightarrow> string \<Rightarrow> string \<Rightarrow> cval \<Rightarrow> unit op" where
  "update_variable E h name v = set_variable E h Scope_GLOBAL name v"

definition inst_update_user :: "env \<Rightarrow> string \<Rightarrow> string \<Rightarrow> string \<Rightarrow> unit op" where
  "inst_update_user E h username password = act E (Sql h (UpdateInstanceUser username ''%'' password))"

fun wait_recovering_loop :: "env \<Rightarrow> string \<Rightarrow> nat \<Rightarrow> unit op" where
  "wait_recovering_loop E h 0 = raise diverges"
| "wait_recovering_loop E h (Suc n) =
     try_else (inst_fetch_state E h) [ExecutionErrorC] (\<lambda>_. ret ())
       (\<lambda>state. if state = Some ''RECOVERING''
                then seqM (act E (Sys (Sleep 10))) (wait_recovering_loop E h n) else ret ())"

definition wait_recovering :: "env \<Rightarrow> string \<Rightarrow> unit op" where
  "wait_recovering E h = wait_recovering_loop E h (loop_fuel E)"

section \<open>The wrapper\<close>

text \<open>
  \<open>build_cluster_client(host)\<close> and its siblings are the clients above at another host.  The
  loop of \<open>find_cluster_primary\<close> returns the first answer that does not raise a
  \<open>RuntimeError\<close>.
\<close>

fun find_cluster_primary :: "env \<Rightarrow> string list \<Rightarrow> string option op" where
  "find_cluster_primary E [] = ret None"
| "find_cluster_primary E (address # addresses) =
     try_except (cset_fetch_primary_host E address) [PyRuntimeError]
       (\<lambda>_. find_cluster_primary E addresses)"

definition configure_instance :: "env \<Rightarrow> string \<Rightarrow> string \<Rightarrow> unit op" where
  "configure_instance E username password =
     seqM (set_instance_config E (client_host E) username password)
       (attempts (Suc (retry_budget E)) (act E (Sql (client_host E) CheckConnection)))"

definition promote_instance :: "env \<Rightarrow> string \<Rightarrow> bool \<Rightarrow> unit op" where
  "promote_instance E instance_host force =
     bindM (cluster_fetch_primary_host E (client_host E)) (\<lambda>primary.
       if primary = Some instance_host then ret ()
       else cluster_promote_instance E (client_host E) instance_host force)"

definition recreate_cluster :: "env \<Rightarrow> string \<Rightarrow> unit op" where
  "recreate_cluster E instance_label = block
     [init_locks_table E (client_host E),
      cluster_create E (client_host E) instance_label,
      cset_create E (client_host E) (client_cluster E),
      cluster_rescan E (client_host E)]"

section \<open>The calls each operation makes\<close>

text \<open>One rule per operation: the calls it may make, whatever the environment answers.\<close>

lemma emits_enum_value [emits]: "emits P (enum_value ms x)"
  by (auto simp: enum_value_def intro!: emits)

lemma emits_locking [emits]:
  assumes "P (acquire_event h l t)" "P (release_event h l t)" "emits P body"
  shows "emits P (locking E h l t body)"
  unfolding locking_def acquire_lock_def release_lock_def
  by (intro emits assms)

lemma emits_status [emits]:
  assumes "P (Clu h (FetchClusterStatus (client_cluster E)))"
  shows "emits P (fetch_cluster_status E h)" "emits P (fetch_instances E h)"
    "emits P (cluster_fetch_primary_host E h)" "emits P (cluster_fetch_role E h)"
    "emits P (cluster_fetch_state E h)"
  unfolding fetch_instances_def cluster_fetch_primary_host_def cluster_fetch_role_def
    cluster_fetch_state_def fetch_cluster_status_def
  by (intro emits assms)+

lemma emits_set_status [emits]:
  assumes "P (Clu h FetchClusterSetStatus)"
  shows "emits P (fetch_cluster_set_status E h)" "emits P (cset_fetch_primary_host E h)"
    "emits P (cset_fetch_clusters E h)" "emits P (cset_fetch_cluster_state E h c)"
  unfolding cset_fetch_primary_host_def cset_fetch_clusters_def cset_fetch_cluster_state_def
    fetch_cluster_set_status_def
  by (intro emits assms)+

lemma emits_find_cluster_primary [emits]:
  "(\<And>a. a \<in> set addrs \<Longrightarrow> P (Clu a FetchClusterSetStatus)) \<Longrightarrow> emits P (find_cluster_primary E addrs)"
  by (induction addrs) (auto intro!: emits)

lemma emits_membership [emits]:
  "(\<And>t. P (acquire_event h l t)) \<Longrightarrow> (\<And>t. P (release_event h l t)) \<Longrightarrow>
     (\<And>os. P (Clu h (AttachInstance (client_cluster E) host ''3306'' os))) \<Longrightarrow>
     emits P (cluster_add_instance E h l host meth)"
  "(\<And>t. P (acquire_event h l t)) \<Longrightarrow> (\<And>t. P (release_event h l t)) \<Longrightarrow>
     P (Clu h (RejoinInstance (client_cluster E) host ''3306'')) \<Longrightarrow>
     emits P (cluster_rejoin_instance E h l host)"
  "(\<And>t. P (acquire_event h l t)) \<Longrightarrow> (\<And>t. P (release_event h l t)) \<Longrightarrow>
     P (Clu h (FetchClusterStatus (client_cluster E))) \<Longrightarrow>
     P (Clu h (DetachInstance (client_cluster E) host ''3306'' [(''force'', VBool True)])) \<Longrightarrow>
     emits P (cluster_remove_instance E h l host)"
  unfolding cluster_add_instance_def cluster_rejoin_instance_def cluster_remove_instance_def Let_def
  by (auto intro!: emits)

lemma emits_cluster_simple [emits]:
  "P (Clu h (RebootCluster (client_cluster E))) \<Longrightarrow> emits P (cluster_reboot E h)"
  "P (Clu h (RescanCluster (client_cluster E))) \<Longrightarrow> emits P (cluster_rescan E h)"
  "P (Sql h (ExecutePy ''dba.drop_metadata_schema()'')) \<Longrightarrow> emits P (drop_metadata E h)"
  "P (Sql h (ExecuteSql [LockTableCreation])) \<Longrightarrow> emits P (init_locks_table E h)"
  "(\<And>os. P (Clu h (SetupInstanceConfig os))) \<Longrightarrow> emits P (set_instance_config E h u p)"
  "P (Clu h (UpdateInstance (client_cluster E) h (client_port E) [(opt, v)])) \<Longrightarrow>
     emits P (set_instance_option E h opt v)"
  "P (Clu h (ForceInstanceQuorum (client_cluster E) host ''3306'')) \<Longrightarrow>
     P (Clu h (PromoteInstance (client_cluster E) host ''3306'')) \<Longrightarrow>
     emits P (cluster_promote_instance E h host force)"
  "P (Clu h (CreateClusterSet c (client_cluster_set E))) \<Longrightarrow> emits P (cset_create E h c)"
  "P (Clu h (PromoteClusterSetReplica c (Some force))) \<Longrightarrow> emits P (cset_promote_replica_cluster E h c force)"
  "(\<And>n m. P (Clu h (RemoveRouter (client_cluster E) n m))) \<Longrightarrow> emits P (cluster_remove_router E h r)"
  by (auto simp: cluster_reboot_def cluster_rescan_def drop_metadata_def init_locks_table_def
      set_instance_config_def set_instance_option_def cluster_promote_instance_def cset_create_def
      cset_promote_replica_cluster_def cluster_remove_router_def intro!: emits split: list.split)

lemma emits_cluster_create [emits]:
  "P (Clu h (CreateCluster (client_cluster E) [(''communicationStack'', VStr ''MySQL'')])) \<Longrightarrow>
   P (Clu h (UpdateInstance (client_cluster E) h (client_port E) [(''label'', VStr l)])) \<Longrightarrow>
   emits P (cluster_create E h l)"
  by (auto simp: cluster_create_def intro!: emits)

lemma emits_promote_instance [emits]:
  "P (Clu (client_host E) (FetchClusterStatus (client_cluster E))) \<Longrightarrow>
   P (Clu (client_host E) (ForceInstanceQuorum (client_cluster E) host ''3306'')) \<Longrightarrow>
   P (Clu (client_host E) (PromoteInstance (client_cluster E) host ''3306'')) \<Longrightarrow>
   emits P (promote_instance E host force)"
  by (auto simp: promote_instance_def intro!: emits)

lemma emits_recreate_cluster [emits]:
  assumes "P (Sql (client_host E) (ExecuteSql [LockTableCreation]))"
    "\<And>c os. P (Clu (client_host E) (CreateCluster c os))"
    "\<And>c h p os. P (Clu (client_host E) (UpdateInstance c h p os))"
    "\<And>c s. P (Clu (client_host E) (CreateClusterSet c s))"
    "\<And>c. P (Clu (client_host E) (RescanCluster c))"
  shows "emits P (recreate_cluster E l)"
  unfolding recreate_cluster_def by (intro emits assms)

lemma emits_instance_queries [emits]:
  "P (Sql h GetReplicationRole) \<Longrightarrow> emits P (inst_fetch_role E h)"
  "P (Sql h GetReplicationState) \<Longrightarrow> emits P (inst_fetch_state E h)"
  "P (Sql h GetVersion) \<Longrightarrow> emits P (inst_fetch_version E h)"
  "P (Sql h GetClusterLabels) \<Longrightarrow> emits P (inst_fetch_cluster_labels E h)"
  "P (Sql h (SearchInstanceDatabases ''%'')) \<Longrightarrow> emits P (inst_fetch_databases E h)"
  "(\<And>ss. P (Sql h (SearchReplicationMembers ss))) \<Longrightarrow> emits P (count_cluster_members E h sts)"
  "(\<And>as. P (Sql h (SearchInstanceUsers ''%'' as))) \<Longrightarrow> emits P (inst_fetch_user_by_attrs E h attrs)"
  by (auto simp: inst_fetch_role_def inst_fetch_state_def inst_fetch_version_def
      inst_fetch_cluster_labels_def inst_fetch_databases_def count_cluster_members_def
      inst_fetch_user_by_attrs_def intro!: emits)

lemma emits_instance_commands [emits]:
  "P (Sql h StopReplication) \<Longrightarrow> emits P (inst_stop_replication E h)"
  "(\<And>sc n x. P (Sql h (SetVariable sc n x))) \<Longrightarrow> emits P (update_variable E h name v)"
  "P (Sql h (UpdateInstanceUser u ''%'' p)) \<Longrightarrow> emits P (inst_update_user E h u p)"
  "P (Sql h (DeleteInstanceUser u ''%'')) \<Longrightarrow> emits P (inst_delete_user E h u)"
  "(\<And>as. P (Sql h (SearchInstanceUsers ''%'' as))) \<Longrightarrow> (\<And>us. P (Sql h (DeleteInstanceUsers us))) \<Longrightarrow>
     emits P (inst_delete_users_by_attrs E h attrs)"
  "(\<And>qs. P (Sql h (ExecuteSql qs))) \<Longrightarrow> emits P (inst_flush_native_logs E h logs)"
  "(\<And>qs. P (Sql h (ExecuteSql qs))) \<Longrightarrow> emits P (inst_flush_audit_log E h)"
  "(\<And>qs. P (Sql h (ExecuteSql qs))) \<Longrightarrow> emits P (inst_flush_host_cache E h)"
  by (auto simp: inst_stop_replication_def update_variable_def set_variable_def inst_update_user_def
      inst_delete_user_def inst_delete_users_by_attrs_def inst_flush_native_logs_def
      inst_flush_audit_log_def inst_flush_host_cache_def intro!: emits)

lemma emits_create_password [emits]:
  assumes "\<And>n. P (Sys (RandomChoice n))"
  shows "emits P (create_password E)"
proof -
  have "emits P (create_password_loop E n)" for n
    by (induction n) (auto simp: secrets_choice_def intro!: emits assms)
  then show ?thesis by (simp add: create_password_def)
qed

text \<open>The clients change nothing but the trace: they keep what does not depend on it.\<close>

lemma keeps_status [keeps]:
  assumes "\<And>w es. I w \<Longrightarrow> I (w\<lparr>trace := es\<rparr>)"
  shows "keeps I (fetch_cluster_status E h)" "keeps I (fetch_instances E h)"
    "keeps I (cluster_fetch_primary_host E h)" "keeps I (cluster_fetch_role E h)"
    "keeps I (cluster_fetch_state E h)" "keeps I (fetch_cluster_set_status E h)"
    "keeps I (cset_fetch_primary_host E h)"
  unfolding fetch_instances_def cluster_fetch_primary_host_def cluster_fetch_role_def
    cluster_fetch_state_def fetch_cluster_status_def enum_value_def cset_fetch_primary_host_def
    fetch_cluster_set_status_def
  by (intro keeps assms; assumption?)+

lemma keeps_find_cluster_primary [keeps]:
  assumes "\<And>w es. I w \<Longrightarrow> I (w\<lparr>trace := es\<rparr>)"
  shows "keeps I (find_cluster_primary E addrs)"
  by (induction addrs) (auto intro!: keeps assms)

lemma keeps_membership [keeps]:
  assumes "\<And>w es. I w \<Longrightarrow> I (w\<lparr>trace := es\<rparr>)"
  shows "keeps I body \<Longrightarrow> keeps I (locking E h l t body)" "keeps I (cluster_add_instance E h l host meth)"
    "keeps I (cluster_rejoin_instance E h l host)" "keeps I (cluster_remove_instance E h l host)"
    "keeps I (cluster_reboot E h)" "keeps I (cluster_rescan E h)" "keeps I (drop_metadata E h)"
    "keeps I (set_instance_option E h opt v)" "keeps I (cluster_promote_instance E h host force)"
    "keeps I (promote_instance E host force)" "keeps I (recreate_cluster E l)"
    "keeps I (configure_instance E u p)"
  unfolding cluster_add_instance_def cluster_rejoin_instance_def cluster_remove_instance_def
    locking_def acquire_lock_def release_lock_def cluster_reboot_def cluster_rescan_def
    drop_metadata_def set_instance_option_def cluster_promote_instance_def promote_instance_def
    recreate_cluster_def init_locks_table_def cluster_create_def cset_create_def
    configure_instance_def set_instance_config_def
  by (intro keeps assms; assumption?)+

lemma keeps_instance [keeps]:
  assumes "\<And>w es. I w \<Longrightarrow> I (w\<lparr>trace := es\<rparr>)"
  shows "keeps I (inst_fetch_role E h)" "keeps I (inst_fetch_state E h)" "keeps I (inst_fetch_version E h)"
    "keeps I (inst_fetch_cluster_labels E h)" "keeps I (inst_fetch_databases E h)"
    "keeps I (count_cluster_members E h sts)" "keeps I (inst_stop_replication E h)"
    "keeps I (update_variable E h name v)" "keeps I (inst_update_user E h u p)"
  unfolding inst_fetch_role_def inst_fetch_state_def inst_fetch_version_def
    inst_fetch_cluster_labels_def inst_fetch_databases_def count_cluster_members_def
    inst_stop_replication_def update_variable_def set_variable_def inst_update_user_def
  by (intro keeps assms; assumption?)+

lemma keeps_create_password [keeps]:
  assumes "\<And>w es. I w \<Longrightarrow> I (w\<lparr>trace := es\<rparr>)"
  shows "keeps I (create_password E)"
proof -
  have "keeps I (create_password_loop E n)" for n
    by (induction n) (auto simp: secrets_choice_def intro!: keeps assms)
  then show ?thesis by (simp add: create_password_def)
qed

section \<open>The cluster-wide lock\<close>

text \<open>
  The contract of a lock operation: one call, no other effect.  Everything that runs under such
  a lock has the shape below, so the theorem about \<open>locking\<close> is an instance.
\<close>

locale mutex =
  fixes acquire release :: "unit op" and acq rel :: event
  assumes acquire_call: "\<exists>r. acquire w = (r, w\<lparr>trace := trace w @ [acq]\<rparr>)"
    and release_call: "\<exists>r. release w = (r, w\<lparr>trace := trace w @ [rel]\<rparr>)"
begin

lemma attempts_acquire:
  "\<exists>k r. 1 \<le> k \<and> k \<le> Suc n \<and>
     attempts (Suc n) acquire w = (r, w\<lparr>trace := trace w @ replicate k acq\<rparr>) \<and>
     fst (acquire (w\<lparr>trace := trace w @ replicate (k - 1) acq\<rparr>)) = r"
proof (induction n arbitrary: w)
  case 0
  obtain r where "acquire w = (r, w\<lparr>trace := trace w @ [acq]\<rparr>)" using acquire_call by blast
  then show ?case by (intro exI [where x = 1] exI [where x = r]) simp
next
  case (Suc n)
  obtain r where r: "acquire w = (r, w\<lparr>trace := trace w @ [acq]\<rparr>)" using acquire_call by blast
  show ?case
  proof (cases "\<exists>e. r = Inl e \<and> caught [PyException] e")
    case True
    then have st: "attempts (Suc (Suc n)) acquire w = attempts (Suc n) acquire (w\<lparr>trace := trace w @ [acq]\<rparr>)"
      using r by auto
    obtain k r' where k: "1 \<le> k" "k \<le> Suc n"
      "attempts (Suc n) acquire (w\<lparr>trace := trace w @ [acq]\<rparr>) =
         (r', w\<lparr>trace := trace w @ [acq] @ replicate k acq\<rparr>)"
      "fst (acquire (w\<lparr>trace := trace w @ [acq] @ replicate (k - 1) acq\<rparr>)) = r'"
      using Suc.IH [of "w\<lparr>trace := trace w @ [acq]\<rparr>"] by auto
    have "[acq] @ replicate (k - 1) acq = replicate k acq" using k(1) by (cases k) auto
    with k st show ?thesis
      by (intro exI [where x = "Suc k"] exI [where x = r']) auto
  next
    case False
    then have "attempts (Suc (Suc n)) acquire w = (r, w\<lparr>trace := trace w @ [acq]\<rparr>)"
      using r by (cases r) auto
    with r show ?thesis by (intro exI [where x = 1] exI [where x = r]) auto
  qed
qed

lemma protocol:
  "\<exists>k. 1 \<le> k \<and> k \<le> Suc n \<and>
    (let w0 = w\<lparr>trace := trace w @ replicate (k - 1) acq\<rparr>; w1 = w\<lparr>trace := trace w @ replicate k acq\<rparr>;
         out = seqM (attempts (Suc n) acquire) (try_finally body release) w in
     (\<exists>e. out = (Inl e, w1)) \<or>
     fst (acquire w0) = Inr () \<and>
     snd out = (snd (body w1))\<lparr>trace := trace (snd (body w1)) @ [rel]\<rparr> \<and>
     (fst out = fst (body w1) \<or> (\<exists>e. fst out = Inl e)))"
proof -
  obtain k r where k: "1 \<le> k" "k \<le> Suc n"
    "attempts (Suc n) acquire w = (r, w\<lparr>trace := trace w @ replicate k acq\<rparr>)"
    "fst (acquire (w\<lparr>trace := trace w @ replicate (k - 1) acq\<rparr>)) = r"
    using attempts_acquire by blast
  let ?w1 = "w\<lparr>trace := trace w @ replicate k acq\<rparr>"
  show ?thesis
  proof (cases r)
    case (Inl e)
    with k show ?thesis
      by (intro exI [where x = k]) (simp add: seqM_simps(2) del: attempts.simps)
  next
    case (Inr u)
    obtain rb w2 where b: "body ?w1 = (rb, w2)" by force
    obtain rr where "release w2 = (rr, w2\<lparr>trace := trace w2 @ [rel]\<rparr>)" using release_call by blast
    with k Inr b show ?thesis
      by (intro exI [where x = k])
        (auto simp: seqM_simps(1) try_finally_def Let_def simp del: attempts.simps split: sum.splits)
  qed
qed

end

interpretation lock: mutex "acquire_lock E h l t" "release_lock E h l t" "acquire_event h l t" "release_event h l t"
  for E h l t
  by unfold_locales
    (simp_all add: acquire_lock_def release_lock_def bindM_def monad_simps split: sum.splits)

text \<open>
  (C3) The cluster-wide lock: the operation under the lock runs only after an attempt to
  acquire the lock (the last of at most ten, made back to back) has returned with this instance
  among its holders; it then runs exactly once, and the lock is released right after it, whether
  it returned or raised.  When no attempt succeeds nothing but the attempts has happened and an
  exception is raised.
\<close>

theorem locking_protocol:
  "\<exists>k. 1 \<le> k \<and> k \<le> 10 \<and>
    (let acq = acquire_event h l t; w1 = w\<lparr>trace := trace w @ replicate k acq\<rparr>;
         out = locking E h l t body w in
     (\<exists>e. out = (Inl e, w1)) \<or>
     (\<exists>locks. ans_strs E (trace w @ replicate (k - 1) acq) acq = Inr locks \<and> l \<in> set locks) \<and>
     snd out = (snd (body w1))\<lparr>trace := trace (snd (body w1)) @ [release_event h l t]\<rparr> \<and>
     (fst out = fst (body w1) \<or> (\<exists>e. fst out = Inl e)))"
proof -
  have a: "\<exists>locks. ans_strs E (trace w0) (acquire_event h l t) = Inr locks \<and> l \<in> set locks"
    if "fst (acquire_lock E h l t w0) = Inr ()" for w0
    using that by (auto simp: acquire_lock_def bindM_def monad_simps split: sum.splits if_splits)
  have n: "(10 :: nat) = Suc 9" by simp
  show ?thesis
    unfolding locking_def n Let_def
    using lock.protocol [where n = 9 and w = w and E = E and h = h and l = l and t = t and body = body,
        unfolded Let_def] a by fastforce
qed

section \<open>Names and passwords\<close>

text \<open>
  The name of a database's administrator role: it has the prefix, the database's name cut
  to 17 characters and the number of roles that already match, so it fits MySQL's limit of 32
  characters as long as fewer than a hundred roles match.
\<close>

theorem dba_role_name_bounded:
  assumes "build_database_dba_role E h db w = (Inr role, w')"
  shows "\<exists>found. ans_strs E (trace w) (Sql h (SearchRoles (''charmed_dba_'' @ take 17 db @ ''_%''))) = Inr found
    \<and> role = ''charmed_dba_'' @ take 17 db @ ''_'' @ zfill 2 (show_nat (length found))
    \<and> (length found \<ge> 100 \<or> length role \<le> 32)"
proof -
  obtain found where f: "ans_strs E (trace w) (Sql h (SearchRoles (''charmed_dba_'' @ take 17 db @ ''_%''))) = Inr found"
    and r: "role = ''charmed_dba_'' @ take 17 db @ ''_'' @ zfill 2 (show_nat (length found))"
    using assms
    by (auto simp: build_database_dba_role_def system_rolename_len_def Let_def bindM_def monad_simps
        numeral_2_eq_2 split: sum.splits)
  have "length (zfill 2 (show_nat (length found))) \<le> 2" if "length found < 100"
    using show_nat_length [of "length found" 2] that by (simp add: zfill_def)
  then have "length found \<ge> 100 \<or> length role \<le> 32" unfolding r by fastforce
  with f r show ?thesis by blast
qed

theorem dba_role_name_bounded_witness:
  "fst (build_database_dba_role quiet_env ''h0'' ''a_database_with_a_long_name'' quiet_world) =
     Inr ''charmed_dba_a_database_with_a_00'' \<and> length ''charmed_dba_a_database_with_a_00'' \<le> 32"
proof -
  let ?m = "build_database_dba_role quiet_env ''h0'' ''a_database_with_a_long_name'' quiet_world"
  have f: "fst ?m = Inr ''charmed_dba_a_database_with_a_00''" by code_simp
  then have "?m = (Inr ''charmed_dba_a_database_with_a_00'', snd ?m)" by (metis prod.collapse)
  from dba_role_name_bounded [OF this] f show ?thesis by simp
qed

lemma mapM_Inr:
  "mapM f xs w = (Inr ys, w') \<Longrightarrow> length ys = length xs \<and>
     (\<forall>y \<in> set ys. \<exists>x \<in> set xs. \<exists>v v'. f x v = (Inr y, v'))"
proof (induction xs arbitrary: w ys)
  case (Cons x xs)
  then obtain y w1 zs where "f x w = (Inr y, w1)" "mapM f xs w1 = (Inr zs, w')" "ys = y # zs"
    by (auto simp: bindM_Inr_iff monad_simps)
  with Cons.IH [of w1 zs] show ?case by auto
qed (simp add: monad_simps)

lemma secrets_choice_member: "cs \<noteq> [] \<Longrightarrow> secrets_choice E cs w = (Inr c, w') \<Longrightarrow> c \<in> set cs"
  by (auto simp: secrets_choice_def bindM_Inr_iff monad_simps)

lemma create_password_loop_strong:
  "create_password_loop E n w = (Inr p, w') \<Longrightarrow>
     length p = 24 \<and> strong_password p \<and> set p \<subseteq> set password_choices"
proof (induction n arbitrary: w)
  case (Suc n)
  then obtain q w1 where q: "mapM (\<lambda>_. secrets_choice E password_choices) [0..<system_password_len] w = (Inr q, w1)"
    and p: "(if strong_password q then ret q else create_password_loop E n) w1 = (Inr p, w')"
    by (auto simp: bindM_Inr_iff)
  show ?case
  proof (cases "strong_password q")
    case True
    then have "p = q" using p by (simp add: monad_simps)
    moreover have "set q \<subseteq> set password_choices"
    proof -
      have "password_choices \<noteq> []" by (simp add: password_choices_def)
      then show ?thesis using mapM_Inr [OF q] secrets_choice_member by blast
    qed
    ultimately show ?thesis using True mapM_Inr [OF q] by (simp add: system_password_len_def)
  next
    case False
    with p Suc.IH show ?thesis by simp
  qed
qed (simp add: monad_simps)

text \<open>A source of random numbers: the answer to the \<open>n\<close>-th call is \<open>d n\<close>.\<close>

definition drawn :: "(nat \<Rightarrow> nat) \<Rightarrow> nat \<Rightarrow> string" where
  "drawn d n = map (\<lambda>i. password_choices ! (d (n + i) mod length password_choices)) [0..<24]"

lemma mapM_draws:
  assumes "ans_nat E = (\<lambda>tr _. Inr (d (length tr)))"
  shows "mapM (\<lambda>_. secrets_choice E cs) xs w =
    (Inr (map (\<lambda>i. cs ! (d (length (trace w) + i) mod length cs)) [0..<length xs]),
     w\<lparr>trace := trace w @ replicate (length xs) (Sys (RandomChoice (length cs)))\<rparr>)"
proof (induction xs arbitrary: w)
  case (Cons x xs)
  have "map (\<lambda>i. cs ! (d (length (trace w) + i) mod length cs)) [0..<Suc n] =
    cs ! (d (length (trace w)) mod length cs)
      # map (\<lambda>i. cs ! (d (length (trace w @ [ev]) + i) mod length cs)) [0..<n]" for n ev
    by (simp only: upt_conv_Cons [OF zero_less_Suc] map_Suc_upt [symmetric]) simp
  moreover have "secrets_choice E cs w = (Inr (cs ! (d (length (trace w)) mod length cs)),
      w\<lparr>trace := trace w @ [Sys (RandomChoice (length cs))]\<rparr>)"
    by (simp add: secrets_choice_def bindM_def monad_simps assms)
  ultimately show ?case
    by (simp add: bindM_def monad_simps Cons del: upt_Suc)
qed (simp add: monad_simps)

lemma create_password_loop_returns:
  assumes d: "ans_nat E = (\<lambda>tr _. Inr (d (length tr)))"
    and "strong_password (drawn d (length (trace w) + 24 * k))"
    and "\<And>j. j < k \<Longrightarrow> \<not> strong_password (drawn d (length (trace w) + 24 * j))"
  shows "k < n \<Longrightarrow> fst (create_password_loop E n w) = Inr (drawn d (length (trace w) + 24 * k))"
  using assms(2,3)
proof (induction k arbitrary: n w)
  case 0
  then show ?case
    by (cases n) (simp_all add: bindM_def mapM_draws [OF d] monad_simps drawn_def system_password_len_def del: upt_Suc)
next
  case (Suc k)
  then obtain m where m: "n = Suc m" "k < m" by (cases n) auto
  let ?w = "w\<lparr>trace := trace w @ replicate 24 (Sys (RandomChoice (length password_choices)))\<rparr>"
  have l: "length (trace ?w) + 24 * j = length (trace w) + 24 * Suc j" for j by simp
  have "\<not> strong_password (drawn d (length (trace w)))" using Suc.prems(3) [of 0] by simp
  then have "create_password_loop E n w = create_password_loop E m ?w"
    unfolding m(1) by (simp add: bindM_def mapM_draws [OF d] drawn_def system_password_len_def del: upt_Suc)
  moreover have "\<not> strong_password (drawn d (length (trace ?w) + 24 * j))" if "j < k" for j
    using Suc.prems(3) [of "Suc j"] that unfolding l by simp
  moreover have "strong_password (drawn d (length (trace ?w) + 24 * k))"
    using Suc.prems(2) unfolding l .
  ultimately show ?case using Suc.IH [OF m(2), of ?w] unfolding l by simp
qed

text \<open>
  (C31) Generated passwords: with a source of random numbers whose \<open>k\<close>-th batch of 24 draws is
  the first with a lower case letter, an upper case letter and a digit, and fuel for more than
  \<open>k\<close> rounds, the loop ends and returns that batch; the password has 24 characters, one of
  each class, and nothing but letters and digits.
\<close>

theorem create_password_returns_strong:
  assumes "ans_nat E = (\<lambda>tr _. Inr (d (length tr)))" and "k < loop_fuel E"
    and "strong_password (drawn d (length (trace w) + 24 * k))"
    and "\<And>j. j < k \<Longrightarrow> \<not> strong_password (drawn d (length (trace w) + 24 * j))"
  shows "\<exists>p. fst (create_password E w) = Inr p \<and> p = drawn d (length (trace w) + 24 * k) \<and>
    length p = 24 \<and> list_ex is_ascii_lower p \<and> list_ex is_ascii_upper p \<and> list_ex is_digit p \<and>
    set p \<subseteq> set password_choices"
proof -
  have f: "fst (create_password E w) = Inr (drawn d (length (trace w) + 24 * k))"
    unfolding create_password_def using create_password_loop_returns [OF assms(1,3,4,2)] by simp
  then obtain w' where "create_password_loop E (loop_fuel E) w = (Inr (drawn d (length (trace w) + 24 * k)), w')"
    unfolding create_password_def by (metis prod.collapse)
  from create_password_loop_strong [OF this] f show ?thesis by (auto simp: strong_password_def)
qed

text \<open>The first batch is all \<open>a\<close>, the second counts up in steps of five.\<close>

definition sample_draws :: "nat \<Rightarrow> nat" where
  "sample_draws n = (if n < 24 then 0 else 5 * n)"

theorem create_password_returns_strong_witness:
  "fst (create_password (quiet_env\<lparr>ans_nat := \<lambda>tr _. Inr (sample_draws (length tr))\<rparr>) quiet_world) =
     Inr ''6bglqvAFKPUZ49ejotyDINSX''"
proof -
  let ?E = "quiet_env\<lparr>ans_nat := \<lambda>tr _. Inr (sample_draws (length tr))\<rparr>"
  have p: "\<not> strong_password (drawn sample_draws 0)"
    "strong_password (drawn sample_draws 24)" "drawn sample_draws 24 = ''6bglqvAFKPUZ49ejotyDINSX''"
    by code_simp+
  have "\<exists>p. fst (create_password ?E quiet_world) = Inr p \<and> p = drawn sample_draws (length (trace quiet_world) + 24 * 1) \<and>
    length p = 24 \<and> list_ex is_ascii_lower p \<and> list_ex is_ascii_upper p \<and> list_ex is_digit p \<and>
    set p \<subseteq> set password_choices"
    using p by (intro create_password_returns_strong) (simp_all add: quiet_env_def quiet_world_def)
  with p show ?thesis by (simp add: quiet_world_def)
qed

section \<open>Recreating a cluster\<close>

lemma run_block_acts:
  "\<exists>k \<le> length es. trace (snd (block (map (\<lambda>e. act E e) es) w)) = trace w @ take k es \<and>
     (fst (block (map (\<lambda>e. act E e) es) w) = Inr () \<longrightarrow> k = length es)"
proof (induction es arbitrary: w)
  case (Cons e es)
  have b: "block (map (act E) (e # es)) = seqM (act E e) (block (map (act E) es))"
    by (cases es) (auto simp: seqM_def bindM_def ret_def fun_eq_iff ask_def split: sum.splits)
  show ?case
  proof (cases "ans_unit E (trace w) e")
    case (Inl x)
    then show ?thesis unfolding b by (intro exI [where x = 1]) (simp add: seqM_def bindM_def monad_simps)
  next
    case (Inr u)
    let ?w = "w\<lparr>trace := trace w @ [e]\<rparr>"
    obtain k where "k \<le> length es" "trace (snd (block (map (act E) es) ?w)) = trace ?w @ take k es"
      "fst (block (map (act E) es) ?w) = Inr () \<longrightarrow> k = length es"
      using Cons.IH by blast
    then show ?thesis
      unfolding b using Inr by (intro exI [where x = "Suc k"]) (simp add: seqM_def bindM_def monad_simps)
  qed
qed (simp add: monad_simps)

text \<open>
  A cluster is recreated in a fixed order: the table of locks, the cluster, the label of
  its first instance, the cluster set, and a scan of the topology.  Whatever fails, the calls made
  are a beginning of that sequence, and success means all of them were made.  The cluster set gets
  the name the clients were built with, whatever name the databag has by now.
\<close>

theorem recreate_cluster_order:
  "\<exists>k. k \<le> 5 \<and> trace (snd (recreate_cluster E l w)) = trace w @ take k
     [Sql (client_host E) (ExecuteSql [LockTableCreation]),
      Clu (client_host E) (CreateCluster (client_cluster E) [(''communicationStack'', VStr ''MySQL'')]),
      Clu (client_host E) (UpdateInstance (client_cluster E) (client_host E) (client_port E) [(''label'', VStr l)]),
      Clu (client_host E) (CreateClusterSet (client_cluster E) (client_cluster_set E)),
      Clu (client_host E) (RescanCluster (client_cluster E))] \<and>
   (k = 5 \<or> (\<exists>e. fst (recreate_cluster E l w) = Inl e))"
proof -
  let ?es = "[Sql (client_host E) (ExecuteSql [LockTableCreation]),
      Clu (client_host E) (CreateCluster (client_cluster E) [(''communicationStack'', VStr ''MySQL'')]),
      Clu (client_host E) (UpdateInstance (client_cluster E) (client_host E) (client_port E) [(''label'', VStr l)]),
      Clu (client_host E) (CreateClusterSet (client_cluster E) (client_cluster_set E)),
      Clu (client_host E) (RescanCluster (client_cluster E))]"
  have eq: "recreate_cluster E l = block (map (act E) ?es)"
    by (simp add: recreate_cluster_def init_locks_table_def cluster_create_def cset_create_def
        cluster_rescan_def seqM_def bindM_assoc)
  obtain k where "k \<le> length ?es" "trace (snd (recreate_cluster E l w)) = trace w @ take k ?es"
    "fst (recreate_cluster E l w) = Inr () \<longrightarrow> k = length ?es"
    using run_block_acts [of ?es E w] unfolding eq by blast
  then show ?thesis by (cases "fst (recreate_cluster E l w)") (intro exI [where x = k]; auto)+
qed

end
