(* ===== verification/Workload.thy ===== *)
theory Workload
  imports Clients
begin

text \<open>
  The workload layer (\<open>workload/\<close>): the system user and the shell of each substrate, what the
  runtimes report about cores, memory, host names and Kubernetes objects, and the MySQL
  server and exporter services as they are installed, set up, started and stopped through Pebble
  or snapd.  A property that the source caches is asked again here.
\<close>

section \<open>Systems and shells\<close>

definition system_user :: "env \<Rightarrow> string" where
  "system_user E = (case substrate E of K8S \<Rightarrow> ''mysql'' | VM \<Rightarrow> ''snap_daemon'')"

definition system_group :: "env \<Rightarrow> string" where
  "system_group E = (case substrate E of K8S \<Rightarrow> ''mysql'' | VM \<Rightarrow> ''root'')"

abbreviation the_paths :: "env \<Rightarrow> paths" where
  "the_paths E \<equiv> system_paths (substrate E)"

definition system_ready :: "env \<Rightarrow> bool op" where
  "system_ready E = (case substrate E of K8S \<Rightarrow> ask (ans_bool E) (Wkl CanConnect) | VM \<Rightarrow> ret True)"

definition needs_root :: "string list \<Rightarrow> bool" where
  "needs_root command = list_ex (\<lambda>s. ends_with s (hd command))
     [''charmed-mysql.mysqld-initialize'', ''charmed-mysql.xbcloud'',
      ''charmed-mysql.xbstream'', ''charmed-mysql.xtrabackup'']"

definition resolve_user :: "env \<Rightarrow> string list \<Rightarrow> string" where
  "resolve_user E command = (if needs_root command then ''root'' else system_user E)"

definition resolve_group :: "env \<Rightarrow> string list \<Rightarrow> string" where
  "resolve_group E command = (if needs_root command then ''root'' else system_group E)"

definition command_failed :: "string \<Rightarrow> exn" where
  "command_failed code = runtime_error (''Failed to execute command: '' @ code)"

definition container_execute_sync :: "env \<Rightarrow> string list \<Rightarrow> string dict \<Rightarrow> string op" where
  "container_execute_sync E command environ =
     bindM (try_except
       (ask (ans_str E) (Wkl (ContainerExec (system_user E) (system_group E) command environ)))
       [ExecErrorC] (\<lambda>e. raise (command_failed (message e))))
     (\<lambda>stdout. ret (strip stdout))"

definition machine_execute_sync :: "env \<Rightarrow> string list \<Rightarrow> string dict \<Rightarrow> string op" where
  "machine_execute_sync E command environ =
     bindM (ask (ans_proc E) (Sys (RunProcess (resolve_user E command) (resolve_group E command) command environ)))
     (\<lambda>(returncode, stdout).
       if returncode \<noteq> 0 then raise (command_failed (str_int returncode)) else ret (strip stdout))"

definition execute_sync :: "env \<Rightarrow> string list \<Rightarrow> string dict \<Rightarrow> string op" where
  "execute_sync E = (case substrate E of
     K8S \<Rightarrow> container_execute_sync E | VM \<Rightarrow> machine_execute_sync E)"

text \<open>The body of the \<open>with\<close> statement runs while the process does; the process is always waited for.\<close>

definition container_execute_async :: "env \<Rightarrow> string list \<Rightarrow> string dict \<Rightarrow> 'a op \<Rightarrow> 'a op" where
  "container_execute_async E command environ body =
     seqM (act E (Wkl (ContainerSpawn (system_user E) (system_group E) command environ)))
       (try_finally body
         (try_except (act E (Wkl (ContainerWait command))) [ExecErrorC]
           (\<lambda>e. raise (command_failed (message e)))))"

definition machine_execute_async :: "env \<Rightarrow> string list \<Rightarrow> string dict \<Rightarrow> 'a op \<Rightarrow> 'a op" where
  "machine_execute_async E command environ body =
     seqM (act E (Sys (SpawnProcess (resolve_user E command) (resolve_group E command) command environ)))
       (bindM (outcome body) (\<lambda>r.
        bindM (ask (ans_proc E) (Sys (WaitProcess command))) (\<lambda>(code, _).
        bindM (lift r) (\<lambda>x. if code \<noteq> 0 then raise (command_failed (str_int code)) else ret x))))"

definition execute_async :: "env \<Rightarrow> string list \<Rightarrow> string dict \<Rightarrow> 'a op \<Rightarrow> 'a op" where
  "execute_async E command environ body = (case substrate E of
     K8S \<Rightarrow> container_execute_async E command environ body
   | VM \<Rightarrow> machine_execute_async E command environ body)"

section \<open>The container runtime\<close>

definition word_char :: "char \<Rightarrow> bool" where
  "word_char c \<longleftrightarrow> is_alpha c \<or> is_digit c \<or> c = CHR ''_'' \<or>
     (of_char c :: nat) \<in> {178, 179, 185, 188, 189, 190}"

text \<open>
  \<open>re.match(r"^(\d+)(\w+)$", s)\<close>: the digits are greedy, but leave one character to the second
  group, and \<open>$\<close> also matches before a final newline.
\<close>

definition memory_match :: "string \<Rightarrow> (string \<times> string) option" where
  "memory_match s =
     (let t = (if s \<noteq> [] \<and> last s = newline then butlast s else s);
          ds = takeWhile is_digit t; r = dropWhile is_digit t in
      if ds = [] then None
      else if r = [] then (if length ds \<ge> 2 then Some (butlast ds, [last ds]) else None)
      else if list_all word_char r then Some (ds, r) else None)"

definition memory_bytes :: "int dict" where
  "memory_bytes =
     [(''KI'', 1024), (''K'', 1000), (''MI'', 1048576), (''M'', 1000000),
      (''GI'', 1073741824), (''G'', 1000000000), (''TI'', 1099511627776), (''T'', 1000000000000)]"

definition parse_procs :: "string \<Rightarrow> exn + int" where
  "parse_procs procs = (case int_of_str (hd (split_char (CHR ''m'') procs)) of
     Inl e \<Rightarrow> Inl e | Inr n \<Rightarrow> Inr (n div 1000))"

abbreviation quote :: char where "quote \<equiv> CHR 0x27"

definition quoted :: "string \<Rightarrow> string" where
  "quoted s = [quote] @ s @ [quote]"

definition parse_memory :: "string \<Rightarrow> exn + int" where
  "parse_memory memory = (case memory_match memory of
     None \<Rightarrow> Inl (runtime_error (''Failed to parse memory '' @ quoted memory))
   | Some (memory_value, memory_units) \<Rightarrow>
       (case dict_index memory_bytes (map to_upper memory_units) of
          Inl e \<Rightarrow> Inl e
        | Inr unit_bytes \<Rightarrow> Inr (int (read_nat memory_value) * unit_bytes)))"

text \<open>\<open>try: int(s) except ValueError: parse(s)\<close>, on a quantity that may be absent or empty.\<close>

definition quantity :: "(string \<Rightarrow> exn + int) \<Rightarrow> string option \<Rightarrow> exn + int option" where
  "quantity parse q = (if falsy q then Inr None
     else (case int_of_str (the q) of
             Inr n \<Rightarrow> Inr (Some n)
           | Inl e \<Rightarrow> if caught [PyValueError] e
               then (case parse (the q) of Inl e \<Rightarrow> Inl e | Inr n \<Rightarrow> Inr (Some n)) else Inl e))"

definition pod_name :: "env \<Rightarrow> string" where
  "pod_name E = replace_char (CHR ''/'') ''-'' (unit_name E)"

definition node_name :: "env \<Rightarrow> string op" where
  "node_name E =
     bindM (ask (ans_pod E) (Wkl (GetPod (pod_name E)))) (\<lambda>p.
       case pod_spec p of
         None \<Rightarrow> raise (runtime_error (''Failed to get node name for pod '' @ pod_name E))
       | Some spec \<Rightarrow> if falsy (pod_node_name spec)
           then raise (runtime_error (''Failed to get node name for pod '' @ pod_name E))
           else ret (the (pod_node_name spec)))"

definition container_name :: string where "container_name = ''mysql''"

definition get_container_limits :: "env \<Rightarrow> string dict op" where
  "get_container_limits E =
     bindM (ask (ans_pod E) (Wkl (GetPod (pod_name E)))) (\<lambda>p.
       ret (case pod_spec p of
         None \<Rightarrow> []
       | Some spec \<Rightarrow>
           (case find (\<lambda>c. ct_name c = container_name \<and> ct_limits c \<noteq> None) (pod_containers spec) of
              None \<Rightarrow> []
            | Some c \<Rightarrow> (case the (ct_limits c) of None \<Rightarrow> [] | Some limits \<Rightarrow> limits))))"

definition get_container_cores :: "env \<Rightarrow> int option op" where
  "get_container_cores E = bindM (get_container_limits E) (\<lambda>limits.
     lift (quantity parse_procs (map_of limits ''cpu'')))"

definition get_container_memory :: "env \<Rightarrow> int option op" where
  "get_container_memory E = bindM (get_container_limits E) (\<lambda>limits.
     lift (quantity parse_memory (map_of limits ''memory'')))"

definition get_node_cores :: "env \<Rightarrow> int option op" where
  "get_node_cores E =
     bindM (node_name E) (\<lambda>n. bindM (ask (ans_node E) (Wkl (GetNode n))) (\<lambda>status.
       case status of
         None \<Rightarrow> ret None
       | Some allocatable \<Rightarrow> lift (quantity parse_procs
           (map_of (case allocatable of None \<Rightarrow> [] | Some d \<Rightarrow> d) ''cpu''))))"

definition get_node_memory :: "env \<Rightarrow> int option op" where
  "get_node_memory E =
     bindM (node_name E) (\<lambda>n. bindM (ask (ans_node E) (Wkl (GetNode n))) (\<lambda>status.
       case status of
         None \<Rightarrow> ret None
       | Some allocatable \<Rightarrow> lift (quantity parse_memory
           (map_of (case allocatable of None \<Rightarrow> [] | Some d \<Rightarrow> d) ''memory''))))"

text \<open>\<open>min(x for x in (a, b) if x)\<close>: a \<open>ValueError\<close> when both are absent or zero.\<close>

definition min_present :: "int option \<Rightarrow> int option \<Rightarrow> exn + int" where
  "min_present a b = (case filter truthy_int [a, b] of
     [] \<Rightarrow> Inl (value_error ''min() iterable argument is empty'')
   | [x] \<Rightarrow> Inr (the x)
   | x # y # _ \<Rightarrow> Inr (min (the x) (the y)))"

definition container_get_cores :: "env \<Rightarrow> int op" where
  "container_get_cores E =
     bindM (try_except
       (bindM (get_container_cores E) (\<lambda>c. bindM (get_node_cores E) (\<lambda>n. ret (c, n))))
       [ApiErrorC] (\<lambda>_. raise (runtime_error ''Failed to fetch core information'')))
     (\<lambda>(container_cores, allocable_cores). lift (min_present container_cores allocable_cores))"

definition container_get_memory :: "env \<Rightarrow> int op" where
  "container_get_memory E =
     bindM (try_except
       (bindM (get_container_memory E) (\<lambda>c. bindM (get_node_memory E) (\<lambda>n. ret (c, n))))
       [ApiErrorC] (\<lambda>_. raise (runtime_error ''Failed to fetch memory information'')))
     (\<lambda>(container_memory, allocable_memory). lift (min_present container_memory allocable_memory))"

definition container_get_hostname :: "env \<Rightarrow> string \<Rightarrow> string op" where
  "container_get_hostname E address =
     bindM (try_except (ask (ans_strs E) (Sys (GetAddrInfo address))) [GaiErrorC]
       (\<lambda>_. raise (runtime_error (''Failed to resolve hostname for '' @ address))))
     (\<lambda>info. case info of
        [] \<Rightarrow> raise (runtime_error (''Failed to determine hostname for '' @ address))
      | hostname # _ \<Rightarrow> ret (if ends_with ''.'' hostname then hostname else hostname @ ''.''))"

definition check_service :: "env \<Rightarrow> string \<Rightarrow> nat \<Rightarrow> unit op" where
  "check_service E address port =
     attempts (Suc (retry_budget E)) (act E (Sys (Connect address port)))"

definition create_service :: "env \<Rightarrow> string \<Rightarrow> string dict \<Rightarrow> nat \<Rightarrow> unit op" where
  "create_service E name labels port =
     try_except (act E (Wkl (CreateService name labels port))) [ApiErrorC]
       (\<lambda>e. if api_code E e = 409 then ret () else raise (runtime_error ''Failed to create service''))"

definition update_labels :: "env \<Rightarrow> string \<Rightarrow> string dict \<Rightarrow> unit op" where
  "update_labels E name labels =
     try_except
       (bindM (ask (ans_pod E) (Wkl (GetPod name))) (\<lambda>p.
          act E (Wkl (PatchPod name (case pod_labels p of
            None \<Rightarrow> [] | Some [] \<Rightarrow> [] | Some ls \<Rightarrow> dict_update ls labels)))))
       [ApiErrorC]
       (\<lambda>e. let msg = message e;
                msg = (if api_code E e = 403 then ''`juju trust` needed'' else msg);
                msg = (if api_code E e = 404 then ''pod '' @ name @ '' not found'' else msg);
                msg = (if api_code E e = 409 then ''pod '' @ name @ '' changed'' else msg)
            in raise (runtime_error (''Failed to update pod labels: '' @ msg)))"

section \<open>The machine runtime\<close>

definition machine_get_cores :: "env \<Rightarrow> int op" where
  "machine_get_cores E = bindM (read_text E ''/proc/cpuinfo'') (\<lambda>cpu_info.
     ret (int (length (filter (starts_with ''processor'') (text_lines cpu_info)))))"

text \<open>\<open>s.split()\<close>: the runs of characters that are not white space.\<close>

fun words_aux :: "string \<Rightarrow> string \<Rightarrow> string list" where
  "words_aux cur [] = (if cur = [] then [] else [rev cur])"
| "words_aux cur (c # s) =
     (if is_space c then (if cur = [] then words_aux [] s else rev cur # words_aux [] s)
      else words_aux (c # cur) s)"

definition split_words :: "string \<Rightarrow> string list" where
  "split_words s = words_aux [] s"

definition meminfo_bytes :: "string \<Rightarrow> exn + int" where
  "meminfo_bytes memory_info =
     (case find (starts_with ''MemTotal'') (text_lines memory_info) of
        None \<Rightarrow> Inl (runtime_error ''Failed to calculate runtime memory'')
      | Some line \<Rightarrow> (case split_words line of
          _ # kb # _ \<Rightarrow> (case int_of_str kb of Inl e \<Rightarrow> Inl e | Inr n \<Rightarrow> Inr (n * 1024))
        | _ \<Rightarrow> Inl index_error))"

definition machine_get_memory :: "env \<Rightarrow> int op" where
  "machine_get_memory E = bindM (read_text E ''/proc/meminfo'') (\<lambda>memory_info. lift (meminfo_bytes memory_info))"

definition machine_get_hostname :: "env \<Rightarrow> string \<Rightarrow> string op" where
  "machine_get_hostname E address = ask (ans_str E) (Sys GetFqdn)"

definition machine_remove_hosts :: "env \<Rightarrow> unit op" where
  "machine_remove_hosts E = act E (Sys HostsRemove)"

definition machine_update_hosts :: "env \<Rightarrow> string \<Rightarrow> string list \<Rightarrow> unit op" where
  "machine_update_hosts E address names =
     try_except (act E (Sys (HostsAdd address names))) [UnableToWriteHostsC]
       (\<lambda>e. raise (runtime_error (''Failed to update hostnames: '' @ message e)))"

definition get_cores :: "env \<Rightarrow> int op" where
  "get_cores E = (case substrate E of K8S \<Rightarrow> container_get_cores E | VM \<Rightarrow> machine_get_cores E)"

definition get_memory :: "env \<Rightarrow> int op" where
  "get_memory E = (case substrate E of K8S \<Rightarrow> container_get_memory E | VM \<Rightarrow> machine_get_memory E)"

definition get_hostname :: "env \<Rightarrow> string \<Rightarrow> string op" where
  "get_hostname E address = (case substrate E of
     K8S \<Rightarrow> container_get_hostname E address | VM \<Rightarrow> machine_get_hostname E address)"

definition remove_hosts :: "env \<Rightarrow> unit op" where
  "remove_hosts E = (case substrate E of K8S \<Rightarrow> ret () | VM \<Rightarrow> machine_remove_hosts E)"

definition update_hosts :: "env \<Rightarrow> string \<Rightarrow> string list \<Rightarrow> unit op" where
  "update_hosts E address names = (case substrate E of
     K8S \<Rightarrow> ret () | VM \<Rightarrow> machine_update_hosts E address names)"

section \<open>The server service\<close>

definition server_name :: string where "server_name = ''mysqld''"
definition server_port :: nat where "server_port = 3306"
definition snap_name :: string where "snap_name = ''charmed-mysql''"

definition wait_for_connection :: "env \<Rightarrow> nat \<Rightarrow> unit op" where
  "wait_for_connection E port =
     attempts (Suc (retry_budget E)) (act E (Sys (Connect ''127.0.0.1'' port)))"

definition container_running :: "env \<Rightarrow> string \<Rightarrow> bool op" where
  "container_running E name =
     bindM (ask (ans_bool E) (Wkl CanConnect)) (\<lambda>connected.
       if \<not> connected then ret False
       else bindM (ask (ans_strs E) (Wkl (GetServices name))) (\<lambda>services.
         if services = [] then ret False
         else if name \<notin> set services then raise (key_error name)
         else ask (ans_bool E) (Wkl (IsRunning name))))"

definition snap_running :: "env \<Rightarrow> string \<Rightarrow> bool op" where
  "snap_running E name =
     bindM (ask (ans_bool E) (Wkl SnapPresent)) (\<lambda>present.
       if \<not> present then ret False else ask (ans_bool E) (Wkl (SnapActive name)))"

definition server_running :: "env \<Rightarrow> bool op" where
  "server_running E = (case substrate E of
     K8S \<Rightarrow> container_running E server_name | VM \<Rightarrow> snap_running E server_name)"

definition find_data_files :: "env \<Rightarrow> string op" where
  "find_data_files E = execute_sync E
     [''find'', mysql_data (the_paths E), ''-maxdepth'', ''1'', ''-mindepth'', ''1'', ''-path'',
      path_div (mysql_data (the_paths E)) ''*.ibd''] []"

definition k8s_server_initialized :: "env \<Rightarrow> bool op" where
  "k8s_server_initialized E =
     bindM (ask (ans_bool E) (Wkl CanConnect)) (\<lambda>connected.
       if \<not> connected then ret False
       else bindM (find_data_files E) (\<lambda>data_files. ret (data_files \<noteq> [])))"

definition vm_server_initialized :: "env \<Rightarrow> bool op" where
  "vm_server_initialized E = bindM (find_data_files E) (\<lambda>data_files. ret (data_files \<noteq> []))"

definition server_initialized :: "env \<Rightarrow> bool op" where
  "server_initialized E = (case substrate E of
     K8S \<Rightarrow> k8s_server_initialized E | VM \<Rightarrow> vm_server_initialized E)"

definition generate_layer_env :: "(string \<Rightarrow> string option) \<Rightarrow> string dict" where
  "generate_layer_env getenv =
     (let get = (\<lambda>k. case getenv k of None \<Rightarrow> [] | Some v \<Rightarrow> v);
          external_http_proxy = get ''JUJU_CHARM_HTTP_PROXY'';
          external_https_proxy = get ''JUJU_CHARM_HTTPS_PROXY'';
          internal_proxy = get ''JUJU_CHARM_NO_PROXY'';
          internal_domain = ''.svc.cluster.local'';
          environment = (if external_http_proxy \<noteq> [] then [(''HTTP_PROXY'', external_http_proxy)] else [])
            @ (if external_https_proxy \<noteq> [] then [(''HTTPS_PROXY'', external_https_proxy)] else [])
            @ (if internal_proxy \<noteq> [] then [(''NO_PROXY'', internal_proxy)] else [])
      in if external_http_proxy \<noteq> [] \<or> external_https_proxy \<noteq> []
         then dict_update environment
           [(''NO_PROXY'', join_with '','' (sort (map strip (split_char (CHR '','') internal_proxy) @ [internal_domain])))]
         else environment)"

definition server_layer_commands :: "env \<Rightarrow> string list" where
  "server_layer_commands E =
     [join_with '' ''
       [''/usr/sbin/mysqld'', ''--basedir=/usr'', ''--datadir='' @ mysql_data (the_paths E),
        ''--plugin-dir='' @ mysql_plugins (the_paths E),
        ''--log-error='' @ path_div (mysql_logs (the_paths E)) ''error.log''],
      join_with '' ''
       [''/usr/bin/tail'', ''--follow=name'', ''--retry'', path_div (mysql_logs (the_paths E)) ''error.log'']]"

definition server_add_layer :: "env \<Rightarrow> unit op" where
  "server_add_layer E = act E (Wkl (AddLayer server_name (server_layer_commands E)
     ((''MYSQLD_PARENT_PID'', ''1'') # generate_layer_env (os_environ E))))"

definition k8s_server_start :: "env \<Rightarrow> unit op" where
  "k8s_server_start E = block
     [server_add_layer E, act E (Wkl (ContainerStart server_name)), wait_for_connection E server_port]"

definition k8s_server_stop :: "env \<Rightarrow> unit op" where
  "k8s_server_stop E = block [server_add_layer E, act E (Wkl (ContainerStop server_name))]"

definition require_snap :: "env \<Rightarrow> unit op \<Rightarrow> unit op" where
  "require_snap E m =
     bindM (ask (ans_bool E) (Wkl SnapPresent)) (\<lambda>present.
       if \<not> present then raise (runtime_error (''Snap '' @ snap_name @ '' not installed'')) else m)"

definition vm_server_start :: "env \<Rightarrow> unit op" where
  "vm_server_start E = require_snap E
     (seqM (act E (Wkl (SnapStart server_name))) (wait_for_connection E server_port))"

definition vm_server_stop :: "env \<Rightarrow> unit op" where
  "vm_server_stop E = require_snap E (act E (Wkl (SnapStop server_name)))"

definition server_start :: "env \<Rightarrow> unit op" where
  "server_start E = (case substrate E of K8S \<Rightarrow> k8s_server_start E | VM \<Rightarrow> vm_server_start E)"

definition server_stop :: "env \<Rightarrow> unit op" where
  "server_stop E = (case substrate E of K8S \<Rightarrow> k8s_server_stop E | VM \<Rightarrow> vm_server_stop E)"

definition run_silent :: "env \<Rightarrow> string list \<Rightarrow> unit op" where
  "run_silent E command = bindM (execute_sync E command []) (\<lambda>_. ret ())"

definition k8s_init_directories :: "env \<Rightarrow> unit op" where
  "k8s_init_directories E = run_silent E
     [''/usr/sbin/mysqld'', ''--initialize'', ''--user='' @ system_user E,
      ''--datadir='' @ mysql_data (the_paths E),
      ''--innodb-log-group-home-dir='' @ mysql_logs (the_paths E),
      ''--innodb-undo-directory='' @ mysql_logs (the_paths E),
      ''--innodb-temp-tablespaces-dir='' @ mysql_temp (the_paths E)]"

definition vm_init_directories :: "env \<Rightarrow> unit op" where
  "vm_init_directories E = run_silent E
     [''/snap/bin/'' @ snap_name @ ''.mysqld-initialize'',
      ''--datadir='' @ mysql_data (the_paths E),
      ''--innodb-log-group-home-dir='' @ mysql_logs (the_paths E),
      ''--innodb-undo-directory='' @ mysql_logs (the_paths E),
      ''--innodb-temp-tablespaces-dir='' @ mysql_temp (the_paths E)]"

definition k8s_reset_directories :: "env \<Rightarrow> unit op" where
  "k8s_reset_directories E =
     for_each (\<lambda>path. run_silent E [''find'', path, ''-mindepth'', ''1'', ''-delete''])
     [mysql_data (the_paths E), mysql_logs (the_paths E), mysql_temp (the_paths E)]"

definition vm_reset_directories :: "env \<Rightarrow> unit op" where
  "vm_reset_directories E =
     for_each (\<lambda>path. seqM (run_silent E [''chown'', system_user E @ '':'' @ system_group E, path])
       (run_silent E [''find'', path, ''-mindepth'', ''1'', ''-delete'']))
     [mysql_data (the_paths E), mysql_logs (the_paths E), mysql_temp (the_paths E)]"

text \<open>The two services write the same two files, in different directories.\<close>

definition init_sql_text :: "string \<Rightarrow> string \<Rightarrow> string" where
  "init_sql_text username password = join_with [newline]
     [''CREATE USER '' @ quoted username @ ''@'' @ quoted ''%'' @ '' IDENTIFIED BY '' @ quoted password @ '';'',
      ''GRANT ALL ON *.* TO '' @ quoted username @ ''@'' @ quoted ''%'' @ '' WITH GRANT OPTION;'']"

definition init_cnf_text :: "string \<Rightarrow> string" where
  "init_cnf_text sql_file = join_with [newline] [''[mysqld]'', ''init_file = '' @ sql_file]"

definition k8s_set_operator_user :: "env \<Rightarrow> string \<Rightarrow> string \<Rightarrow> unit op" where
  "k8s_set_operator_user E username password =
     (let init_sql_file = path_join (home (the_paths E)) [system_user E, ''operator-user.sql''];
          init_cnf_file = mysql_config_init (the_paths E) in block
     [write_text E init_sql_file (init_sql_text username password),
      write_text E init_cnf_file (init_cnf_text init_sql_file),
      try_finally (seqM (k8s_server_start E) (k8s_server_stop E))
        (seqM (unlink E init_sql_file) (unlink E init_cnf_file))])"

definition vm_set_operator_user :: "env \<Rightarrow> string \<Rightarrow> string \<Rightarrow> unit op" where
  "vm_set_operator_user E username password =
     (let init_sql_file = path_div (home (the_paths E)) ''operator-user.sql'';
          init_cnf_file = mysql_config_init (the_paths E) in block
     [write_text E init_sql_file (init_sql_text username password),
      write_text E init_cnf_file (init_cnf_text init_sql_file),
      try_finally (seqM (vm_server_start E) (vm_server_stop E))
        (seqM (unlink E init_sql_file) (unlink E init_cnf_file))])"

definition k8s_server_setup :: "env \<Rightarrow> string \<Rightarrow> string \<Rightarrow> unit op" where
  "k8s_server_setup E username password = block
     [k8s_reset_directories E, k8s_init_directories E, k8s_set_operator_user E username password]"

definition vm_server_setup :: "env \<Rightarrow> string \<Rightarrow> string \<Rightarrow> unit op" where
  "vm_server_setup E username password = block
     [vm_reset_directories E, vm_init_directories E, vm_set_operator_user E username password]"

definition server_setup :: "env \<Rightarrow> string \<Rightarrow> string \<Rightarrow> unit op" where
  "server_setup E username password = (case substrate E of
     K8S \<Rightarrow> k8s_server_setup E username password | VM \<Rightarrow> vm_server_setup E username password)"

definition vm_server_install :: "env \<Rightarrow> string option \<Rightarrow> unit op" where
  "vm_server_install E revision =
     bindM (case revision of None \<Rightarrow> ask (ans_str E) (Wkl PinnedRevision) | Some r \<Rightarrow> ret r) (\<lambda>revision.
       block ([act E (Wkl (SnapEnsure revision)), act E (Wkl SnapHold)]
         @ map (\<lambda>b. act E (Wkl (SnapAlias b)))
             [''mysql'', ''mysqlbinlog'', ''mysqlrouter'', ''mysqlsh'', ''xbcloud'', ''xbstream'', ''xtrabackup'']))"

definition server_install :: "env \<Rightarrow> string option \<Rightarrow> unit op" where
  "server_install E revision = (case substrate E of K8S \<Rightarrow> ret () | VM \<Rightarrow> vm_server_install E revision)"

section \<open>The calls the workload layer makes\<close>

lemma emits_shell [emits]:
  assumes "\<And>c. P (Sys c)" "\<And>c. P (Wkl c)"
  shows "emits P (execute_sync E command environ)" "emits P (run_silent E command)"
    "emits P body \<Longrightarrow> emits P (execute_async E command environ body)"
  unfolding execute_sync_def container_execute_sync_def machine_execute_sync_def run_silent_def
    execute_async_def container_execute_async_def machine_execute_async_def
  by (cases "substrate E"; simp; intro emits assms; assumption?)+

lemma emits_container_runtime [emits]:
  assumes "\<And>c. P (Wkl c)"
  shows "emits P (get_container_limits E)" "emits P (node_name E)"
    "emits P (get_container_cores E)" "emits P (get_container_memory E)"
    "emits P (get_node_cores E)" "emits P (get_node_memory E)"
    "emits P (container_get_cores E)" "emits P (container_get_memory E)"
    "emits P (create_service E nm ls n)" "emits P (update_labels E nm ls)"
  unfolding container_get_cores_def container_get_memory_def get_container_cores_def
    get_container_memory_def get_node_cores_def get_node_memory_def get_container_limits_def
    node_name_def create_service_def update_labels_def
  by (intro emits assms)+

lemma emits_runtime [emits]:
  assumes "\<And>c. P (Sys c)" "\<And>c. P (Wkl c)"
  shows "emits P (system_ready E)" "emits P (get_cores E)" "emits P (get_memory E)"
    "emits P (get_hostname E a)" "emits P (remove_hosts E)" "emits P (update_hosts E a ns)"
    "emits P (check_service E a n)"
  unfolding system_ready_def get_cores_def machine_get_cores_def get_memory_def machine_get_memory_def
    get_hostname_def container_get_hostname_def machine_get_hostname_def remove_hosts_def
    machine_remove_hosts_def update_hosts_def machine_update_hosts_def check_service_def
  by (intro emits assms)+

lemma emits_server [emits]:
  assumes "\<And>c. P (Sys c)" "\<And>c. P (Wkl c)"
  shows "emits P (server_running E)" "emits P (server_initialized E)" "emits P (server_start E)"
    "emits P (server_stop E)"
  unfolding server_running_def container_running_def snap_running_def server_initialized_def
    k8s_server_initialized_def vm_server_initialized_def find_data_files_def server_start_def server_stop_def k8s_server_start_def k8s_server_stop_def
    vm_server_start_def vm_server_stop_def require_snap_def server_add_layer_def wait_for_connection_def
  by (intro emits assms)+

lemma emits_server_setup [emits]:
  assumes "\<And>c. P (Sys c)" "\<And>c. P (Wkl c)"
  shows "emits P (server_setup E u p)" "emits P (server_install E r)"
proof -
  show "emits P (server_setup E u p)"
    unfolding server_setup_def k8s_server_setup_def vm_server_setup_def k8s_reset_directories_def
      vm_reset_directories_def k8s_init_directories_def vm_init_directories_def
      k8s_set_operator_user_def vm_set_operator_user_def k8s_server_start_def k8s_server_stop_def
      vm_server_start_def vm_server_stop_def require_snap_def server_add_layer_def wait_for_connection_def
    by (intro emits assms)
  have "emits P (vm_server_install E r)"
    unfolding vm_server_install_def
    by (intro emits emits_block_list assms) (simp add: emits assms)
  then show "emits P (server_install E r)" unfolding server_install_def by (intro emits)
qed

lemma keeps_workload [keeps]:
  assumes "\<And>w es. I w \<Longrightarrow> I (w\<lparr>trace := es\<rparr>)"
  shows "keeps I (execute_sync E command environ)" "keeps I (system_ready E)" "keeps I (get_memory E)"
    "keeps I (get_hostname E a)" "keeps I (container_get_hostname E a)" "keeps I (check_service E a n)"
    "keeps I (create_service E nm ls n)" "keeps I (update_labels E nm ls)" "keeps I (server_running E)"
    "keeps I (server_initialized E)" "keeps I (server_start E)" "keeps I (server_stop E)"
    "keeps I (server_install E r)"
proof -
  show "keeps I (execute_sync E command environ)"
    unfolding execute_sync_def container_execute_sync_def machine_execute_sync_def
    by (cases "substrate E"; simp; intro keeps assms; assumption?)
  show "keeps I (server_install E r)"
    unfolding server_install_def vm_server_install_def
    by (intro keeps keeps_block_list; simp add: keeps assms)
  show "keeps I (get_memory E)"
    unfolding get_memory_def machine_get_memory_def container_get_memory_def get_container_memory_def
      get_node_memory_def get_container_limits_def node_name_def
    by (intro keeps assms; assumption?)
  show "keeps I (system_ready E)" "keeps I (get_hostname E a)" "keeps I (container_get_hostname E a)"
    "keeps I (check_service E a n)" "keeps I (create_service E nm ls n)" "keeps I (update_labels E nm ls)"
    unfolding system_ready_def get_hostname_def container_get_hostname_def machine_get_hostname_def
      check_service_def create_service_def update_labels_def
    by (intro keeps assms; assumption?)+
  show "keeps I (server_running E)" "keeps I (server_initialized E)"
    unfolding server_running_def container_running_def snap_running_def server_initialized_def
      k8s_server_initialized_def vm_server_initialized_def find_data_files_def execute_sync_def
      container_execute_sync_def machine_execute_sync_def
    by (cases "substrate E"; simp; intro keeps assms; assumption?)+
  show "keeps I (server_start E)" "keeps I (server_stop E)"
    unfolding server_start_def server_stop_def k8s_server_start_def k8s_server_stop_def
      vm_server_start_def vm_server_stop_def require_snap_def server_add_layer_def wait_for_connection_def
    by (intro keeps assms; assumption?)+
qed

section \<open>What the runtime reports\<close>

lemma is_digit_suffix:
  assumes "u \<noteq> []" "\<not> is_digit (hd u)"
  shows "takeWhile is_digit (show_nat n @ u) = show_nat n" "dropWhile is_digit (show_nat n @ u) = u"
proof -
  have "takeWhile is_digit u = []" "dropWhile is_digit u = u" using assms by (cases u; simp)+
  then show "takeWhile is_digit (show_nat n @ u) = show_nat n" "dropWhile is_digit (show_nat n @ u) = u"
    using show_nat_digits by (auto simp: takeWhile_append dropWhile_append)
qed

lemma int_of_str_suffix:
  assumes "u \<noteq> []" "list_all is_ascii_alpha u"
  shows "\<exists>e. int_of_str (show_nat n @ u) = Inl e \<and> caught [PyValueError] e"
proof -
  have a: "\<not> is_space c \<and> \<not> is_digit c \<and> c \<noteq> CHR ''_'' \<and> c \<noteq> CHR ''-'' \<and> c \<noteq> CHR ''+''"
    if "is_ascii_alpha c" for c
    using that by (auto simp: is_ascii_alpha_def is_ascii_lower_def is_ascii_upper_def is_space_def is_digit_def Let_def)
  have "\<not> is_space (hd (show_nat n))" "\<not> is_space (last u)" "last u \<in> set u"
    using show_nat_digits [of "hd (show_nat n)" n] digit_not_special assms a by (auto simp: list_all_iff)
  then have st: "strip (show_nat n @ u) = show_nat n @ u"
    using assms(1) by (intro strip_chars_fixed) simp
  have h: "hd (show_nat n @ u) \<noteq> CHR ''-''" "hd (show_nat n @ u) \<noteq> CHR ''+''"
    using show_nat_digits [of "hd (show_nat n)" n] digit_not_special by auto
  have g: "\<not> digit_groups (xs @ u)" if "xs \<noteq> []" "\<forall>c \<in> set xs. is_digit c" for xs
    using that
  proof (induction xs)
    case (Cons c xs)
    obtain v vs where v: "u = v # vs" "is_ascii_alpha v" using assms by (cases u) auto
    show ?case
    proof (cases xs)
      case Nil
      with v a show ?thesis by (cases vs) auto
    next
      case (Cons d ds)
      with Cons.prems have "d \<noteq> CHR ''_''" using digit_not_special by auto
      with Cons Cons.IH Cons.prems show ?thesis by auto
    qed
  qed simp
  have "\<not> starts_with ''-'' (show_nat n @ u)" "\<not> starts_with ''+'' (show_nat n @ u)"
    using h by (cases "show_nat n"; simp add: starts_with_def)+
  then show ?thesis using st g [of "show_nat n"] show_nat_digits by (auto simp: int_of_str_def Let_def)
qed

lemma to_upper_alpha: "is_ascii_upper (to_upper c) \<Longrightarrow> is_ascii_alpha c"
  by (auto simp: to_upper_def is_ascii_alpha_def split: if_splits)

lemma memory_units_alpha:
  assumes "map_of memory_bytes (map to_upper u) = Some m"
  shows "u \<noteq> [] \<and> list_all is_ascii_alpha u"
proof -
  have "list_all (\<lambda>(k, _). k \<noteq> [] \<and> list_all is_ascii_upper k) memory_bytes" by code_simp
  moreover have "(map to_upper u, m) \<in> set memory_bytes" using assms by (rule map_of_SomeD)
  ultimately have "map to_upper u \<noteq> [] \<and> list_all is_ascii_upper (map to_upper u)"
    by (auto simp: list_all_iff)
  then show ?thesis by (auto simp: list_all_iff intro: to_upper_alpha)
qed

text \<open>
  The quantities Kubernetes reports: a plain number is itself, and a number followed by a
  known unit (in any case: \<open>Ki\<close>, \<open>M\<close>, \<open>gi\<close>, ...) is the number times the bytes of the unit.
\<close>

theorem memory_quantity_value:
  assumes "map_of memory_bytes (map to_upper u) = Some m"
  shows "quantity parse_memory (Some (show_nat n @ u)) = Inr (Some (int n * m)) \<and>
    quantity parse_memory (Some (show_nat n)) = Inr (Some (int n))"
proof -
  have u: "u \<noteq> []" "list_all is_ascii_alpha u" using memory_units_alpha [OF assms] by auto
  have a: "\<not> is_digit c \<and> word_char c \<and> c \<noteq> newline" if "is_ascii_alpha c" for c
    using that by (auto simp: is_ascii_alpha_def is_ascii_lower_def is_ascii_upper_def is_digit_def
        word_char_def is_alpha_def Let_def)
  have "\<not> is_digit (hd u)" "last u \<noteq> newline" "list_all word_char u"
    using u a by (auto simp: list_all_iff)
  then have "memory_match (show_nat n @ u) = Some (show_nat n, u)"
    using u is_digit_suffix [of u n] by (simp add: memory_match_def Let_def)
  then have p: "parse_memory (show_nat n @ u) = Inr (int n * m)"
    using assms by (simp add: parse_memory_def dict_index_def)
  obtain e where "int_of_str (show_nat n @ u) = Inl e" "caught [PyValueError] e"
    using int_of_str_suffix [OF u] by blast
  with p show ?thesis by (simp add: quantity_def int_of_str_nat)
qed

theorem memory_quantity_value_witness:
  "quantity parse_memory (Some (show_nat 4 @ ''Gi'')) = Inr (Some 4294967296)"
proof -
  have "map_of memory_bytes (map to_upper ''Gi'') = Some 1073741824" by code_simp
  from memory_quantity_value [OF this, of 4] show ?thesis by simp
qed

section \<open>The environment of the Pebble layer\<close>

lemma map_of_layer_no_proxy:
  assumes "getenv ''JUJU_CHARM_HTTP_PROXY'' \<notin> {None, Some []} \<or> getenv ''JUJU_CHARM_HTTPS_PROXY'' \<notin> {None, Some []}"
  shows "map_of (generate_layer_env getenv) ''NO_PROXY'' = Some (join_with '',''
    (sort (map strip (split_char (CHR '','') (case getenv ''JUJU_CHARM_NO_PROXY'' of None \<Rightarrow> [] | Some v \<Rightarrow> v))
      @ [''.svc.cluster.local''])))"
  using assms by (auto simp: generate_layer_env_def Let_def map_of_dict_update map_add_def split: option.splits)

text \<open>
  When an HTTP or HTTPS proxy is configured, the \<open>NO_PROXY\<close> of the MySQL layer is the
  sorted list of the stripped entries of the model's list and the cluster's internal domain; so
  the domain is always one of its entries, and two models whose lists have the same entries in
  any order and spacing give the same value: Pebble sees no change and does not restart MySQL.
\<close>

theorem layer_no_proxy_stable:
  assumes "g ''JUJU_CHARM_HTTP_PROXY'' \<notin> {None, Some []} \<or> g ''JUJU_CHARM_HTTPS_PROXY'' \<notin> {None, Some []}"
    and "g ''JUJU_CHARM_HTTP_PROXY'' = g' ''JUJU_CHARM_HTTP_PROXY''"
    and "g ''JUJU_CHARM_HTTPS_PROXY'' = g' ''JUJU_CHARM_HTTPS_PROXY''"
    and "g ''JUJU_CHARM_NO_PROXY'' = Some a" and "g' ''JUJU_CHARM_NO_PROXY'' = Some b"
    and "mset (map strip (split_char (CHR '','') a)) = mset (map strip (split_char (CHR '','') b))"
  shows "map_of (generate_layer_env g) ''NO_PROXY'' = map_of (generate_layer_env g') ''NO_PROXY'' \<and>
    (\<exists>entries. map_of (generate_layer_env g) ''NO_PROXY'' = Some (join_with '','' entries) \<and>
      sorted entries \<and> ''.svc.cluster.local'' \<in> set entries \<and>
      split_char (CHR '','') (join_with '','' entries) = entries)"
proof -
  let ?e = "\<lambda>x. sort (map strip (split_char (CHR '','') x) @ [''.svc.cluster.local''])"
  have n: "map_of (generate_layer_env g) ''NO_PROXY'' = Some (join_with '','' (?e a))"
    "map_of (generate_layer_env g') ''NO_PROXY'' = Some (join_with '','' (?e b))"
    using map_of_layer_no_proxy [of g] map_of_layer_no_proxy [of g'] assms by auto
  have eq: "?e a = ?e b"
    using assms(6) by (intro properties_for_sort) simp_all
  have c: "CHR '','' \<notin> set (strip x)" if "CHR '','' \<notin> set x" for x
    using that by (auto simp: strip_chars_def dest!: set_dropWhileD)
  have f: "CHR '','' \<notin> set x" if "x \<in> set (?e a)" for x
    using that split_char_parts c by auto
  have "split_char (CHR '','') (join_with [CHR '',''] (?e a)) = ?e a"
  proof (rule split_join_char)
    have "length (?e a) \<noteq> 0" by simp
    then show "?e a \<noteq> []" by (metis length_0_conv)
  qed (use f in blast)
  with n eq show ?thesis by (auto intro!: exI [where x = "?e a"])
qed

definition sample_proxy :: "string \<Rightarrow> string \<Rightarrow> string option" where
  "sample_proxy no k = (if k = ''JUJU_CHARM_HTTP_PROXY'' then Some ''http://p:3128''
     else if k = ''JUJU_CHARM_NO_PROXY'' then Some no else None)"

theorem layer_no_proxy_stable_witness:
  "map_of (generate_layer_env (sample_proxy ''10.1.0.0, localhost'')) ''NO_PROXY'' =
   map_of (generate_layer_env (sample_proxy ''localhost,10.1.0.0'')) ''NO_PROXY''"
proof -
  have p: "mset (map strip (split_char (CHR '','') ''10.1.0.0, localhost'')) =
      mset (map strip (split_char (CHR '','') ''localhost,10.1.0.0''))"
    by (simp add: strip_chars_def is_space_def)
  have g: "sample_proxy no ''JUJU_CHARM_NO_PROXY'' = Some no" for no by (simp add: sample_proxy_def)
  show ?thesis
    using layer_no_proxy_stable [of "sample_proxy ''10.1.0.0, localhost''"
        "sample_proxy ''localhost,10.1.0.0''", OF _ _ _ g g p] by (simp add: sample_proxy_def)
qed

section \<open>Restarting a service\<close>

lemma attempts_act_step:
  "attempts (Suc (Suc n)) (act E e) w = (case ans_unit E (trace w) e of
     Inl x \<Rightarrow> if caught [PyException] x then attempts (Suc n) (act E e) (w\<lparr>trace := trace w @ [e]\<rparr>)
       else (Inl x, w\<lparr>trace := trace w @ [e]\<rparr>)
   | Inr u \<Rightarrow> (Inr u, w\<lparr>trace := trace w @ [e]\<rparr>))"
  by (subst attempts.simps) (simp add: ask_def del: attempts.simps split: sum.split)

lemma attempts_act_run:
  assumes "attempts (Suc n) (act E e) w = (Inr (), w')"
  shows "\<exists>k \<le> n. trace w' = trace w @ replicate (Suc k) e \<and> ans_unit E (trace w @ replicate k e) e = Inr ()"
  using assms
proof (induction n arbitrary: w)
  case (Suc n)
  show ?case
  proof (cases "ans_unit E (trace w) e")
    case (Inl x)
    with Suc.prems have "attempts (Suc n) (act E e) (w\<lparr>trace := trace w @ [e]\<rparr>) = (Inr (), w')"
      unfolding attempts_act_step by (simp split: if_splits)
    from Suc.IH [OF this] obtain k where "k \<le> n" "trace w' = trace w @ e # replicate (Suc k) e"
      "ans_unit E (trace w @ e # replicate k e) e = Inr ()" by auto
    then show ?thesis by (intro exI [where x = "Suc k"]) simp
  next
    case (Inr u)
    with Suc.prems show ?thesis unfolding attempts_act_step by (intro exI [where x = 0]) auto
  qed
qed (auto simp: monad_simps)

lemma attempts_act_returns:
  assumes "\<And>tr x. ans_unit E tr e = Inl x \<Longrightarrow> caught [PyException] x"
    and "ans_unit E (trace w @ replicate n e) e = Inr ()"
  shows "\<exists>w'. attempts (Suc n) (act E e) w = (Inr (), w')"
  using assms(2)
proof (induction n arbitrary: w)
  case (Suc n)
  show ?case
  proof (cases "ans_unit E (trace w) e")
    case (Inl x)
    have "\<exists>w'. attempts (Suc n) (act E e) (w\<lparr>trace := trace w @ [e]\<rparr>) = (Inr (), w')"
      using Suc.prems by (intro Suc.IH) simp
    with Inl assms(1) [OF Inl] show ?thesis unfolding attempts_act_step by simp
  qed (simp add: attempts_act_step del: attempts.simps)
qed (simp add: monad_simps)

abbreviation connect_event :: "nat \<Rightarrow> event" where
  "connect_event port \<equiv> Sys (Connect ''127.0.0.1'' port)"

text \<open>
  What the operator relies on when it restarts a service.  A stop that returns ends with the call that stops the service,
  which has succeeded; a start that returns has started the service with success and has then asked the port of the service until it answered.
\<close>

definition started :: "env \<Rightarrow> event \<Rightarrow> nat \<Rightarrow> event list \<Rightarrow> event list \<Rightarrow> bool" where
  "started E start_call port tr tr' \<longleftrightarrow> (\<exists>xs n. n \<le> retry_budget E \<and>
     tr' = tr @ xs @ start_call # replicate (Suc n) (connect_event port) \<and> ans_unit E (tr @ xs) start_call = Inr () \<and>
     ans_unit E (tr @ xs @ start_call # replicate n (connect_event port)) (connect_event port) = Inr ())"

definition stopped :: "env \<Rightarrow> event \<Rightarrow> event list \<Rightarrow> event list \<Rightarrow> bool" where
  "stopped E stop_call tr tr' \<longleftrightarrow> (\<exists>xs. tr' = tr @ xs @ [stop_call] \<and> ans_unit E (tr @ xs) stop_call = Inr ())"

locale service =
  fixes E :: env and start stop :: "unit op" and start_call stop_call :: event and port :: nat
  assumes stop_stops: "stop w = (Inr (), w') \<Longrightarrow> stopped E stop_call (trace w) (trace w')"
    and start_starts: "start w = (Inr (), w') \<Longrightarrow> started E start_call port (trace w) (trace w')"
begin

lemma restart_order:
  assumes "seqM stop start w = (Inr (), w')"
  shows "\<exists>tr. stopped E stop_call (trace w) tr \<and> started E start_call port tr (trace w')"
  using assms by (auto simp: seqM_Inr_iff dest: stop_stops start_starts)

end

text \<open>A service that can be relied upon: whenever \<open>good\<close> holds of the environment, stop and start return.\<close>

locale reliable_service = service +
  fixes good :: bool
  assumes stop_returns: "good \<Longrightarrow> \<exists>w'. stop w = (Inr (), w')"
    and start_returns: "good \<Longrightarrow> \<exists>w'. start w = (Inr (), w')"
begin

lemma restart_returns: "good \<Longrightarrow> \<exists>w'. seqM stop start w = (Inr (), w')"
  unfolding seqM_Inr_iff using stop_returns start_returns by blast

end

lemma wait_for_connection_started:
  assumes "wait_for_connection E port w = (Inr (), w')"
    and "ans_unit E (tr @ xs) start_call = Inr ()" and "trace w = tr @ xs @ [start_call]"
  shows "started E start_call port tr (trace w')"
  using attempts_act_run [OF assms(1) [unfolded wait_for_connection_def]] assms(2,3)
  by (auto simp: started_def simp del: replicate_Suc)

interpretation k8s_server: service E "k8s_server_start E" "k8s_server_stop E"
    "Wkl (ContainerStart server_name)" "Wkl (ContainerStop server_name)" server_port for E
  by unfold_locales
    (auto simp: k8s_server_start_def k8s_server_stop_def server_add_layer_def seqM_Inr_iff monad_simps stopped_def
      elim!: wait_for_connection_started [where xs = "[_]"])

interpretation vm_server: service E "vm_server_start E" "vm_server_stop E"
    "Wkl (SnapStart server_name)" "Wkl (SnapStop server_name)" server_port for E
  by unfold_locales
    (auto simp: vm_server_start_def vm_server_stop_def require_snap_def seqM_Inr_iff bindM_Inr_iff monad_simps stopped_def
      split: if_splits elim!: wait_for_connection_started [where xs = "[_]"])

definition server_start_call :: "env \<Rightarrow> event" where
  "server_start_call E = Wkl (case substrate E of K8S \<Rightarrow> ContainerStart server_name | VM \<Rightarrow> SnapStart server_name)"

definition server_stop_call :: "env \<Rightarrow> event" where
  "server_stop_call E = Wkl (case substrate E of K8S \<Rightarrow> ContainerStop server_name | VM \<Rightarrow> SnapStop server_name)"

text \<open>
  The calls to the runtime succeed, the snap is installed, and the port answers at the latest when the budget of attempts is used
  up; until then connecting may fail with any exception.
\<close>

definition answers_in_time :: "env \<Rightarrow> nat \<Rightarrow> bool" where
  "answers_in_time E port \<longleftrightarrow> (\<forall>tr c. ans_unit E tr (Wkl c) = Inr ()) \<and> (\<forall>tr. ans_bool E tr (Wkl SnapPresent) = Inr True) \<and>
     (\<forall>tr x. ans_unit E tr (connect_event port) = Inl x \<longrightarrow> caught [PyException] x) \<and>
     (\<forall>tr. ans_unit E (tr @ replicate (retry_budget E) (connect_event port)) (connect_event port) = Inr ())"

lemma wait_for_connection_returns:
  "answers_in_time E port \<Longrightarrow> \<exists>w'. wait_for_connection E port w = (Inr (), w')"
  unfolding wait_for_connection_def answers_in_time_def by (intro attempts_act_returns) blast+

interpretation server: reliable_service E "server_start E" "server_stop E" "server_start_call E" "server_stop_call E"
    server_port "answers_in_time E server_port" for E
proof unfold_locales
  fix w w'
  show "server_stop E w = (Inr (), w') \<Longrightarrow> stopped E (server_stop_call E) (trace w) (trace w')"
    "server_start E w = (Inr (), w') \<Longrightarrow> started E (server_start_call E) server_port (trace w) (trace w')"
    using k8s_server.stop_stops vm_server.stop_stops k8s_server.start_starts vm_server.start_starts
    by (cases "substrate E"; simp add: server_start_def server_stop_def server_start_call_def server_stop_call_def)+
next
  fix w assume a: "answers_in_time E server_port"
  then have "ans_unit E tr (Wkl c) = Inr ()" "ans_bool E tr (Wkl SnapPresent) = Inr True" for tr c
    by (simp_all add: answers_in_time_def)
  then show "\<exists>w'. server_stop E w = (Inr (), w')" "\<exists>w'. server_start E w = (Inr (), w')"
    using wait_for_connection_returns [OF a]
    by (cases "substrate E"; simp add: server_start_def server_stop_def k8s_server_start_def k8s_server_stop_def server_add_layer_def
        vm_server_start_def vm_server_stop_def require_snap_def seqM_def bindM_def monad_simps)+
qed

section \<open>The operator's first credentials\<close>

lemma unlink_removes:
  "ans_unit E (trace w) (Sys (UnlinkFile p)) = Inr () \<Longrightarrow>
     unlink E p w = (Inr (), w\<lparr>trace := trace w @ [Sys (UnlinkFile p)], files := (files w)(p := None)\<rparr>)"
  by (simp add: unlink_def seqM_def bindM_def monad_simps)

lemma write_text_ok:
  "ans_unit E (trace w) (Sys (WriteFile p t)) = Inr () \<Longrightarrow>
     write_text E p t w = (Inr (), w\<lparr>trace := trace w @ [Sys (WriteFile p t)], files := (files w)(p \<mapsto> t)\<rparr>)"
  by (simp add: write_text_def seqM_def bindM_def monad_simps)

text \<open>Two files written, and removed again in a \<open>finally\<close> clause.\<close>

lemma temporary_files_removed:
  assumes "\<And>tr p t. ans_unit E tr (Sys (WriteFile p t)) = Inr ()"
    and "\<And>tr p. ans_unit E tr (Sys (UnlinkFile p)) = Inr ()"
  shows "files (snd (block [write_text E p s, write_text E q t,
      try_finally m (seqM (unlink E p) (unlink E q))] w)) x =
    (if x = p \<or> x = q then None
     else files (snd (m (w\<lparr>trace := trace w @ [Sys (WriteFile p s), Sys (WriteFile q t)],
       files := (files w)(p \<mapsto> s, q \<mapsto> t)\<rparr>))) x)"
proof -
  have u: "seqM (unlink E p) (unlink E q) v = (Inr (), v\<lparr>trace := trace v @ [Sys (UnlinkFile p), Sys (UnlinkFile q)],
      files := (files v)(p := None, q := None)\<rparr>)" for v
    by (simp add: seqM_def bindM_def unlink_removes assms)
  have "block [write_text E p s, write_text E q t, try_finally m (seqM (unlink E p) (unlink E q))] w =
    try_finally m (seqM (unlink E p) (unlink E q))
      (w\<lparr>trace := trace w @ [Sys (WriteFile p s), Sys (WriteFile q t)], files := (files w)(p \<mapsto> s, q \<mapsto> t)\<rparr>)"
    by (simp add: seqM_def bindM_def write_text_ok assms)
  then show ?thesis by (simp add: try_finally_def u split: prod.splits)
qed

text \<open>
  (C10) The operator's password is written to a file that MySQL reads once: on both substrates,
  when files can be written and removed, that file and the configuration that names it are gone
  after the set-up, also when the server could not be started or stopped.
\<close>

theorem operator_credentials_removed:
  assumes "\<And>tr p t. ans_unit E tr (Sys (WriteFile p t)) = Inr ()"
    and "\<And>tr p. ans_unit E tr (Sys (UnlinkFile p)) = Inr ()"
  shows "files (snd (k8s_set_operator_user E username password w))
      (path_join (home (system_paths (substrate E))) [system_user E, ''operator-user.sql'']) = None \<and>
    files (snd (vm_set_operator_user E username password w))
      (path_div (home (system_paths (substrate E))) ''operator-user.sql'') = None \<and>
    files (snd (k8s_set_operator_user E username password w)) (mysql_config_init (system_paths (substrate E))) = None \<and>
    files (snd (vm_set_operator_user E username password w)) (mysql_config_init (system_paths (substrate E))) = None"
  unfolding k8s_set_operator_user_def vm_set_operator_user_def Let_def
  by (simp only: temporary_files_removed [OF assms] if_True if_False simp_thms)

definition no_start_env :: env where
  "no_start_env = quiet_env\<lparr>ans_unit := \<lambda>tr e.
     if e = Wkl (SnapStart server_name) then Inl (Exn [SnapErrorC, PyException] ''no'') else Inr ()\<rparr>"

theorem operator_credentials_removed_witness:
  "fst (vm_set_operator_user no_start_env ''op'' ''pw'' quiet_world) = Inl (Exn [SnapErrorC, PyException] ''no'') \<and>
   files (snd (vm_set_operator_user no_start_env ''op'' ''pw'' quiet_world))
     (path_div (home (system_paths (substrate no_start_env))) ''operator-user.sql'') = None"
proof -
  have "fst (vm_set_operator_user no_start_env ''op'' ''pw'' quiet_world) = Inl (Exn [SnapErrorC, PyException] ''no'')"
    by code_simp
  then show ?thesis using operator_credentials_removed [of no_start_env] by (simp add: no_start_env_def)
qed

end
