(* ===== verification/Charm.thy ===== *)
theory Charm
  imports PeerState Workload
begin

text \<open>
  The charm object of the two substrates (\<open>charm/operator\<close>), the secret store
  (\<open>charm/secrets.py\<close>), the configuration manager and helper
  (\<open>managers/managers/config/config.py\<close>, \<open>events/helpers/events/config.py\<close>), the event
  helpers (\<open>events/helpers/helpers.py\<close>) and the endpoint update of the database handler, which the
  helpers call.
\<close>

section \<open>Constants\<close>

definition RELATION_DATABASE :: string where "RELATION_DATABASE = ''database''"
definition RELATION_PEERS :: string where "RELATION_PEERS = ''database-peers''"
definition RELATION_BACKUPS :: string where "RELATION_BACKUPS = ''s3-parameters''"

definition USERNAME_BACKUPS :: string where "USERNAME_BACKUPS = ''charmed-backup''"
definition USERNAME_MONITOR :: string where "USERNAME_MONITOR = ''charmed-stats''"
definition USERNAME_OPERATOR :: string where "USERNAME_OPERATOR = ''charmed-operator''"
definition USERNAME_REPLICATION :: string where "USERNAME_REPLICATION = ''charmed-replication''"

definition PASSWORD_KEY_BACKUPS :: string where "PASSWORD_KEY_BACKUPS = ''backups-password''"
definition PASSWORD_KEY_MONITOR :: string where "PASSWORD_KEY_MONITOR = ''monitoring-password''"
definition PASSWORD_KEY_OPERATOR :: string where "PASSWORD_KEY_OPERATOR = ''operator-password''"
definition PASSWORD_KEY_REPLICATION :: string where "PASSWORD_KEY_REPLICATION = ''replication-password''"

lemmas name_constants = USERNAME_BACKUPS_def USERNAME_MONITOR_def USERNAME_OPERATOR_def
  USERNAME_REPLICATION_def PASSWORD_KEY_BACKUPS_def PASSWORD_KEY_MONITOR_def
  PASSWORD_KEY_OPERATOR_def PASSWORD_KEY_REPLICATION_def

definition USERNAME_TO_PASSWORD_KEY :: "string dict" where
  "USERNAME_TO_PASSWORD_KEY =
     [(USERNAME_BACKUPS, PASSWORD_KEY_BACKUPS), (USERNAME_MONITOR, PASSWORD_KEY_MONITOR),
      (USERNAME_OPERATOR, PASSWORD_KEY_OPERATOR), (USERNAME_REPLICATION, PASSWORD_KEY_REPLICATION)]"

section \<open>Databags and secrets\<close>

text \<open>
  Without the peer relation the state objects wrap an empty dictionary of their own: reads find
  nothing and writes are lost.
\<close>

definition read_app :: "env \<Rightarrow> (databag \<Rightarrow> 'a) \<Rightarrow> 'a op" where
  "read_app E f = gets (\<lambda>w. f (if has_peers E then app_bag w else Map.empty))"

definition write_app :: "env \<Rightarrow> (databag \<Rightarrow> databag) \<Rightarrow> unit op" where
  "write_app E f = modify (\<lambda>w. if has_peers E then w\<lparr>app_bag := f (app_bag w)\<rparr> else w)"

definition read_unit :: "env \<Rightarrow> string \<Rightarrow> (databag \<Rightarrow> 'a) \<Rightarrow> 'a op" where
  "read_unit E u f = gets (\<lambda>w. f (if has_peers E then unit_bags w u else Map.empty))"

definition write_unit :: "env \<Rightarrow> (databag \<Rightarrow> databag) \<Rightarrow> unit op" where
  "write_unit E f = modify (\<lambda>w. if has_peers E
     then w\<lparr>unit_bags := (unit_bags w)(unit_name E := f (unit_bags w (unit_name E)))\<rparr> else w)"

definition get_secret :: "string option \<Rightarrow> string option \<Rightarrow> databag op" where
  "get_secret secret_id secret_label =
     (if falsy secret_id \<and> falsy secret_label
      then raise (value_error ''Secret ID or label needs to be provided'')
      else bindM (gets (\<lambda>w. secrets w (the (if falsy secret_id then secret_label else secret_id))))
        (\<lambda>s. case s of None \<Rightarrow> raise (value_error ''Secret not found'') | Some c \<Rightarrow> ret c))"

definition secret_create :: "databag \<Rightarrow> string \<Rightarrow> unit op" where
  "secret_create content secret_label = modify (\<lambda>w. w\<lparr>secrets := (secrets w)(secret_label \<mapsto> content)\<rparr>)"

definition secret_delete :: "string \<Rightarrow> unit op" where
  "secret_delete secret_label =
     bindM (get_secret None (Some secret_label)) (\<lambda>_.
       modify (\<lambda>w. w\<lparr>secrets := (secrets w)(secret_label := None)\<rparr>))"

definition secret_get_value :: "string option \<Rightarrow> string option \<Rightarrow> string \<Rightarrow> string op" where
  "secret_get_value secret_id secret_label secret_key =
     bindM (get_secret secret_id secret_label) (\<lambda>content.
       if falsy (content secret_key)
       then raise (value_error (''Failed to get secret key '' @ secret_key))
       else ret (the (content secret_key)))"

definition secret_get_content :: "string \<Rightarrow> databag op" where
  "secret_get_content secret_label = get_secret None (Some secret_label)"

definition secret_set_content :: "databag \<Rightarrow> string \<Rightarrow> unit op" where
  "secret_set_content content secret_label =
     bindM (get_secret None (Some secret_label)) (\<lambda>_.
       modify (\<lambda>w. w\<lparr>secrets := (secrets w)(secret_label \<mapsto> content)\<rparr>))"

section \<open>The charm\<close>

definition refreshing :: "env \<Rightarrow> bool" where
  "refreshing E = (case refresh E of None \<Rightarrow> True | Some in_progress \<Rightarrow> in_progress)"

definition charm_units :: "env \<Rightarrow> string list" where
  "charm_units E = (if has_peers E then unit_name E # peer_units E else [])"

definition cluster_name :: "env \<Rightarrow> string op" where
  "cluster_name E = bindM (read_app E app_get_cluster_name) (\<lambda>name. ret (if falsy name then [] else the name))"

definition cluster_set_name :: "env \<Rightarrow> string op" where
  "cluster_set_name E = bindM (read_app E app_get_cluster_set_name) (\<lambda>name. ret (if falsy name then [] else the name))"

definition secret_label :: "env \<Rightarrow> string" where
  "secret_label E = RELATION_PEERS @ ''.'' @ app_name E @ ''.app''"

definition set_app_status :: "env \<Rightarrow> status \<Rightarrow> unit op" where
  "set_app_status E s = (if \<not> is_leader E then ret () else if refreshing E then ret ()
     else modify (\<lambda>w. w\<lparr>app_status := s\<rparr>))"

definition set_unit_status :: "env \<Rightarrow> status \<Rightarrow> unit op" where
  "set_unit_status E s = (if refreshing E then ret () else modify (\<lambda>w. w\<lparr>unit_status := s\<rparr>))"

definition get_unit_label :: "string \<Rightarrow> string" where
  "get_unit_label unit = replace_char (CHR ''/'') ''-'' unit"

record connection_details =
  cd_username :: string
  cd_password :: string
  cd_host :: string
  cd_port :: string

definition build_mysql_connection :: "env \<Rightarrow> connection_details op" where
  "build_mysql_connection E =
     bindM (try_except
       (bindM (secret_get_value None (Some (secret_label E)) PASSWORD_KEY_OPERATOR) (\<lambda>password.
          ret (USERNAME_OPERATOR, password)))
       [PyKeyError, PyValueError] (\<lambda>_. ret ([], [])))
     (\<lambda>(username, password).
       bindM (get_hostname E (get_unit_label (unit_name E))) (\<lambda>unit_hostname.
         ret \<lparr>cd_username = username, cd_password = password, cd_host = unit_hostname, cd_port = ''33062''\<rparr>))"

definition k8s_get_unit_address :: "env \<Rightarrow> string \<Rightarrow> string op" where
  "k8s_get_unit_address E unit = attempts (Suc (retry_budget E))
     (let unit_address = get_unit_label unit @ ''.'' @ app_name E @ ''-endpoints'' in
      bindM (container_get_hostname E unit_address) (\<lambda>unit_hostname.
        if \<not> sublist unit_address unit_hostname
        then raise (value_error ''The unit address has not been populated yet'')
        else ret unit_hostname))"

definition vm_get_unit_address :: "env \<Rightarrow> string \<Rightarrow> string \<Rightarrow> string op" where
  "vm_get_unit_address E unit relation =
     (if \<not> has_peers E then ret []
      else bindM (read_unit E unit (state_get_unit_address relation)) (\<lambda>unit_address.
        ret (if falsy unit_address then [] else the unit_address)))"

definition get_unit_address :: "env \<Rightarrow> string \<Rightarrow> string \<Rightarrow> string op" where
  "get_unit_address E unit relation = (case substrate E of
     K8S \<Rightarrow> k8s_get_unit_address E unit | VM \<Rightarrow> vm_get_unit_address E unit relation)"

definition vm_set_unit_address :: "env \<Rightarrow> string \<Rightarrow> unit op" where
  "vm_set_unit_address E relation =
     (if \<not> has_peers E then ret ()
      else bindM (ask (ans_str E) (Juju (GetBinding relation))) (\<lambda>address.
        write_unit E (state_set_unit_address relation address)))"

definition set_unit_address :: "env \<Rightarrow> string \<Rightarrow> unit op" where
  "set_unit_address E relation = (case substrate E of K8S \<Rightarrow> ret () | VM \<Rightarrow> vm_set_unit_address E relation)"

definition role_labels :: "env \<Rightarrow> string \<Rightarrow> string dict op" where
  "role_labels E endpoint_role = bindM (cluster_name E) (\<lambda>name. ret
     [(''application-name'', app_name E), (''cluster-name'', name), (''role'', endpoint_role)])"

definition k8s_create_service :: "env \<Rightarrow> string \<Rightarrow> unit op" where
  "k8s_create_service E endpoint_role = bindM (role_labels E endpoint_role) (\<lambda>labels.
     create_service E (app_name E @ ''-'' @ endpoint_role) labels server_port)"

definition k8s_update_label :: "env \<Rightarrow> string \<Rightarrow> string \<Rightarrow> unit op" where
  "k8s_update_label E endpoint_role address = bindM (role_labels E endpoint_role) (\<lambda>labels.
     update_labels E (hd (split_char (CHR ''.'') address)) labels)"

definition k8s_create_app_services :: "env \<Rightarrow> bool op" where
  "k8s_create_app_services E = try_except
     (seqM (k8s_create_service E ''primary'') (seqM (k8s_create_service E ''replicas'') (ret True)))
     [PyRuntimeError] (\<lambda>_. ret False)"

definition create_app_services :: "env \<Rightarrow> bool op" where
  "create_app_services E = (case substrate E of K8S \<Rightarrow> k8s_create_app_services E | VM \<Rightarrow> ret True)"

section \<open>The helpers\<close>

definition initialized :: "env \<Rightarrow> bool op" where
  "initialized E = bindM (server_running E) (\<lambda>running.
     if \<not> running then ret False
     else try_else (inst_fetch_cluster_labels E (client_host E)) [ExecutionErrorC] (\<lambda>_. ret False)
       (\<lambda>cluster_labels. bindM (cluster_name E) (\<lambda>name. ret (name \<in> set cluster_labels))))"

datatype endpoint = RW string | RO string | NO string

text \<open>One turn of the loop over the cluster's instances: the lists it appends to.\<close>

definition endpoint_of :: "env \<Rightarrow> string \<Rightarrow> string dict \<Rightarrow> string \<times> instance_info \<Rightarrow> endpoint list op" where
  "endpoint_of E relation unit_labels = (\<lambda>(label, info).
     if ii_status info = ''RECOVERING'' then ret []
     else (case map_of unit_labels label of
        None \<Rightarrow> ret []
      | Some unit \<Rightarrow> bindM (get_unit_address E unit relation) (\<lambda>unit_address.
          if unit_address = [] then ret []
          else ret ((if ii_status info \<noteq> ''ONLINE'' then [NO unit_address] else [])
            @ (if ii_status info = ''ONLINE'' \<and> ii_mode info = ''R/O'' then [RO unit_address] else [])
            @ (if ii_status info = ''ONLINE'' \<and> ii_mode info = ''R/W'' then [RW unit_address] else [])))))"

definition with_port :: "string \<Rightarrow> string" where
  "with_port address = address @ '':'' @ show_nat server_port"

definition build_cluster_endpoints :: "env \<Rightarrow> string \<Rightarrow> (string list \<times> string list \<times> string list) op" where
  "build_cluster_endpoints E relation =
     bindM (fetch_instances E (client_host E)) (\<lambda>cluster_instances.
     let unit_labels = map (\<lambda>u. (get_unit_label u, u)) (charm_units E) in
     bindM (mapM (endpoint_of E relation unit_labels) cluster_instances) (\<lambda>found.
     let es = concat found in
     ret (map with_port (concat (map (\<lambda>e. case e of RW a \<Rightarrow> [a] | _ \<Rightarrow> []) es)),
          map with_port (concat (map (\<lambda>e. case e of RO a \<Rightarrow> [a] | _ \<Rightarrow> []) es)),
          map with_port (concat (map (\<lambda>e. case e of NO a \<Rightarrow> [a] | _ \<Rightarrow> []) es)))))"

definition build_app_status :: "env \<Rightarrow> status op" where
  "build_app_status E =
     bindM (fetch_instances E (client_host E)) (\<lambda>units.
     bindM (cluster_fetch_state E (client_host E)) (\<lambda>state.
     ret (if state \<in> {Some ''OK'', Some ''OK_PARTIAL''} then ActiveStatus ''Healthy''
          else if state \<in> {Some ''OK_NO_TOLERANCE'', Some ''OK_NO_TOLERANCE_PARTIAL''}
          then (if length units < 3 then ActiveStatus ''Healthy'' else ActiveStatus ''Degraded'')
          else if state = Some ''NO_QUORUM'' then BlockedStatus ''No quorum''
          else if state \<in> {Some ''OFFLINE'', Some ''ERROR''} then BlockedStatus ''No online members''
          else if state = Some ''UNREACHABLE'' then BlockedStatus ''No connectivity''
          else MaintenanceStatus ''Unknown'')))"

definition build_unit_status :: "env \<Rightarrow> status op" where
  "build_unit_status E =
     bindM (inst_fetch_role E (client_host E)) (\<lambda>role.
     bindM (inst_fetch_state E (client_host E)) (\<lambda>state.
       if state \<noteq> Some ''ONLINE'' then ret (MaintenanceStatus [])
       else if role \<noteq> Some ''PRIMARY'' then ret (ActiveStatus [])
       else bindM (cluster_fetch_role E (client_host E)) (\<lambda>cluster_role.
         bindM (cluster_fetch_state E (client_host E)) (\<lambda>cluster_state.
           if \<not> falsy cluster_state \<and> cluster_role = Some ''PRIMARY'' then ret (ActiveStatus ''Primary'')
           else if \<not> falsy cluster_state \<and> cluster_role = Some ''REPLICA''
           then ret (ActiveStatus (''Standby ('' @ the cluster_state @ '')''))
           else ret (MaintenanceStatus ''Unknown'')))))"

definition k8s_update_app_labels :: "env \<Rightarrow> unit op" where
  "k8s_update_app_labels E =
     bindM (build_cluster_endpoints E RELATION_DATABASE) (\<lambda>(rw, ro, no). block
       [for_each (k8s_update_label E ''primary'') rw,
        for_each (k8s_update_label E ''replicas'') ro,
        for_each (k8s_update_label E ''offline'') no])"

definition update_app_labels :: "env \<Rightarrow> unit op" where
  "update_app_labels E = (case substrate E of K8S \<Rightarrow> k8s_update_app_labels E | VM \<Rightarrow> ret ())"

definition k8s_build_database_endpoints :: "env \<Rightarrow> (string list \<times> string list \<times> string list) op" where
  "k8s_build_database_endpoints E =
     bindM (container_get_hostname E (app_name E @ ''-primary'')) (\<lambda>primary_hostname.
     bindM (container_get_hostname E (app_name E @ ''-replicas'')) (\<lambda>replica_hostname.
     seqM (check_service E primary_hostname server_port)
       (ret ([with_port primary_hostname], [with_port replica_hostname], []))))"

definition vm_build_database_endpoints :: "env \<Rightarrow> (string list \<times> string list \<times> string list) op" where
  "vm_build_database_endpoints E = build_cluster_endpoints E RELATION_DATABASE"

definition build_database_endpoints :: "env \<Rightarrow> (string list \<times> string list \<times> string list) op" where
  "build_database_endpoints E = (case substrate E of
     K8S \<Rightarrow> k8s_build_database_endpoints E | VM \<Rightarrow> vm_build_database_endpoints E)"

definition handler_update_database_endpoints :: "env \<Rightarrow> nat \<Rightarrow> unit op" where
  "handler_update_database_endpoints E relation_id =
     bindM (build_database_endpoints E) (\<lambda>(rw, ro, _). block
       [act E (Juju (SetRelationField relation_id ''endpoints'' (join_with '','' rw))),
        act E (Juju (SetRelationField relation_id ''read-only-endpoints'' (join_with '','' ro)))])"

definition update_database_endpoints :: "env \<Rightarrow> unit op" where
  "update_database_endpoints E =
     bindM (initialized E) (\<lambda>ready.
       if \<not> ready then ret ()
       else if \<not> is_leader E then ret ()
       else if refreshing E then ret ()
       else if database_relations E = [] then ret ()
       else seqM (update_app_labels E)
         (for_each (\<lambda>(relation_id, units). if units = [] then ret ()
            else handler_update_database_endpoints E relation_id) (database_relations E)))"

section \<open>Configuration\<close>

definition build_server_config :: "env \<Rightarrow> server_options \<Rightarrow> cval dict op" where
  "build_server_config E so = bindM (get_memory E) (\<lambda>memory. ret (server_config (the_paths E) memory so))"

definition manager_calculate_buffer_pool :: "env \<Rightarrow> int op" where
  "manager_calculate_buffer_pool E = bindM (get_memory E) (\<lambda>memory. ret (fst (calculate_buffer_pool memory)))"

definition read_server_config :: "env \<Rightarrow> string dict op" where
  "read_server_config E = bindM (read_text E (mysql_config_custom (the_paths E))) (\<lambda>s. lift (read_server_text s))"

definition write_server_config :: "env \<Rightarrow> cval dict \<Rightarrow> unit op" where
  "write_server_config E cfg = bindM (lift (write_server_text cfg)) (\<lambda>text.
     write_text E (mysql_config_custom (the_paths E)) text)"

definition update_dynamic_var :: "env \<Rightarrow> string \<Rightarrow> string \<Rightarrow> unit op" where
  "update_dynamic_var E key v = update_variable E (client_host E) key (VStr v)"

definition check_restart :: "string dict \<Rightarrow> string dict \<Rightarrow> bool" where
  "check_restart config_old config_new = check_static_key (compute_diff config_old config_new)"

definition helper_apply_config :: "env \<Rightarrow> string dict \<Rightarrow> string dict \<Rightarrow> unit op" where
  "helper_apply_config E config_old config_new =
     for_each (\<lambda>key. bindM (lift (dict_index config_new key)) (\<lambda>v.
       update_dynamic_var E (removeprefix ''loose-'' key) v))
     (set_order E (filter_static_keys (compute_diff config_old config_new)))"

definition server_options_of :: "charm_config \<Rightarrow> string \<Rightarrow> server_options" where
  "server_options_of c address =
     \<lparr>so_audit_enabled = cfg_plugin_audit_enabled c, so_audit_format = AuditFormat_JSON,
      so_audit_policy = cfg_logs_audit_policy c, so_audit_strategy = cfg_plugin_audit_strategy c,
      so_binlog_retention_days = cfg_binlog_retention_days c, so_instance_address = address,
      so_memory_profile = cfg_profile c, so_memory_limit = cfg_profile_limit_memory c,
      so_max_connections = cfg_max_connections c\<rparr>"

definition save_config :: "env \<Rightarrow> string dict op" where
  "save_config E =
     bindM (get_unit_address E (unit_name E) RELATION_PEERS) (\<lambda>address.
     bindM (build_server_config E (server_options_of (config E) address)) (\<lambda>cfg.
     seqM (write_server_config E cfg) (ret (dict_map str_cval cfg))))"

definition apply_config :: "env \<Rightarrow> unit op" where
  "apply_config E =
     try_else
       (bindM (read_server_config E) (\<lambda>config_old. bindM (save_config E) (\<lambda>config_new.
          ret (config_old, config_new))))
       [PyFileNotFoundError] (\<lambda>_. ret ())
       (\<lambda>(config_old, config_new).
          seqM (helper_apply_config E config_old config_new)
            (bindM (initialized E) (\<lambda>ready.
              if ready \<and> check_restart config_old config_new
              then act E (Juju (RequestLock ''restart'')) else ret ())))"

section \<open>The calls of the charm and its helpers\<close>

lemma emits_databag [emits]:
  "emits P (read_app E f)" "emits P (write_app E g)" "emits P (read_unit E u f)" "emits P (write_unit E g)"
  by (auto simp: read_app_def write_app_def read_unit_def write_unit_def intro!: emits)

lemma emits_secrets [emits]:
  "emits P (get_secret i l)" "emits P (secret_create c l')" "emits P (secret_delete l')"
  "emits P (secret_get_value i l k)" "emits P (secret_get_content l')" "emits P (secret_set_content c l')"
  unfolding secret_create_def secret_delete_def secret_get_value_def secret_get_content_def
    secret_set_content_def get_secret_def
  by (intro emits; simp)+

lemma emits_charm_state [emits]:
  "emits P (cluster_name E)" "emits P (cluster_set_name E)" "emits P (set_app_status E s)"
  "emits P (set_unit_status E s)"
  unfolding cluster_name_def cluster_set_name_def set_app_status_def set_unit_status_def
  by (intro emits; simp)+

lemma emits_addresses [emits]:
  assumes "\<And>c. P (Sys c)"
  shows "emits P (get_unit_address E u r)" "(\<And>r. P (Juju (GetBinding r))) \<Longrightarrow> emits P (set_unit_address E r)"
  unfolding get_unit_address_def k8s_get_unit_address_def vm_get_unit_address_def set_unit_address_def
    vm_set_unit_address_def container_get_hostname_def
  by (intro emits assms; assumption)+

lemma emits_initialized [emits]:
  assumes "\<And>c. P (Sys c)" "\<And>c. P (Wkl c)" "P (Sql (client_host E) GetClusterLabels)"
  shows "emits P (initialized E)"
  unfolding initialized_def by (intro emits assms)

lemma emits_endpoints [emits]:
  assumes "\<And>c. P (Sys c)" "\<And>c. P (Wkl c)" "P (Clu (client_host E) (FetchClusterStatus (client_cluster E)))"
  shows "emits P (build_cluster_endpoints E r)" "emits P (build_database_endpoints E)"
    "emits P (update_app_labels E)" "emits P (create_app_services E)"
  unfolding build_database_endpoints_def k8s_build_database_endpoints_def vm_build_database_endpoints_def
    container_get_hostname_def build_cluster_endpoints_def endpoint_of_def update_app_labels_def
    k8s_update_app_labels_def k8s_update_label_def role_labels_def create_app_services_def
    k8s_create_app_services_def k8s_create_service_def
  by (intro emits assms)+

lemma emits_statuses [emits]:
  assumes "P (Clu (client_host E) (FetchClusterStatus (client_cluster E)))"
    "P (Sql (client_host E) GetReplicationRole)" "P (Sql (client_host E) GetReplicationState)"
  shows "emits P (build_app_status E)" "emits P (build_unit_status E)"
  unfolding build_app_status_def build_unit_status_def by (intro emits assms)+

lemma emits_update_database_endpoints [emits]:
  assumes "\<And>c. P (Sys c)" "\<And>c. P (Wkl c)" "P (Clu (client_host E) (FetchClusterStatus (client_cluster E)))"
    "P (Sql (client_host E) GetClusterLabels)" "\<And>i k v. P (Juju (SetRelationField i k v))"
  shows "emits P (handler_update_database_endpoints E n)" "emits P (update_database_endpoints E)"
  unfolding update_database_endpoints_def handler_update_database_endpoints_def by (intro emits assms)+

lemma emits_config [emits]:
  assumes "\<And>c. P (Sys c)" "\<And>c. P (Wkl c)"
  shows "emits P (read_server_config E)" "emits P (save_config E)" "emits P (manager_calculate_buffer_pool E)"
    "(\<And>sc n x. P (Sql (client_host E) (SetVariable sc n x))) \<Longrightarrow> emits P (helper_apply_config E old new)"
  unfolding read_server_config_def save_config_def build_server_config_def write_server_config_def
    manager_calculate_buffer_pool_def helper_apply_config_def update_dynamic_var_def
  by (intro emits assms; assumption?)+

lemma keeps_charm [keeps]:
  assumes "\<And>w es. I w \<Longrightarrow> I (w\<lparr>trace := es\<rparr>)"
  shows "keeps I (read_app E f)" "keeps I (read_unit E u f)" "keeps I (get_secret i l)"
    "keeps I (secret_get_value i l k)" "keeps I (secret_get_content l')" "keeps I (cluster_name E)"
    "keeps I (get_unit_address E u r)" "keeps I (initialized E)" "keeps I (build_cluster_endpoints E r)"
    "keeps I (build_database_endpoints E)" "keeps I (update_app_labels E)" "keeps I (create_app_services E)"
    "keeps I (build_app_status E)" "keeps I (build_unit_status E)"
    "keeps I (handler_update_database_endpoints E n)" "keeps I (update_database_endpoints E)"
proof -
  show "keeps I (read_app E f)" "keeps I (read_unit E u f)" "keeps I (get_secret i l)"
    "keeps I (secret_get_value i l k)" "keeps I (secret_get_content l')" "keeps I (cluster_name E)"
    unfolding cluster_name_def read_app_def read_unit_def secret_get_value_def secret_get_content_def get_secret_def
    by (intro keeps)+
  note c = this
  show a: "keeps I (get_unit_address E u r)" for u r
    unfolding get_unit_address_def k8s_get_unit_address_def vm_get_unit_address_def read_unit_def
    by (intro keeps assms; assumption?)
  show i: "keeps I (initialized E)"
    unfolding initialized_def by (intro keeps c assms; assumption?)
  have n: "keeps I (cluster_name E)" by (rule c)
  show b: "keeps I (build_cluster_endpoints E r)" for r
    unfolding build_cluster_endpoints_def endpoint_of_def by (intro keeps a assms; assumption?)
  show d: "keeps I (build_database_endpoints E)"
    unfolding build_database_endpoints_def k8s_build_database_endpoints_def vm_build_database_endpoints_def
    by (intro keeps b assms; assumption?)
  show u: "keeps I (update_app_labels E)" "keeps I (create_app_services E)"
    unfolding update_app_labels_def k8s_update_app_labels_def k8s_update_label_def role_labels_def
      create_app_services_def k8s_create_app_services_def k8s_create_service_def
    by (intro keeps b n assms; assumption?)+
  show "keeps I (build_app_status E)" "keeps I (build_unit_status E)"
    unfolding build_app_status_def build_unit_status_def by (intro keeps assms; assumption?)+
  show h: "keeps I (handler_update_database_endpoints E n)" for n
    unfolding handler_update_database_endpoints_def by (intro keeps d assms; assumption?)
  show "keeps I (update_database_endpoints E)"
    unfolding update_database_endpoints_def by (intro keeps i u h assms; assumption?)
qed

lemma keeps_set_status [keeps]:
  "(\<And>w s. I w \<Longrightarrow> I (w\<lparr>unit_status := s\<rparr>)) \<Longrightarrow> keeps I (set_unit_status E s)"
  "(\<And>w s. I w \<Longrightarrow> I (w\<lparr>app_status := s\<rparr>)) \<Longrightarrow> keeps I (set_app_status E s)"
  by (auto simp: set_unit_status_def set_app_status_def keeps_def monad_simps)

lemma keeps_write_databag [keeps]:
  "(\<And>w. has_peers E \<Longrightarrow> I w \<Longrightarrow> I (w\<lparr>app_bag := f (app_bag w)\<rparr>)) \<Longrightarrow> keeps I (write_app E f)"
  "(\<And>w. has_peers E \<Longrightarrow> I w \<Longrightarrow>
      I (w\<lparr>unit_bags := (unit_bags w)(unit_name E := f (unit_bags w (unit_name E)))\<rparr>)) \<Longrightarrow> keeps I (write_unit E f)"
  by (auto simp: write_app_def write_unit_def keeps_def monad_simps)

section \<open>Endpoints\<close>

text \<open>The endpoints of an instance when the addresses of the labels are known.\<close>

definition classify :: "(string \<Rightarrow> string) \<Rightarrow> string \<times> instance_info \<Rightarrow> endpoint list" where
  "classify addr = (\<lambda>(l, i).
     if ii_status i = ''RECOVERING'' \<or> addr l = [] then []
     else (if ii_status i \<noteq> ''ONLINE'' then [NO (addr l)] else [])
       @ (if ii_status i = ''ONLINE'' \<and> ii_mode i = ''R/O'' then [RO (addr l)] else [])
       @ (if ii_status i = ''ONLINE'' \<and> ii_mode i = ''R/W'' then [RW (addr l)] else []))"

abbreviation rw_of :: "endpoint \<Rightarrow> string list" where
  "rw_of \<equiv> \<lambda>e. case e of RW a \<Rightarrow> [a] | _ \<Rightarrow> []"

abbreviation ro_of :: "endpoint \<Rightarrow> string list" where
  "ro_of \<equiv> \<lambda>e. case e of RO a \<Rightarrow> [a] | _ \<Rightarrow> []"

abbreviation no_of :: "endpoint \<Rightarrow> string list" where
  "no_of \<equiv> \<lambda>e. case e of NO a \<Rightarrow> [a] | _ \<Rightarrow> []"

lemma classify_one:
  "set (concat (map rw_of (classify addr (l, i)))) =
     (if ii_status i = ''ONLINE'' \<and> ii_mode i = ''R/W'' \<and> addr l \<noteq> [] then {addr l} else {})"
  "set (concat (map ro_of (classify addr (l, i)))) =
     (if ii_status i = ''ONLINE'' \<and> ii_mode i = ''R/O'' \<and> addr l \<noteq> [] then {addr l} else {})"
  "set (concat (map no_of (classify addr (l, i)))) =
     (if ii_status i \<noteq> ''ONLINE'' \<and> ii_status i \<noteq> ''RECOVERING'' \<and> addr l \<noteq> [] then {addr l} else {})"
  by (cases "ii_status i = ''ONLINE''"; cases "ii_mode i = ''R/W''"; cases "ii_mode i = ''R/O''";
      simp add: classify_def)+

lemma concat_classify: "set (concat (map f (concat (map g xs)))) = (\<Union>x \<in> set xs. set (concat (map f (g x))))"
  by (induction xs) simp_all

lemma classify_sets:
  "set (concat (map rw_of (concat (map (classify addr) xs)))) =
     {a. \<exists>l i. (l, i) \<in> set xs \<and> ii_status i = ''ONLINE'' \<and> ii_mode i = ''R/W'' \<and> addr l = a \<and> a \<noteq> []}"
  "set (concat (map ro_of (concat (map (classify addr) xs)))) =
     {a. \<exists>l i. (l, i) \<in> set xs \<and> ii_status i = ''ONLINE'' \<and> ii_mode i = ''R/O'' \<and> addr l = a \<and> a \<noteq> []}"
  "set (concat (map no_of (concat (map (classify addr) xs)))) =
     {a. \<exists>l i. (l, i) \<in> set xs \<and> ii_status i \<noteq> ''ONLINE'' \<and> ii_status i \<noteq> ''RECOVERING'' \<and> addr l = a \<and> a \<noteq> []}"
  unfolding concat_classify by (rule set_eqI, force simp only: classify_one split: if_splits)+

definition published :: "env \<Rightarrow> string \<Rightarrow> world \<Rightarrow> string \<Rightarrow> string" where
  "published E r w l = (case map_of (map (\<lambda>u. (get_unit_label u, u)) (charm_units E)) l of
     None \<Rightarrow> [] | Some u \<Rightarrow> (case state_get_unit_address r (unit_bags w u) of None \<Rightarrow> [] | Some a \<Rightarrow> a))"

lemma published_iff:
  "published E r w l = a \<and> a \<noteq> [] \<longleftrightarrow>
     (\<exists>u. map_of (map (\<lambda>u. (get_unit_label u, u)) (charm_units E)) l = Some u \<and>
        state_get_unit_address r (unit_bags w u) = Some a \<and> a \<noteq> [])"
  by (auto simp: published_def split: option.splits)

lemma vm_endpoint_of:
  assumes "substrate E = VM" "has_peers E"
  shows "endpoint_of E r (map (\<lambda>u. (get_unit_label u, u)) (charm_units E)) x v = (Inr (classify (published E r v) x), v)"
  using assms
  by (auto simp: endpoint_of_def classify_def published_def get_unit_address_def vm_get_unit_address_def
      read_unit_def bindM_def monad_simps falsy_iff split: option.splits prod.splits)

lemma mapM_pure: "(\<And>x. f x w = (Inr (g x), w)) \<Longrightarrow> mapM f xs w = (Inr (map g xs), w)"
  by (induction xs) (simp_all add: bindM_def monad_simps)

lemma vm_build_cluster_endpoints:
  assumes "substrate E = VM" and "has_peers E"
    and "ans_status E (trace w) (Clu (client_host E) (FetchClusterStatus (client_cluster E))) = Inr st"
  shows "\<exists>w'. build_cluster_endpoints E r w =
    (Inr (map with_port (concat (map rw_of (concat (map (classify (published E r w)) (cs_topology st))))),
          map with_port (concat (map ro_of (concat (map (classify (published E r w)) (cs_topology st))))),
          map with_port (concat (map no_of (concat (map (classify (published E r w)) (cs_topology st)))))), w')"
proof -
  let ?w = "w\<lparr>trace := trace w @ [Clu (client_host E) (FetchClusterStatus (client_cluster E))]\<rparr>"
  have p: "published E r ?w = published E r w" by (rule ext) (simp add: published_def split: option.split)
  have "fetch_instances E (client_host E) w = (Inr (cs_topology st), ?w)"
    by (simp add: fetch_instances_def fetch_cluster_status_def try_else_def monad_simps assms(3))
  then show ?thesis
    using mapM_pure [of "endpoint_of E r (map (\<lambda>u. (get_unit_label u, u)) (charm_units E))" ?w
        "classify (published E r ?w)", OF vm_endpoint_of [OF assms(1,2)]]
    by (simp add: build_cluster_endpoints_def bindM_def monad_simps Let_def p)
qed

lemma vm_endpoints:
  assumes "substrate E = VM" and "has_peers E"
    and "ans_status E (trace w) (Clu (client_host E) (FetchClusterStatus (client_cluster E))) = Inr st"
  shows "\<exists>rw ro no w'. build_cluster_endpoints E r w = (Inr (rw, ro, no), w') \<and>
    (let serving = (\<lambda>Q a. \<exists>l i u. (l, i) \<in> set (cs_topology st) \<and> Q (ii_status i) (ii_mode i) \<and>
           map_of (map (\<lambda>u. (get_unit_label u, u)) (charm_units E)) l = Some u \<and>
           state_get_unit_address r (unit_bags w u) = Some a \<and> a \<noteq> []) in
     set rw = with_port ` {a. serving (\<lambda>s m. s = ''ONLINE'' \<and> m = ''R/W'') a} \<and>
     set ro = with_port ` {a. serving (\<lambda>s m. s = ''ONLINE'' \<and> m = ''R/O'') a} \<and>
     set no = with_port ` {a. serving (\<lambda>s m. s \<noteq> ''ONLINE'' \<and> s \<noteq> ''RECOVERING'') a})"
proof -
  obtain w' where r: "build_cluster_endpoints E r w =
    (Inr (map with_port (concat (map rw_of (concat (map (classify (published E r w)) (cs_topology st))))),
          map with_port (concat (map ro_of (concat (map (classify (published E r w)) (cs_topology st))))),
          map with_port (concat (map no_of (concat (map (classify (published E r w)) (cs_topology st)))))), w')"
    using vm_build_cluster_endpoints [OF assms] by blast
  have sw: "{a. \<exists>l i. (l, i) \<in> set (cs_topology st) \<and> Q (ii_status i) (ii_mode i) \<and> published E r w l = a \<and> a \<noteq> []} =
    {a. \<exists>l i u. (l, i) \<in> set (cs_topology st) \<and> Q (ii_status i) (ii_mode i) \<and>
           map_of (map (\<lambda>u. (get_unit_label u, u)) (charm_units E)) l = Some u \<and>
           state_get_unit_address r (unit_bags w u) = Some a \<and> a \<noteq> []}" for Q
    by (rule Collect_cong) (simp only: published_iff, blast)
  show ?thesis
    unfolding r Let_def
    by (intro exI conjI, rule refl)
      (simp_all only: set_map classify_sets
        sw [of "\<lambda>s m. s = ''ONLINE'' \<and> m = ''R/W''", unfolded conj_assoc, symmetric]
        sw [of "\<lambda>s m. s = ''ONLINE'' \<and> m = ''R/O''", unfolded conj_assoc, symmetric]
        sw [of "\<lambda>s m. s \<noteq> ''ONLINE'' \<and> s \<noteq> ''RECOVERING''", unfolded conj_assoc, symmetric] conj_assoc)
qed

text \<open>The canonical name that the resolver answers for an address, with a dot at the end.\<close>

definition resolves :: "env \<Rightarrow> event list \<Rightarrow> string \<Rightarrow> string \<Rightarrow> bool" where
  "resolves E tr address h \<longleftrightarrow> (\<exists>n ns. ans_strs E tr (Sys (GetAddrInfo address)) = Inr (n # ns) \<and>
     h = (if ends_with ''.'' n then n else n @ ''.''))"

lemma container_get_hostname_Inr:
  "container_get_hostname E address w = (Inr h, w') \<longleftrightarrow>
     resolves E (trace w) address h \<and> w' = w\<lparr>trace := trace w @ [Sys (GetAddrInfo address)]\<rparr>"
  by (cases "ans_strs E (trace w) (Sys (GetAddrInfo address))")
    (auto simp: container_get_hostname_def resolves_def try_except_def bindM_def monad_simps split: list.splits)

lemma k8s_endpoints:
  assumes "k8s_build_database_endpoints E w = (Inr (rw, ro, no), w')"
  shows "\<exists>p q n. rw = [with_port p] \<and> ro = [with_port q] \<and> no = [] \<and>
    (let ask_p = Sys (GetAddrInfo (app_name E @ ''-primary'')); ask_q = Sys (GetAddrInfo (app_name E @ ''-replicas''));
         call = Sys (Connect p server_port) in
     resolves E (trace w) (app_name E @ ''-primary'') p \<and> resolves E (trace w @ [ask_p]) (app_name E @ ''-replicas'') q \<and>
     trace w' = trace w @ [ask_p, ask_q] @ replicate (Suc n) call \<and>
     ans_unit E (trace w @ [ask_p, ask_q] @ replicate n call) call = Inr ())"
proof -
  obtain p q where r: "rw = [with_port p]" "ro = [with_port q]" "no = []" "resolves E (trace w) (app_name E @ ''-primary'') p"
    "resolves E (trace w @ [Sys (GetAddrInfo (app_name E @ ''-primary''))]) (app_name E @ ''-replicas'') q"
    and c: "attempts (Suc (retry_budget E)) (act E (Sys (Connect p server_port)))
      (w\<lparr>trace := trace w @ [Sys (GetAddrInfo (app_name E @ ''-primary'')), Sys (GetAddrInfo (app_name E @ ''-replicas''))]\<rparr>) = (Inr (), w')"
    using assms
    by (auto simp: k8s_build_database_endpoints_def check_service_def bindM_Inr_iff seqM_Inr_iff container_get_hostname_Inr
        monad_simps simp del: attempts.simps)
  from attempts_act_run [OF c] r show ?thesis
    by (intro exI [where x = p] exI [where x = q]) (auto simp: Let_def simp del: replicate_Suc)
qed

text \<open>
  (C24) Which endpoints are published to clients.  On machines they come from the status of the cluster itself and the
  addresses in the databags, and from nothing else: an address is a read-write (read-only)
  endpoint exactly when an instance that MySQL reports as online and \<open>R/W\<close> (\<open>R/O\<close>) has the label
  of a unit of the application that has published this address, and it is an offline endpoint exactly
  when such an instance is neither online nor recovering.  On Kubernetes they are one name each for the services of the primary and of the
  replicas, as the resolver answers them, and no offline endpoint, and only after the service of the primary has accepted a connection.
\<close>

theorem database_endpoints_exact:
  assumes "substrate E = VM \<Longrightarrow> has_peers E \<and>
      ans_status E (trace w) (Clu (client_host E) (FetchClusterStatus (client_cluster E))) = Inr st"
  shows "case substrate E of
    VM \<Rightarrow> (\<exists>rw ro no w'. build_database_endpoints E w = (Inr (rw, ro, no), w') \<and>
      (let serving = (\<lambda>Q a. \<exists>l i u. (l, i) \<in> set (cs_topology st) \<and> Q (ii_status i) (ii_mode i) \<and>
             map_of (map (\<lambda>u. (get_unit_label u, u)) (charm_units E)) l = Some u \<and>
             state_get_unit_address RELATION_DATABASE (unit_bags w u) = Some a \<and> a \<noteq> []) in
       set rw = with_port ` {a. serving (\<lambda>s m. s = ''ONLINE'' \<and> m = ''R/W'') a} \<and>
       set ro = with_port ` {a. serving (\<lambda>s m. s = ''ONLINE'' \<and> m = ''R/O'') a} \<and>
       set no = with_port ` {a. serving (\<lambda>s m. s \<noteq> ''ONLINE'' \<and> s \<noteq> ''RECOVERING'') a}))
  | K8S \<Rightarrow> (\<forall>rw ro no w'. build_database_endpoints E w = (Inr (rw, ro, no), w') \<longrightarrow>
      (\<exists>p q n. rw = [with_port p] \<and> ro = [with_port q] \<and> no = [] \<and>
        (let ask_p = Sys (GetAddrInfo (app_name E @ ''-primary'')); ask_q = Sys (GetAddrInfo (app_name E @ ''-replicas''));
             call = Sys (Connect p server_port) in
         resolves E (trace w) (app_name E @ ''-primary'') p \<and> resolves E (trace w @ [ask_p]) (app_name E @ ''-replicas'') q \<and>
         trace w' = trace w @ [ask_p, ask_q] @ replicate (Suc n) call \<and>
         ans_unit E (trace w @ [ask_p, ask_q] @ replicate n call) call = Inr ())))"
proof (cases "substrate E")
  case K8S
  then show ?thesis
    unfolding build_database_endpoints_def K8S substrate.case by (intro allI impI k8s_endpoints)
next
  case VM
  with assms have "has_peers E" "ans_status E (trace w) (Clu (client_host E) (FetchClusterStatus (client_cluster E))) = Inr st"
    by simp_all
  from vm_endpoints [OF VM this] show ?thesis
    unfolding build_database_endpoints_def VM substrate.case vm_build_database_endpoints_def .
qed

definition sample_instance :: "string \<Rightarrow> string \<Rightarrow> instance_info" where
  "sample_instance st mode = \<lparr>ii_status = st, ii_mode = mode, ii_errors = ParamStr [], ii_hidden = False\<rparr>"

definition sample_status :: "string \<Rightarrow> cluster_status" where
  "sample_status state = \<lparr>cs_role = ''PRIMARY'', cs_state = state, cs_primary = ''mysql-0:3306'',
     cs_topology = [(''mysql-0'', sample_instance ''ONLINE'' ''R/W''), (''mysql-1'', sample_instance ''ONLINE'' ''R/O''),
       (''mysql-2'', sample_instance ''RECOVERING'' ''R/O''), (''other-7'', sample_instance ''ONLINE'' ''R/W'')]\<rparr>"

definition sample_world :: world where
  "sample_world = quiet_world\<lparr>
     app_bag := [cluster_name_key \<mapsto> ''c'', cluster_set_name_key \<mapsto> ''s''],
     unit_bags := (\<lambda>u. [unit_address_key RELATION_DATABASE \<mapsto> get_unit_label u @ ''.db'',
       unit_address_key RELATION_PEERS \<mapsto> get_unit_label u @ ''.peers''])\<rparr>"

definition cluster_env :: env where
  "cluster_env = quiet_env\<lparr>ans_status := \<lambda>_ _. Inr (sample_status ''OK''),
     ans_strs := \<lambda>_ e. (case e of Sql _ GetClusterLabels \<Rightarrow> Inr [''c''] | _ \<Rightarrow> Inr [])\<rparr>"

text \<open>The same on Kubernetes, where every name resolves.\<close>

definition resolving_env :: env where
  "resolving_env = cluster_env\<lparr>substrate := K8S, ans_strs := \<lambda>_ e. (case e of Sys (GetAddrInfo a) \<Rightarrow> Inr [a @ ''.local''] | _ \<Rightarrow> Inr [])\<rparr>"

lemma resolving_endpoints:
  "\<exists>rw ro no w'. build_database_endpoints resolving_env sample_world = (Inr (rw, ro, no), w')"
  by (simp add: build_database_endpoints_def k8s_build_database_endpoints_def container_get_hostname_def check_service_def
      resolving_env_def cluster_env_def quiet_env_def try_except_def bindM_def seqM_def monad_simps)

theorem database_endpoints_exact_witness:
  "(\<exists>rw ro no w'. build_database_endpoints cluster_env sample_world = (Inr (rw, ro, no), w') \<and> ''mysql-0.db:3306'' \<in> set rw) \<and>
   (\<exists>rw ro no w' p. build_database_endpoints resolving_env sample_world = (Inr (rw, ro, no), w') \<and>
      rw = [with_port p] \<and> no = [] \<and> resolves resolving_env (trace sample_world) (app_name resolving_env @ ''-primary'') p)"
proof
  have c: "substrate cluster_env = VM" "substrate resolving_env = K8S"
    "has_peers cluster_env \<and> ans_status cluster_env (trace sample_world)
      (Clu (client_host cluster_env) (FetchClusterStatus (client_cluster cluster_env))) = Inr (sample_status ''OK'')"
    by (simp_all add: cluster_env_def resolving_env_def quiet_env_def)
  have l: "map_of (map (\<lambda>u. (get_unit_label u, u)) (charm_units cluster_env)) ''mysql-0'' = Some ''mysql/0''"
    "state_get_unit_address RELATION_DATABASE (unit_bags sample_world ''mysql/0'') = Some ''mysql-0.db''"
    "with_port ''mysql-0.db'' = ''mysql-0.db:3306''"
    by code_simp+
  have i: "(''mysql-0'', sample_instance ''ONLINE'' ''R/W'') \<in> set (cs_topology (sample_status ''OK''))"
    by (simp add: sample_status_def)
  obtain rw ro no w' where b: "build_database_endpoints cluster_env sample_world = (Inr (rw, ro, no), w')"
    and rw: "set rw = with_port ` {a. \<exists>l i u. (l, i) \<in> set (cs_topology (sample_status ''OK'')) \<and>
        (ii_status i = ''ONLINE'' \<and> ii_mode i = ''R/W'') \<and>
        map_of (map (\<lambda>u. (get_unit_label u, u)) (charm_units cluster_env)) l = Some u \<and>
        state_get_unit_address RELATION_DATABASE (unit_bags sample_world u) = Some a \<and> a \<noteq> []}"
    using database_endpoints_exact [of cluster_env sample_world, OF c(3), unfolded Let_def c(1) substrate.case]
    by (elim exE conjE) (rule that)
  have "with_port ''mysql-0.db'' \<in> set rw"
    unfolding rw using i l(1,2) by (intro imageI CollectI exI conjI) (auto simp: sample_instance_def)
  with b l(3) show "\<exists>rw ro no w'. build_database_endpoints cluster_env sample_world = (Inr (rw, ro, no), w') \<and>
      ''mysql-0.db:3306'' \<in> set rw" by auto
  have "substrate resolving_env = VM \<Longrightarrow> has_peers resolving_env \<and> ans_status resolving_env (trace sample_world)
      (Clu (client_host resolving_env) (FetchClusterStatus (client_cluster resolving_env))) = Inr (sample_status ''OK'')"
    using c(2) by simp
  from database_endpoints_exact [OF this] resolving_endpoints
  show "\<exists>rw ro no w' p. build_database_endpoints resolving_env sample_world = (Inr (rw, ro, no), w') \<and>
      rw = [with_port p] \<and> no = [] \<and> resolves resolving_env (trace sample_world) (app_name resolving_env @ ''-primary'') p"
    unfolding c(2) substrate.case Let_def by blast
qed

section \<open>Applying a configuration\<close>

lemma for_each_Inr:
  "for_each f xs w = (Inr (), w') \<Longrightarrow> x \<in> set xs \<Longrightarrow> \<exists>v v'. f x v = (Inr (), v')"
  by (induction xs arbitrary: w) (auto simp: seqM_Inr_iff)

text \<open>
  (C36) A setting that is dropped from the configuration cannot be applied at run time: when a
  key that needs no restart is in the old configuration and not in the new one (disabling the
  audit plugin drops its \<open>file\<close> and \<open>policy\<close> keys), applying the change never returns normally,
  in whatever order the keys are visited.
\<close>

theorem dropped_dynamic_key_fails:
  assumes "\<And>xs. set (set_order E xs) = set xs"
    and "map_of config_old k \<noteq> None" and "map_of config_new k = None" and "k \<notin> set all_static_keys"
  shows "fst (helper_apply_config E config_old config_new w) \<noteq> Inr ()"
proof
  assume "fst (helper_apply_config E config_old config_new w) = Inr ()"
  then obtain w' where "helper_apply_config E config_old config_new w = (Inr (), w')"
    by (metis prod.collapse)
  moreover have "k \<in> set (set_order E (filter_static_keys (compute_diff config_old config_new)))"
    using assms by (simp add: filter_static_iff)
  ultimately obtain v v' where "bindM (lift (dict_index config_new k)) (\<lambda>x.
      update_dynamic_var E (removeprefix ''loose-'' k) x) v = (Inr (), v')"
    unfolding helper_apply_config_def using for_each_Inr by fastforce
  then show False using assms(3) by (simp add: bindM_def monad_simps dict_index_def)
qed

definition sample_old :: "string dict" where
  "sample_old = dict_map str_cval (server_config (system_paths VM) 8000000000 sample_options)"

definition sample_new :: "string dict" where
  "sample_new = dict_map str_cval
     (server_config (system_paths VM) 8000000000 (sample_options\<lparr>so_audit_enabled := False\<rparr>))"

theorem dropped_dynamic_key_fails_witness:
  "fst (helper_apply_config quiet_env sample_old sample_new quiet_world) \<noteq> Inr ()"
proof -
  have "map_of sample_old ''loose-audit_log_filter.policy'' \<noteq> None"
    "map_of sample_new ''loose-audit_log_filter.policy'' = None"
    "''loose-audit_log_filter.policy'' \<notin> set all_static_keys"
    by (simp_all add: sample_old_def sample_new_def server_config_def sample_options_def Let_def
        map_of_dict_update map_add_def audit_get_config_def password_get_config_def base_config_def
        profile_get_config_def get_testing_config_def all_static_keys_def config_static_keys_def
        audit_static_keys_def profile_static_keys_def password_static_keys_def)
  then show ?thesis
    by (intro dropped_dynamic_key_fails [of _ _ "''loose-audit_log_filter.policy''"])
      (simp_all add: quiet_env_def)
qed

definition own_address :: "env \<Rightarrow> world \<Rightarrow> string" where
  "own_address E w = (if has_peers E then
     (case state_get_unit_address RELATION_PEERS (unit_bags w (unit_name E)) of None \<Rightarrow> [] | Some a \<Rightarrow> a) else [])"

lemma vm_own_address:
  "substrate E = VM \<Longrightarrow> get_unit_address E (unit_name E) RELATION_PEERS w = (Inr (own_address E w), w)"
  by (auto simp: get_unit_address_def vm_get_unit_address_def own_address_def read_unit_def bindM_def
      monad_simps falsy_iff split: option.splits)

text \<open>
  The name by which a unit knows itself: on machines the address that it has published to its peers, on Kubernetes a name
  that the resolver has answered and that contains the name of its pod below the headless service.
\<close>

definition names_unit :: "env \<Rightarrow> world \<Rightarrow> string \<Rightarrow> bool" where
  "names_unit E w host = (case substrate E of
     K8S \<Rightarrow> sublist (get_unit_label (unit_name E) @ ''.'' @ app_name E @ ''-endpoints'') host
   | VM \<Rightarrow> host = own_address E w)"

lemma attempts_Inr: "attempts n m w = (Inr x, w') \<Longrightarrow> \<exists>v. m v = (Inr x, w')"
  by (induction n arbitrary: w) (auto split: if_splits prod.splits sum.splits)

lemma own_address_named:
  assumes "get_unit_address E (unit_name E) RELATION_PEERS v = (Inr host, v')" and "unit_bags v = unit_bags w"
  shows "names_unit E w host"
proof (cases "substrate E")
  case K8S
  with assms(1) show ?thesis
    by (auto simp: names_unit_def get_unit_address_def k8s_get_unit_address_def Let_def bindM_Inr_iff monad_simps
        simp del: attempts.simps split: if_splits dest!: attempts_Inr)
next
  case VM
  with assms show ?thesis by (auto simp: vm_own_address names_unit_def own_address_def)
qed

lemma read_text_Inr:
  "read_text E p w = (Inr t, w') \<longleftrightarrow> ans_unit E (trace w) (Sys (ReadFile p)) = Inr () \<and> files w p = Some t \<and>
     w' = w\<lparr>trace := trace w @ [Sys (ReadFile p)]\<rparr>"
  by (auto simp: read_text_def seqM_Inr_iff bindM_Inr_iff monad_simps split: option.splits)

lemma write_text_Inr:
  "write_text E p t w = (Inr (), w') \<longleftrightarrow> ans_unit E (trace w) (Sys (WriteFile p t)) = Inr () \<and>
     w' = w\<lparr>trace := trace w @ [Sys (WriteFile p t)], files := (files w)(p \<mapsto> t)\<rparr>"
  by (auto simp: write_text_def seqM_Inr_iff monad_simps)

lemma save_config_Inr:
  "save_config E w = (Inr cfg, w') \<longleftrightarrow> (\<exists>a u m v t. get_unit_address E (unit_name E) RELATION_PEERS w = (Inr a, u) \<and>
     get_memory E u = (Inr m, v) \<and> cfg = dict_map str_cval (server_config (the_paths E) m (server_options_of (config E) a)) \<and>
     write_server_text (server_config (the_paths E) m (server_options_of (config E) a)) = Inr t \<and>
     ans_unit E (trace v) (Sys (WriteFile (mysql_config_custom (the_paths E)) t)) = Inr () \<and>
     w' = v\<lparr>trace := trace v @ [Sys (WriteFile (mysql_config_custom (the_paths E)) t)],
       files := (files v)(mysql_config_custom (the_paths E) \<mapsto> t)\<rparr>)"
  by (auto simp: save_config_def bindM_Inr_iff seqM_Inr_iff build_server_config_def write_server_config_def write_text_Inr monad_simps)

lemma config_file_not_meminfo: "mysql_config_custom (the_paths E) \<noteq> ''/proc/meminfo''"
proof -
  have "mysql_config_custom (system_paths K8S) \<noteq> ''/proc/meminfo''" "mysql_config_custom (system_paths VM) \<noteq> ''/proc/meminfo''"
    by code_simp+
  then show ?thesis by (cases "substrate E") simp_all
qed

text \<open>
  A program whose value, whenever it returns one, depends only on the part of the state that \<open>I\<close> pins: two runs from such states do
  not return different values, although each of them may fail.
\<close>

definition agrees :: "(world \<Rightarrow> bool) \<Rightarrow> 'a op \<Rightarrow> bool" where
  "agrees I m \<longleftrightarrow> (\<forall>v v' x x'. I v \<longrightarrow> I v' \<longrightarrow> fst (m v) = Inr x \<longrightarrow> fst (m v') = Inr x' \<longrightarrow> x = x')"

lemma agreesD: "agrees I m \<Longrightarrow> I v \<Longrightarrow> I v' \<Longrightarrow> m v = (Inr x, u) \<Longrightarrow> m v' = (Inr x', u') \<Longrightarrow> x = x'"
  unfolding agrees_def by (metis fst_conv)

lemma agrees_bindM:
  assumes "agrees I m" "keeps I m" "\<And>x. agrees I (f x)"
  shows "agrees I (bindM m f)"
  unfolding agrees_def
proof (intro allI impI)
  fix v v' x x' assume v: "I v" "I v'" and r: "fst (bindM m f v) = Inr x" "fst (bindM m f v') = Inr x'"
  from r obtain y u y' u' where "m v = (Inr y, u)" "m v' = (Inr y', u')" "fst (f y u) = Inr x" "fst (f y' u') = Inr x'"
    by (auto simp: bindM_def split: prod.splits sum.splits)
  moreover from this v assms(1) have "y = y'" by (metis agreesD)
  moreover have "I u" "I u'" using assms(2) v calculation by (metis keepsD)+
  ultimately show "x = x'" using assms(3) unfolding agrees_def by blast
qed

lemma agrees_basic:
  "agrees I (ret x)" "agrees I (raise e)" "agrees I (lift r)"
  by (auto simp: agrees_def monad_simps)

lemma agrees_ask: "(\<And>tr tr' x y. f tr c = Inr x \<Longrightarrow> f tr' c = Inr y \<Longrightarrow> x = y) \<Longrightarrow> agrees I (ask f c)"
  by (auto simp: agrees_def monad_simps)

lemma agrees_cases:
  "(b \<Longrightarrow> agrees I m) \<Longrightarrow> (\<not> b \<Longrightarrow> agrees I n) \<Longrightarrow> agrees I (if b then m else n)"
  "agrees I m \<Longrightarrow> (\<And>y. agrees I (f y)) \<Longrightarrow> agrees I (case_option m f x)"
  "agrees I m \<Longrightarrow> (\<And>y ys. agrees I (g y ys)) \<Longrightarrow> agrees I (case_list m g l)"
  "(\<And>a c. agrees I (h a c)) \<Longrightarrow> agrees I (case_prod h p)"
  by (simp_all split: option.split list.split prod.split)

lemma agrees_reraise:
  assumes "agrees I m"
  shows "agrees I (try_except m cs (\<lambda>e. raise (g e)))"
proof -
  have "fst (try_except m cs (\<lambda>e. raise (g e)) v) = Inr x \<Longrightarrow> fst (m v) = Inr x" for v x
    by (cases "m v") (auto simp: try_except_def monad_simps split: sum.splits if_splits)
  with assms show ?thesis unfolding agrees_def by blast
qed

lemma agrees_attempts:
  assumes "agrees I m" "keeps I m"
  shows "agrees I (attempts n m)"
proof -
  have "I v \<Longrightarrow> attempts n m v = (Inr x, u) \<Longrightarrow> \<exists>v'. I v' \<and> m v' = (Inr x, u)" for v x u
  proof (induction n arbitrary: v)
    case (Suc n)
    show ?case
    proof (cases "m v")
      case (Pair r v')
      then have "I v'" using assms(2) Suc.prems(1) by (metis keepsD)
      with Pair Suc show ?thesis by (cases r) (auto split: if_splits)
    qed
  qed auto
  then show ?thesis using assms(1) unfolding agrees_def by (metis prod.collapse)
qed

lemma same_config_no_calls:
  assumes "set_order E [] = []"
  shows "helper_apply_config E c c = ret ()" "\<not> check_restart c c"
proof -
  have "compute_diff c c = []"
    using compute_diff_iff [of _ c c] by (cases "compute_diff c c") auto
  then show "helper_apply_config E c c = ret ()" "\<not> check_restart c c"
    using assms by (simp_all add: helper_apply_config_def check_restart_def filter_static_keys_def check_static_key_def)
qed

definition quiet_call :: "event \<Rightarrow> bool" where
  "quiet_call e = (case e of Sql _ (SetVariable _ _ _) \<Rightarrow> False | Juju (RequestLock _) \<Rightarrow> False | _ \<Rightarrow> True)"

text \<open>The API of Kubernetes and the resolver, whenever they answer, answer the same.\<close>

definition steady_answers :: "env \<Rightarrow> bool" where
  "steady_answers E \<longleftrightarrow> (\<forall>tr tr' e x y. ans_pod E tr e = Inr x \<longrightarrow> ans_pod E tr' e = Inr y \<longrightarrow> x = y) \<and>
     (\<forall>tr tr' e x y. ans_node E tr e = Inr x \<longrightarrow> ans_node E tr' e = Inr y \<longrightarrow> x = y) \<and>
     (\<forall>tr tr' a x y. ans_strs E tr (Sys (GetAddrInfo a)) = Inr x \<longrightarrow> ans_strs E tr' (Sys (GetAddrInfo a)) = Inr y \<longrightarrow> x = y)"

lemma config_inputs_agree:
  assumes "substrate E = K8S \<Longrightarrow> steady_answers E"
  defines "I \<equiv> \<lambda>w v. unit_bags v = unit_bags w \<and> files v ''/proc/meminfo'' = files w ''/proc/meminfo''"
  shows "agrees (I w) (get_unit_address E u r)" "agrees (I w) (get_memory E)"
proof -
  have k: "keeps (I w) (ask g e)" for g :: "event list \<Rightarrow> event \<Rightarrow> exn + 'x" and e unfolding I_def by (intro keeps) simp
  show "agrees (I w) (get_unit_address E u r)"
  proof (cases "substrate E")
    case K8S
    with assms(1) have a: "agrees (I w) (ask (ans_strs E) (Sys (GetAddrInfo a)))" for a
      by (intro agrees_ask) (auto simp: steady_answers_def)
    show ?thesis
      unfolding get_unit_address_def K8S substrate.case k8s_get_unit_address_def container_get_hostname_def Let_def
      by (intro agrees_attempts agrees_bindM agrees_cases agrees_basic agrees_reraise keeps k a)
  qed (auto simp: agrees_def I_def get_unit_address_def vm_get_unit_address_def read_unit_def bindM_def monad_simps)
  show "agrees (I w) (get_memory E)"
  proof (cases "substrate E")
    case K8S
    with assms(1) have a: "agrees (I w) (ask (ans_pod E) e)" "agrees (I w) (ask (ans_node E) e)" for e
      by (auto intro!: agrees_ask simp: steady_answers_def)
    show ?thesis
      unfolding get_memory_def K8S substrate.case container_get_memory_def get_container_memory_def get_node_memory_def
        get_container_limits_def node_name_def
      by (intro agrees_bindM agrees_cases agrees_basic agrees_reraise keeps k a)
  next
    case VM
    then show ?thesis
      by (auto simp: agrees_def I_def get_memory_def machine_get_memory_def read_text_def bindM_def seqM_def monad_simps
          split: sum.splits option.splits)
  qed
qed

text \<open>Reading a file that was just saved, and saving again, gives the saved configuration twice.\<close>

lemma saved_config_again:
  assumes steady: "substrate E = K8S \<Longrightarrow> steady_answers E"
    and clean: "\<And>a v. get_unit_address E (unit_name E) RELATION_PEERS w = (Inr a, v) \<Longrightarrow> clean_value a"
    and save: "save_config E w = (Inr cfg, w1)"
    and again: "bindM (read_server_config E) (\<lambda>old. bindM (save_config E) (\<lambda>new. ret (old, new))) w1 = (Inr (old, new), w2)"
  shows "old = cfg \<and> new = cfg"
proof -
  let ?I = "\<lambda>v. unit_bags v = unit_bags w \<and> files v ''/proc/meminfo'' = files w ''/proc/meminfo''"
  let ?sc = "\<lambda>m a. server_config (the_paths E) m (server_options_of (config E) a)"
  let ?address = "get_unit_address E (unit_name E) RELATION_PEERS"
  have k: "keeps ?I ?address" "keeps ?I (get_memory E)" by (intro keeps; simp)+
  obtain a u m v t where f: "?address w = (Inr a, u)" "get_memory E u = (Inr m, v)" "cfg = dict_map str_cval (?sc m a)"
    "write_server_text (?sc m a) = Inr t" "files w1 = (files v)(mysql_config_custom (the_paths E) \<mapsto> t)" "unit_bags w1 = unit_bags v"
    using save unfolding save_config_Inr by auto
  have i: "?I u" "?I v" using keepsD [OF k(1) _ f(1)] keepsD [OF k(2) _ f(2)] by simp_all
  have "clean_value (so_instance_address (server_options_of (config E) a))"
    using clean [OF f(1)] by (simp add: server_options_of_def)
  then have rt: "read_server_text t = Inr cfg"
    using clean_text_reads_back [OF server_config_clean [OF clean_system_paths], of "server_options_of (config E) a" "substrate E" m] f(3,4)
    by simp
  from again obtain w' where r: "read_server_config E w1 = (Inr old, w')" and sv: "save_config E w' = (Inr new, w2)"
    by (auto simp: bindM_Inr_iff monad_simps)
  have o': "old = cfg" "files w' = files w1" "unit_bags w' = unit_bags w1"
    using r f(5) rt by (auto simp: read_server_config_def bindM_Inr_iff read_text_Inr monad_simps)
  obtain a' u' m' v' where g: "?address w' = (Inr a', u')" "get_memory E u' = (Inr m', v')" "new = dict_map str_cval (?sc m' a')"
    using sv unfolding save_config_Inr by blast
  have i': "?I w'" using o' f(5,6) i(2) config_file_not_meminfo [of E] by simp
  then have "?I u'" using keepsD [OF k(1) _ g(1)] by simp
  with i i' have "a' = a" "m' = m"
    using agreesD [OF config_inputs_agree(1) [OF steady] _ _ g(1) f(1)] agreesD [OF config_inputs_agree(2) [OF steady] _ _ g(2) f(2)]
    by blast+
  with o' f(3) g(3) show ?thesis by simp
qed

text \<open>
  (C22) Applying a configuration twice changes nothing the second time: after a configuration was saved, for an address without
  blanks or line breaks, the next \<open>apply_config\<close> with the same charm configuration sets no variable of the server and requests no
  restart, however its calls are answered.  On Kubernetes, where the memory and the address are asked for again, the API and the resolver have to answer
  them as before, if they answer.
\<close>

theorem apply_config_idempotent:
  assumes "substrate E = K8S \<Longrightarrow> steady_answers E" and "set_order E [] = []"
    and "\<And>a v. get_unit_address E (unit_name E) RELATION_PEERS w = (Inr a, v) \<Longrightarrow> clean_value a"
    and "save_config E w = (Inr cfg, w1)"
  shows "\<exists>es. trace (snd (apply_config E w1)) = trace w1 @ es \<and> list_all quiet_call es"
proof -
  let ?first = "bindM (read_server_config E) (\<lambda>old. bindM (save_config E) (\<lambda>new. ret (old, new)))"
  have f: "emits quiet_call ?first" by (intro emits) (simp_all add: quiet_call_def)
  have i: "emits quiet_call (initialized E)" by (intro emits) (simp_all add: quiet_call_def)
  obtain r w2 where r: "?first w1 = (r, w2)" by force
  obtain es where es: "trace w2 = trace w1 @ es" "list_all quiet_call es" using emitsE [OF f r] by blast
  show ?thesis
  proof (cases r)
    case (Inl e)
    with r es show ?thesis by (auto simp: apply_config_def try_else_def monad_simps)
  next
    case (Inr p)
    then obtain old new where p: "r = Inr (old, new)" by (cases p) auto
    have "old = cfg \<and> new = cfg" 
      by (rule saved_config_again [OF _ _ assms(4)]) (use assms(1,3) r p in auto)
    then have "apply_config E w1 = bindM (initialized E) (\<lambda>_. ret ()) w2"
      using r p same_config_no_calls [OF assms(2)] by (simp add: apply_config_def try_else_def)
    moreover have "emits quiet_call (bindM (initialized E) (\<lambda>_. ret ()))" by (intro emits i)
    ultimately obtain es2 where "trace (snd (apply_config E w1)) = trace w2 @ es2" "list_all quiet_call es2"
      unfolding emits_def by metis
    with es show ?thesis by (intro exI [where x = "es @ es2"]) simp
  qed
qed

definition meminfo_world :: world where
  "meminfo_world = sample_world\<lparr>files := [''/proc/meminfo'' \<mapsto> ''MemTotal: 9 kB'']\<rparr>"

text \<open>A pod with a limit of its memory, on a node with more.\<close>

definition limited_env :: env where
  "limited_env = resolving_env\<lparr>ans_pod := \<lambda>_ _. Inr \<lparr>pod_spec = Some \<lparr>pod_node_name = Some ''n'',
       pod_containers = [\<lparr>ct_name = ''mysql'', ct_limits = Some (Some [(''memory'', ''9Gi'')])\<rparr>]\<rparr>, pod_labels = None\<rparr>,
     ans_node := \<lambda>_ _. Inr (Some (Some [(''memory'', ''16Gi'')]))\<rparr>"

lemma saved_by:
  assumes "get_unit_address E (unit_name E) RELATION_PEERS w = (Inr a, u)" "get_memory E u = (Inr m, v)" "clean_value a"
    "\<And>tr e. ans_unit E tr e = Inr ()"
  shows "\<exists>cfg. save_config E w = (Inr cfg, snd (save_config E w))"
proof -
  have "clean_value (so_instance_address (server_options_of (config E) a))" using assms(3) by (simp add: server_options_of_def)
  then obtain t where "write_server_text (server_config (the_paths E) m (server_options_of (config E) a)) = Inr t"
    using clean_text_reads_back [OF server_config_clean [OF clean_system_paths]] by blast
  with assms(1,2,4) have "\<exists>cfg w'. save_config E w = (Inr cfg, w')" unfolding save_config_Inr by blast
  then show ?thesis by force
qed

lemma limited_inputs:
  "\<exists>u v m. get_unit_address limited_env (unit_name limited_env) RELATION_PEERS meminfo_world = (Inr ''mysql-0.mysql-endpoints.local.'', u) \<and>
     get_memory limited_env u = (Inr m, v)"
proof -
  have "get_unit_label ''mysql/0'' = ''mysql-0''" "quantity parse_memory (Some ''9Gi'') = Inr (Some 9663676416)"
    "quantity parse_memory (Some ''16Gi'') = Inr (Some 17179869184)" "min_present (Some 9663676416) (Some 17179869184) = Inr 9663676416"
    "sublist ''mysql-0.mysql-endpoints'' ''mysql-0.mysql-endpoints.local.''" "\<not> ends_with ''.'' ''mysql-0.mysql-endpoints.local''"
    by code_simp+
  then show ?thesis
    by (simp add: get_unit_address_def k8s_get_unit_address_def container_get_hostname_def get_memory_def container_get_memory_def
        get_container_memory_def get_node_memory_def get_container_limits_def node_name_def container_name_def falsy_iff Let_def
        limited_env_def resolving_env_def cluster_env_def quiet_env_def try_except_def bindM_def monad_simps)
qed

theorem apply_config_idempotent_witness:
  "(\<exists>es. trace (snd (apply_config cluster_env (snd (save_config cluster_env meminfo_world)))) =
      trace (snd (save_config cluster_env meminfo_world)) @ es \<and> list_all quiet_call es) \<and>
   (\<exists>es. trace (snd (apply_config limited_env (snd (save_config limited_env meminfo_world)))) =
      trace (snd (save_config limited_env meminfo_world)) @ es \<and> list_all quiet_call es)"
proof
  have v: "substrate cluster_env = VM" "set_order cluster_env [] = []" "set_order limited_env [] = []" "steady_answers limited_env"
    "ans_unit cluster_env tr e = Inr ()" "ans_unit limited_env tr e = Inr ()" for tr e
    by (simp_all add: steady_answers_def limited_env_def resolving_env_def cluster_env_def quiet_env_def)
  have c: "clean_value (own_address cluster_env meminfo_world)" "clean_value ''mysql-0.mysql-endpoints.local.''" by code_simp+
  let ?a = "get_unit_address cluster_env (unit_name cluster_env) RELATION_PEERS meminfo_world"
  have a: "?a = (Inr (own_address cluster_env meminfo_world), meminfo_world)" by (rule vm_own_address [OF v(1)])
  have "meminfo_bytes ''MemTotal: 9 kB'' = Inr 9216" by code_simp
  then have "\<exists>u. get_memory cluster_env meminfo_world = (Inr 9216, u)"
    using v(5) by (simp add: get_memory_def machine_get_memory_def read_text_def v(1) meminfo_world_def seqM_def bindM_def monad_simps)
  then obtain u where "get_memory cluster_env meminfo_world = (Inr 9216, u)" by blast
  from saved_by [OF a this c(1) v(5)] obtain cfg where
    s: "save_config cluster_env meminfo_world = (Inr cfg, snd (save_config cluster_env meminfo_world))" by blast
  show "\<exists>es. trace (snd (apply_config cluster_env (snd (save_config cluster_env meminfo_world)))) =
      trace (snd (save_config cluster_env meminfo_world)) @ es \<and> list_all quiet_call es"
    by (rule apply_config_idempotent [OF _ v(2) _ s]) (use v(1) a c(1) in auto)
  from limited_inputs obtain u v' m where
    l: "get_unit_address limited_env (unit_name limited_env) RELATION_PEERS meminfo_world = (Inr ''mysql-0.mysql-endpoints.local.'', u)"
    "get_memory limited_env u = (Inr m, v')" by blast
  from saved_by [OF this c(2) v(6)] obtain cfg' where
    s': "save_config limited_env meminfo_world = (Inr cfg', snd (save_config limited_env meminfo_world))" by blast
  show "\<exists>es. trace (snd (apply_config limited_env (snd (save_config limited_env meminfo_world)))) =
      trace (snd (save_config limited_env meminfo_world)) @ es \<and> list_all quiet_call es"
    by (rule apply_config_idempotent [OF v(4) v(3) _ s']) (use l(1) c(2) in auto)
qed

end
