(* ===== verification/SelfHealing.thy ===== *)
theory SelfHealing
  imports Charm
begin

text \<open>
  The self-healing handler (\<open>events/handlers/self_healing.py\<close>) and its manager
  (\<open>managers/managers/self_healing.py\<close>): what a unit does when it wakes up every two minutes,
  and the theorems that say under which conditions it may reboot or recreate the cluster.
\<close>

section \<open>The manager\<close>

definition fetch_cluster_members :: "env \<Rightarrow> nat op" where
  "fetch_cluster_members E = count_cluster_members E (client_host E) (Some [''ONLINE''])"

definition healing_rejoin_instance :: "env \<Rightarrow> string \<Rightarrow> string \<Rightarrow> string list \<Rightarrow> unit op" where
  "healing_rejoin_instance E instance_label instance_host addrs =
     bindM (find_cluster_primary E addrs) (\<lambda>primary_host.
       if falsy primary_host then ret ()
       else seqM (act E (Sys (Sleep 1)))
         (bindM (fetch_instances E (the primary_host)) (\<lambda>instances.
           if \<not> dict_has instances instance_label then ret ()
           else cluster_rejoin_instance E (the primary_host) instance_label instance_host)))"

definition recover_cluster_quorum :: "env \<Rightarrow> unit op" where
  "recover_cluster_quorum E =
     bindM (count_cluster_members E (client_host E) (Some [''UNREACHABLE''])) (\<lambda>n.
       if n > 0 then ret () else cluster_reboot E (client_host E))"

definition healing_recreate_cluster :: "env \<Rightarrow> string \<Rightarrow> unit op" where
  "healing_recreate_cluster E instance_label =
     seqM (drop_metadata E (client_host E)) (recreate_cluster E instance_label)"

definition healing_stop_replication :: "env \<Rightarrow> unit op" where
  "healing_stop_replication E = inst_stop_replication E (client_host E)"

section \<open>The handler\<close>

definition collect_peer_addresses :: "env \<Rightarrow> string list op" where
  "collect_peer_addresses E = (if \<not> has_peers E then ret []
     else mapM (\<lambda>u. get_unit_address E u RELATION_PEERS) (peer_units E))"

definition peer_states :: "env \<Rightarrow> world \<Rightarrow> string list" where
  "peer_states E w = (if \<not> has_peers E then [] else map (\<lambda>u. get_instance_state (unit_bags w u)) (peer_units E))"

lemma peer_states_trace [simp]: "peer_states E (w\<lparr>trace := t\<rparr>) = peer_states E w"
  by (simp add: peer_states_def)

definition collect_peer_states :: "env \<Rightarrow> string list op" where
  "collect_peer_states E = gets (peer_states E)"

definition rejoin_instance :: "env \<Rightarrow> unit op" where
  "rejoin_instance E =
     bindM (collect_peer_addresses E) (\<lambda>peer_addresses.
       if peer_addresses = [] then ret ()
       else bindM (get_unit_address E (unit_name E) RELATION_PEERS) (\<lambda>instance_host.
         healing_rejoin_instance E (get_unit_label (unit_name E)) instance_host peer_addresses))"

definition set_both_statuses :: "env \<Rightarrow> unit op" where
  "set_both_statuses E = seqM (bindM (build_unit_status E) (set_unit_status E))
     (bindM (build_app_status E) (set_app_status E))"

definition recover_from_online_leader :: "env \<Rightarrow> unit op" where
  "recover_from_online_leader E =
     bindM (cluster_fetch_state E (client_host E)) (\<lambda>state.
       if state \<noteq> Some ''NO_QUORUM'' then ret ()
       else try_else (seqM (healing_stop_replication E) (recover_cluster_quorum E)) [PyRuntimeError]
         (\<lambda>_. set_unit_status E (BlockedStatus ''Unable to recover cluster''))
         (\<lambda>_. set_both_statuses E))"

definition recover_from_online_follower :: "env \<Rightarrow> unit op" where
  "recover_from_online_follower E =
     bindM (cluster_fetch_state E (client_host E)) (\<lambda>state.
       if state \<noteq> Some ''NO_QUORUM'' then ret ()
       else seqM (healing_stop_replication E) (bindM (build_unit_status E) (set_unit_status E)))"

definition recover_from_offline_leader :: "env \<Rightarrow> unit op" where
  "recover_from_offline_leader E =
     bindM (collect_peer_states E) (\<lambda>states.
       if ''ONLINE'' \<in> set states then rejoin_instance E
       else if set states \<noteq> {} \<and> set states \<noteq> {''OFFLINE''} \<and> set states \<noteq> {''waiting''} then ret ()
       else bindM (fetch_cluster_members E) (\<lambda>n.
         if n > 0 then ret ()
         else try_else (seqM (healing_stop_replication E) (recover_cluster_quorum E)) [PyRuntimeError]
           (\<lambda>_. healing_recreate_cluster E (get_unit_label (unit_name E)))
           (\<lambda>_. set_both_statuses E)))"

definition recover_from_offline_follower :: "env \<Rightarrow> unit op" where
  "recover_from_offline_follower E =
     bindM (collect_peer_states E) (\<lambda>states.
       if ''ONLINE'' \<in> set states then rejoin_instance E else ret ())"

definition on_self_healing :: "env \<Rightarrow> unit op" where
  "on_self_healing E =
     bindM (server_running E) (\<lambda>running.
       if \<not> running then server_start E
       else bindM (initialized E) (\<lambda>ready.
         if \<not> ready then ret ()
         else if refreshing E then ret ()
         else bindM (inst_fetch_state E (client_host E)) (\<lambda>state.
           seqM (if state = Some ''ONLINE'' \<and> is_leader E then recover_from_online_leader E
                 else if state = Some ''ONLINE'' then recover_from_online_follower E
                 else if state = Some ''OFFLINE'' \<and> is_leader E then recover_from_offline_leader E
                 else if state = Some ''OFFLINE'' then recover_from_offline_follower E
                 else ret ())
             (update_database_endpoints E))))"

section \<open>The calls of the parts\<close>

definition recreate_event :: "event \<Rightarrow> bool" where
  "recreate_event e = (case e of
     Clu _ (CreateCluster _ _) \<Rightarrow> True | Clu _ (CreateClusterSet _ _) \<Rightarrow> True
   | Sql _ (ExecutePy _) \<Rightarrow> True | _ \<Rightarrow> False)"

definition reboot_event :: "event \<Rightarrow> bool" where
  "reboot_event e = (case e of Clu _ (RebootCluster _) \<Rightarrow> True | _ \<Rightarrow> False)"

definition harmless :: "event \<Rightarrow> bool" where
  "harmless e \<longleftrightarrow> \<not> recreate_event e \<and> \<not> reboot_event e"

lemma harmless_simps [simp]:
  "harmless (Sys c)" "harmless (Wkl k)" "harmless (Juju j)" "harmless (Sto o')"
  "harmless (Clu h (FetchClusterStatus cl))" "harmless (Clu h FetchClusterSetStatus)"
  "harmless (Clu h (RejoinInstance cl host p))" "harmless (Sql h (ExecuteSql qs))"
  "harmless (Sql h GetClusterLabels)" "harmless (Sql h GetReplicationRole)"
  "harmless (Sql h GetReplicationState)" "harmless (Sql h StopReplication)"
  "harmless (Sql h (SearchReplicationMembers ss))"
  by (simp_all add: harmless_def recreate_event_def reboot_event_def)

lemma emits_rejoin: "emits harmless (rejoin_instance E)"
  unfolding rejoin_instance_def collect_peer_addresses_def healing_rejoin_instance_def
  by (intro emits) simp_all

lemma emits_statuses_set: "emits harmless (set_both_statuses E)"
  unfolding set_both_statuses_def by (intro emits) simp_all

lemma emits_followers:
  "emits harmless (recover_from_online_follower E)" "emits harmless (recover_from_offline_follower E)"
  unfolding recover_from_online_follower_def recover_from_offline_follower_def
    healing_stop_replication_def collect_peer_states_def
  by (intro emits emits_rejoin; simp)+

lemma emits_endpoints_harmless: "emits harmless (update_database_endpoints E)"
  by (intro emits) simp_all

text \<open>Reading the unreachable members comes right before a reboot, and found none.\<close>

definition none_unreachable :: "env \<Rightarrow> event list \<Rightarrow> bool" where
  "none_unreachable E tr \<longleftrightarrow> (\<exists>zs. tr = zs @ [Sql (client_host E) (SearchReplicationMembers (Some [''UNREACHABLE'']))] \<and>
     (ans_strs E zs (Sql (client_host E) (SearchReplicationMembers (Some [''UNREACHABLE'']))) = Inr [] \<or>
      (\<exists>e. ans_strs E zs (Sql (client_host E) (SearchReplicationMembers (Some [''UNREACHABLE'']))) = Inl e)))"

definition reboot_guard :: "env \<Rightarrow> event list \<Rightarrow> event \<Rightarrow> bool" where
  "reboot_guard E tr e = (case e of
     Clu h (RebootCluster c) \<Rightarrow> is_leader E \<and> \<not> refreshing E \<and> h = client_host E \<and> c = client_cluster E
       \<and> none_unreachable E tr
   | _ \<Rightarrow> True)"

lemma calls_harmless: "emits harmless m \<Longrightarrow> calls (reboot_guard E) m"
  by (erule calls_emits) (auto simp: harmless_def reboot_event_def reboot_guard_def split: event.splits cluster_call.splits)

lemma calls_recover_cluster_quorum:
  assumes "is_leader E" "\<not> refreshing E"
  shows "calls (reboot_guard E) (recover_cluster_quorum E)"
proof (rule callsI)
  fix w
  let ?q = "Sql (client_host E) (SearchReplicationMembers (Some [''UNREACHABLE'']))"
  have q: "reboot_guard E tr ?q" for tr by (simp add: reboot_guard_def)
  show "\<exists>es. trace (snd (recover_cluster_quorum E w)) = trace w @ es \<and> chain (reboot_guard E) (trace w) es"
  proof (cases "\<exists>e. ans_strs E (trace w) ?q = Inl e \<and> caught [ExecutionErrorC] e \<or> ans_strs E (trace w) ?q = Inr []")
    case True
    then have "none_unreachable E (trace w @ [?q])" by (auto simp: none_unreachable_def)
    with True q assms show ?thesis
      by (auto simp: recover_cluster_quorum_def count_cluster_members_def cluster_reboot_def try_else_def
          bindM_def monad_simps reboot_guard_def
          intro!: exI [where x = "[?q, Clu (client_host E) (RebootCluster (client_cluster E))]"])
  next
    case False
    then have "trace (snd (recover_cluster_quorum E w)) = trace w @ [?q]"
      by (cases "ans_strs E (trace w) ?q")
        (auto simp: recover_cluster_quorum_def count_cluster_members_def try_else_def bindM_def monad_simps)
    with q show ?thesis by (intro exI [where x = "[?q]"]) simp
  qed
qed

lemma emits_recreate_guarded: "emits (\<lambda>e. \<not> reboot_event e) (healing_recreate_cluster E l)"
  unfolding healing_recreate_cluster_def by (intro emits) (simp_all add: reboot_event_def)

lemma calls_recreate: "calls (reboot_guard E) (healing_recreate_cluster E l)"
  by (rule calls_emits [OF emits_recreate_guarded])
    (auto simp: reboot_event_def reboot_guard_def split: event.splits cluster_call.splits)

lemma calls_leaders:
  assumes "is_leader E" "\<not> refreshing E"
  shows "calls (reboot_guard E) (recover_from_online_leader E)"
    "calls (reboot_guard E) (recover_from_offline_leader E)"
proof -
  have st: "calls (reboot_guard E) (healing_stop_replication E)"
    unfolding healing_stop_replication_def by (rule calls_harmless, intro emits) simp
  have cs: "calls (reboot_guard E) (cluster_fetch_state E (client_host E))"
    by (rule calls_harmless, intro emits) simp
  have cm: "calls (reboot_guard E) (fetch_cluster_members E)"
    unfolding fetch_cluster_members_def by (rule calls_harmless, intro emits) simp
  have us: "calls (reboot_guard E) (set_unit_status E s)" for s
    by (rule calls_harmless, intro emits)
  note parts = st cs cm us calls_recover_cluster_quorum [OF assms] calls_recreate
    calls_harmless [OF emits_statuses_set] calls_harmless [OF emits_rejoin]
  show "calls (reboot_guard E) (recover_from_online_leader E)"
    unfolding recover_from_online_leader_def
    by (rule emits_bindM emits_if emits_try_else emits_seqM emits_basic parts)+
  show "calls (reboot_guard E) (recover_from_offline_leader E)"
    unfolding recover_from_offline_leader_def collect_peer_states_def
    by (rule emits_bindM emits_if emits_try_else emits_seqM emits_basic parts)+
qed

lemma calls_on_self_healing: "calls (reboot_guard E) (on_self_healing E)"
proof -
  have h: "calls (reboot_guard E) (server_running E)" "calls (reboot_guard E) (server_start E)"
    "calls (reboot_guard E) (initialized E)" "calls (reboot_guard E) (inst_fetch_state E (client_host E))"
    by (rule calls_harmless, intro emits; simp)+
  note parts = h calls_harmless [OF emits_endpoints_harmless] calls_harmless [OF emits_followers(1)]
    calls_harmless [OF emits_followers(2)]
  show ?thesis
    unfolding on_self_healing_def
    by (rule emits_bindM emits_if emits_seqM emits_basic parts calls_leaders | simp)+
qed

section \<open>When the cluster is rebooted or recreated\<close>

text \<open>
  (C2) Self-healing reboots a cluster from complete outage only on the leader, only when no
  refresh is in progress, only its own cluster through its own instance, and only right after
  it asked for unreachable members and was not told of any: a network partition, whose other
  side may be healthy, never leads to a reboot unless that very question fails.
\<close>

theorem self_healing_reboot_guarded:
  assumes "on_self_healing E w = (r, w')" and "trace w' = trace w @ xs @ Clu h (RebootCluster c) # ys"
  shows "is_leader E \<and> \<not> refreshing E \<and> h = client_host E \<and> c = client_cluster E \<and>
    (\<exists>zs. trace w @ xs = zs @ [Sql h (SearchReplicationMembers (Some [''UNREACHABLE'']))] \<and>
      (ans_strs E zs (Sql h (SearchReplicationMembers (Some [''UNREACHABLE'']))) = Inr [] \<or>
       (\<exists>e. ans_strs E zs (Sql h (SearchReplicationMembers (Some [''UNREACHABLE'']))) = Inl e)))"
proof -
  obtain es where es: "trace w' = trace w @ es" "chain (reboot_guard E) (trace w) es"
    using callsE [OF calls_on_self_healing assms(1)] by blast
  then have "es = xs @ Clu h (RebootCluster c) # ys" using assms(2) by simp
  then have "reboot_guard E (trace w @ xs) (Clu h (RebootCluster c))" using es(2) by simp
  then show ?thesis by (simp add: reboot_guard_def none_unreachable_def)
qed

lemma emits_no_recreate_quorum:
  "emits (\<lambda>e. \<not> recreate_event e) (recover_cluster_quorum E)"
  unfolding recover_cluster_quorum_def by (intro emits) (simp_all add: recreate_event_def)

lemma harmless_no_recreate: "emits harmless m \<Longrightarrow> emits (\<lambda>e. \<not> recreate_event e) m"
  by (erule calls_mono) (simp add: harmless_def)

lemma emits_online_leader: "emits (\<lambda>e. \<not> recreate_event e) (recover_from_online_leader E)"
  unfolding recover_from_online_leader_def healing_stop_replication_def
  by (intro emits emits_no_recreate_quorum harmless_no_recreate [OF emits_statuses_set];
      simp add: recreate_event_def)

definition all_peers_down :: "env \<Rightarrow> world \<Rightarrow> bool" where
  "all_peers_down E w \<longleftrightarrow> set (peer_states E w) \<in> {{}, {''OFFLINE''}, {''waiting''}}"

lemma emits_at_offline_leader:
  assumes "\<not> all_peers_down E w"
  shows "emits_at (\<lambda>e. \<not> recreate_event e) (recover_from_offline_leader E) w"
proof -
  have "emits_at (\<lambda>e. \<not> recreate_event e) (rejoin_instance E) w"
    by (rule emits_atI, rule harmless_no_recreate, rule emits_rejoin)
  moreover have "emits_at (\<lambda>e. \<not> recreate_event e) (ret ()) w"
    by (intro emits_atI emits)
  ultimately show ?thesis
    using assms unfolding recover_from_offline_leader_def collect_peer_states_def all_peers_down_def
    by (intro emits_at_gets emits_at_if) auto
qed

text \<open>
  (C6) Self-healing drops and recreates the cluster's metadata only on the leader, only when no
  refresh is in progress, and only when, by the databags, there is no peer at all, all
  peers are offline, or all peers are still waiting to join: as long as one peer is online, or the
  peers disagree, nothing is recreated.
\<close>

theorem self_healing_recreate_guarded:
  assumes "on_self_healing E w = (r, w')" and "trace w' = trace w @ es"
    and "e \<in> set es" and "recreate_event e"
  shows "is_leader E \<and> \<not> refreshing E \<and>
    set (peer_states E w) \<in> {{}, {''OFFLINE''}, {''waiting''}}"
proof (rule ccontr)
  let ?P = "\<lambda>e. \<not> recreate_event e"
  let ?I = "\<lambda>v. peer_states E v = peer_states E w"
  assume "\<not> (is_leader E \<and> \<not> refreshing E \<and> set (peer_states E w) \<in> {{}, {''OFFLINE''}, {''waiting''}})"
  then have no: "\<not> is_leader E \<or> refreshing E \<or> \<not> all_peers_down E w" by (simp add: all_peers_down_def)
  have tf: "?I v \<Longrightarrow> ?I (v\<lparr>trace := t\<rparr>)" for v t by (simp only: peer_states_trace)
  have off: "emits_at ?P (recover_from_offline_leader E) v" if "?I v" "is_leader E" "\<not> refreshing E" for v
    using that no emits_at_offline_leader [of E v] by (simp add: all_peers_down_def)
  have rec: "emits_at ?P
      (if state = Some ''ONLINE'' \<and> is_leader E then recover_from_online_leader E
       else if state = Some ''ONLINE'' then recover_from_online_follower E
       else if state = Some ''OFFLINE'' \<and> is_leader E then recover_from_offline_leader E
       else if state = Some ''OFFLINE'' then recover_from_offline_follower E else ret ()) v"
    if "?I v" "\<not> refreshing E" for v state
    using that off emits_online_leader emits_followers [THEN harmless_no_recreate]
    by (auto intro!: emits_at_if intro: emits_atI emits_basic)
  have tail: "emits ?P (update_database_endpoints E)" by (rule harmless_no_recreate [OF emits_endpoints_harmless])
  have h: "emits ?P (server_running E)" "emits ?P (server_start E)" "emits ?P (initialized E)"
    "emits ?P (inst_fetch_state E (client_host E))"
    by (rule harmless_no_recreate, intro emits; simp)+
  have "emits_at ?P (on_self_healing E) w"
    unfolding on_self_healing_def
    using h tf
    by (intro emits_at_bindM [where I = ?I] emits_at_if emits_at_then rec tail emits_atI keeps) (auto intro: emits_basic)
  then obtain es' where "trace w' = trace w @ es'" "list_all ?P es'"
    using assms(1) by (auto simp: emits_at_def)
  with assms(2-4) show False by (auto simp: list_all_iff)
qed

text \<open>
  Two outages: the quorum is lost and the reboot fails with an exception that is not handled;
  a unit without peers is offline, the reboot fails, and so does dropping the metadata.
\<close>

definition outage_env :: env where
  "outage_env = cluster_env\<lparr>ans_status := \<lambda>_ _. Inr (sample_status ''NO_QUORUM''),
     ans_ostr := \<lambda>_ _. Inr (Some ''ONLINE''),
     ans_unit := \<lambda>_ e. (case e of Clu _ _ \<Rightarrow> Inl (Exn [PyException] []) | _ \<Rightarrow> Inr ())\<rparr>"

definition lonely_env :: env where
  "lonely_env = cluster_env\<lparr>peer_units := [], ans_ostr := \<lambda>_ _. Inr (Some ''OFFLINE''),
     ans_unit := \<lambda>_ e. (case e of Clu _ _ \<Rightarrow> Inl (Exn [PyRuntimeError, PyException] [])
       | Sql _ (ExecutePy _) \<Rightarrow> Inl (Exn [PyException] []) | _ \<Rightarrow> Inr ())\<rparr>"

lemma sample_world_reads:
  "trace sample_world = []" "app_get_cluster_name (app_bag sample_world) = Some ''c''"
  by code_simp+

lemma outage_answers:
  "substrate outage_env = VM" "is_leader outage_env" "\<not> refreshing outage_env" "has_peers outage_env"
  "client_host outage_env = ''h0''" "client_cluster outage_env = ''c''"
  "ans_bool outage_env = (\<lambda>_ _. Inr True)" "ans_ostr outage_env = (\<lambda>_ _. Inr (Some ''ONLINE''))"
  "ans_strs outage_env tr (Sql h GetClusterLabels) = Inr [''c'']"
  "ans_strs outage_env tr (Sql h (SearchReplicationMembers m)) = Inr []"
  "ans_unit outage_env tr (Sql h q) = Inr ()"
  "ans_unit outage_env tr (Clu h c) = Inl (Exn [PyException] [])"
  "ans_status outage_env tr e = Inr (sample_status ''NO_QUORUM'')"
  "ClusterState_members outage_env = [''OK'', ''NO_QUORUM'']"
  by (simp_all add: outage_env_def cluster_env_def quiet_env_def refreshing_def)

lemma lonely_answers:
  "substrate lonely_env = VM" "is_leader lonely_env" "\<not> refreshing lonely_env" "has_peers lonely_env"
  "client_host lonely_env = ''h0''" "client_cluster lonely_env = ''c''" "peer_units lonely_env = []"
  "ans_bool lonely_env = (\<lambda>_ _. Inr True)" "ans_ostr lonely_env = (\<lambda>_ _. Inr (Some ''OFFLINE''))"
  "ans_strs lonely_env tr (Sql h GetClusterLabels) = Inr [''c'']"
  "ans_strs lonely_env tr (Sql h (SearchReplicationMembers m)) = Inr []"
  "ans_unit lonely_env tr (Sql h StopReplication) = Inr ()"
  "ans_unit lonely_env tr (Sql h (ExecutePy s)) = Inl (Exn [PyException] [])"
  "ans_unit lonely_env tr (Clu h c) = Inl (Exn [PyRuntimeError, PyException] [])"
  by (simp_all add: lonely_env_def cluster_env_def quiet_env_def refreshing_def)

lemmas healing_run = on_self_healing_def recover_from_online_leader_def recover_from_offline_leader_def
  server_running_def snap_running_def initialized_def inst_fetch_cluster_labels_def cluster_name_def
  read_app_def inst_fetch_state_def cluster_fetch_state_def fetch_cluster_status_def enum_value_def
  collect_peer_states_def peer_states_def fetch_cluster_members_def count_cluster_members_def
  healing_stop_replication_def inst_stop_replication_def recover_cluster_quorum_def cluster_reboot_def
  healing_recreate_cluster_def drop_metadata_def try_except_def try_else_def suppress_def bindM_def seqM_def
  monad_simps sample_world_reads sample_status_def falsy_none_def caught_def

theorem self_healing_reboot_guarded_witness:
  "\<exists>xs ys. trace (snd (on_self_healing outage_env sample_world)) = xs @ Clu ''h0'' (RebootCluster ''c'') # ys \<and>
     (\<exists>zs. xs = zs @ [Sql ''h0'' (SearchReplicationMembers (Some [''UNREACHABLE'']))])"
proof -
  let ?r = "on_self_healing outage_env sample_world"
  have e: "trace sample_world = []" by (rule sample_world_reads)
  obtain xs where "trace (snd ?r) = xs @ [Clu ''h0'' (RebootCluster ''c'')]"
    by (simp add: healing_run outage_answers)
  then have t: "trace (snd ?r) = trace sample_world @ xs @ Clu ''h0'' (RebootCluster ''c'') # []"
    by (simp add: e)
  obtain zs where "xs = zs @ [Sql ''h0'' (SearchReplicationMembers (Some [''UNREACHABLE'']))]"
    using self_healing_reboot_guarded [OF surjective_pairing t] unfolding e append_Nil by blast
  with t show ?thesis unfolding e append_Nil by blast
qed

theorem self_healing_recreate_guarded_witness:
  "(\<exists>e. e \<in> set (trace (snd (on_self_healing lonely_env sample_world))) \<and> recreate_event e) \<and>
   is_leader lonely_env \<and> set (peer_states lonely_env sample_world) \<in> {{}, {''OFFLINE''}, {''waiting''}}"
proof -
  let ?r = "on_self_healing lonely_env sample_world"
  let ?e = "Sql ''h0'' (ExecutePy ''dba.drop_metadata_schema()'')"
  have "trace (snd ?r) = trace sample_world @ trace (snd ?r)" by (simp add: sample_world_reads)
  moreover have "?e \<in> set (trace (snd ?r))" by (simp add: healing_run lonely_answers)
  moreover have "recreate_event ?e" by (simp add: recreate_event_def)
  ultimately show ?thesis
    using self_healing_recreate_guarded [OF surjective_pairing] by blast
qed

end
