(* ===== verification/Exporter.thy ===== *)
theory Exporter
  imports Charm Json
begin

text \<open>
  The metrics exporter service of the two substrates (\<open>workload/services/mysql_exporter\<close>).  On
  Kubernetes its credentials are kept in a JSON file and read again for every Pebble layer, on
  machines they are options of the snap.
\<close>

section \<open>The service\<close>

definition exporter_name :: string where "exporter_name = ''mysqld-exporter''"
definition exporter_port :: nat where "exporter_port = 9104"

definition exporter_file :: "env \<Rightarrow> string" where
  "exporter_file E = path_join (home (the_paths E)) [''mysql'', ''exporter.env'']"

definition json_index :: "json \<Rightarrow> string \<Rightarrow> exn + string" where
  "json_index j k = (case j of
     JObj ms \<Rightarrow> (case map_of ms k of Some (JStr s) \<Rightarrow> Inr s
       | Some _ \<Rightarrow> Inl (Exn [PyTypeError, PyException] k) | None \<Rightarrow> Inl (key_error k))
   | _ \<Rightarrow> Inl (Exn [PyTypeError, PyException] k))"

text \<open>The parts of the layer that depend on the state: its command and its environment.\<close>

definition exporter_create_layer :: "env \<Rightarrow> string dict op" where
  "exporter_create_layer E =
     bindM (read_text E (exporter_file E)) (\<lambda>t.
     bindM (lift (json_loads t)) (\<lambda>exporter_env.
     bindM (lift (json_index exporter_env ''username'')) (\<lambda>username.
     bindM (lift (json_index exporter_env ''password'')) (\<lambda>password.
       ret [(''EXPORTER_USER'', username), (''EXPORTER_PASS'', password)]))))"

definition set_exporter_user :: "env \<Rightarrow> string \<Rightarrow> string \<Rightarrow> unit op" where
  "set_exporter_user E username password =
     write_text E (exporter_file E) (json_dumps (JObj [(''username'', JStr username), (''password'', JStr password)]))"

definition exporter_add_layer :: "env \<Rightarrow> unit op" where
  "exporter_add_layer E = bindM (exporter_create_layer E) (\<lambda>layer.
     act E (Wkl (AddLayer exporter_name [''/start-mysqld-exporter.sh''] layer)))"

definition k8s_exporter_running :: "env \<Rightarrow> bool op" where
  "k8s_exporter_running E = container_running E exporter_name"

definition k8s_exporter_setup :: "env \<Rightarrow> string \<Rightarrow> string \<Rightarrow> unit op" where
  "k8s_exporter_setup E username password = set_exporter_user E username password"

definition k8s_exporter_start :: "env \<Rightarrow> unit op" where
  "k8s_exporter_start E = block
     [exporter_add_layer E, act E (Wkl (ContainerStart exporter_name)), wait_for_connection E exporter_port]"

definition k8s_exporter_stop :: "env \<Rightarrow> unit op" where
  "k8s_exporter_stop E = block [exporter_add_layer E, act E (Wkl (ContainerStop exporter_name))]"

definition vm_exporter_running :: "env \<Rightarrow> bool op" where
  "vm_exporter_running E = snap_running E exporter_name"

definition vm_exporter_setup :: "env \<Rightarrow> string \<Rightarrow> string \<Rightarrow> unit op" where
  "vm_exporter_setup E username password = require_snap E
     (act E (Wkl (SnapSet [(''exporter.user'', username), (''exporter.password'', password)])))"

definition vm_exporter_start :: "env \<Rightarrow> unit op" where
  "vm_exporter_start E = require_snap E
     (seqM (act E (Wkl (SnapStart exporter_name))) (wait_for_connection E exporter_port))"

definition vm_exporter_stop :: "env \<Rightarrow> unit op" where
  "vm_exporter_stop E = require_snap E (act E (Wkl (SnapStop exporter_name)))"

text \<open>Installing the exporter does nothing on either substrate: the image or the snap has it.\<close>

definition exporter_install :: "env \<Rightarrow> unit op" where
  "exporter_install E = ret ()"

definition exporter_running :: "env \<Rightarrow> bool op" where
  "exporter_running E = (case substrate E of K8S \<Rightarrow> k8s_exporter_running E | VM \<Rightarrow> vm_exporter_running E)"

definition exporter_setup :: "env \<Rightarrow> string \<Rightarrow> string \<Rightarrow> unit op" where
  "exporter_setup E username password = (case substrate E of
     K8S \<Rightarrow> k8s_exporter_setup E username password | VM \<Rightarrow> vm_exporter_setup E username password)"

definition exporter_start :: "env \<Rightarrow> unit op" where
  "exporter_start E = (case substrate E of K8S \<Rightarrow> k8s_exporter_start E | VM \<Rightarrow> vm_exporter_start E)"

definition exporter_stop :: "env \<Rightarrow> unit op" where
  "exporter_stop E = (case substrate E of K8S \<Rightarrow> k8s_exporter_stop E | VM \<Rightarrow> vm_exporter_stop E)"

lemmas exporter_defs = exporter_running_def k8s_exporter_running_def vm_exporter_running_def
  exporter_setup_def k8s_exporter_setup_def vm_exporter_setup_def set_exporter_user_def
  exporter_start_def k8s_exporter_start_def vm_exporter_start_def
  exporter_stop_def k8s_exporter_stop_def vm_exporter_stop_def
  exporter_add_layer_def exporter_create_layer_def exporter_install_def
  require_snap_def container_running_def snap_running_def wait_for_connection_def

lemma emits_exporter [emits]:
  assumes "\<And>c. P (Sys c)" "\<And>c. P (Wkl c)"
  shows "emits P (exporter_running E)" "emits P (exporter_setup E u p)" "emits P (exporter_start E)"
    "emits P (exporter_stop E)" "emits P (exporter_install E)" "emits P (system_ready E)"
  unfolding exporter_defs by (intro emits assms)+

lemma keeps_exporter [keeps]:
  assumes "\<And>w es. I w \<Longrightarrow> I (w\<lparr>trace := es\<rparr>)" "\<And>w f. I w \<Longrightarrow> I (w\<lparr>files := f\<rparr>)"
  shows "keeps I (exporter_running E)" "keeps I (exporter_setup E u p)" "keeps I (exporter_start E)"
    "keeps I (exporter_stop E)" "keeps I (exporter_install E)" "keeps I (system_ready E)"
  unfolding exporter_defs by (intro keeps assms; assumption)+

section \<open>Its contracts\<close>

definition exporter_start_call :: "env \<Rightarrow> event" where
  "exporter_start_call E = Wkl (case substrate E of K8S \<Rightarrow> ContainerStart exporter_name | VM \<Rightarrow> SnapStart exporter_name)"

definition exporter_stop_call :: "env \<Rightarrow> event" where
  "exporter_stop_call E = Wkl (case substrate E of K8S \<Rightarrow> ContainerStop exporter_name | VM \<Rightarrow> SnapStop exporter_name)"

lemma exporter_add_layer_run:
  assumes "exporter_add_layer E w = (Inr (), v)"
  shows "\<exists>xs. trace v = trace w @ xs"
proof -
  have "emits (\<lambda>_. True) (exporter_add_layer E)" unfolding exporter_add_layer_def exporter_create_layer_def by (intro emits; simp)
  with assms show ?thesis by (blast elim: emitsE)
qed

interpretation k8s_exporter: service E "k8s_exporter_start E" "k8s_exporter_stop E"
    "Wkl (ContainerStart exporter_name)" "Wkl (ContainerStop exporter_name)" exporter_port for E
proof unfold_locales
  fix w w'
  show "stopped E (Wkl (ContainerStop exporter_name)) (trace w) (trace w')" if "k8s_exporter_stop E w = (Inr (), w')"
    using that by (auto simp: k8s_exporter_stop_def stopped_def seqM_Inr_iff monad_simps dest!: exporter_add_layer_run)
  show "started E (Wkl (ContainerStart exporter_name)) exporter_port (trace w) (trace w')" if "k8s_exporter_start E w = (Inr (), w')"
    using that by (auto simp: k8s_exporter_start_def seqM_Inr_iff monad_simps dest!: exporter_add_layer_run
        elim!: wait_for_connection_started)
qed

interpretation vm_exporter: service E "vm_exporter_start E" "vm_exporter_stop E"
    "Wkl (SnapStart exporter_name)" "Wkl (SnapStop exporter_name)" exporter_port for E
  by unfold_locales
    (auto simp: vm_exporter_start_def vm_exporter_stop_def require_snap_def seqM_Inr_iff bindM_Inr_iff monad_simps stopped_def
      split: if_splits elim!: wait_for_connection_started [where xs = "[_]"])

interpretation exporter: service E "exporter_start E" "exporter_stop E" "exporter_start_call E" "exporter_stop_call E"
    exporter_port for E
  using k8s_exporter.stop_stops vm_exporter.stop_stops k8s_exporter.start_starts vm_exporter.start_starts
  by unfold_locales
    (cases "substrate E"; simp add: exporter_start_def exporter_stop_def exporter_start_call_def exporter_stop_call_def)+

text \<open>
  The credentials of the exporter survive the way through the JSON file, whatever
  characters they have: after the set-up on Kubernetes, and as long as nobody else writes the
  file, every layer that is built carries exactly the user name and the password that were set.
\<close>

theorem exporter_credentials_round_trip:
  assumes "k8s_exporter_setup E u p w = (Inr (), w')" and "files v (exporter_file E) = files w' (exporter_file E)"
    and "ans_unit E (trace v) (Sys (ReadFile (exporter_file E))) = Inr ()"
  shows "\<exists>v'. exporter_create_layer E v = (Inr [(''EXPORTER_USER'', u), (''EXPORTER_PASS'', p)], v')"
proof -
  let ?j = "JObj [(''username'', JStr u), (''password'', JStr p)]"
  have "files w' (exporter_file E) = Some (json_dumps ?j)"
    using assms(1)
    by (auto simp: k8s_exporter_setup_def set_exporter_user_def write_text_def seqM_Inr_iff monad_simps)
  moreover have "json_loads (json_dumps ?j) = Inr ?j"
    by (rule json_round_trip) (simp add: dict_ok_def dict_keys_def)
  ultimately show ?thesis
    using assms(2,3)
    by (simp add: exporter_create_layer_def read_text_def seqM_def bindM_def monad_simps json_index_def
        del: json_dumps.simps)
qed

theorem exporter_credentials_round_trip_witness:
  "\<exists>v'. exporter_create_layer quiet_env (snd (k8s_exporter_setup quiet_env ''stats'' [CHR 0x22, CHR 0x5C] quiet_world)) =
     (Inr [(''EXPORTER_USER'', ''stats''), (''EXPORTER_PASS'', [CHR 0x22, CHR 0x5C])], v')"
proof -
  let ?w = "snd (k8s_exporter_setup quiet_env ''stats'' [CHR 0x22, CHR 0x5C] quiet_world)"
  have "k8s_exporter_setup quiet_env ''stats'' [CHR 0x22, CHR 0x5C] quiet_world = (Inr (), ?w)"
    "ans_unit quiet_env (trace ?w) (Sys (ReadFile (exporter_file quiet_env))) = Inr ()"
    by (simp_all add: k8s_exporter_setup_def set_exporter_user_def write_text_def quiet_env_def
        seqM_def bindM_def monad_simps)
  then show ?thesis
    using exporter_credentials_round_trip [of quiet_env "''stats''" "[CHR 0x22, CHR 0x5C]" quiet_world ?w ?w] by blast
qed

end
