(* ===== verification/Lifecycle.thy ===== *)
theory Lifecycle
  imports Exporter
begin

text \<open>
  The life of a unit: the handler of the Juju life-cycle events
  (\<open>events/handlers/lifecycle.py\<close>) and its manager (\<open>managers/managers/lifecycle.py\<close>).  The
  theorems are about becoming the leader, about the passwords it creates, and about a
  unit that leaves: what it removes from the cluster and when.
\<close>

lemma keeps_event_api [keeps]:
  "(\<And>w. I w \<Longrightarrow> I (w\<lparr>deferred := True\<rparr>)) \<Longrightarrow> keeps I defer_event"
  "(\<And>w. I w \<Longrightarrow> I (w\<lparr>action_failure := Some msg\<rparr>)) \<Longrightarrow> keeps I (event_fail msg)"
  "(\<And>w. I w \<Longrightarrow> I (w\<lparr>action_results := r\<rparr>)) \<Longrightarrow> keeps I (event_set_results r)"
  by (simp_all add: keeps_def monad_simps)

definition ROLENAME_MONITOR :: string where "ROLENAME_MONITOR = ''charmed_stats''"
definition ROLENAME_BACKUPS :: string where "ROLENAME_BACKUPS = ''charmed_backup''"
definition ROLENAME_ROUTER :: string where "ROLENAME_ROUTER = ''charmed_router''"

section \<open>The manager\<close>

definition create_random_hash :: "env \<Rightarrow> string op" where
  "create_random_hash E = bindM (ask (ans_nat E) (Sys (RandomBits 64))) (\<lambda>random_int.
     ret (take 10 (md5_hexdigest E (show_nat random_int))))"

definition is_cluster_primary :: "env \<Rightarrow> bool op" where
  "is_cluster_primary E = bindM (inst_fetch_role E (client_host E)) (\<lambda>role. ret (role = Some ''PRIMARY''))"

definition set_leader_flag :: "env \<Rightarrow> bool \<Rightarrow> unit op" where
  "set_leader_flag E flag = write_unit E (set_unit_leader_flag flag)"

definition set_cluster_name :: "env \<Rightarrow> string option \<Rightarrow> unit op" where
  "set_cluster_name E name =
     bindM (if falsy name then read_app E app_get_cluster_name else ret name) (\<lambda>name.
     bindM (if falsy name then bindM (create_random_hash E) (\<lambda>h. ret (Some (''cluster-'' @ h))) else ret name)
       (\<lambda>name. write_app E (app_set_cluster_name name)))"

definition set_cluster_set_name :: "env \<Rightarrow> string option \<Rightarrow> unit op" where
  "set_cluster_set_name E name =
     bindM (if falsy name then read_app E app_get_cluster_set_name else ret name) (\<lambda>name.
     bindM (if falsy name then bindM (create_random_hash E) (\<lambda>h. ret (Some (''cluster-set-'' @ h))) else ret name)
       (\<lambda>name. write_app E (app_set_cluster_set_name name)))"

definition create_system_password :: "env \<Rightarrow> string op" where
  "create_system_password E = create_password E"

definition create_system_roles :: "env \<Rightarrow> string \<Rightarrow> unit op" where
  "create_system_roles E router_role = block
     [create_router_role E (client_host E) router_role, create_auth_roles E (client_host E)]"

definition create_system_users :: "env \<Rightarrow> (string \<times> string \<times> string list) list \<Rightarrow> unit op" where
  "create_system_users E users = seqM (inst_delete_root E (client_host E))
     (for_each (\<lambda>(username, password, roles).
        inst_create_user E (client_host E) username password (Some roles)) users)"

definition install_system_components :: "env \<Rightarrow> string list \<Rightarrow> unit op" where
  "install_system_components E components =
     install_components E (client_host E) ([''binlog_utils_udf'', ''validate_password''] @ components)"

definition lifecycle_promote_instance :: "env \<Rightarrow> string \<Rightarrow> unit op" where
  "lifecycle_promote_instance E instance_host = promote_instance E instance_host False"

definition lifecycle_remove_instance :: "env \<Rightarrow> string \<Rightarrow> string \<Rightarrow> string list \<Rightarrow> unit op" where
  "lifecycle_remove_instance E instance_host instance_label addrs =
     bindM (find_cluster_primary E addrs) (\<lambda>primary_host.
       if falsy primary_host then ret ()
       else bindM (fetch_instances E (the primary_host)) (\<lambda>instances.
         if dict_has instances instance_label
         then cluster_remove_instance E (the primary_host) instance_label instance_host else ret ()))"

definition lifecycle_update_state :: "env \<Rightarrow> string option \<Rightarrow> string option \<Rightarrow> unit op" where
  "lifecycle_update_state E role state =
     bindM (if falsy role then inst_fetch_role E (client_host E) else ret role) (\<lambda>role.
     bindM (if falsy state then inst_fetch_state E (client_host E) else ret state) (\<lambda>state. block
       [write_unit E (set_instance_role role), write_unit E (set_instance_state state)]))"

section \<open>The handler\<close>

definition create_passwords :: "env \<Rightarrow> unit op" where
  "create_passwords E =
     (let password_keys = map snd USERNAME_TO_PASSWORD_KEY in
      bindM (mapM (\<lambda>_. create_system_password E) password_keys) (\<lambda>passwords.
        secret_create (map_of (zip password_keys passwords)) (secret_label E)))"

text \<open>
  \<open>_fetch_passwords\<close> returns an empty dictionary when the secret is missing, here \<open>None\<close>; a secret
  of Juju is never empty.
\<close>

definition fetch_passwords :: "env \<Rightarrow> databag option op" where
  "fetch_passwords E = try_except (bindM (secret_get_content (secret_label E)) (\<lambda>c. ret (Some c)))
     [PyValueError] (\<lambda>_. ret None)"

definition find_leader_unit :: "env \<Rightarrow> string option op" where
  "find_leader_unit E = (if \<not> has_peers E then ret None
     else gets (\<lambda>w. List.find (\<lambda>u. get_unit_leader_flag (unit_bags w u) = Some True) (peer_units E)))"

definition init_server_service :: "env \<Rightarrow> unit op" where
  "init_server_service E = (if cfg_plugin_audit_enabled (config E)
     then install_system_components E [''audit_log_filter''] else install_system_components E [])"

definition password_at :: "databag \<Rightarrow> string \<Rightarrow> string op" where
  "password_at passwords key = (case passwords key of None \<Rightarrow> raise (key_error key) | Some p \<Rightarrow> ret p)"

definition start_server_service :: "env \<Rightarrow> databag \<Rightarrow> unit op" where
  "start_server_service E passwords =
     bindM (server_initialized E) (\<lambda>ready.
       if ready then seqM (server_start E) (init_server_service E)
       else
         bindM (password_at passwords PASSWORD_KEY_OPERATOR) (\<lambda>operator_password.
         seqM (server_setup E USERNAME_OPERATOR operator_password)
         (seqM (server_start E)
         (seqM (init_server_service E)
         (seqM (create_system_roles E ROLENAME_ROUTER)
         (bindM (password_at passwords PASSWORD_KEY_BACKUPS) (\<lambda>backups_password.
          bindM (password_at passwords PASSWORD_KEY_MONITOR) (\<lambda>monitor_password.
         seqM (create_system_users E
           [(USERNAME_BACKUPS, backups_password, [ROLENAME_BACKUPS]),
            (USERNAME_MONITOR, monitor_password, [ROLENAME_MONITOR])])
         (bindM (password_at passwords PASSWORD_KEY_REPLICATION) (\<lambda>replication_password.
           if is_leader E
           then seqM (configure_instance E USERNAME_REPLICATION replication_password)
             (recreate_cluster E (get_unit_label (unit_name E)))
           else configure_instance E USERNAME_REPLICATION replication_password))))))))))"

definition start_exporter_service :: "env \<Rightarrow> databag \<Rightarrow> unit op" where
  "start_exporter_service E passwords =
     bindM (password_at passwords PASSWORD_KEY_MONITOR) (\<lambda>password. block
       [exporter_setup E USERNAME_MONITOR password, exporter_start E])"

definition update_unit_state :: "env \<Rightarrow> unit op" where
  "update_unit_state E =
     seqM (if is_leader E
       then seqM (lifecycle_update_state E (Some ''PRIMARY'') (Some ''ONLINE''))
         (set_unit_status E (ActiveStatus ''Primary''))
       else seqM (lifecycle_update_state E (Some ''SECONDARY'') (Some ''waiting''))
         (set_unit_status E (WaitingStatus ''Waiting to join the cluster'')))
     (try_except (act E (Juju (SetPorts server_port))) [ModelErrorC] (\<lambda>_. ret ()))"

definition on_install :: "env \<Rightarrow> unit op" where
  "on_install E = try_else (seqM (server_install E None) (exporter_install E)) [PyException]
     (\<lambda>_. set_unit_status E (BlockedStatus ''Failed to install MySQL''))
     (\<lambda>_. set_unit_status E (WaitingStatus ''Waiting to start MySQL''))"

definition on_start :: "env \<Rightarrow> unit op" where
  "on_start E =
     bindM (system_ready E) (\<lambda>ready.
       if \<not> ready then defer_event
       else bindM (fetch_passwords E) (\<lambda>passwords.
         case passwords of None \<Rightarrow> defer_event
         | Some passwords \<Rightarrow>
           bindM (if is_leader E then create_app_services E else ret True) (\<lambda>created.
             if \<not> created
             then seqM (set_unit_status E (BlockedStatus ''Run `juju trust <app-name>`'')) defer_event
             else bindM (save_config E) (\<lambda>_. block
               [start_server_service E passwords, start_exporter_service E passwords, update_unit_state E]))))"

definition on_leader_elected :: "env \<Rightarrow> unit op" where
  "on_leader_elected E =
     bindM (fetch_passwords E) (\<lambda>passwords.
       seqM (case passwords of None \<Rightarrow> create_passwords E | Some _ \<Rightarrow> ret ())
         (block [set_leader_flag E True, set_cluster_name E (cfg_cluster_name (config E)),
           set_cluster_set_name E (cfg_cluster_set_name (config E))]))"

definition on_leader_changed :: "env \<Rightarrow> unit op" where
  "on_leader_changed E = set_leader_flag E False"

definition on_config_changed :: "env \<Rightarrow> unit op" where
  "on_config_changed E = (if refreshing E then ret () else apply_config E)"

definition on_update_status :: "env \<Rightarrow> unit op" where
  "on_update_status E =
     bindM (initialized E) (\<lambda>ready.
       if \<not> ready then ret ()
       else block [lifecycle_update_state E None None, update_app_labels E,
         bindM (build_unit_status E) (set_unit_status E), bindM (build_app_status E) (set_app_status E)])"

definition on_storage_detaching :: "env \<Rightarrow> unit op" where
  "on_storage_detaching E =
     bindM (initialized E) (\<lambda>ready.
       if \<not> ready then ret ()
       else bindM (find_leader_unit E) (\<lambda>leader_unit.
         bindM (get_unit_address E (case leader_unit of None \<Rightarrow> unit_name E | Some u \<Rightarrow> u) RELATION_PEERS)
           (\<lambda>leader_host.
         try_else (bindM (is_cluster_primary E) (\<lambda>primary.
             if primary then lifecycle_promote_instance E leader_host else ret ()))
           [PyRuntimeError] (\<lambda>_. ret ())
           (\<lambda>_. bindM (get_unit_address E (unit_name E) RELATION_PEERS) (\<lambda>instance_host.
             lifecycle_remove_instance E instance_host (get_unit_label (unit_name E)) [leader_host])))))"

section \<open>Becoming the leader\<close>

lemma secret_label_nonempty [simp]: "secret_label E \<noteq> []"
  by (simp add: secret_label_def)

lemma fetch_passwords_run: "fetch_passwords E w = (Inr (secrets w (secret_label E)), w)"
  by (simp add: fetch_passwords_def secret_get_content_def get_secret_def try_except_def bindM_def
      monad_simps split: option.split)

lemma app_name_reads:
  "app_get_cluster_name (d(cluster_name_key \<mapsto> n)) = (if n = [] then None else Some n)"
  "app_get_cluster_set_name (d(cluster_set_name_key \<mapsto> n)) = (if n = [] then None else Some n)"
  "app_get_cluster_name (d(cluster_set_name_key \<mapsto> n)) = app_get_cluster_name d"
  by (simp_all add: app_get_cluster_name_def app_get_cluster_set_name_def get_text_def cluster_name_key_def
      cluster_set_name_key_def)

text \<open>Setting a name stores a text that is not empty, and setting it again stores the same.\<close>

lemma set_cluster_name_run:
  assumes "has_peers E" "set_cluster_name E c w = (Inr (), w1)"
  shows "\<exists>n. n \<noteq> [] \<and> (\<not> falsy c \<longrightarrow> c = Some n) \<and> app_bag w1 = (app_bag w)(cluster_name_key \<mapsto> n) \<and>
    secrets w1 = secrets w \<and> unit_bags w1 = unit_bags w"
proof -
  let ?old = "app_get_cluster_name (app_bag w)"
  consider n where "c = Some n" "n \<noteq> []" | n where "falsy c" "?old = Some n" "n \<noteq> []" | "falsy c" "falsy ?old"
    by (cases c; cases ?old) (auto simp: falsy_iff)
  then show ?thesis
    using assms
    by cases (auto simp: set_cluster_name_def read_app_def write_app_def create_random_hash_def bindM_def
        monad_simps app_set_cluster_name_def str_opt_def split: sum.splits)
qed

lemma set_cluster_set_name_run:
  assumes "has_peers E" "set_cluster_set_name E c w = (Inr (), w1)"
  shows "\<exists>n. n \<noteq> [] \<and> (\<not> falsy c \<longrightarrow> c = Some n) \<and> app_bag w1 = (app_bag w)(cluster_set_name_key \<mapsto> n) \<and>
    secrets w1 = secrets w \<and> unit_bags w1 = unit_bags w"
proof -
  let ?old = "app_get_cluster_set_name (app_bag w)"
  consider n where "c = Some n" "n \<noteq> []" | n where "falsy c" "?old = Some n" "n \<noteq> []" | "falsy c" "falsy ?old"
    by (cases c; cases ?old) (auto simp: falsy_iff)
  then show ?thesis
    using assms
    by cases (auto simp: set_cluster_set_name_def read_app_def write_app_def create_random_hash_def bindM_def
        monad_simps app_set_cluster_set_name_def str_opt_def split: sum.splits)
qed

text \<open>With a name in place that the configuration does not contradict, nothing is done.\<close>

lemma set_cluster_name_again:
  assumes "has_peers E" "n \<noteq> []" "\<not> falsy c \<longrightarrow> c = Some n" "app_bag w cluster_name_key = Some n"
  shows "set_cluster_name E c w = (Inr (), w)"
proof -
  have "app_get_cluster_name (app_bag w) = Some n"
    using assms(2,4) by (simp add: app_get_cluster_name_def get_text_def)
  moreover have "(app_bag w)(cluster_name_key \<mapsto> n) = app_bag w" using assms(4) by (simp add: fun_upd_idem)
  ultimately show ?thesis
    using assms(1-3) by (cases "falsy c") (auto simp: set_cluster_name_def read_app_def write_app_def bindM_def
      monad_simps app_set_cluster_name_def str_opt_def)
qed

lemma set_cluster_set_name_again:
  assumes "has_peers E" "n \<noteq> []" "\<not> falsy c \<longrightarrow> c = Some n" "app_bag w cluster_set_name_key = Some n"
  shows "set_cluster_set_name E c w = (Inr (), w)"
proof -
  have "app_get_cluster_set_name (app_bag w) = Some n"
    using assms(2,4) by (simp add: app_get_cluster_set_name_def get_text_def)
  moreover have "(app_bag w)(cluster_set_name_key \<mapsto> n) = app_bag w" using assms(4) by (simp add: fun_upd_idem)
  ultimately show ?thesis
    using assms(1-3) by (cases "falsy c") (auto simp: set_cluster_set_name_def read_app_def write_app_def bindM_def
      monad_simps app_set_cluster_set_name_def str_opt_def)
qed

lemma create_passwords_run:
  assumes "create_passwords E w = (Inr (), w1)"
  shows "\<exists>c. secrets w1 (secret_label E) = Some c \<and> dom c = set (map snd USERNAME_TO_PASSWORD_KEY) \<and>
    (\<forall>k p. c k = Some p \<longrightarrow> strong_password p \<and> length p = 24)"
proof -
  let ?ks = "map snd USERNAME_TO_PASSWORD_KEY"
  obtain ps w2 where ps: "mapM (\<lambda>_. create_system_password E) ?ks w = (Inr ps, w2)"
    and w1: "secret_create (map_of (zip ?ks ps)) (secret_label E) w2 = (Inr (), w1)"
    using assms unfolding create_passwords_def Let_def bindM_Inr_iff by blast
  have strong: "mapM (\<lambda>_. create_system_password E) xs v = (Inr qs, v') \<Longrightarrow>
    length qs = length xs \<and> list_all (\<lambda>p. strong_password p \<and> length p = 24) qs" for xs :: "string list" and v qs v'
  proof (induction xs arbitrary: v qs)
    case (Cons x xs)
    then show ?case
      by (fastforce simp: bindM_Inr_iff monad_simps create_system_password_def create_password_def strong_password_def
          dest: create_password_loop_strong)
  qed (simp add: monad_simps)
  then have "length ps = length ?ks" "list_all (\<lambda>p. strong_password p \<and> length p = 24) ps"
    using ps by blast+
  moreover have "secrets w1 (secret_label E) = Some (map_of (zip ?ks ps))"
    using w1 by (auto simp: secret_create_def monad_simps)
  ultimately show ?thesis
    by (intro exI [where x = "map_of (zip ?ks ps)"]) (auto simp: list_all_iff dest!: map_of_SomeD set_zip_rightD)
qed

lemma on_leader_elected_run:
  assumes "has_peers E" "on_leader_elected E w = (Inr (), w1)"
  shows "\<exists>v n m. (if secrets w (secret_label E) = None then create_passwords E w = (Inr (), v) else v = w) \<and>
    secrets w1 = secrets v \<and> n \<noteq> [] \<and> m \<noteq> [] \<and>
    (\<not> falsy (cfg_cluster_name (config E)) \<longrightarrow> cfg_cluster_name (config E) = Some n) \<and>
    (\<not> falsy (cfg_cluster_set_name (config E)) \<longrightarrow> cfg_cluster_set_name (config E) = Some m) \<and>
    app_bag w1 = (app_bag v)(cluster_name_key \<mapsto> n, cluster_set_name_key \<mapsto> m) \<and>
    unit_bags w1 = (unit_bags v)(unit_name E := set_unit_leader_flag True (unit_bags v (unit_name E)))"
proof -
  obtain v v2 v3 where v: "(case secrets w (secret_label E) of None \<Rightarrow> create_passwords E | Some _ \<Rightarrow> ret ()) w = (Inr (), v)"
    and v2: "set_leader_flag E True v = (Inr (), v2)"
    and v3: "set_cluster_name E (cfg_cluster_name (config E)) v2 = (Inr (), v3)"
    and w1: "set_cluster_set_name E (cfg_cluster_set_name (config E)) v3 = (Inr (), w1)"
    using assms(2)
    by (auto simp: on_leader_elected_def bindM_Inr_iff seqM_Inr_iff fetch_passwords_run)
  have "v2 = v\<lparr>unit_bags := (unit_bags v)(unit_name E := set_unit_leader_flag True (unit_bags v (unit_name E)))\<rparr>"
    using v2 assms(1) by (simp add: set_leader_flag_def write_unit_def monad_simps)
  moreover have "if secrets w (secret_label E) = None then create_passwords E w = (Inr (), v) else v = w"
    using v by (auto simp: monad_simps split: option.splits)
  moreover obtain n where "n \<noteq> []" "\<not> falsy (cfg_cluster_name (config E)) \<longrightarrow> cfg_cluster_name (config E) = Some n"
    "app_bag v3 = (app_bag v2)(cluster_name_key \<mapsto> n)" "secrets v3 = secrets v2" "unit_bags v3 = unit_bags v2"
    using set_cluster_name_run [OF assms(1) v3] by blast
  moreover obtain m where "m \<noteq> []" "\<not> falsy (cfg_cluster_set_name (config E)) \<longrightarrow> cfg_cluster_set_name (config E) = Some m"
    "app_bag w1 = (app_bag v3)(cluster_set_name_key \<mapsto> m)" "secrets w1 = secrets v3" "unit_bags w1 = unit_bags v3"
    using set_cluster_set_name_run [OF assms(1) w1] by blast
  ultimately show ?thesis
    by (intro exI [where x = v] exI [where x = n] exI [where x = m]) simp
qed

text \<open>
  (C23) Winning the leadership is idempotent: once the handler of the leader-elected event has
  returned, handling the event again changes nothing at all and calls nothing. In particular the
  generated cluster names and the passwords of the application are created once.
\<close>

theorem leader_elected_idempotent:
  assumes "has_peers E" and "on_leader_elected E w = (Inr (), w1)"
  shows "on_leader_elected E w1 = (Inr (), w1)"
proof -
  obtain v n m where v: "if secrets w (secret_label E) = None then create_passwords E w = (Inr (), v) else v = w"
    and s: "secrets w1 = secrets v" and ne: "n \<noteq> []" "m \<noteq> []"
    and cfg: "\<not> falsy (cfg_cluster_name (config E)) \<longrightarrow> cfg_cluster_name (config E) = Some n"
      "\<not> falsy (cfg_cluster_set_name (config E)) \<longrightarrow> cfg_cluster_set_name (config E) = Some m"
    and a: "app_bag w1 = (app_bag v)(cluster_name_key \<mapsto> n, cluster_set_name_key \<mapsto> m)"
    and u: "unit_bags w1 = (unit_bags v)(unit_name E := set_unit_leader_flag True (unit_bags v (unit_name E)))"
    using on_leader_elected_run [OF assms] by blast
  have "cluster_name_key \<noteq> cluster_set_name_key" by (simp add: cluster_name_key_def cluster_set_name_key_def)
  then have "set_cluster_name E (cfg_cluster_name (config E)) w1 = (Inr (), w1)"
    "set_cluster_set_name E (cfg_cluster_set_name (config E)) w1 = (Inr (), w1)"
    using set_cluster_name_again [OF assms(1) ne(1) cfg(1)] set_cluster_set_name_again [OF assms(1) ne(2) cfg(2)]
    by (simp_all add: a)
  moreover have "set_leader_flag E True w1 = (Inr (), w1)"
    using assms(1) by (simp add: set_leader_flag_def write_unit_def monad_simps set_unit_leader_flag_def u fun_upd_idem)
  moreover have "secrets w1 (secret_label E) \<noteq> None"
    using v s create_passwords_run [of E w v] by (auto split: if_splits)
  ultimately show ?thesis
    by (auto simp: on_leader_elected_def bindM_def seqM_def fetch_passwords_run monad_simps)
qed

text \<open>
  The first leader creates the passwords of the application: the secret then has exactly the
  four keys that the operator reads, each with a password of 24 characters of all classes.
\<close>

theorem leader_elected_passwords:
  assumes "has_peers E" and "secrets w (secret_label E) = None" and "on_leader_elected E w = (Inr (), w1)"
  shows "\<exists>c. secrets w1 (secret_label E) = Some c \<and> dom c = set (map snd USERNAME_TO_PASSWORD_KEY) \<and>
    (\<forall>k p. c k = Some p \<longrightarrow> strong_password p \<and> length p = 24)"
  using on_leader_elected_run [OF assms(1,3)] assms(2) create_passwords_run by (auto simp: fun_upd_def)

text \<open>A random source that draws a lower case letter, an upper case letter and a digit in turn.\<close>

definition abc_draws :: "nat \<Rightarrow> nat" where
  "abc_draws n = [0, 26, 52] ! (n mod 3)"

definition abc_env :: env where
  "abc_env = quiet_env\<lparr>ans_nat := \<lambda>tr _. Inr (abc_draws (length tr))\<rparr>"

lemma abc_password:
  assumes "3 dvd length (trace w)"
  shows "create_password abc_env w =
    (Inr (drawn abc_draws 0), w\<lparr>trace := trace w @ replicate 24 (Sys (RandomChoice (length password_choices)))\<rparr>)"
proof -
  have "abc_draws (length (trace w) + i) = abc_draws i" for i
    using assms by (auto simp: abc_draws_def)
  then have d: "drawn abc_draws (length (trace w)) = drawn abc_draws 0" by (simp add: drawn_def)
  have m: "mapM (\<lambda>_. secrets_choice abc_env password_choices) [0..<system_password_len] w =
    (Inr (drawn abc_draws (length (trace w))),
     w\<lparr>trace := trace w @ replicate 24 (Sys (RandomChoice (length password_choices)))\<rparr>)"
    by (subst mapM_draws [where d = abc_draws]) (simp_all add: abc_env_def drawn_def system_password_len_def)
  have "strong_password (drawn abc_draws 0)" by code_simp
  moreover have "create_password abc_env = create_password_loop abc_env (Suc 2)"
    by (simp add: create_password_def abc_env_def quiet_env_def eval_nat_numeral)
  ultimately show ?thesis
    by (simp only: create_password_loop.simps bindM_def m d) (simp add: monad_simps)
qed

lemma abc_leader_elected: "\<exists>w1. on_leader_elected abc_env quiet_world = (Inr (), w1)"
proof -
  have "\<exists>es. mapM (\<lambda>_. create_system_password abc_env) xs w =
    (Inr (map (\<lambda>_. drawn abc_draws 0) xs), w\<lparr>trace := trace w @ es\<rparr>)"
    if "3 dvd length (trace w)" for xs :: "string list" and w
    using that
  proof (induction xs arbitrary: w)
    case (Cons x xs)
    let ?es = "replicate 24 (Sys (RandomChoice (length password_choices)))"
    let ?v = "w\<lparr>trace := trace w @ ?es\<rparr>"
    have "3 dvd length (trace ?v)" using Cons.prems by simp
    then obtain es where "mapM (\<lambda>_. create_system_password abc_env) xs ?v =
      (Inr (map (\<lambda>_. drawn abc_draws 0) xs), ?v\<lparr>trace := trace ?v @ es\<rparr>)"
      using Cons.IH by blast
    then show ?case
      by (intro exI [where x = "?es @ es"])
        (simp add: bindM_def abc_password [OF Cons.prems] create_system_password_def monad_simps)
  qed (auto simp: monad_simps intro: exI [where x = "[]"])
  from this [of quiet_world "map snd USERNAME_TO_PASSWORD_KEY"]
  obtain w2 where "create_passwords abc_env quiet_world = (Inr (), w2)" "app_bag w2 = Map.empty"
    by (auto simp: create_passwords_def Let_def bindM_def secret_create_def monad_simps quiet_world_def)
  moreover have "ans_nat abc_env tr e = Inr (abc_draws (length tr))" for tr e by (simp add: abc_env_def)
  moreover have "secrets quiet_world (secret_label abc_env) = None" by (simp add: quiet_world_def)
  ultimately show ?thesis
    by (simp add: on_leader_elected_def bindM_def seqM_def fetch_passwords_run monad_simps set_leader_flag_def
        set_cluster_name_def set_cluster_set_name_def write_app_def write_unit_def read_app_def
        create_random_hash_def app_get_cluster_name_def app_get_cluster_set_name_def get_text_def
        app_set_cluster_name_def cluster_name_key_def cluster_set_name_key_def)
qed

theorem leader_elected_idempotent_witness:
  "\<exists>w1. on_leader_elected abc_env quiet_world = (Inr (), w1) \<and> on_leader_elected abc_env w1 = (Inr (), w1)"
proof -
  have "has_peers abc_env" by (simp add: abc_env_def quiet_env_def)
  with abc_leader_elected show ?thesis using leader_elected_idempotent by blast
qed

theorem leader_elected_passwords_witness:
  "\<exists>w1 c. on_leader_elected abc_env quiet_world = (Inr (), w1) \<and>
     secrets w1 (secret_label abc_env) = Some c \<and> PASSWORD_KEY_OPERATOR \<in> dom c"
proof -
  have "has_peers abc_env" "secrets quiet_world (secret_label abc_env) = None"
    by (simp_all add: abc_env_def quiet_env_def quiet_world_def)
  moreover have "PASSWORD_KEY_OPERATOR \<in> set (map snd USERNAME_TO_PASSWORD_KEY)"
    by (simp add: USERNAME_TO_PASSWORD_KEY_def)
  ultimately show ?thesis
    using abc_leader_elected leader_elected_passwords [of abc_env quiet_world] by blast
qed

section \<open>Leaving the cluster\<close>

definition status_call :: "event \<Rightarrow> bool" where
  "status_call e = (case e of Clu _ (FetchClusterStatus _) \<Rightarrow> True | _ \<Rightarrow> False)"

definition detach_call :: "event \<Rightarrow> bool" where
  "detach_call e = (case e of Clu _ (DetachInstance _ _ _ _) \<Rightarrow> True | _ \<Rightarrow> False)"

text \<open>The last status that the instance \<open>h\<close> reported does not name \<open>host\<close> as the primary.\<close>

definition not_primary :: "env \<Rightarrow> event list \<Rightarrow> string \<Rightarrow> string \<Rightarrow> bool" where
  "not_primary E tr h host \<longleftrightarrow>
     (\<exists>zs ys. tr = zs @ Clu h (FetchClusterStatus (client_cluster E)) # ys \<and> \<not> list_ex status_call ys \<and>
       \<not> (\<exists>st. ans_status E zs (Clu h (FetchClusterStatus (client_cluster E))) = Inr st \<and>
            cs_state st \<noteq> ''NO_QUORUM'' \<and> host_of (cs_primary st) = host))"

definition detach_guard :: "env \<Rightarrow> event list \<Rightarrow> event \<Rightarrow> bool" where
  "detach_guard E tr e = (case e of
     Clu h (DetachInstance c host port os) \<Rightarrow> c = client_cluster E \<and> port = ''3306'' \<and> not_primary E tr h host
   | _ \<Rightarrow> True)"

lemma detach_guard_other: "\<not> detach_call e \<Longrightarrow> detach_guard E tr e"
  by (simp add: detach_call_def detach_guard_def split: event.splits cluster_call.splits)

lemma calls_no_detach: "emits (\<lambda>e. \<not> detach_call e) m \<Longrightarrow> calls (detach_guard E) m"
  by (erule calls_emits) (rule detach_guard_other)

lemma cluster_fetch_primary_host_run:
  assumes "cluster_fetch_primary_host E h w = (Inr p, w1)"
  shows "trace w1 = trace w @ [Clu h (FetchClusterStatus (client_cluster E))] \<and>
    (\<forall>st. ans_status E (trace w) (Clu h (FetchClusterStatus (client_cluster E))) = Inr st \<longrightarrow>
      cs_state st \<noteq> ''NO_QUORUM'' \<longrightarrow> p = Some (host_of (cs_primary st)))"
  using assms
  by (auto simp: cluster_fetch_primary_host_def fetch_cluster_status_def try_else_def monad_simps
      split: sum.splits if_splits)

lemma cluster_fetch_primary_host_calls:
  "trace (snd (cluster_fetch_primary_host E h w)) = trace w @ [Clu h (FetchClusterStatus (client_cluster E))]"
  by (auto simp: cluster_fetch_primary_host_def fetch_cluster_status_def try_else_def monad_simps split: sum.splits)

lemma calls_cluster_remove_instance: "calls (detach_guard E) (cluster_remove_instance E h l host)"
proof (rule callsI)
  fix w
  let ?q = "Clu h (FetchClusterStatus (client_cluster E))"
  let ?d = "Clu h (DetachInstance (client_cluster E) host ''3306'' [(''force'', VBool True)])"
  let ?P = "\<lambda>e. e = ?d \<or> \<not> detach_call e \<and> \<not> status_call e"
  let ?body = "locking E h l INSTANCE_REMOVAL_TASK (act E ?d)"
  obtain r w1 where r: "cluster_fetch_primary_host E h w = (r, w1)" by force
  then have t: "trace w1 = trace w @ [?q]" using cluster_fetch_primary_host_calls [of E h w] by simp
  have q: "detach_guard E tr ?q" for tr by (simp add: detach_guard_def)
  show "\<exists>es. trace (snd (cluster_remove_instance E h l host w)) = trace w @ es \<and> chain (detach_guard E) (trace w) es"
  proof (cases "\<exists>p. r = Inr p \<and> p \<noteq> Some host")
    case True
    then obtain p where p: "r = Inr p" "p \<noteq> Some host" by blast
    have np: "not_primary E (trace w @ ?q # ys) h host" if "list_all ?P ys" for ys
      unfolding not_primary_def
    proof (rule exI [where x = "trace w"], rule exI [where x = ys], intro conjI)
      show "\<not> list_ex status_call ys"
        using that by (auto simp: list_ex_iff list_all_iff status_call_def)
    qed (use cluster_fetch_primary_host_run [OF r [unfolded p]] p(2) in auto)
    have "emits ?P ?body" by (intro emits) (simp_all add: detach_call_def status_call_def)
    then obtain es where es: "trace (snd (?body w1)) = trace w1 @ es" "list_all ?P es"
      unfolding emits_def by blast
    have "chain (detach_guard E) (trace w @ [?q]) es"
    proof (rule chain_history [OF es(2)])
      fix ys e assume ys: "list_all ?P ys" and e: "?P e"
      show "detach_guard E ((trace w @ [?q]) @ ys) e"
        using e np [OF ys] detach_guard_other [of e E] by (auto simp: detach_guard_def)
    qed
    with q t p r es(1) show ?thesis
      by (intro exI [where x = "?q # es"]) (simp add: cluster_remove_instance_def bindM_def)
  next
    case False
    then have "snd (cluster_remove_instance E h l host w) = w1"
      using r by (cases r) (auto simp: cluster_remove_instance_def bindM_def monad_simps)
    with q t show ?thesis by (intro exI [where x = "[?q]"]) simp
  qed
qed

lemma emits_find_leader_unit [emits]: "emits P (find_leader_unit E)"
  unfolding find_leader_unit_def by (intro emits)

lemma keeps_find_leader_unit [keeps]: "keeps I (find_leader_unit E)"
  unfolding find_leader_unit_def by (intro keeps)

lemma calls_on_storage_detaching: "calls (detach_guard E) (on_storage_detaching E)"
proof -
  have "calls (detach_guard E) (initialized E)" "calls (detach_guard E) (get_unit_address E u r)"
    "calls (detach_guard E) (is_cluster_primary E)" "calls (detach_guard E) (promote_instance E a False)"
    "calls (detach_guard E) (find_cluster_primary E as)" "calls (detach_guard E) (fetch_instances E h)"
    "calls (detach_guard E) (find_leader_unit E)" for u r a as h
    unfolding is_cluster_primary_def
    by (rule calls_no_detach, intro emits; simp add: detach_call_def)+
  note parts = this calls_cluster_remove_instance
  show ?thesis
    unfolding on_storage_detaching_def lifecycle_promote_instance_def lifecycle_remove_instance_def
    by (rule emits_bindM emits_if emits_try_else emits_basic parts)+
qed

lemma emits_at_own_detach:
  "emits_at (\<lambda>e. case e of Clu h (DetachInstance c host p os) \<Rightarrow> names_unit E w host | _ \<Rightarrow> True) (on_storage_detaching E) w"
proof -
  let ?P = "\<lambda>e. case e of Clu h (DetachInstance c host p os) \<Rightarrow> names_unit E w host | _ \<Rightarrow> True"
  let ?I = "\<lambda>v. unit_bags v = unit_bags w"
  let ?promote = "\<lambda>a. bindM (is_cluster_primary E) (\<lambda>primary. if primary then promote_instance E a False else ret ())"
  have e: "emits ?P (initialized E)" "emits ?P (find_leader_unit E)" "emits ?P (get_unit_address E u r)"
    "emits ?P (?promote a)" for u r a
    unfolding is_cluster_primary_def by (intro emits; simp)+
  have k: "keeps ?I (initialized E)" "keeps ?I (find_leader_unit E)" "keeps ?I (get_unit_address E u r)"
    "keeps ?I (?promote a)" for u r a
    unfolding is_cluster_primary_def by (intro keeps; simp)+
  have last: "emits_at ?P (bindM (get_unit_address E (unit_name E) RELATION_PEERS) (\<lambda>instance_host.
      lifecycle_remove_instance E instance_host (get_unit_label (unit_name E)) [a])) v" if "?I v" for v a
  proof (rule emits_at_bind_value [OF e(3)])
    fix host v' assume "get_unit_address E (unit_name E) RELATION_PEERS v = (Inr host, v')"
    then have "names_unit E w host" using that by (rule own_address_named)
    then show "emits_at ?P (lifecycle_remove_instance E host (get_unit_label (unit_name E)) [a]) v'"
      unfolding lifecycle_remove_instance_def by (intro emits_atI emits; simp)
  qed
  have skip: "emits_at ?P (ret ()) v" for v by (intro emits_atI emits)
  show ?thesis
    unfolding on_storage_detaching_def lifecycle_promote_instance_def
    by (rule emits_at_bindM [where I = ?I] emits_at_if emits_at_try_else [where I = ?I] e k last skip refl | assumption)+
qed

text \<open>
  (C9) A unit whose storage is detached removes at most itself: it detaches only its own address (on machines the address that
  it has published, on Kubernetes the resolved name of its own pod) from its own cluster, and only when the last status that the
  instance it asks had reported does not name this address as the primary of the cluster.
\<close>

theorem storage_detaching_removes_itself:
  assumes "on_storage_detaching E w = (r, w')"
    and "trace w' = trace w @ xs @ Clu h (DetachInstance c host port os) # ys"
  shows "names_unit E w host \<and> c = client_cluster E \<and> not_primary E (trace w @ xs) h host"
proof -
  let ?e = "Clu h (DetachInstance c host port os)"
  obtain es where es: "trace w' = trace w @ es" "chain (detach_guard E) (trace w) es"
    using callsE [OF calls_on_storage_detaching assms(1)] by blast
  then have e: "es = xs @ ?e # ys" using assms(2) by simp
  then have "detach_guard E (trace w @ xs) ?e" using es(2) by simp
  moreover have "names_unit E w host"
    using emits_at_own_detach [of E w] assms(1) es(1) e by (auto simp: emits_at_def list_all_iff)
  ultimately show ?thesis by (simp add: detach_guard_def)
qed

text \<open>A secondary whose storage goes, in a cluster with another primary.\<close>

definition leaving_env :: env where
  "leaving_env = cluster_env\<lparr>ans_ostr := \<lambda>_ _. Inr (Some ''SECONDARY''),
     ans_set_status := \<lambda>_ _. Inr \<lparr>css_primary = ''c'',
       css_clusters = [(''c'', \<lparr>sm_role = ''PRIMARY'', sm_state = ''OK'', sm_primary = Some ''h1:3306''\<rparr>)]\<rparr>,
     ans_strs := \<lambda>_ e. (case e of Sql _ GetClusterLabels \<Rightarrow> Inr [''c''] | _ \<Rightarrow> Inr [''mysql-0''])\<rparr>"

lemma leaving_answers:
  "substrate leaving_env = VM" "has_peers leaving_env" "client_host leaving_env = ''h0''"
  "client_cluster leaving_env = ''c''" "unit_name leaving_env = ''mysql/0''"
  "peer_units leaving_env = [''mysql/1'', ''mysql/2'']"
  "ans_bool leaving_env = (\<lambda>_ _. Inr True)" "ans_ostr leaving_env = (\<lambda>_ _. Inr (Some ''SECONDARY''))"
  "ans_strs leaving_env tr (Sql h GetClusterLabels) = Inr [''c'']"
  "ans_strs leaving_env tr (Sql h (ExecuteSql qs)) = Inr [''mysql-0'']"
  "ans_unit leaving_env tr e = Inr ()" "ans_status leaving_env tr e = Inr (sample_status ''OK'')"
  "ans_set_status leaving_env tr e = Inr \<lparr>css_primary = ''c'',
       css_clusters = [(''c'', \<lparr>sm_role = ''PRIMARY'', sm_state = ''OK'', sm_primary = Some ''h1:3306''\<rparr>)]\<rparr>"
  by (simp_all add: leaving_env_def cluster_env_def quiet_env_def)

lemma leaving_reads:
  "get_unit_leader_flag (unit_bags sample_world u) = None"
  "state_get_unit_address RELATION_PEERS (unit_bags sample_world ''mysql/0'') = Some ''mysql-0.peers''"
  "own_address leaving_env sample_world = ''mysql-0.peers''"
  "host_of ''h1:3306'' = ''h1''" "host_of ''mysql-0:3306'' = ''mysql-0''" "get_unit_label ''mysql/0'' = ''mysql-0''"
  by (simp_all add: get_unit_leader_flag_def get_flag_def sample_world_def quiet_world_def own_address_def
      leaving_answers state_get_unit_address_def get_text_def unit_address_key_def unit_leader_key_def
      RELATION_PEERS_def RELATION_DATABASE_def get_unit_label_def replace_char_def host_of_def)

lemma attempts_ok: "m w = (Inr x, w1) \<Longrightarrow> attempts n m w = (Inr x, w1)"
  by (cases n) auto

lemmas leaving_run = on_storage_detaching_def server_running_def snap_running_def initialized_def
  inst_fetch_cluster_labels_def cluster_name_def read_app_def find_leader_unit_def is_cluster_primary_def
  inst_fetch_role_def get_unit_address_def lifecycle_remove_instance_def fetch_instances_def
  fetch_cluster_status_def cset_fetch_primary_host_def fetch_cluster_set_status_def dict_index_def
  cluster_remove_instance_def cluster_fetch_primary_host_def locking_def acquire_lock_def release_lock_def
  vm_get_unit_address_def read_unit_def dict_has_def dict_keys_def sample_status_def
  try_except_def try_else_def try_finally_def bindM_def seqM_def monad_simps falsy_none_def

theorem storage_detaching_removes_itself_witness:
  "\<exists>xs ys h os. trace (snd (on_storage_detaching leaving_env sample_world)) =
     xs @ Clu h (DetachInstance ''c'' ''mysql-0.peers'' ''3306'' os) # ys \<and> not_primary leaving_env xs h ''mysql-0.peers''"
proof -
  let ?r = "on_storage_detaching leaving_env sample_world"
  have e: "trace sample_world = []" "app_get_cluster_name (app_bag sample_world) = Some ''c''" by code_simp+
  let ?os = "[(''force'', VBool True)]"
  have "Clu ''h1'' (DetachInstance ''c'' ''mysql-0.peers'' ''3306'' ?os) \<in> set (trace (snd ?r))"
    by (simp add: leaving_run leaving_answers leaving_reads e attempts_ok)
  then obtain xs ys where "trace (snd ?r) = xs @ Clu ''h1'' (DetachInstance ''c'' ''mysql-0.peers'' ''3306'' ?os) # ys"
    by (meson split_list)
  then have t: "trace (snd ?r) = trace sample_world @ xs @ Clu ''h1'' (DetachInstance ''c'' ''mysql-0.peers'' ''3306'' ?os) # ys"
    by (simp add: e)
  show ?thesis
    using storage_detaching_removes_itself [OF surjective_pairing t] t
    unfolding e append_Nil by blast
qed

end
