(* ===== verification/Cluster.thy ===== *)
theory Cluster
  imports Lifecycle
begin

text \<open>
  The peer relation and the actions on the cluster: \<open>events/handlers/cluster.py\<close> and
  \<open>managers/managers/cluster.py\<close>.  The theorems are about who joins a cluster and when, about the
  passwords that the actions read and write, and about the name that recreating a cluster
  stores.
\<close>

section \<open>The manager\<close>

definition cluster_max_size :: nat where "cluster_max_size = 9"
definition password_max_len :: nat where "password_max_len = 130"

definition is_cluster_set_primary :: "env \<Rightarrow> bool op" where
  "is_cluster_set_primary E = bindM (cluster_fetch_role E (client_host E)) (\<lambda>role. ret (role = Some ''PRIMARY''))"

definition check_instance_join_cluster :: "env \<Rightarrow> string \<Rightarrow> string \<Rightarrow> bool op" where
  "check_instance_join_cluster E cluster instance_label =
     bindM (read_unit E (unit_name E) get_instance_state) (\<lambda>state.
       if state \<noteq> ''waiting'' then ret False
       else bindM (inst_fetch_cluster_labels E (client_host E)) (\<lambda>labels.
         if cluster \<notin> set labels then ret True
         else bindM (fetch_instances E (client_host E)) (\<lambda>instances.
           if length instances = cluster_max_size then ret False
           else (case map_of instances instance_label of
               None \<Rightarrow> ret True
             | Some info \<Rightarrow> if ii_status info \<in> {''ONLINE'', ''RECOVERING''} then ret False else ret True))))"

definition manager_fetch_cluster_status :: "env \<Rightarrow> cluster_status op" where
  "manager_fetch_cluster_status E = fetch_cluster_status E (client_host E)"

definition manager_fetch_cluster_set_status :: "env \<Rightarrow> cluster_set_status op" where
  "manager_fetch_cluster_set_status E = fetch_cluster_set_status E (client_host E)"

definition cluster_update_state :: "env \<Rightarrow> unit op" where
  "cluster_update_state E =
     bindM (inst_fetch_role E (client_host E)) (\<lambda>role.
     bindM (inst_fetch_state E (client_host E)) (\<lambda>state. block
       [write_unit E (set_instance_role role), write_unit E (set_instance_state state)]))"

definition join_instance :: "env \<Rightarrow> string \<Rightarrow> string \<Rightarrow> string list \<Rightarrow> unit op" where
  "join_instance E instance_label instance_host addrs =
     bindM (find_cluster_primary E addrs) (\<lambda>primary_host.
       if falsy primary_host then ret ()
       else seqM (act E (Sys (Sleep 1)))
         (bindM (fetch_instances E (the primary_host)) (\<lambda>instances.
          seqM (if dict_has instances instance_label
                then seqM (cluster_remove_instance E (the primary_host) instance_label instance_host)
                  (cluster_rescan E (the primary_host)) else ret ())
         (seqM (cluster_add_instance E (the primary_host) instance_label instance_host ''auto'')
               (cluster_update_state E)))))"

definition manager_promote_instance :: "env \<Rightarrow> string \<Rightarrow> bool \<Rightarrow> unit op" where
  "manager_promote_instance E instance_host force = promote_instance E instance_host force"

definition manager_promote_cluster :: "env \<Rightarrow> string \<Rightarrow> bool \<Rightarrow> unit op" where
  "manager_promote_cluster E name force = cset_promote_replica_cluster E (client_host E) name force"

definition manager_recreate_cluster :: "env \<Rightarrow> string \<Rightarrow> string option \<Rightarrow> unit op" where
  "manager_recreate_cluster E instance_label name = block
     [write_app E (app_set_cluster_set_name name), write_app E app_delete_cluster_removed_flag,
      recreate_cluster E instance_label]"

definition update_cluster_user :: "env \<Rightarrow> string \<Rightarrow> string \<Rightarrow> unit op" where
  "update_cluster_user E username password =
     bindM (cset_fetch_primary_host E (client_host E)) (\<lambda>primary_host.
       if falsy primary_host then ret ()
       else if length password > password_max_len then raise (value_error ''Password is too long'')
       else inst_update_user E (the primary_host) username password)"

section \<open>The handler\<close>

text \<open>
  The parameters of an action are arguments.  \<open>show_cluster\<close> and \<open>show_set\<close> are the JSON texts of the
  complete status dictionaries, of which the model keeps the parts that are read.
\<close>

definition cluster_peer_addresses :: "env \<Rightarrow> string list op" where
  "cluster_peer_addresses E = (if \<not> has_peers E then ret []
     else mapM (\<lambda>u. get_unit_address E u RELATION_PEERS) (peer_units E))"

definition action_promote_instance :: "env \<Rightarrow> bool \<Rightarrow> unit op" where
  "action_promote_instance E force =
     try_else (bindM (get_unit_address E (unit_name E) RELATION_PEERS) (\<lambda>host. manager_promote_instance E host force))
       [PyRuntimeError] (\<lambda>e. event_fail (''Failed to promote instance: '' @ message e))
       (\<lambda>_. event_set_results [(''message'', ''Instance is now primary'')])"

definition action_promote_cluster :: "env \<Rightarrow> bool \<Rightarrow> unit op" where
  "action_promote_cluster E force =
     (if \<not> is_leader E then event_fail ''The action can only be run on the leader unit''
      else bindM (is_cluster_set_primary E) (\<lambda>primary.
        if primary then event_fail ''The action can only be run on a replica cluster''
        else if \<not> has_peers E then event_fail ''The action can only be run when the peer relation exists''
        else try_else (bindM (cluster_name E) (\<lambda>name. manager_promote_cluster E name force))
          [PyRuntimeError] (\<lambda>e. event_fail (''Failed to promote cluster: '' @ message e))
          (\<lambda>_. event_set_results [(''message'', ''Cluster is now primary'')])))"

definition update_password :: "env \<Rightarrow> string \<Rightarrow> string \<Rightarrow> unit op" where
  "update_password E key val =
     bindM (secret_get_content (secret_label E)) (\<lambda>content.
       secret_set_content (content(key \<mapsto> val)) (secret_label E))"

definition on_cluster_status ::
  "env \<Rightarrow> (cluster_status \<Rightarrow> string) \<Rightarrow> (cluster_set_status \<Rightarrow> string) \<Rightarrow> bool \<Rightarrow> unit op" where
  "on_cluster_status E show_cluster show_set cluster_set =
     try_else (if cluster_set then bindM (manager_fetch_cluster_set_status E) (\<lambda>s. ret (show_set s))
               else bindM (manager_fetch_cluster_status E) (\<lambda>s. ret (show_cluster s)))
       [PyRuntimeError] (\<lambda>e. event_fail (''Failed to fetch status: '' @ message e))
       (\<lambda>status. event_set_results [(''status'', status)])"

definition on_get_password :: "env \<Rightarrow> string \<Rightarrow> unit op" where
  "on_get_password E username =
     (case map_of USERNAME_TO_PASSWORD_KEY username of
        None \<Rightarrow> event_fail (''The action cannot be run for user '' @ username)
      | Some password_key \<Rightarrow>
        try_else (secret_get_value None (Some (secret_label E)) password_key) [PyValueError]
          (\<lambda>e. event_fail (''Failed to fetch password for user '' @ username @ '': '' @ message e))
          (\<lambda>password. event_set_results [(''username'', username), (''password'', password)]))"

definition on_set_password :: "env \<Rightarrow> string \<Rightarrow> string \<Rightarrow> unit op" where
  "on_set_password E username password =
     (case map_of USERNAME_TO_PASSWORD_KEY username of
        None \<Rightarrow> event_fail (''The action cannot be run for user '' @ username)
      | Some password_key \<Rightarrow>
        if \<not> is_leader E then event_fail ''The action can only be run on the leader unit''
        else bindM (if password = [] then create_system_password E else ret password) (\<lambda>password.
          try_else (seqM (update_cluster_user E username password) (update_password E password_key password))
            [PyRuntimeError, PyValueError]
            (\<lambda>e. event_fail (''Failed to update password for user '' @ username @ '': '' @ message e))
            (\<lambda>_. if username = USERNAME_MONITOR
                 then block [exporter_setup E username password, exporter_stop E, exporter_start E]
                 else ret ())))"

definition on_promote_primary :: "env \<Rightarrow> string \<Rightarrow> bool \<Rightarrow> unit op" where
  "on_promote_primary E scope force =
     (if scope = ''cluster'' then action_promote_cluster E force
      else if scope = ''unit'' then seqM (action_promote_instance E force) (cluster_update_state E)
      else event_fail (''The action cannot be run for scope '' @ scope))"

definition on_recreate_cluster :: "env \<Rightarrow> unit op" where
  "on_recreate_cluster E =
     (if \<not> is_leader E then event_fail ''The action can only be run on the leader unit''
      else if \<not> has_peers E then event_fail ''The action can only be run when the peer relation exists''
      else try_except (block
          [manager_recreate_cluster E (get_unit_label (unit_name E)) (cfg_cluster_set_name (config E)),
           bindM (build_unit_status E) (set_unit_status E), bindM (build_app_status E) (set_app_status E)])
        [PyRuntimeError] (\<lambda>e. event_fail (''Failed to recreate cluster: '' @ message e)))"

definition cluster_on_relation_created :: "env \<Rightarrow> unit op" where
  "cluster_on_relation_created E = set_unit_address E RELATION_PEERS"

definition cluster_on_relation_joined :: "env \<Rightarrow> unit op" where
  "cluster_on_relation_joined E = update_database_endpoints E"

definition cluster_on_relation_changed :: "env \<Rightarrow> unit op" where
  "cluster_on_relation_changed E = seqM (update_database_endpoints E)
     (if \<not> has_peers E then defer_event
      else bindM (cluster_peer_addresses E) (\<lambda>peers_addresses.
        if peers_addresses = [] then defer_event
        else bindM (cluster_name E) (\<lambda>name.
          bindM (get_unit_address E (unit_name E) RELATION_PEERS) (\<lambda>instance_host.
          bindM (check_instance_join_cluster E name (get_unit_label (unit_name E))) (\<lambda>joins.
            if \<not> joins then ret ()
            else seqM (join_instance E (get_unit_label (unit_name E)) instance_host peers_addresses)
              (bindM (build_unit_status E) (set_unit_status E)))))))"

definition cluster_on_relation_departed :: "env \<Rightarrow> unit op" where
  "cluster_on_relation_departed E = update_database_endpoints E"

section \<open>The calls and the state of the parts\<close>

lemma emits_cluster_peer_addresses [emits]:
  "(\<And>c. P (Sys c)) \<Longrightarrow> emits P (cluster_peer_addresses E)"
  unfolding cluster_peer_addresses_def by (intro emits)

lemma keeps_cluster_parts [keeps]:
  assumes "\<And>w es. I w \<Longrightarrow> I (w\<lparr>trace := es\<rparr>)"
  shows "keeps I (cluster_peer_addresses E)" "keeps I (check_instance_join_cluster E c l)"
    "keeps I (update_cluster_user E u p)" "keeps I (is_cluster_set_primary E)"
    "keeps I (manager_promote_cluster E c force)"
  unfolding cluster_peer_addresses_def check_instance_join_cluster_def update_cluster_user_def
    is_cluster_set_primary_def manager_promote_cluster_def cset_promote_replica_cluster_def
  by (intro keeps assms; assumption?)+

section \<open>Joining\<close>

definition membership_call :: "event \<Rightarrow> string option" where
  "membership_call e = (case e of Clu _ (AttachInstance _ host _ _) \<Rightarrow> Some host
     | Clu _ (DetachInstance _ host _ _) \<Rightarrow> Some host | _ \<Rightarrow> None)"

lemma emits_join_instance:
  assumes "\<And>e. membership_call e = None \<Longrightarrow> P e" "\<And>e. membership_call e = Some host \<Longrightarrow> P e"
  shows "emits P (join_instance E l host addrs)"
  unfolding join_instance_def cluster_update_state_def
  by (intro emits assms) (simp_all add: membership_call_def assms)

lemma check_instance_not_waiting:
  assumes "get_instance_state (if has_peers E then unit_bags w (unit_name E) else Map.empty) \<noteq> ''waiting''"
  shows "check_instance_join_cluster E c l w = (Inr False, w)"
  using assms by (simp add: check_instance_join_cluster_def read_unit_def bindM_def monad_simps)

lemma emits_at_relation_changed:
  "emits_at (\<lambda>e. \<forall>host. membership_call e = Some host \<longrightarrow>
      names_unit E w host \<and> get_instance_state (unit_bags w (unit_name E)) = ''waiting'') (cluster_on_relation_changed E) w"
proof -
  let ?P = "\<lambda>e. \<forall>host. membership_call e = Some host \<longrightarrow>
      names_unit E w host \<and> get_instance_state (unit_bags w (unit_name E)) = ''waiting''"
  let ?I = "\<lambda>v. unit_bags v = unit_bags w"
  have e: "emits ?P (update_database_endpoints E)" "emits ?P (cluster_peer_addresses E)" "emits ?P (cluster_name E)"
    "emits ?P (build_unit_status E)" "emits ?P (set_unit_status E s)"
    "emits ?P (check_instance_join_cluster E c l)" for c l s
    unfolding check_instance_join_cluster_def by (intro emits; simp add: membership_call_def)+
  have k: "keeps ?I (update_database_endpoints E)" "keeps ?I (cluster_peer_addresses E)" "keeps ?I (cluster_name E)"
    "keeps ?I (check_instance_join_cluster E c l)" for c l
    by (intro keeps; simp)+
  let ?join = "\<lambda>host addrs joins. if \<not> joins then ret ()
     else seqM (join_instance E (get_unit_label (unit_name E)) host addrs) (bindM (build_unit_status E) (set_unit_status E))"
  have join: "emits_at ?P (bindM (check_instance_join_cluster E name (get_unit_label (unit_name E)))
      (?join host addrs)) v" if v: "?I v" and p: "has_peers E" and h: "names_unit E w host" for v name addrs host
  proof (cases "get_instance_state (unit_bags w (unit_name E)) = ''waiting''")
    case True
    with h have j: "emits ?P (join_instance E (get_unit_label (unit_name E)) host addrs)"
      by (intro emits_join_instance [where host = host]) auto
    show ?thesis by (rule emits_atI) (intro emits e j)
  next
    case False
    then show ?thesis
      using v p by (intro emits_at_pure [OF check_instance_not_waiting]) (auto intro: emits_atI emits_basic)
  qed
  have host: "emits_at ?P (bindM (get_unit_address E (unit_name E) RELATION_PEERS) (\<lambda>host.
      bindM (check_instance_join_cluster E name (get_unit_label (unit_name E))) (?join host addrs))) v"
    if "?I v" "has_peers E" for v name addrs
  proof (rule emits_at_bind_value)
    show "emits ?P (get_unit_address E (unit_name E) RELATION_PEERS)" by (intro emits; simp add: membership_call_def)
    fix host v' assume a: "get_unit_address E (unit_name E) RELATION_PEERS v = (Inr host, v')"
    have "keeps ?I (get_unit_address E (unit_name E) RELATION_PEERS)" by (intro keeps; simp)
    then have "?I v'" using that(1) a by (rule keepsD)
    moreover have "names_unit E w host" using a that(1) by (rule own_address_named)
    ultimately show "emits_at ?P (bindM (check_instance_join_cluster E name (get_unit_label (unit_name E))) (?join host addrs)) v'"
      using that(2) by (intro join)
  qed
  have skip: "emits_at ?P defer_event v" for v by (intro emits_atI emits)
  show ?thesis
    unfolding cluster_on_relation_changed_def
    by (rule emits_at_seqM [where I = ?I] emits_at_if e k refl skip emits_at_bindM [where I = ?I] host | assumption | simp)+
qed

text \<open>
  (C8) A change of the peer relation makes a unit join only itself, and only while its state says
  that it waits: every instance that is attached or detached is the unit's own address (on machines the address that it has published,
  on Kubernetes the resolved name of its own pod), and a unit
  that is not \<open>waiting\<close> (because it joined, or created the cluster) attaches and detaches nothing.
\<close>

theorem join_only_when_waiting:
  assumes "cluster_on_relation_changed E w = (r, w')" and "trace w' = trace w @ es"
    and "e \<in> set es" and "membership_call e = Some host"
  shows "names_unit E w host \<and> get_instance_state (unit_bags w (unit_name E)) = ''waiting''"
  using emits_at_relation_changed [of E w] assms by (auto simp: emits_at_def list_all_iff)

text \<open>A unit that waits, in a cluster where attaching it fails with an exception that is not handled.\<close>

definition set_status :: "string option \<Rightarrow> cluster_set_status" where
  "set_status primary = \<lparr>css_primary = ''c'',
     css_clusters = [(''c'', \<lparr>sm_role = ''PRIMARY'', sm_state = ''OK'', sm_primary = primary\<rparr>)]\<rparr>"

definition joining_env :: env where
  "joining_env = quiet_env\<lparr>ans_set_status := \<lambda>_ _. Inr (set_status (Some ''h1:3306'')),
     ans_strs := \<lambda>_ e. (case e of Sql _ (ExecuteSql _) \<Rightarrow> Inr [''mysql-0''] | _ \<Rightarrow> Inr []),
     ans_unit := \<lambda>_ e. (case e of Clu _ _ \<Rightarrow> Inl (Exn [PyException] []) | _ \<Rightarrow> Inr ())\<rparr>"

definition waiting_world :: world where
  "waiting_world = sample_world\<lparr>unit_bags := \<lambda>u. (unit_bags sample_world u)(instance_state_key \<mapsto> ''waiting'')\<rparr>"

lemma joining_answers:
  "substrate joining_env = VM" "has_peers joining_env" "client_host joining_env = ''h0''"
  "client_cluster joining_env = ''c''" "unit_name joining_env = ''mysql/0''"
  "peer_units joining_env = [''mysql/1'', ''mysql/2'']" "ans_bool joining_env = (\<lambda>_ _. Inr True)"
  "ans_strs joining_env tr (Sql h GetClusterLabels) = Inr []"
  "ans_strs joining_env tr (Sql h (ExecuteSql qs)) = Inr [''mysql-0'']"
  "ans_unit joining_env tr (Sys c) = Inr ()" "ans_unit joining_env tr (Clu h k) = Inl (Exn [PyException] [])"
  "ans_status joining_env tr e = Inr \<lparr>cs_role = ''PRIMARY'', cs_state = ''OK'', cs_primary = ''h0:3306'', cs_topology = []\<rparr>"
  "ans_set_status joining_env tr e = Inr (set_status (Some ''h1:3306''))"
  by (simp_all add: joining_env_def quiet_env_def)

lemma waiting_reads:
  "trace waiting_world = []" "app_bag waiting_world = app_bag sample_world"
  "state_get_unit_address RELATION_PEERS (unit_bags waiting_world u) = Some (get_unit_label u @ ''.peers'')"
  "get_instance_state (unit_bags waiting_world u) = ''waiting''"
  "own_address joining_env waiting_world = ''mysql-0.peers''" "host_of ''h1:3306'' = ''h1''"
  by (simp_all add: waiting_world_def sample_world_def quiet_world_def own_address_def joining_answers
      state_get_unit_address_def get_text_def unit_address_key_def instance_state_key_def get_instance_state_def
      RELATION_PEERS_def RELATION_DATABASE_def get_unit_label_def replace_char_def host_of_def)

lemmas joining_run = cluster_on_relation_changed_def update_database_endpoints_def initialized_def server_running_def
  snap_running_def inst_fetch_cluster_labels_def cluster_name_def read_app_def read_unit_def cluster_peer_addresses_def
  get_unit_address_def vm_get_unit_address_def check_instance_join_cluster_def join_instance_def
  cset_fetch_primary_host_def fetch_cluster_set_status_def dict_index_def set_status_def fetch_instances_def
  fetch_cluster_status_def dict_has_def dict_keys_def cluster_add_instance_def locking_def acquire_lock_def
  release_lock_def attempts_ok try_except_def try_else_def try_finally_def bindM_def seqM_def monad_simps

theorem join_only_when_waiting_witness:
  "\<exists>e. e \<in> set (trace (snd (cluster_on_relation_changed joining_env waiting_world))) \<and>
     membership_call e = Some ''mysql-0.peers'' \<and>
     get_instance_state (unit_bags waiting_world (unit_name joining_env)) = ''waiting''"
proof -
  let ?r = "cluster_on_relation_changed joining_env waiting_world"
  let ?e = "Clu ''h1'' (AttachInstance ''c'' ''mysql-0.peers'' ''3306''
    [(''label'', VStr ''mysql-0''), (''recoveryMethod'', VStr ''auto'')])"
  have "app_get_cluster_name (app_bag sample_world) = Some ''c''" by code_simp
  moreover have "get_unit_label ''mysql/0'' = ''mysql-0''" by (simp add: get_unit_label_def replace_char_def)
  ultimately have e: "?e \<in> set (trace (snd ?r))"
    by (simp add: joining_run joining_answers waiting_reads caught_def)
  have "trace (snd ?r) = trace waiting_world @ trace (snd ?r)" by (simp add: waiting_reads)
  from join_only_when_waiting [OF surjective_pairing this e, of "''mysql-0.peers''"] e
  show ?thesis by (auto simp: membership_call_def)
qed

section \<open>Passwords\<close>

lemma keeps_secret_tail:
  "keeps (\<lambda>v. secrets v = S \<and> action_failure v = a) (exporter_setup E u p)"
  "keeps (\<lambda>v. secrets v = S \<and> action_failure v = a) (exporter_stop E)"
  "keeps (\<lambda>v. secrets v = S \<and> action_failure v = a) (exporter_start E)"
  by (intro keeps; simp)+

lemma update_password_run:
  "update_password E k p w = (case secrets w (secret_label E) of
     None \<Rightarrow> (Inl (value_error ''Secret not found''), w)
   | Some c \<Rightarrow> (Inr (), w\<lparr>secrets := (secrets w)(secret_label E \<mapsto> c(k \<mapsto> p))\<rparr>))"
  by (simp add: update_password_def secret_get_content_def secret_set_content_def get_secret_def bindM_def
      monad_simps split: option.split)

lemma on_set_password_run:
  assumes "map_of USERNAME_TO_PASSWORD_KEY u = Some k" and "p \<noteq> []"
    and "on_set_password E u p w = (Inr (), w1)" and "action_failure w1 = None"
  shows "is_leader E \<and> (\<exists>c. secrets w (secret_label E) = Some c \<and>
    secrets w1 = (secrets w)(secret_label E \<mapsto> c(k \<mapsto> p)))"
proof -
  have l: "is_leader E" using assms by (auto simp: on_set_password_def monad_simps split: if_splits)
  let ?m = "seqM (update_cluster_user E u p) (update_password E k p)"
  let ?fail = "\<lambda>e. event_fail (''Failed to update password for user '' @ u @ '': '' @ message e)"
  let ?ok = "if u = USERNAME_MONITOR then block [exporter_setup E u p, exporter_stop E, exporter_start E] else ret ()"
  have "on_set_password E u p = try_else ?m [PyRuntimeError, PyValueError] ?fail (\<lambda>_. ?ok)"
    by (simp only: on_set_password_def assms(1) option.case l simp_thms if_False if_not_P [OF assms(2)] bindM_ret)
  then have run: "try_else ?m [PyRuntimeError, PyValueError] ?fail (\<lambda>_. ?ok) w = (Inr (), w1)"
    using assms(3) by simp
  obtain r v where r: "?m w = (r, v)" by force
  have v: "r = Inr ()"
    using run assms(4) r by (cases r) (auto simp: try_else_def monad_simps split: if_split_asm)
  then have ok: "?ok v = (Inr (), w1)" using run r by (simp add: try_else_def)
  from v obtain v0 where v0: "update_cluster_user E u p w = (Inr (), v0)" "update_password E k p v0 = (Inr (), v)"
    using r by (auto simp: seqM_Inr_iff)
  have "keeps (\<lambda>x. secrets x = secrets w) (update_cluster_user E u p)" by (intro keeps) simp
  then have "secrets v0 = secrets w" using v0(1) unfolding keeps_def by (metis snd_conv)
  moreover have "secrets w1 = secrets v"
  proof -
    have "keeps (\<lambda>x. secrets x = secrets v \<and> action_failure x = action_failure v) ?ok"
      by (intro keeps keeps_secret_tail)
    then show ?thesis using ok by (auto dest: keepsD)
  qed
  ultimately show ?thesis
    using l v0(2) by (auto simp: update_password_run split: option.splits)
qed

text \<open>
  (C25) A password that is set is the one that is read back: after a set-password action that did
  not fail, get-password returns it for this user, and no other key of the secret has changed.
\<close>

theorem set_then_get_password:
  assumes "map_of USERNAME_TO_PASSWORD_KEY u = Some k" and "p \<noteq> []"
    and "on_set_password E u p w = (Inr (), w1)" and "action_failure w1 = None"
  shows "on_get_password E u w1 = (Inr (), w1\<lparr>action_results := [(''username'', u), (''password'', p)]\<rparr>) \<and>
    (\<exists>c d. secrets w (secret_label E) = Some c \<and> secrets w1 (secret_label E) = Some d \<and> d = c(k \<mapsto> p))"
proof -
  obtain c where c: "secrets w (secret_label E) = Some c" "secrets w1 = (secrets w)(secret_label E \<mapsto> c(k \<mapsto> p))"
    using on_set_password_run [OF assms] by blast
  then have "secret_get_value None (Some (secret_label E)) k w1 = (Inr p, w1)"
    using assms(2) by (simp add: secret_get_value_def get_secret_def bindM_def monad_simps)
  with c assms(1) show ?thesis
    by (simp add: on_get_password_def try_else_def monad_simps)
qed

definition password_world :: world where
  "password_world = quiet_world\<lparr>secrets := [secret_label quiet_env \<mapsto> [PASSWORD_KEY_OPERATOR \<mapsto> ''old'']]\<rparr>"

lemma operator_not_monitor: "USERNAME_OPERATOR \<noteq> USERNAME_MONITOR"
  by (simp add: name_constants)

lemma operator_key: "map_of USERNAME_TO_PASSWORD_KEY USERNAME_OPERATOR = Some PASSWORD_KEY_OPERATOR"
  by (simp add: USERNAME_TO_PASSWORD_KEY_def name_constants)

theorem set_then_get_password_witness:
  "\<exists>w1. on_set_password joining_env USERNAME_OPERATOR ''new'' password_world = (Inr (), w1) \<and>
     (\<exists>w2. on_get_password joining_env USERNAME_OPERATOR w1 = (Inr (), w2) \<and>
       action_results w2 = [(''username'', USERNAME_OPERATOR), (''password'', ''new'')])"
proof -
  have "is_leader joining_env" "secret_label joining_env = secret_label quiet_env"
    "ans_unit joining_env tr (Sql h q) = Inr ()" for tr h q
    by (simp_all add: joining_env_def quiet_env_def secret_label_def)
  then obtain w1 where w1: "on_set_password joining_env USERNAME_OPERATOR ''new'' password_world = (Inr (), w1)"
    "action_failure w1 = None"
    by (simp add: on_set_password_def operator_key update_cluster_user_def cset_fetch_primary_host_def
        fetch_cluster_set_status_def dict_index_def set_status_def joining_answers update_password_run
        password_max_len_def inst_update_user_def waiting_reads password_world_def quiet_world_def
        operator_not_monitor try_else_def bindM_def seqM_def monad_simps)
  from set_then_get_password [OF operator_key _ this] w1(1) show ?thesis by auto
qed

text \<open>
  Without a cluster-set primary the set-password action reports success, and changes the
  stored password although no server has changed it: from then on the operator uses a password that
  the server does not accept.
\<close>

theorem set_password_without_primary:
  assumes "map_of USERNAME_TO_PASSWORD_KEY u = Some k" and "u \<noteq> USERNAME_MONITOR" and "p \<noteq> []" and "is_leader E"
    and "secrets w (secret_label E) = Some c"
    and "ans_set_status E (trace w) (Clu (client_host E) FetchClusterSetStatus) = Inr st"
    and "map_of (css_clusters st) (css_primary st) = Some m" and "falsy (sm_primary m)"
  shows "on_set_password E u p w = (Inr (), w\<lparr>trace := trace w @ [Clu (client_host E) FetchClusterSetStatus],
    secrets := (secrets w)(secret_label E \<mapsto> c(k \<mapsto> p))\<rparr>)"
  using assms
  by (simp add: on_set_password_def try_else_def seqM_def bindM_def update_cluster_user_def
      cset_fetch_primary_host_def fetch_cluster_set_status_def dict_index_def update_password_run monad_simps)

theorem set_password_without_primary_witness:
  "\<exists>E. on_set_password E USERNAME_OPERATOR ''new'' password_world =
     (Inr (), password_world\<lparr>trace := [Clu ''h0'' FetchClusterSetStatus],
       secrets := (secrets password_world)(secret_label E \<mapsto> [PASSWORD_KEY_OPERATOR \<mapsto> ''new''])\<rparr>)"
proof -
  let ?E = "quiet_env\<lparr>ans_set_status := \<lambda>_ _. Inr (set_status None)\<rparr>"
  have "secret_label ?E = secret_label quiet_env" "client_host ?E = ''h0''" "trace password_world = []"
    "secrets password_world (secret_label quiet_env) = Some [PASSWORD_KEY_OPERATOR \<mapsto> ''old'']"
    by (simp_all add: secret_label_def quiet_env_def password_world_def quiet_world_def)
  with set_password_without_primary [OF operator_key, of "''new''" ?E password_world "[PASSWORD_KEY_OPERATOR \<mapsto> ''old'']"
      "set_status None" "\<lparr>sm_role = ''PRIMARY'', sm_state = ''OK'', sm_primary = None\<rparr>"]
  have "on_set_password ?E USERNAME_OPERATOR ''new'' password_world =
     (Inr (), password_world\<lparr>trace := [Clu ''h0'' FetchClusterSetStatus],
       secrets := (secrets password_world)(secret_label ?E \<mapsto> [PASSWORD_KEY_OPERATOR \<mapsto> ''new''])\<rparr>)"
    by (simp add: quiet_env_def set_status_def operator_not_monitor)
  then show ?thesis by blast
qed

section \<open>Recreating\<close>

text \<open>
  When no cluster-set name is configured, the recreate-cluster action overwrites the stored
  name of the cluster set with the word \<open>None\<close>, whatever the outcome of the action.
\<close>

theorem recreate_cluster_stores_none:
  assumes "is_leader E" and "has_peers E" and "cfg_cluster_set_name (config E) = None"
  shows "app_get_cluster_set_name (app_bag (snd (on_recreate_cluster E w))) = Some ''None''"
proof -
  let ?I = "\<lambda>v. app_get_cluster_set_name (app_bag v) = Some ''None''"
  let ?v = "w\<lparr>app_bag := app_set_cluster_set_name None (app_bag w)\<rparr>"
  let ?rest = "\<lambda>l. seqM (write_app E app_delete_cluster_removed_flag) (recreate_cluster E l)"
  let ?tail = "seqM (bindM (build_unit_status E) (set_unit_status E)) (bindM (build_app_status E) (set_app_status E))"
  have i: "?I ?v"
    by (simp add: app_get_cluster_set_name_def app_set_cluster_set_name_def get_text_def str_opt_def)
  have d: "?I v \<Longrightarrow> ?I (v\<lparr>app_bag := app_delete_cluster_removed_flag (app_bag v)\<rparr>)" for v
    by (simp add: app_get_cluster_set_name_def app_delete_cluster_removed_flag_def get_text_def pop_key_def
        cluster_set_name_key_def cluster_removed_key_def split: if_splits)
  have k: "keeps ?I (try_except (seqM (?rest l) ?tail) [PyRuntimeError]
      (\<lambda>e. event_fail (''Failed to recreate cluster: '' @ message e)))" for l
    by (intro keeps d; simp)
  have step: "seqM (seqM (write_app E (app_set_cluster_set_name None)) m) n w = seqM m n ?v" for m n :: "unit op"
    using assms(2) by (simp add: seqM_def bindM_def write_app_def monad_simps)
  have "on_recreate_cluster E w = try_except (seqM (?rest (get_unit_label (unit_name E))) ?tail) [PyRuntimeError]
      (\<lambda>e. event_fail (''Failed to recreate cluster: '' @ message e)) ?v"
    unfolding on_recreate_cluster_def manager_recreate_cluster_def try_except_def
    by (simp only: assms simp_thms if_False block.simps step)
  then show ?thesis
    using k [of "get_unit_label (unit_name E)", unfolded keeps_def, rule_format, OF i] by (simp only:)
qed

theorem recreate_cluster_stores_none_witness:
  "app_get_cluster_set_name (app_bag (snd (on_recreate_cluster quiet_env sample_world))) = Some ''None''"
  by (rule recreate_cluster_stores_none) (simp_all add: quiet_env_def quiet_config_def)

end
