(* ===== verification/RollingOps.thy ===== *)
theory RollingOps
  imports Lifecycle
begin

text \<open>
  Operations that go through the units one by one: the rolling restarts
  (\<open>events/helpers/events/rolling_ops.py\<close>, \<open>managers/managers/rolling_ops.py\<close>) and the checks and
  steps of an operator refresh (\<open>charm/refresh\<close>).  The order of the units is the environment's
  (the rolling-operations library); the theorems say what this unit does with its turn.
\<close>

section \<open>The rolling manager\<close>

definition rolling_prepare_cluster :: "env \<Rightarrow> string \<Rightarrow> unit op" where
  "rolling_prepare_cluster E instance_host = cluster_promote_instance E (client_host E) instance_host False"

definition recover_cluster :: "env \<Rightarrow> unit op" where
  "recover_cluster E = cluster_reboot E (client_host E)"

definition rolling_recover_instance :: "env \<Rightarrow> string \<Rightarrow> unit op" where
  "rolling_recover_instance E instance_label = seqM (wait_recovering E (client_host E))
     (attempts 30 (bindM (inst_fetch_cluster_labels E (client_host E)) (\<lambda>_.
        bindM (fetch_instances E (client_host E)) (\<lambda>instances.
          if \<not> dict_has instances instance_label
          then raise (runtime_error ''Instance did not join back the cluster'') else ret ()))))"

definition restart_instance_replication :: "env \<Rightarrow> string \<Rightarrow> string \<Rightarrow> unit op" where
  "restart_instance_replication E instance_label instance_host =
     bindM (cset_fetch_primary_host E (client_host E)) (\<lambda>primary_host.
       if falsy primary_host then ret ()
       else bindM (fetch_instances E (the primary_host)) (\<lambda>instances.
         if \<not> dict_has instances instance_label then ret ()
         else cluster_rejoin_instance E (the primary_host) instance_label instance_host))"

section \<open>The rolling helper\<close>

datatype operation_result = RELEASE | RETRY_RELEASE

definition cluster_callback :: string where "cluster_callback = ''replication''"
definition instance_callback :: string where "instance_callback = ''restart''"

fun check_waiting_ops :: "env \<Rightarrow> string \<Rightarrow> string list \<Rightarrow> bool op" where
  "check_waiting_ops E callback [] = ret False"
| "check_waiting_ops E callback (u # us) =
     bindM (ask (ans_bool E) (Juju (IsWaitingCallback callback u))) (\<lambda>waiting.
       if waiting then ret True else check_waiting_ops E callback us)"

definition recover_instance :: "env \<Rightarrow> unit op" where
  "recover_instance E = (if planned_units E = 1 then recover_cluster E
     else rolling_recover_instance E (get_unit_label (unit_name E)))"

definition restart_server :: "env \<Rightarrow> unit op" where
  "restart_server E = block [server_stop E, server_start E]"

definition restart_cluster :: "env \<Rightarrow> operation_result op" where
  "restart_cluster E =
     bindM (server_running E) (\<lambda>running.
       if \<not> running then ret RETRY_RELEASE
       else if \<not> has_peers E then ret RETRY_RELEASE
       else bindM (bindM (is_cluster_primary E) (\<lambda>primary.
           if primary then check_waiting_ops E cluster_callback (peer_units E) else ret False)) (\<lambda>wait.
         if wait then ret RETRY_RELEASE
         else seqM (bindM (get_unit_address E (unit_name E) RELATION_PEERS) (\<lambda>instance_host.
             restart_instance_replication E (get_unit_label (unit_name E)) instance_host))
           (ret RELEASE)))"

definition restart_instance :: "env \<Rightarrow> operation_result op" where
  "restart_instance E =
     bindM (server_running E) (\<lambda>running.
       if \<not> running then ret RETRY_RELEASE
       else if \<not> has_peers E then ret RETRY_RELEASE
       else bindM (bindM (is_cluster_primary E) (\<lambda>primary.
           if primary then check_waiting_ops E instance_callback (peer_units E) else ret False)) (\<lambda>wait.
         if wait then ret RETRY_RELEASE
         else seqM (block [restart_server E, recover_instance E]) (ret RELEASE)))"

section \<open>The refresh handlers\<close>

text \<open>
  \<open>super().is_compatible(...)\<close> belongs to the refresh library: its verdict is the argument
  \<open>charm_compatible\<close>.  Unpacking a version that does not have two parts is a \<open>ValueError\<close>.
\<close>

definition workload_version :: "string \<Rightarrow> exn + int \<times> int" where
  "workload_version v = (case map int_of_str (split_char (CHR ''.'') v) of
     [Inr major, Inr minor] \<Rightarrow> Inr (major, minor)
   | _ \<Rightarrow> Inl (value_error ''invalid workload version''))"

definition is_compatible :: "bool \<Rightarrow> string \<Rightarrow> string \<Rightarrow> exn + bool" where
  "is_compatible charm_compatible old_workload_version new_workload_version =
     (if \<not> charm_compatible then Inr False
      else case workload_version old_workload_version of Inl e \<Rightarrow> Inl e
        | Inr (old_major, old_minor) \<Rightarrow> (case workload_version new_workload_version of Inl e \<Rightarrow> Inl e
            | Inr (new_major, new_minor) \<Rightarrow> Inr (old_major = new_major \<and> old_minor = new_minor)))"

definition precheck_failed :: "string \<Rightarrow> exn" where
  "precheck_failed msg = Exn [PrecheckFailedC, PyException] msg"

definition refresh_check_cluster :: "env \<Rightarrow> unit op" where
  "refresh_check_cluster E =
     try_else (seqM (cluster_rescan E (client_host E)) (fetch_instances E (client_host E))) [ExecutionErrorC]
       (\<lambda>_. raise (precheck_failed ''Failed to check cluster health''))
       (\<lambda>instances. for_each (\<lambda>(_, info). if ii_status info \<noteq> ''ONLINE''
          then raise (precheck_failed ''Cluster instances are not online'') else ret ()) instances)"

definition refresh_prepare_cluster :: "env \<Rightarrow> unit op" where
  "refresh_prepare_cluster E =
     bindM (get_unit_address E (unit_name E) RELATION_PEERS) (\<lambda>instance_host.
       try_except (promote_instance E instance_host False) [ExecutionErrorC]
         (\<lambda>_. raise (precheck_failed ''Failed to prepare cluster'')))"

definition refresh_prepare_instance :: "env \<Rightarrow> string \<Rightarrow> unit op" where
  "refresh_prepare_instance E instance_host =
     try_except (update_variable E instance_host ''innodb_fast_shutdown'' (VInt 0)) [ExecutionErrorC]
       (\<lambda>_. raise (precheck_failed ''Failed to prepare instance''))"

definition run_pre_refresh_checks_after_1_unit_refreshed :: "unit op" where
  "run_pre_refresh_checks_after_1_unit_refreshed = ret ()"

definition run_pre_refresh_checks_before_any_units_refreshed :: "env \<Rightarrow> unit op" where
  "run_pre_refresh_checks_before_any_units_refreshed E = block
     [refresh_check_cluster E, refresh_prepare_cluster E,
      for_each (\<lambda>u. bindM (get_unit_address E u RELATION_PEERS) (refresh_prepare_instance E)) (charm_units E)]"

definition refresh_snap :: "env \<Rightarrow> string \<Rightarrow> unit op" where
  "refresh_snap E snap_revision = block
     [exporter_stop E, server_stop E, server_install E (Some snap_revision), server_start E, exporter_start E]"

section \<open>The primary goes last\<close>

definition not_waiting :: "env \<Rightarrow> string \<Rightarrow> event list \<Rightarrow> string \<Rightarrow> bool" where
  "not_waiting E callback tr u \<longleftrightarrow> (\<exists>zs ys. tr = zs @ Juju (IsWaitingCallback callback u) # ys \<and>
     ans_bool E zs (Juju (IsWaitingCallback callback u)) = Inr False)"

definition may_proceed :: "env \<Rightarrow> string \<Rightarrow> event list \<Rightarrow> bool" where
  "may_proceed E callback tr \<longleftrightarrow> (\<exists>zs ys. tr = zs @ Sql (client_host E) GetReplicationRole # ys \<and>
     (ans_ostr E zs (Sql (client_host E) GetReplicationRole) = Inr (Some ''PRIMARY'') \<longrightarrow>
      (\<forall>u \<in> set (peer_units E). not_waiting E callback tr u)))"

lemma not_waiting_append: "not_waiting E cb tr u \<Longrightarrow> not_waiting E cb (tr @ es) u"
  unfolding not_waiting_def by (metis append.assoc append_Cons)

lemma may_proceed_append: "may_proceed E cb tr \<Longrightarrow> may_proceed E cb (tr @ es)"
  unfolding may_proceed_def by (metis append.assoc append_Cons not_waiting_append)

lemma check_waiting_ops_run:
  "check_waiting_ops E cb us w = (Inr False, w1) \<Longrightarrow>
     (\<exists>es. trace w1 = trace w @ es) \<and> (\<forall>u \<in> set us. not_waiting E cb (trace w1) u)"
proof (induction us arbitrary: w)
  case (Cons u us)
  let ?q = "Juju (IsWaitingCallback cb u)"
  from Cons.prems have a: "ans_bool E (trace w) ?q = Inr False"
    and r: "check_waiting_ops E cb us (w\<lparr>trace := trace w @ [?q]\<rparr>) = (Inr False, w1)"
    by (auto simp: bindM_Inr_iff monad_simps split: if_splits)
  from Cons.IH [OF r] obtain es where "trace w1 = trace w @ ?q # es" "\<forall>u \<in> set us. not_waiting E cb (trace w1) u"
    by auto
  with a show ?case by (auto simp: not_waiting_def)
qed (auto simp: monad_simps)

text \<open>
  A rolling operation runs its body when the unit has its turn, unless the unit is the primary and a
  peer still waits.  \<open>touches\<close> are the calls that disturb the instance.
\<close>

locale rolling_operation =
  fixes E :: env and callback :: string and touches :: "event \<Rightarrow> bool" and body :: "unit op"
    and operation :: "operation_result op"
  assumes operation_eq: "operation =
     bindM (server_running E) (\<lambda>running.
       if \<not> running then ret RETRY_RELEASE
       else if \<not> has_peers E then ret RETRY_RELEASE
       else bindM (bindM (is_cluster_primary E) (\<lambda>primary.
           if primary then check_waiting_ops E callback (peer_units E) else ret False)) (\<lambda>wait.
         if wait then ret RETRY_RELEASE else seqM body (ret RELEASE)))"
    and running_quiet: "emits (\<lambda>e. \<not> touches e) (server_running E)"
    and asking_quiet: "\<not> touches (Juju c)" "\<not> touches (Sql h q)"
    and body_extends: "emits (\<lambda>_. True) body"
begin

lemma asked_first:
  assumes "bindM (is_cluster_primary E) (\<lambda>primary.
    if primary then check_waiting_ops E callback (peer_units E) else ret False) w = (Inr False, w1)"
  shows "may_proceed E callback (trace w1)"
proof -
  let ?q = "Sql (client_host E) GetReplicationRole"
  let ?w = "w\<lparr>trace := trace w @ [?q]\<rparr>"
  consider "ans_ostr E (trace w) ?q = Inr (Some ''PRIMARY'')" "check_waiting_ops E callback (peer_units E) ?w = (Inr False, w1)"
    | "ans_ostr E (trace w) ?q \<noteq> Inr (Some ''PRIMARY'')" "w1 = ?w"
    using assms
    by (cases "ans_ostr E (trace w) ?q = Inr (Some ''PRIMARY'')")
      (auto simp: is_cluster_primary_def inst_fetch_role_def bindM_Inr_iff monad_simps falsy_none_def split: if_splits)
  then show ?thesis
  proof cases
    case 1
    from check_waiting_ops_run [OF 1(2)] show ?thesis by (auto simp: may_proceed_def)
  next
    case 2
    then show ?thesis by (auto simp: may_proceed_def)
  qed
qed

lemma emits_check_waiting: "emits (\<lambda>e. \<not> touches e) (check_waiting_ops E callback us)"
  by (induction us) (auto intro!: emits simp: asking_quiet)

lemma guarded: "calls (\<lambda>tr e. touches e \<longrightarrow> may_proceed E callback tr) operation"
proof -
  let ?R = "\<lambda>tr e. touches e \<longrightarrow> may_proceed E callback tr"
  let ?asks = "bindM (is_cluster_primary E) (\<lambda>primary.
    if primary then check_waiting_ops E callback (peer_units E) else ret False)"
  have quiet: "emits (\<lambda>e. \<not> touches e) m \<Longrightarrow> calls_at ?R m v" for m :: "'x op" and v
    using calls_emits [of "\<lambda>e. \<not> touches e" m ?R] by (simp add: calls_iff_calls_at)
  have asks: "emits (\<lambda>e. \<not> touches e) ?asks"
    unfolding is_cluster_primary_def by (intro emits emits_check_waiting) (simp add: asking_quiet)
  have retq: "calls_at ?R (ret x) v" for x :: operation_result and v by (rule quiet) (intro emits)
  have tail: "calls_at ?R (seqM body (ret RELEASE)) v" if "may_proceed E callback (trace v)" for v
    by (rule calls_at_history [where Q = "may_proceed E callback", OF _ that])
      (auto intro!: emits body_extends may_proceed_append)
  have step: "calls_at ?R (bindM ?asks (\<lambda>wait. if wait then ret RETRY_RELEASE else seqM body (ret RELEASE))) v" for v
    by (rule calls_at_bindM [OF quiet [OF asks]]) (auto intro!: retq tail asked_first)
  have "calls_at ?R operation w" for w
    unfolding operation_eq by (rule calls_at_bindM [OF quiet [OF running_quiet]]) (auto intro: retq step)
  then show ?thesis by (simp add: calls_iff_calls_at)
qed

end

definition server_call :: "event \<Rightarrow> bool" where
  "server_call e \<longleftrightarrow> e \<in> {Wkl (SnapStop server_name), Wkl (SnapStart server_name),
     Wkl (ContainerStop server_name), Wkl (ContainerStart server_name)}"

definition rejoin_call :: "event \<Rightarrow> bool" where
  "rejoin_call e = (case e of Clu _ (RejoinInstance _ _ _) \<Rightarrow> True | _ \<Rightarrow> False)"

lemma emits_wait_recovering [emits]:
  assumes "P (Sql h GetReplicationState)" "P (Sys (Sleep 10))"
  shows "emits P (wait_recovering E h)"
proof -
  have "emits P (wait_recovering_loop E h n)" for n
    by (induction n) (auto intro!: emits assms)
  then show ?thesis by (simp add: wait_recovering_def)
qed

lemma running_not_server_call: "emits (\<lambda>e. \<not> server_call e) (server_running E)"
  unfolding server_running_def container_running_def snap_running_def
  by (intro emits) (simp_all add: server_call_def)

interpretation instance_restart: rolling_operation E instance_callback server_call
  "block [restart_server E, recover_instance E]" "restart_instance E" for E
proof
  show "emits (\<lambda>_. True) (block [restart_server E, recover_instance E])"
    unfolding restart_server_def recover_instance_def recover_cluster_def rolling_recover_instance_def
    by (intro emits; simp)
  show "emits (\<lambda>e. \<not> server_call e) (server_running E)" by (rule running_not_server_call)
qed (simp_all add: restart_instance_def server_call_def)

interpretation cluster_restart: rolling_operation E cluster_callback rejoin_call
  "bindM (get_unit_address E (unit_name E) RELATION_PEERS) (\<lambda>instance_host.
     restart_instance_replication E (get_unit_label (unit_name E)) instance_host)" "restart_cluster E" for E
proof
  show "emits (\<lambda>_. True) (bindM (get_unit_address E (unit_name E) RELATION_PEERS) (\<lambda>instance_host.
     restart_instance_replication E (get_unit_label (unit_name E)) instance_host))"
    unfolding restart_instance_replication_def by (intro emits; simp)
  show "emits (\<lambda>e. \<not> rejoin_call e) (server_running E)"
    by (intro emits) (simp_all add: rejoin_call_def)
qed (simp_all add: restart_cluster_def rejoin_call_def)

text \<open>
  (C7) The primary restarts last: during a rolling restart a unit stops or starts its server only
  after it asked for its role and, when it is the primary, after every peer answered that it does
  not wait for a restart any more.
\<close>

theorem primary_restarts_last:
  assumes "restart_instance E w = (r, w')" and "trace w' = trace w @ xs @ e # ys" and "server_call e"
  shows "may_proceed E instance_callback (trace w @ xs)"
proof -
  obtain es where es: "trace w' = trace w @ es"
    "chain (\<lambda>tr e. server_call e \<longrightarrow> may_proceed E instance_callback tr) (trace w) es"
    using callsE [OF instance_restart.guarded assms(1)] by blast
  then have "es = xs @ e # ys" using assms(2) by simp
  with es(2) assms(3) show ?thesis by simp
qed

text \<open>
  The same for the replication: the primary rejoins the cluster with new certificates only
  after every peer did.
\<close>

theorem primary_rejoins_last:
  assumes "restart_cluster E w = (r, w')" and "trace w' = trace w @ xs @ e # ys" and "rejoin_call e"
  shows "may_proceed E cluster_callback (trace w @ xs)"
proof -
  obtain es where es: "trace w' = trace w @ es"
    "chain (\<lambda>tr e. rejoin_call e \<longrightarrow> may_proceed E cluster_callback tr) (trace w) es"
    using callsE [OF cluster_restart.guarded assms(1)] by blast
  then have "es = xs @ e # ys" using assms(2) by simp
  with es(2) assms(3) show ?thesis by simp
qed

text \<open>A primary whose two peers answer that they do not wait.\<close>

definition last_env :: env where
  "last_env = cluster_env\<lparr>ans_ostr := \<lambda>_ _. Inr (Some ''PRIMARY''),
     ans_bool := \<lambda>_ e. (case e of Juju _ \<Rightarrow> Inr False | _ \<Rightarrow> Inr True),
     ans_set_status := \<lambda>_ _. Inr \<lparr>css_primary = ''c'',
       css_clusters = [(''c'', \<lparr>sm_role = ''PRIMARY'', sm_state = ''OK'', sm_primary = Some ''h1:3306''\<rparr>)]\<rparr>,
     ans_strs := \<lambda>_ e. Inr [''mysql-0''],
     ans_unit := \<lambda>_ e. (case e of Wkl _ \<Rightarrow> Inl (Exn [PyException] []) | _ \<Rightarrow> Inr ())\<rparr>"

lemma last_answers:
  "substrate last_env = VM" "has_peers last_env" "client_host last_env = ''h0''" "client_cluster last_env = ''c''"
  "unit_name last_env = ''mysql/0''" "peer_units last_env = [''mysql/1'', ''mysql/2'']"
  "ans_bool last_env tr (Wkl k) = Inr True" "ans_bool last_env tr (Juju j) = Inr False"
  "ans_ostr last_env = (\<lambda>_ _. Inr (Some ''PRIMARY''))" "ans_strs last_env tr e = Inr [''mysql-0'']"
  "ans_unit last_env tr (Wkl k) = Inl (Exn [PyException] [])" "ans_unit last_env tr (Clu h c) = Inr ()"
  "ans_unit last_env tr (Sql h q) = Inr ()" "ans_status last_env tr e = Inr (sample_status ''OK'')"
  "ans_set_status last_env tr e = Inr \<lparr>css_primary = ''c'',
       css_clusters = [(''c'', \<lparr>sm_role = ''PRIMARY'', sm_state = ''OK'', sm_primary = Some ''h1:3306''\<rparr>)]\<rparr>"
  by (simp_all add: last_env_def cluster_env_def quiet_env_def)

lemmas rolling_run = restart_instance_def restart_cluster_def server_running_def snap_running_def is_cluster_primary_def
  inst_fetch_role_def restart_server_def server_stop_def vm_server_stop_def require_snap_def
  get_unit_address_def vm_get_unit_address_def read_unit_def restart_instance_replication_def
  cset_fetch_primary_host_def fetch_cluster_set_status_def dict_index_def fetch_instances_def fetch_cluster_status_def
  dict_has_def dict_keys_def sample_status_def cluster_rejoin_instance_def locking_def acquire_lock_def release_lock_def
  attempts_ok leaving_reads falsy_none_def try_except_def try_else_def try_finally_def bindM_def seqM_def monad_simps

theorem primary_restarts_last_witness:
  "\<exists>xs e ys. trace (snd (restart_instance last_env sample_world)) = xs @ e # ys \<and> server_call e \<and>
     may_proceed last_env instance_callback xs"
proof -
  let ?r = "restart_instance last_env sample_world"
  have e: "trace sample_world = []" by code_simp
  have "Wkl (SnapStop server_name) \<in> set (trace (snd ?r))" by (simp add: rolling_run last_answers e)
  then obtain xs ys where t: "trace (snd ?r) = trace sample_world @ xs @ Wkl (SnapStop server_name) # ys"
    unfolding e append_Nil by (meson split_list)
  have "server_call (Wkl (SnapStop server_name))" by (simp add: server_call_def)
  with primary_restarts_last [OF surjective_pairing t] t show ?thesis unfolding e append_Nil by blast
qed

theorem primary_rejoins_last_witness:
  "\<exists>xs e ys. trace (snd (restart_cluster last_env sample_world)) = xs @ e # ys \<and> rejoin_call e \<and>
     may_proceed last_env cluster_callback xs"
proof -
  let ?r = "restart_cluster last_env sample_world"
  have e: "trace sample_world = []" by code_simp
  have "Clu ''h1'' (RejoinInstance ''c'' ''mysql-0.peers'' ''3306'') \<in> set (trace (snd ?r))"
    by (simp add: rolling_run last_answers e)
  then obtain xs ys where t: "trace (snd ?r) =
      trace sample_world @ xs @ Clu ''h1'' (RejoinInstance ''c'' ''mysql-0.peers'' ''3306'') # ys"
    unfolding e append_Nil by (meson split_list)
  have "rejoin_call (Clu ''h1'' (RejoinInstance ''c'' ''mysql-0.peers'' ''3306''))" by (simp add: rejoin_call_def)
  with primary_rejoins_last [OF surjective_pairing t] t show ?thesis unfolding e append_Nil by blast
qed

section \<open>Before a refresh\<close>

definition peer_address :: "world \<Rightarrow> string \<Rightarrow> string" where
  "peer_address w u = (case state_get_unit_address RELATION_PEERS (unit_bags w u) of None \<Rightarrow> [] | Some a \<Rightarrow> a)"

lemma peer_address_cong: "unit_bags v = unit_bags w \<Longrightarrow> peer_address v = peer_address w"
  by (rule ext) (simp add: peer_address_def)

abbreviation slow_shutdown :: "string \<Rightarrow> event" where
  "slow_shutdown h \<equiv> Sql h (SetVariable Scope_GLOBAL ''innodb_fast_shutdown'' (VInt 0))"

lemma vm_peer_address:
  "substrate E = VM \<Longrightarrow> has_peers E \<Longrightarrow> get_unit_address E u RELATION_PEERS w = (Inr (peer_address w u), w)"
  by (auto simp: get_unit_address_def vm_get_unit_address_def read_unit_def bindM_def peer_address_def
      monad_simps falsy_iff split: option.splits)

lemma refresh_prepare_instance_run:
  assumes "refresh_prepare_instance E h w = (Inr (), w1)"
  shows "trace w1 = trace w @ [slow_shutdown h] \<and> unit_bags w1 = unit_bags w"
  using assms
  by (auto simp: refresh_prepare_instance_def update_variable_def set_variable_def try_except_def monad_simps
      split: sum.splits if_splits)

lemma prepare_units_run:
  assumes "substrate E = VM" "has_peers E"
  shows "for_each (\<lambda>u. bindM (get_unit_address E u RELATION_PEERS) (refresh_prepare_instance E)) us w = (Inr (), w1) \<Longrightarrow>
    trace w1 = trace w @ map (\<lambda>u. slow_shutdown (peer_address w u)) us"
proof (induction us arbitrary: w)
  case (Cons u us)
  have "bindM (get_unit_address E u RELATION_PEERS) (refresh_prepare_instance E) w =
    refresh_prepare_instance E (peer_address w u) w"
    by (simp add: bindM_def vm_peer_address [OF assms])
  with Cons.prems obtain v where v: "refresh_prepare_instance E (peer_address w u) w = (Inr (), v)"
    and r: "for_each (\<lambda>u. bindM (get_unit_address E u RELATION_PEERS) (refresh_prepare_instance E)) us v = (Inr (), w1)"
    by (auto simp: seqM_Inr_iff)
  have "peer_address v = peer_address w"
    by (rule peer_address_cong) (use refresh_prepare_instance_run [OF v] in simp)
  with Cons.IH [OF r] refresh_prepare_instance_run [OF v] show ?case by simp
qed (simp add: monad_simps)

lemma refresh_check_cluster_run:
  assumes "refresh_check_cluster E w = (Inr (), w1)"
    and "ans_status E (trace w @ [Clu (client_host E) (RescanCluster (client_cluster E))])
      (Clu (client_host E) (FetchClusterStatus (client_cluster E))) = Inr st"
  shows "list_all (\<lambda>(_, i). ii_status i = ''ONLINE'') (cs_topology st)"
proof -
  have online: "for_each (\<lambda>(_, info). if ii_status info \<noteq> ''ONLINE''
      then raise (precheck_failed ''Cluster instances are not online'') else ret ()) is v = (Inr (), v') \<Longrightarrow>
    list_all (\<lambda>(_, i). ii_status i = ''ONLINE'') is" for "is" :: "instance_info dict" and v v' :: world
    by (induction "is" arbitrary: v) (auto simp: seqM_Inr_iff monad_simps split: if_splits)
  let ?q = "Clu (client_host E) (RescanCluster (client_cluster E))"
  show ?thesis
  proof (cases "ans_unit E (trace w) ?q")
    case (Inl e)
    with assms(1) show ?thesis
      by (cases "caught [ExecutionErrorC] e")
        (simp_all add: refresh_check_cluster_def cluster_rescan_def try_else_def seqM_def bindM_def monad_simps)
  next
    case (Inr u)
    with assms show ?thesis
      by (intro online) (simp add: refresh_check_cluster_def cluster_rescan_def fetch_instances_def
          fetch_cluster_status_def try_else_def seqM_def bindM_def monad_simps)
  qed
qed

text \<open>
  When the checks before a refresh pass, the last thing they did was to turn off the fast
  shutdown on every unit of the application, in order; and when the status of the cluster could be
  read, all its instances were online.
\<close>

theorem refresh_checks_prepare_every_unit:
  assumes "substrate E = VM" and "has_peers E"
    and "run_pre_refresh_checks_before_any_units_refreshed E w = (Inr (), w')"
  shows "(\<exists>tr. trace w' = tr @ map (\<lambda>u. slow_shutdown (peer_address w u)) (unit_name E # peer_units E)) \<and>
    (\<forall>st. ans_status E (trace w @ [Clu (client_host E) (RescanCluster (client_cluster E))])
        (Clu (client_host E) (FetchClusterStatus (client_cluster E))) = Inr st \<longrightarrow>
      list_all (\<lambda>(_, i). ii_status i = ''ONLINE'') (cs_topology st))"
proof -
  let ?units = "\<lambda>us. for_each (\<lambda>u. bindM (get_unit_address E u RELATION_PEERS) (refresh_prepare_instance E)) us"
  obtain v v2 where v: "refresh_check_cluster E w = (Inr (), v)" and v2: "refresh_prepare_cluster E v = (Inr (), v2)"
    and r: "?units (charm_units E) v2 = (Inr (), w')"
    using assms(3) by (auto simp: run_pre_refresh_checks_before_any_units_refreshed_def seqM_Inr_iff)
  have k: "keeps (\<lambda>x. unit_bags x = unit_bags w) (refresh_check_cluster E)"
    "keeps (\<lambda>x. unit_bags x = unit_bags w) (refresh_prepare_cluster E)"
    unfolding refresh_check_cluster_def refresh_prepare_cluster_def by (intro keeps; simp)+
  have "unit_bags v = unit_bags w" by (rule keepsD [where I = "\<lambda>x. unit_bags x = unit_bags w", OF k(1) refl v])
  then have "unit_bags v2 = unit_bags w" by (rule keepsD [where I = "\<lambda>x. unit_bags x = unit_bags w", OF k(2) _ v2])
  then have "peer_address v2 = peer_address w" by (rule peer_address_cong)
  with prepare_units_run [OF assms(1,2) r] refresh_check_cluster_run [OF v] show ?thesis
    by (auto simp: charm_units_def assms(2))
qed

theorem refresh_checks_prepare_every_unit_witness:
  "\<exists>w' tr. run_pre_refresh_checks_before_any_units_refreshed quiet_env sample_world = (Inr (), w') \<and>
     trace w' = tr @ map (\<lambda>u. slow_shutdown (peer_address sample_world u)) [''mysql/0'', ''mysql/1'', ''mysql/2'']"
proof -
  have q: "substrate quiet_env = VM" "has_peers quiet_env" "unit_name quiet_env = ''mysql/0''"
    "peer_units quiet_env = [''mysql/1'', ''mysql/2'']"
    "ans_unit quiet_env = (\<lambda>_ _. Inr ())" "ans_status quiet_env tr e =
      Inr \<lparr>cs_role = ''PRIMARY'', cs_state = ''OK'', cs_primary = ''h0:3306'', cs_topology = []\<rparr>" for tr e
    by (simp_all add: quiet_env_def)
  have a: "peer_address (sample_world\<lparr>trace := t\<rparr>) ''mysql/0'' = ''mysql-0.peers''" "host_of ''h0:3306'' = ''h0''" for t
    by (simp_all add: peer_address_def leaving_reads) (simp add: host_of_def)
  obtain w' where "run_pre_refresh_checks_before_any_units_refreshed quiet_env sample_world = (Inr (), w')"
    by (simp add: run_pre_refresh_checks_before_any_units_refreshed_def refresh_check_cluster_def cluster_rescan_def
        fetch_instances_def fetch_cluster_status_def refresh_prepare_cluster_def promote_instance_def
        cluster_fetch_primary_host_def cluster_promote_instance_def charm_units_def refresh_prepare_instance_def
        update_variable_def set_variable_def vm_peer_address q a try_else_def try_except_def seqM_def bindM_def monad_simps)
  with refresh_checks_prepare_every_unit [OF q(1,2)] show ?thesis unfolding q(3,4) by blast
qed

text \<open>
  The health check before a refresh passes blindly when the status of the cluster cannot be
  read: \<open>fetch_instances\<close> answers an execution error with no instances, so the handler that should turn the
  error into a failed check is never reached.
\<close>

theorem refresh_check_blind:
  assumes "ans_unit E (trace w) (Clu (client_host E) (RescanCluster (client_cluster E))) = Inr ()"
    and "ans_status E (trace w @ [Clu (client_host E) (RescanCluster (client_cluster E))])
      (Clu (client_host E) (FetchClusterStatus (client_cluster E))) = Inl e" and "caught [ExecutionErrorC] e"
  shows "fst (refresh_check_cluster E w) = Inr ()"
  using assms
  by (simp add: refresh_check_cluster_def cluster_rescan_def fetch_instances_def fetch_cluster_status_def
      try_else_def seqM_def bindM_def monad_simps)

theorem refresh_check_blind_witness:
  "\<exists>E. fst (refresh_check_cluster E quiet_world) = Inr ()"
proof -
  let ?E = "quiet_env\<lparr>ans_status := \<lambda>_ _. Inl (Exn [ExecutionErrorC, PyException] [])\<rparr>"
  have "fst (refresh_check_cluster ?E quiet_world) = Inr ()"
    by (rule refresh_check_blind [of _ _ "Exn [ExecutionErrorC, PyException] []"])
      (simp_all add: quiet_env_def caught_def)
  then show ?thesis by blast
qed

section \<open>A restarted server answers\<close>

text \<open>
  (C33) What a restart of the server does, on both substrates.  When it returns, the server was stopped with success, after that
  started with success, and then its port was asked, as often as the budget of attempts allows, until it accepted a connection:
  this connection is the last call.  And it does return when the calls to the runtime succeed, the snap is installed and the port
  answers before the budget is used up.
\<close>

theorem restart_server_ready:
  "(\<forall>w'. restart_server E w = (Inr (), w') \<longrightarrow> (\<exists>xs ys n. n \<le> retry_budget E \<and>
      trace w' = trace w @ xs @ server_stop_call E # ys @ server_start_call E # replicate (Suc n) (connect_event server_port) \<and>
      ans_unit E (trace w @ xs) (server_stop_call E) = Inr () \<and>
      ans_unit E (trace w @ xs @ server_stop_call E # ys) (server_start_call E) = Inr () \<and>
      ans_unit E (trace w @ xs @ server_stop_call E # ys @ server_start_call E # replicate n (connect_event server_port))
        (connect_event server_port) = Inr ())) \<and>
   (answers_in_time E server_port \<longrightarrow> (\<exists>w'. restart_server E w = (Inr (), w')))"
proof (intro conjI allI impI)
  fix w' assume "restart_server E w = (Inr (), w')"
  then have "seqM (server_stop E) (server_start E) w = (Inr (), w')" by (simp add: restart_server_def)
  from server.restart_order [OF this] show "\<exists>xs ys n. n \<le> retry_budget E \<and>
      trace w' = trace w @ xs @ server_stop_call E # ys @ server_start_call E # replicate (Suc n) (connect_event server_port) \<and>
      ans_unit E (trace w @ xs) (server_stop_call E) = Inr () \<and>
      ans_unit E (trace w @ xs @ server_stop_call E # ys) (server_start_call E) = Inr () \<and>
      ans_unit E (trace w @ xs @ server_stop_call E # ys @ server_start_call E # replicate n (connect_event server_port))
        (connect_event server_port) = Inr ()"
    unfolding stopped_def started_def by (elim exE conjE) (simp del: replicate_Suc, blast)
next
  assume "answers_in_time E server_port"
  from server.restart_returns [OF this] show "\<exists>w'. restart_server E w = (Inr (), w')" by (simp add: restart_server_def)
qed

text \<open>A server on a machine that refuses the first connection.\<close>

definition slow_env :: env where
  "slow_env = quiet_env\<lparr>ans_unit := \<lambda>tr e. (if e = connect_event server_port \<and> (tr = [] \<or> last tr \<noteq> e)
     then Inl (Exn [PyOSError, PyException] ''refused'') else Inr ())\<rparr>"

theorem restart_server_ready_witness:
  "\<exists>w'. restart_server slow_env quiet_world = (Inr (), w') \<and> last (trace w') = connect_event server_port \<and>
     Wkl (SnapStop server_name) \<in> set (trace w')"
proof -
  have "answers_in_time slow_env server_port"
    by (simp add: answers_in_time_def slow_env_def quiet_env_def caught_def)
  with restart_server_ready obtain w' where r: "restart_server slow_env quiet_world = (Inr (), w')" by blast
  then obtain xs ys n where "trace w' = trace quiet_world @ xs @ server_stop_call slow_env # ys @ server_start_call slow_env
      # replicate (Suc n) (connect_event server_port)"
    using restart_server_ready by blast
  moreover have "server_stop_call slow_env = Wkl (SnapStop server_name)"
    by (simp add: server_stop_call_def slow_env_def quiet_env_def)
  moreover have "last (replicate (Suc n) (connect_event server_port)) = connect_event server_port" by (metis last_replicate nat.simps(3))
  ultimately show ?thesis using r by simp
qed

end
