(* ===== verification/Database.thy ===== *)
theory Database
  imports RollingOps
begin

text \<open>
  The database provider: \<open>events/handlers/database.py\<close> and \<open>managers/managers/database.py\<close>.  A client
  application asks for a database over a relation and gets a user, a password and the endpoints.
  The provider library writes the fields of the relation; here they are calls, which \<open>DatabaseRelation\<close> connects with
  the model of the library.
\<close>

section \<open>The manager\<close>

definition get_removing_flag :: "env \<Rightarrow> bool option op" where
  "get_removing_flag E = read_unit E (unit_name E) get_unit_removing_flag"

definition set_removing_flag :: "env \<Rightarrow> unit op" where
  "set_removing_flag E = write_unit E set_unit_removing_flag"

definition no_quorum :: exn where
  "no_quorum = runtime_error ''Failed to fetch cluster-set primary: no quorum''"

definition create_database :: "env \<Rightarrow> string \<Rightarrow> unit op" where
  "create_database E database =
     bindM (inst_fetch_databases E (client_host E)) (\<lambda>databases.
       if database \<in> set databases then ret ()
       else bindM (cset_fetch_primary_host E (client_host E)) (\<lambda>primary_host.
         if falsy primary_host then raise no_quorum
         else inst_create_database E (the primary_host) database))"

definition create_database_user ::
  "env \<Rightarrow> string \<Rightarrow> string \<Rightarrow> string option \<Rightarrow> string list option \<Rightarrow> string op" where
  "create_database_user E database username password roles =
     bindM (if falsy password then create_password E else ret (the password)) (\<lambda>password.
     bindM (cset_fetch_primary_host E (client_host E)) (\<lambda>primary_host.
       if falsy primary_host then raise no_quorum
       else seqM (inst_create_database_user E (the primary_host) database username password roles)
         (ret password)))"

definition delete_users :: "env \<Rightarrow> string \<Rightarrow> unit op" where
  "delete_users E username =
     bindM (cset_fetch_primary_host E (client_host E)) (\<lambda>primary_host.
       if falsy primary_host then raise no_quorum
       else block [inst_delete_user E (the primary_host) username,
         inst_delete_users_by_attrs E (the primary_host) [(''created_by_user'', username)]])"

definition fetch_version :: "env \<Rightarrow> string op" where
  "fetch_version E = inst_fetch_version E (client_host E)"

definition remove_router :: "env \<Rightarrow> string \<Rightarrow> string \<Rightarrow> unit op" where
  "remove_router E router_user router_name =
     bindM (cset_fetch_primary_host E (client_host E)) (\<lambda>primary_host.
       if falsy primary_host then raise no_quorum
       else bindM (inst_fetch_user_by_attrs E (client_host E)
           [(''created_by_juju_unit'', router_name), (''created_by_user'', router_user)]) (\<lambda>user.
         case user of None \<Rightarrow> ret ()
         | Some u \<Rightarrow> seqM (inst_delete_user E (the primary_host) (u_name u))
             (bindM (lift (dict_index (u_attributes u) ''router_id'')) (cluster_remove_router E (the primary_host)))))"

section \<open>The handler\<close>

definition build_database_relation_username :: "env \<Rightarrow> nat \<Rightarrow> string" where
  "build_database_relation_username E relation_id =
     take 26 (''relation-'' @ show_nat relation_id @ ''_'' @ replace_char (CHR ''-'') [] (model_uuid E))"

definition set_relation_field :: "env \<Rightarrow> nat \<Rightarrow> string \<Rightarrow> string \<Rightarrow> unit op" where
  "set_relation_field E relation_id field v = act E (Juju (SetRelationField relation_id field v))"

definition set_database :: "env \<Rightarrow> nat \<Rightarrow> string \<Rightarrow> unit op" where
  "set_database E relation_id database = block
     [create_database E database, set_relation_field E relation_id ''database'' database]"

definition set_database_user :: "env \<Rightarrow> nat \<Rightarrow> string \<Rightarrow> string list \<Rightarrow> unit op" where
  "set_database_user E relation_id database extra_roles =
     (let username = build_database_relation_username E relation_id in
      bindM (ask (ans_ostr E) (Juju (GetRelationField relation_id ''password''))) (\<lambda>password.
      bindM (create_database_user E database username password (Some extra_roles)) (\<lambda>password.
        act E (Juju (SetCredentials relation_id username password)))))"

definition set_database_version :: "env \<Rightarrow> nat \<Rightarrow> unit op" where
  "set_database_version E relation_id =
     bindM (fetch_version E) (set_relation_field E relation_id ''version'')"

definition on_database_requested :: "env \<Rightarrow> nat \<Rightarrow> string \<Rightarrow> string option \<Rightarrow> unit op" where
  "on_database_requested E relation_id database extra_user_roles =
     bindM (initialized E) (\<lambda>ready.
       if \<not> ready then defer_event
       else if \<not> is_leader E then ret ()
       else if database = [] then ret ()
       else (let extra_roles = (if falsy extra_user_roles then [] else split_char (CHR '','') (the extra_user_roles)) in
         try_else (block
             [if ROLENAME_ROUTER \<notin> set extra_roles then set_database E relation_id database else ret (),
              set_database_user E relation_id database extra_roles,
              set_database_version E relation_id])
           [PyRuntimeError] (\<lambda>_. set_unit_status E (BlockedStatus ''Failed to create database''))
           (\<lambda>_. block [set_unit_status E (ActiveStatus []), update_app_labels E,
              handler_update_database_endpoints E relation_id])))"

definition database_on_relation_created :: "env \<Rightarrow> unit op" where
  "database_on_relation_created E = set_unit_address E RELATION_DATABASE"

definition database_on_relation_broken :: "env \<Rightarrow> nat \<Rightarrow> unit op" where
  "database_on_relation_broken E relation_id =
     bindM (get_removing_flag E) (\<lambda>removing.
       if removing = Some True then ret ()
       else if \<not> is_leader E then ret ()
       else try_except (delete_users E (build_database_relation_username E relation_id))
         [PyRuntimeError] (\<lambda>_. ret ()))"

definition database_on_relation_departed :: "env \<Rightarrow> nat \<Rightarrow> string \<Rightarrow> unit op" where
  "database_on_relation_departed E relation_id departing_unit =
     seqM (if departing_unit = unit_name E then set_removing_flag E else ret ())
       (if \<not> is_leader E then ret ()
        else try_except (remove_router E (''relation-'' @ show_nat relation_id) departing_unit)
          [PyRuntimeError] (\<lambda>_. ret ()))"

section \<open>The user names of the relations\<close>

lemma show_nat_no_underscore: "CHR ''_'' \<notin> set (show_nat n)"
  using show_nat_digits digit_not_special by blast

lemma relation_username_takes:
  assumes "length (show_nat i) \<le> 16"
  shows "\<exists>t. build_database_relation_username E i = ''relation-'' @ show_nat i @ ''_'' @ t"
  using assms by (simp add: build_database_relation_username_def take_Cons')

lemma underscore_prefix_inj:
  assumes "xs @ CHR ''_'' # s = ys @ CHR ''_'' # t" "CHR ''_'' \<notin> set xs" "CHR ''_'' \<notin> set ys"
  shows "xs = ys"
proof -
  have "takeWhile (\<lambda>c. c \<noteq> CHR ''_'') (xs @ CHR ''_'' # s) = xs" "takeWhile (\<lambda>c. c \<noteq> CHR ''_'') (ys @ CHR ''_'' # t) = ys"
    using assms(2,3) by (auto simp: takeWhile_append)
  with assms(1) show ?thesis by metis
qed

text \<open>
  (C32) The user name of a relation has at most 26 characters, and two relations whose numbers have at
  most 16 digits never share it: deleting the users of one relation cannot hit another.
\<close>

theorem relation_username_unique:
  assumes "i < 10 ^ 16" and "j < 10 ^ 16"
  shows "length (build_database_relation_username E i) \<le> 26 \<and>
    (build_database_relation_username E i = build_database_relation_username E j \<longleftrightarrow> i = j)"
proof -
  have "length (show_nat i) \<le> 16" "length (show_nat j) \<le> 16" using assms show_nat_length by simp_all
  then obtain s t where "build_database_relation_username E i = ''relation-'' @ show_nat i @ ''_'' @ s"
    "build_database_relation_username E j = ''relation-'' @ show_nat j @ ''_'' @ t"
    using relation_username_takes by meson
  moreover have "length (build_database_relation_username E i) \<le> 26"
    by (simp add: build_database_relation_username_def)
  ultimately show ?thesis
    using underscore_prefix_inj [of "show_nat i" s "show_nat j" t] show_nat_no_underscore by auto
qed

text \<open>
  When a unit of a client leaves, the router's user is looked up under a creator name that no
  relation has: \<open>relation-<id>\<close>, while the users of the relation \<open>id\<close> are created under
  \<open>relation-<id>_<model>\<close>.
\<close>

theorem router_creator_never_matches:
  assumes "i < 10 ^ 16" and "j < 10 ^ 16"
  shows "''relation-'' @ show_nat i \<noteq> build_database_relation_username E j"
proof
  have "length (show_nat j) \<le> 16" using assms show_nat_length by simp
  then obtain t where "build_database_relation_username E j = ''relation-'' @ show_nat j @ ''_'' @ t"
    using relation_username_takes by meson
  moreover assume "''relation-'' @ show_nat i = build_database_relation_username E j"
  ultimately have "show_nat i = show_nat j @ ''_'' @ t" by simp
  then have "CHR ''_'' \<in> set (show_nat i)" by simp
  then show False using show_nat_no_underscore by blast
qed

theorem relation_username_unique_witness:
  "build_database_relation_username quiet_env 7 \<noteq> build_database_relation_username quiet_env 12"
  using relation_username_unique [of 7 12 quiet_env] by simp

theorem router_creator_never_matches_witness:
  "''relation-'' @ show_nat 7 \<noteq> build_database_relation_username quiet_env 7"
  by (rule router_creator_never_matches) simp_all

section \<open>Credentials\<close>

definition user_created :: "env \<Rightarrow> string \<Rightarrow> string \<Rightarrow> event list \<Rightarrow> bool" where
  "user_created E u p tr \<longleftrightarrow> (\<exists>zs ys h roles. tr = zs @ Sql h (CreateInstanceUser u ''%'' p roles) # ys \<and>
     ans_unit E zs (Sql h (CreateInstanceUser u ''%'' p roles)) = Inr ())"

lemma user_created_append: "user_created E u p tr \<Longrightarrow> user_created E u p (tr @ es)"
  unfolding user_created_def by (metis append.assoc append_Cons)

definition password_field :: "event \<Rightarrow> bool" where
  "password_field e = (case e of Juju (SetCredentials _ _ _) \<Rightarrow> True
     | Juju (SetRelationField _ f _) \<Rightarrow> f = ''password'' | _ \<Rightarrow> False)"

definition credentials_guard :: "env \<Rightarrow> nat \<Rightarrow> event list \<Rightarrow> event \<Rightarrow> bool" where
  "credentials_guard E i tr e = (case e of
     Juju (SetCredentials j u p) \<Rightarrow> j = i \<and> u = build_database_relation_username E i \<and> user_created E u p tr
   | Juju (SetRelationField _ f _) \<Rightarrow> f \<noteq> ''password''
   | _ \<Rightarrow> True)"

lemma calls_no_password: "emits (\<lambda>e. \<not> password_field e) m \<Longrightarrow> calls (credentials_guard E i) m"
  by (erule calls_emits) (simp add: password_field_def credentials_guard_def split: event.splits juju_call.splits)

lemma inst_create_database_user_run:
  assumes "inst_create_database_user E h d u p roles w = (Inr (), w1)"
  shows "user_created E u p (trace w1)"
proof -
  let ?q = "Sql h (CreateInstanceUser u ''%'' p roles)"
  have "ans_unit E (trace w) ?q = Inr () \<and> (\<exists>ys. trace w1 = trace w @ ?q # ys)"
    using assms by (auto simp: inst_create_database_user_def seqM_Inr_iff monad_simps split: if_splits)
  then show ?thesis unfolding user_created_def by blast
qed

lemma create_database_user_run:
  assumes "create_database_user E d u pw roles w = (Inr p, w1)"
  shows "user_created E u p (trace w1)"
  using assms
  by (auto simp: create_database_user_def bindM_Inr_iff seqM_Inr_iff monad_simps split: if_splits
      dest: inst_create_database_user_run)

lemma emits_create_database_user:
  "emits (\<lambda>e. \<not> password_field e) (create_database_user E d u pw roles)"
  unfolding create_database_user_def inst_create_database_user_def
  by (intro emits) (simp_all add: password_field_def)

lemma calls_set_database_user: "calls (credentials_guard E i) (set_database_user E i d rs)"
proof -
  let ?R = "credentials_guard E i" and ?u = "build_database_relation_username E i"
  let ?set = "\<lambda>p. act E (Juju (SetCredentials i ?u p))"
  have set: "calls_at ?R (?set p) v" if "user_created E ?u p (trace v)" for p v
    using that by (auto simp: calls_at_def monad_simps credentials_guard_def)
  have "calls_at ?R (create_database_user E d ?u pw (Some rs)) v" for pw v
    using calls_no_password [OF emits_create_database_user] by (simp add: calls_iff_calls_at)
  then have tail: "calls_at ?R (bindM (create_database_user E d ?u pw (Some rs)) ?set) v" for pw v
    by (rule calls_at_bindM) (rule set, rule create_database_user_run)
  have "calls ?R (ask (ans_ostr E) (Juju (GetRelationField i ''password'')))"
    by (intro emits) (simp add: credentials_guard_def)
  then have "calls_at ?R (set_database_user E i d rs) w" for w
    unfolding set_database_user_def Let_def calls_iff_calls_at by (blast intro: calls_at_bindM tail)
  then show ?thesis by (simp add: calls_iff_calls_at)
qed

lemma calls_on_database_requested: "calls (credentials_guard E i) (on_database_requested E i d rs)"
proof -
  have h: "calls (credentials_guard E i) (initialized E)" "calls (credentials_guard E i) (set_database E i d)"
    "calls (credentials_guard E i) (set_database_version E i)" "calls (credentials_guard E i) (set_unit_status E s)"
    "calls (credentials_guard E i) (update_app_labels E)" "calls (credentials_guard E i) defer_event" for s
    unfolding set_database_def create_database_def inst_create_database_def build_database_dba_role_def
      set_database_version_def fetch_version_def set_relation_field_def Let_def
    by (rule calls_no_password, intro emits; simp add: password_field_def)+
  have e: "calls (credentials_guard E i) (handler_update_database_endpoints E i)"
    unfolding handler_update_database_endpoints_def
    by (rule calls_no_password, intro emits) (simp_all add: password_field_def)
  show ?thesis
    unfolding on_database_requested_def Let_def
    by (rule emits_bindM emits_if emits_try_else emits_block emits_basic calls_set_database_user h e | simp)+
qed

text \<open>
  (C15) Credentials are published only when they work: while a request for a database is handled,
  credentials are written only to the relation of the request, and only after the user of this relation
  was created with exactly this password.
\<close>

theorem credentials_published_after_creation:
  assumes "on_database_requested E i d rs w = (r, w')"
    and "trace w' = trace w @ xs @ Juju (SetCredentials j u p) # ys"
  shows "j = i \<and> u = build_database_relation_username E i \<and> user_created E u p (trace w @ xs)"
proof -
  obtain es where es: "trace w' = trace w @ es" "chain (credentials_guard E i) (trace w) es"
    using callsE [OF calls_on_database_requested assms(1)] by blast
  then have "es = xs @ Juju (SetCredentials j u p) # ys" using assms(2) by simp
  with es(2) show ?thesis by (auto simp: credentials_guard_def)
qed

section \<open>Removing users\<close>

definition deleted_users :: "event \<Rightarrow> string list" where
  "deleted_users e = (case e of Sql _ (DeleteInstanceUser u _) \<Rightarrow> [u] | Sql _ (DeleteInstanceUsers us) \<Rightarrow> us | _ \<Rightarrow> [])"

definition belongs_to :: "env \<Rightarrow> string \<Rightarrow> string \<Rightarrow> bool" where
  "belongs_to E creator u \<longleftrightarrow> u = creator \<or> (\<exists>tr h users x.
     ans_users E tr (Sql h (SearchInstanceUsers ''%'' [(''created_by_user'', creator)])) = Inr users \<and>
     x \<in> set users \<and> u_name x = u)"

lemma emits_delete_users: "emits (\<lambda>e. list_all (belongs_to E n) (deleted_users e)) (delete_users E n)"
proof -
  let ?P = "\<lambda>e. list_all (belongs_to E n) (deleted_users e)"
  have "emits ?P (inst_delete_users_by_attrs E h [(''created_by_user'', n)])" for h
    unfolding emits_def
  proof
    fix w
    let ?q = "Sql h (SearchInstanceUsers ''%'' [(''created_by_user'', n)])"
    show "\<exists>es. trace (snd (inst_delete_users_by_attrs E h [(''created_by_user'', n)] w)) = trace w @ es \<and> list_all ?P es"
    proof (cases "ans_users E (trace w) ?q")
      case (Inl e)
      then show ?thesis by (simp add: inst_delete_users_by_attrs_def bindM_def monad_simps deleted_users_def)
    next
      case (Inr users)
      then have "list_all (belongs_to E n) (map u_name users)"
        by (auto simp: list_all_iff belongs_to_def)
      with Inr show ?thesis by (simp add: inst_delete_users_by_attrs_def bindM_def monad_simps deleted_users_def)
    qed
  qed
  note attrs = this
  show ?thesis
    unfolding delete_users_def
    by (intro emits_bindM emits_if emits_block emits_basic attrs emits_set_status(2) emits_instance_commands(4))
      (simp_all add: deleted_users_def belongs_to_def)
qed

text \<open>
  (C16) When a client relation is broken, users are deleted only by the leader, not by a unit
  that is itself being removed, and only the user of this relation and the users created by it.
\<close>

theorem broken_relation_deletes_its_users:
  assumes "has_peers E" and "database_on_relation_broken E i w = (r, w')" and "trace w' = trace w @ es"
    and "e \<in> set es" and "u \<in> set (deleted_users e)"
  shows "is_leader E \<and> get_unit_removing_flag (unit_bags w (unit_name E)) \<noteq> Some True \<and>
    belongs_to E (build_database_relation_username E i) u"
proof -
  let ?n = "build_database_relation_username E i"
  let ?m = "try_except (delete_users E ?n) [PyRuntimeError] (\<lambda>_. ret ())"
  have "(is_leader E \<and> get_unit_removing_flag (unit_bags w (unit_name E)) \<noteq> Some True \<and> ?m w = (r, w')) \<or> w' = w"
    using assms(1,2)
    by (auto simp: database_on_relation_broken_def get_removing_flag_def read_unit_def bindM_def monad_simps
        split: if_splits)
  moreover have "w' \<noteq> w" using assms(3,4) by auto
  moreover have "emits (\<lambda>e. list_all (belongs_to E ?n) (deleted_users e)) ?m" by (intro emits emits_delete_users)
  ultimately obtain fs where "is_leader E" "get_unit_removing_flag (unit_bags w (unit_name E)) \<noteq> Some True"
    "trace w' = trace w @ fs" "list_all (\<lambda>e. list_all (belongs_to E ?n) (deleted_users e)) fs"
    using emitsE by metis
  with assms(3-5) show ?thesis by (auto simp: list_all_iff)
qed

text \<open>A request of a router, for which writing the password fails at last.\<close>

definition requested_env :: env where
  "requested_env = cluster_env\<lparr>ans_ostr := \<lambda>_ _. Inr (Some ''pw''),
     ans_set_status := \<lambda>_ _. Inr \<lparr>css_primary = ''c'',
       css_clusters = [(''c'', \<lparr>sm_role = ''PRIMARY'', sm_state = ''OK'', sm_primary = Some ''h1:3306''\<rparr>)]\<rparr>,
     ans_unit := \<lambda>_ e. (case e of Juju (SetCredentials _ _ _) \<Rightarrow> Inl (Exn [PyException] []) | _ \<Rightarrow> Inr ())\<rparr>"

lemma provider_answers:
  "substrate requested_env = VM" "has_peers requested_env" "is_leader requested_env" "client_host requested_env = ''h0''"
  "unit_name requested_env = ''mysql/0''" "ans_bool requested_env = (\<lambda>_ _. Inr True)"
  "ans_ostr requested_env = (\<lambda>_ _. Inr (Some ''pw''))" "ans_strs requested_env tr (Sql h GetClusterLabels) = Inr [''c'']"
  "ans_unit requested_env tr (Sql h q) = Inr ()" "ans_users requested_env tr e = Inr []"
  "ans_unit requested_env tr (Juju (SetCredentials i u v)) = Inl (Exn [PyException] [])"
  "ans_set_status requested_env tr e = Inr \<lparr>css_primary = ''c'',
       css_clusters = [(''c'', \<lparr>sm_role = ''PRIMARY'', sm_state = ''OK'', sm_primary = Some ''h1:3306''\<rparr>)]\<rparr>"
  by (simp_all add: requested_env_def cluster_env_def quiet_env_def)

lemmas provider_run = on_database_requested_def initialized_def server_running_def snap_running_def
  inst_fetch_cluster_labels_def cluster_name_def read_app_def read_unit_def set_database_user_def
  create_database_user_def cset_fetch_primary_host_def fetch_cluster_set_status_def dict_index_def
  inst_create_database_user_def set_relation_field_def database_on_relation_broken_def get_removing_flag_def
  delete_users_def inst_delete_user_def inst_delete_users_by_attrs_def ROLENAME_ROUTER_def
  leaving_reads try_except_def try_else_def bindM_def seqM_def monad_simps

theorem credentials_published_after_creation_witness:
  "\<exists>xs ys. trace (snd (on_database_requested requested_env 7 ''app'' (Some ''charmed_router'') sample_world)) =
     xs @ Juju (SetCredentials 7 (build_database_relation_username requested_env 7) ''pw'') # ys \<and>
     user_created requested_env (build_database_relation_username requested_env 7) ''pw'' xs"
proof -
  let ?r = "on_database_requested requested_env 7 ''app'' (Some ''charmed_router'') sample_world"
  have e: "trace sample_world = []" "app_get_cluster_name (app_bag sample_world) = Some ''c''" by code_simp+
  have "split_char (CHR '','') ''charmed_router'' = [''charmed_router'']" by simp
  then have "Juju (SetCredentials 7 (build_database_relation_username requested_env 7) ''pw'') \<in> set (trace (snd ?r))"
    by (simp add: provider_run provider_answers e caught_def Let_def)
  then obtain xs ys where t: "trace (snd ?r) = trace sample_world @ xs @ Juju (SetCredentials 7 (build_database_relation_username requested_env 7) ''pw'') # ys"
    unfolding e append_Nil by (meson split_list)
  with credentials_published_after_creation [OF surjective_pairing t] show ?thesis unfolding e append_Nil by blast
qed

theorem broken_relation_deletes_its_users_witness:
  "\<exists>e. e \<in> set (trace (snd (database_on_relation_broken requested_env 7 sample_world))) \<and> is_leader requested_env \<and>
     list_all (belongs_to requested_env (build_database_relation_username requested_env 7)) (deleted_users e) \<and>
     deleted_users e = [build_database_relation_username requested_env 7]"
proof -
  let ?r = "database_on_relation_broken requested_env 7 sample_world"
  let ?n = "build_database_relation_username requested_env 7"
  let ?e = "Sql ''h1'' (DeleteInstanceUser ?n ''%'')"
  have e: "trace sample_world = []" by code_simp
  have f: "get_unit_removing_flag (unit_bags sample_world ''mysql/0'') = None" by code_simp
  have m: "?e \<in> set (trace (snd ?r))" by (simp add: provider_run provider_answers e f)
  have "trace (snd ?r) = trace sample_world @ trace (snd ?r)" by (simp add: e)
  from broken_relation_deletes_its_users [OF provider_answers(2) surjective_pairing this m, of ?n]
  show ?thesis using m by (intro exI [where x = ?e]) (simp add: deleted_users_def)
qed

end
