(* ===== verification/BackupStorage.thy ===== *)
theory BackupStorage
  imports World
begin

text \<open>
  The object storage and the list of backups: \<open>managers/managers/backup/storage/s3.py\<close> and
  \<open>managers/managers/backup/backup_list.py\<close>.
\<close>

section \<open>The S3 storage\<close>

text \<open>
  A parameter of the storage relation is a string; only the CA chain may be a list of strings.  Any other list
  is an \<open>AttributeError\<close>.
\<close>

definition attribute_error :: exn where
  "attribute_error = Exn [OtherErrorC, PyException] ''list object has no attribute strip''"

definition config_str :: "param dict \<Rightarrow> string \<Rightarrow> exn + string" where
  "config_str cfg k = (case map_of cfg k of
     None \<Rightarrow> Inl (key_error k) | Some (ParamStr s) \<Rightarrow> Inr s | Some (ParamList _) \<Rightarrow> Inl attribute_error)"

definition required_params :: "string list" where
  "required_params = [''bucket'', ''access-key'', ''secret-key'']"

definition default_params :: "(string \<times> string) list" where
  "default_params = [(''endpoint'', ''https://s3.amazonaws.com''), (''path'', ''/''), (''region'', ''''),
     (''s3-uri-style'', ''auto''), (''s3-api-version'', ''auto'')]"

definition strip_param :: "param \<Rightarrow> param" where
  "strip_param p = (case p of ParamStr s \<Rightarrow> ParamStr (strip s) | ParamList xs \<Rightarrow> ParamList xs)"

definition build_config :: "param dict \<Rightarrow> exn + param dict" where
  "build_config cfg =
     (if \<not> list_all (dict_has cfg) required_params
      then Inl (value_error ''Invalid storage configuration. Required keys missing'')
      else let cfg = foldl (\<lambda>d (k, v). dict_setdefault k (ParamStr v) d) cfg default_params;
               cfg = dict_map strip_param cfg in
        case config_str cfg ''bucket'' of Inl e \<Rightarrow> Inl e
        | Inr bucket \<Rightarrow> (case config_str cfg ''endpoint'' of Inl e \<Rightarrow> Inl e
          | Inr endpoint \<Rightarrow> Inr (dict_update cfg
              [(''bucket'', ParamStr (strip_slashes bucket)), (''endpoint'', ParamStr (strip_slashes endpoint))])))"

definition build_endpoint :: "env \<Rightarrow> param dict \<Rightarrow> exn + string" where
  "build_endpoint E cfg = (case config_str cfg ''endpoint'' of Inl e \<Rightarrow> Inl e
     | Inr endpoint \<Rightarrow> (case config_str cfg ''region'' of Inl e \<Rightarrow> Inl e
       | Inr region \<Rightarrow> (case construct_endpoint E region of
           None \<Rightarrow> Inr endpoint
         | Some (endpoint_suffix, endpoint_hostname) \<Rightarrow>
             if ends_with endpoint_suffix endpoint
             then Inr (hd (split_str ''://'' endpoint) @ ''://'' @ endpoint_hostname) else Inr endpoint)))"

definition bucket_name :: "param dict \<Rightarrow> exn + string" where
  "bucket_name cfg = config_str cfg ''bucket''"

definition bucket_path :: "param dict \<Rightarrow> exn + string" where
  "bucket_path cfg = config_str cfg ''path''"

definition ca_chain :: "param dict \<Rightarrow> string option" where
  "ca_chain cfg = (case map_of cfg ''tls-ca-chain'' of None \<Rightarrow> None
     | Some (ParamStr s) \<Rightarrow> Some s | Some (ParamList xs) \<Rightarrow> Some (join_with [newline] xs))"

definition build_backup_args :: "param dict \<Rightarrow> string option \<Rightarrow> string list op" where
  "build_backup_args cfg ca_chain_path =
     bindM (lift (config_str cfg ''region'')) (\<lambda>region.
     bindM (lift (config_str cfg ''bucket'')) (\<lambda>bucket.
     bindM (lift (config_str cfg ''endpoint'')) (\<lambda>endpoint.
     bindM (lift (config_str cfg ''s3-api-version'')) (\<lambda>api.
     bindM (lift (config_str cfg ''s3-uri-style'')) (\<lambda>style.
       ret ([''--s3-region='' @ region, ''--s3-bucket='' @ bucket, ''--s3-endpoint='' @ endpoint,
             ''--s3-api-version='' @ api, ''--s3-bucket-lookup='' @ style]
            @ (if falsy ca_chain_path then [] else [''--cacert='' @ the ca_chain_path])))))))"

definition build_backup_env :: "param dict \<Rightarrow> string dict op" where
  "build_backup_env cfg =
     bindM (lift (config_str cfg ''access-key'')) (\<lambda>access.
     bindM (lift (config_str cfg ''secret-key'')) (\<lambda>secret.
       ret [(''ACCESS_KEY_ID'', access), (''SECRET_ACCESS_KEY'', secret)]))"

section \<open>The list of backups\<close>

datatype backup_status = IN_PROGRESS | FINISHED | FAILED

fun status_text :: "backup_status \<Rightarrow> string" where
  "status_text IN_PROGRESS = ''in progress''"
| "status_text FINISHED = ''finished''"
| "status_text FAILED = ''failed''"

record backup_info =
  bi_id :: string
  bi_status :: backup_status

definition from_storage :: "string \<Rightarrow> bool \<Rightarrow> bool \<Rightarrow> backup_info" where
  "from_storage backup_id checksum log_file =
     (if \<not> checksum \<and> \<not> log_file then \<lparr>bi_id = backup_id, bi_status = IN_PROGRESS\<rparr>
      else if \<not> checksum \<and> log_file then \<lparr>bi_id = backup_id, bi_status = FAILED\<rparr>
      else \<lparr>bi_id = backup_id, bi_status = FINISHED\<rparr>)"

text \<open>\<open>Path(key).name\<close>, \<open>.stem\<close> and \<open>.suffix\<close>: the last dot splits the name, unless it is its first or last character.\<close>

definition path_name :: "string \<Rightarrow> string" where
  "path_name key = (let ns = filter (\<lambda>s. s \<noteq> [] \<and> s \<noteq> ''.'') (split_char (CHR ''/'') key) in
     if ns = [] then [] else last ns)"

definition split_suffix :: "string \<Rightarrow> string \<times> string" where
  "split_suffix name = (let ext = takeWhile (\<lambda>c. c \<noteq> CHR ''.'') (rev name);
       stem = drop (Suc (length ext)) (rev name) in
     if CHR ''.'' \<in> set name \<and> ext \<noteq> [] \<and> stem \<noteq> [] then (rev stem, ''.'' @ rev ext) else (name, []))"

text \<open>
  \<open>time.strptime(s, "%Y-%m-%dT%H:%M:%SZ")\<close> succeeds: four digits for the year, one or two for the other
  fields, letters in any case, and a date that exists.
\<close>

definition time_field :: "char \<Rightarrow> nat \<Rightarrow> nat \<Rightarrow> string \<Rightarrow> (nat \<times> string) option" where
  "time_field sep lo hi s =
     (let f = takeWhile (\<lambda>c. to_upper c \<noteq> sep) s; r = dropWhile (\<lambda>c. to_upper c \<noteq> sep) s in
      if r \<noteq> [] \<and> (length f = 1 \<or> length f = 2) \<and> list_all is_digit f \<and> lo \<le> read_nat f \<and> read_nat f \<le> hi
      then Some (read_nat f, tl r) else None)"

definition day_field :: "string \<Rightarrow> (nat \<times> string) option" where
  "day_field s = (case s of
     c # t \<Rightarrow> if c = CHR '' '' \<and> length t > 1 \<and> to_upper (t ! 1) = CHR ''T'' then time_field (CHR ''T'') 1 9 t else time_field (CHR ''T'') 1 31 s
   | [] \<Rightarrow> None)"

definition year_field :: "string \<Rightarrow> (nat \<times> string) option" where
  "year_field s = (if length s > 4 \<and> list_all is_digit (take 4 s) \<and> s ! 4 = CHR ''-''
     then Some (read_nat (take 4 s), drop 5 s) else None)"

definition leap_year :: "nat \<Rightarrow> bool" where
  "leap_year y \<longleftrightarrow> 4 dvd y \<and> (\<not> 100 dvd y \<or> 400 dvd y)"

definition days_in_month :: "nat \<Rightarrow> nat \<Rightarrow> nat" where
  "days_in_month y m = (if m = 2 then (if leap_year y then 29 else 28)
     else if m \<in> {4, 6, 9, 11} then 30 else 31)"

definition strptime_ok :: "string \<Rightarrow> bool" where
  "strptime_ok s = (case year_field s of None \<Rightarrow> False
   | Some (y, s) \<Rightarrow> (case time_field (CHR ''-'') 1 12 s of None \<Rightarrow> False
   | Some (m, s) \<Rightarrow> (case day_field s of None \<Rightarrow> False
   | Some (d, s) \<Rightarrow> (case time_field (CHR '':'') 0 23 s of None \<Rightarrow> False
   | Some (_, s) \<Rightarrow> (case time_field (CHR '':'') 0 59 s of None \<Rightarrow> False
   | Some (_, s) \<Rightarrow> (case time_field (CHR ''Z'') 0 61 s of None \<Rightarrow> False
   | Some (_, s) \<Rightarrow> s = [] \<and> 1 \<le> y \<and> d \<le> days_in_month y m))))))"

text \<open>The three lists that the loop over the keys of all pages fills.\<close>

definition metadata_ids :: "string list \<Rightarrow> string list" where
  "metadata_ids keys = concat (map (\<lambda>key. case split_suffix (path_name key) of (stem, ext) \<Rightarrow>
     if ext = ''.metadata'' \<and> strptime_ok stem then [stem] else []) keys)"

definition checksum_ids :: "string list \<Rightarrow> string list" where
  "checksum_ids keys = concat (map (\<lambda>key. case split_suffix (path_name key) of (stem, ext) \<Rightarrow>
     if ext = ''.md5'' then [stem] else []) keys)"

definition log_ids :: "string list \<Rightarrow> string list" where
  "log_ids keys = concat (map (\<lambda>key. case split_suffix (path_name key) of (stem, ext) \<Rightarrow>
     if ext = ''.log'' then [removesuffix ''.backup'' stem] else []) keys)"

definition collect_backups :: "string list \<Rightarrow> backup_info list" where
  "collect_backups keys = sort_key bi_id
     (map (\<lambda>i. from_storage i (i \<in> set (checksum_ids keys)) (i \<in> set (log_ids keys))) (metadata_ids keys))"

text \<open>\<open>f"{s:<n}"\<close>.\<close>

definition pad_right :: "nat \<Rightarrow> string \<Rightarrow> string" where
  "pad_right n s = s @ replicate (n - length s) (CHR '' '')"

definition backup_row :: "string \<Rightarrow> string \<Rightarrow> string \<Rightarrow> string" where
  "backup_row a b c = pad_right 21 a @ '' | '' @ pad_right 12 b @ '' | '' @ pad_right 12 c"

definition format_backups :: "backup_info list \<Rightarrow> string" where
  "format_backups backups =
     (let header = backup_row ''backup-id'' ''backup-type'' ''backup-status'';
          border = replicate (length header) (CHR ''-'') in
      join_with [newline] ([header, border] @ map (\<lambda>b. backup_row (bi_id b) ''physical'' (status_text (bi_status b))) backups))"

section \<open>What the list says\<close>

lemma from_storage_id [simp]: "bi_id (from_storage i c l) = i"
  by (simp add: from_storage_def)

lemma from_storage_status [simp]:
  "bi_status (from_storage i c l) = (if c then FINISHED else if l then FAILED else IN_PROGRESS)"
  by (simp add: from_storage_def)

lemma mset_concat_map: "mset (concat (map f xs)) = (\<Sum>x\<in>#mset xs. mset (f x))"
  by (induction xs) simp_all

lemma ids_cong:
  assumes "mset keys = mset keys'"
  shows "mset (metadata_ids keys) = mset (metadata_ids keys')" "set (checksum_ids keys) = set (checksum_ids keys')"
    "set (log_ids keys) = set (log_ids keys')"
proof -
  show "mset (metadata_ids keys) = mset (metadata_ids keys')"
    unfolding metadata_ids_def mset_concat_map assms ..
  have "set keys = set keys'" using assms by (metis set_mset_mset)
  then show "set (checksum_ids keys) = set (checksum_ids keys')" "set (log_ids keys) = set (log_ids keys')"
    by (simp_all add: checksum_ids_def log_ids_def)
qed

text \<open>
  The list of backups does not depend on the order in which the storage returns its objects,
  nor on how it splits them into pages.
\<close>

theorem collect_backups_order:
  assumes "mset keys = mset keys'"
  shows "collect_backups keys = collect_backups keys'"
proof -
  let ?g = "\<lambda>i. from_storage i (i \<in> set (checksum_ids keys')) (i \<in> set (log_ids keys'))"
  have "mset (map ?g (metadata_ids keys)) = mset (map ?g (metadata_ids keys'))"
    by (simp add: ids_cong(1) [OF assms])
  moreover have "inj_on bi_id (set (map ?g (metadata_ids keys)))" by (auto intro: inj_onI)
  ultimately show ?thesis
    unfolding collect_backups_def ids_cong(2,3) [OF assms]
    by (intro sort_key_inj_key_eq) simp_all
qed

theorem collect_backups_order_witness:
  "collect_backups [''b/2024-01-02T03:04:05Z.md5'', ''b/2024-01-02T03:04:05Z.metadata''] =
   collect_backups [''b/2024-01-02T03:04:05Z.metadata'', ''b/2024-01-02T03:04:05Z.md5'']"
  by (rule collect_backups_order) simp

text \<open>
  The list has one entry per metadata object whose name is a time, sorted by this time, and
  the status of an entry says which other objects of the backup exist: with a checksum it is
  finished, with only a log it failed, with neither it is in progress.
\<close>

theorem collect_backups_exact:
  "sorted (map bi_id (collect_backups keys)) \<and>
   mset (map bi_id (collect_backups keys)) = mset (metadata_ids keys) \<and>
   list_all (\<lambda>b. bi_status b = (if bi_id b \<in> set (checksum_ids keys) then FINISHED
      else if bi_id b \<in> set (log_ids keys) then FAILED else IN_PROGRESS)) (collect_backups keys)"
proof -
  let ?g = "\<lambda>i. from_storage i (i \<in> set (checksum_ids keys)) (i \<in> set (log_ids keys))"
  have "mset (collect_backups keys) = image_mset ?g (mset (metadata_ids keys))"
    by (simp add: collect_backups_def)
  moreover from this have "set (collect_backups keys) = ?g ` set (metadata_ids keys)"
    by (metis set_image_mset set_mset_mset)
  ultimately show ?thesis
    by (auto simp: collect_backups_def list_all_iff multiset.map_comp comp_def mset_map)
qed

section \<open>The names of the objects of a backup\<close>

lemma split_char_join: "split_char c (p @ c # n) = split_char c p @ split_char c n"
  by (induction c p rule: split_char.induct) (auto split: list.split)

lemma path_name_last:
  assumes "CHR ''/'' \<notin> set n" "n \<noteq> []" "n \<noteq> ''.''"
  shows "path_name (p @ ''/'' @ n) = n"
proof -
  have "split_char (CHR ''/'') (p @ ''/'' @ n) = split_char (CHR ''/'') p @ [n]"
    using assms(1) by (simp add: split_char_join split_char_free)
  with assms(2,3) show ?thesis by (simp add: path_name_def Let_def)
qed

lemma split_suffix_name:
  assumes "t \<noteq> []" "x \<noteq> []" "CHR ''.'' \<notin> set x"
  shows "split_suffix (t @ ''.'' @ x) = (t, ''.'' @ x)"
proof -
  have "takeWhile (\<lambda>c. c \<noteq> CHR ''.'') (rev (t @ ''.'' @ x)) = rev x"
    using assms(3) by (simp add: takeWhile_append)
  with assms(1,2) show ?thesis by (simp add: split_suffix_def Let_def)
qed

end
