(* ===== verification/Backup.thy ===== *)
theory Backup
  imports BackupStorage Lifecycle
begin

text \<open>
  Backups: \<open>managers/managers/backup/backup.py\<close> and \<open>events/handlers/backup.py\<close>.  An \<open>except\<close> clause that
  only logs the exception and raises it again is left out.  The theorems say that temporary
  files do not outlive the call, that an isolated instance is made accessible again whatever
  happened meanwhile, and in which order a restore destroys data.
\<close>

section \<open>The storage\<close>

text \<open>
  \<open>BackupS3EventHandler._configure\<close> runs when the handler is built.  A configuration that lacks a required key
  is a \<open>ValueError\<close> there; here it is raised by the first operation that needs the storage.
\<close>

definition configure :: "env \<Rightarrow> exn + param dict option" where
  "configure E = (if storage_info E = [] then Inr None else map_sum id Some (build_config (storage_info E)))"

definition storage :: "env \<Rightarrow> param dict op" where
  "storage E = (case configure E of Inl e \<Rightarrow> raise e
     | Inr None \<Rightarrow> raise (runtime_error ''The backup storage is not configured'')
     | Inr (Some cfg) \<Rightarrow> ret cfg)"

definition storage_name :: string where "storage_name = ''s3''"
definition certs_dir_name :: string where "certs_dir_name = ''s3_ca''"
definition certs_file_name :: string where "certs_file_name = ''s3-ca.pem''"

definition build_backup_client :: "env \<Rightarrow> string option \<Rightarrow> unit op" where
  "build_backup_client E ca_chain_path =
     bindM (storage E) (\<lambda>cfg.
     bindM (lift (build_endpoint E cfg)) (\<lambda>endpoint.
     bindM (lift (config_str cfg ''region'')) (\<lambda>region.
     bindM (lift (config_str cfg ''s3-uri-style'')) (\<lambda>style.
       act E (Sto (BuildClient endpoint region style ca_chain_path))))))"

section \<open>Temporary files and directories\<close>

definition backup_dir_prefix :: string where "backup_dir_prefix = ''xtra_backup''"
definition state_dir_prefix :: string where "state_dir_prefix = ''#mysql_sst''"

definition ascii_lowercase :: string where "ascii_lowercase = ''abcdefghijklmnopqrstuvwxyz''"

definition create_temporary_dir :: "env \<Rightarrow> string \<Rightarrow> string op" where
  "create_temporary_dir E pre =
     bindM (mapM (\<lambda>_. secrets_choice E ascii_lowercase) [0 ..< (4 :: nat)]) (\<lambda>suff.
       let temp_dir = path_div (mysql_temp (the_paths E)) (pre @ ''_'' @ suff) in
       seqM (act E (Sys (MakeDir temp_dir))) (ret temp_dir))"

definition create_temporary_ca :: "env \<Rightarrow> string option op" where
  "create_temporary_ca E =
     bindM (storage E) (\<lambda>cfg.
       if falsy (ca_chain cfg) then ret None
       else bindM (create_temporary_dir E certs_dir_name) (\<lambda>temp_dir.
         let temp_file = path_div temp_dir certs_file_name in
         seqM (write_text E temp_file (the (ca_chain cfg))) (ret (Some temp_file))))"

text \<open>\<open>Path.unlink(missing_ok=True)\<close>, and \<open>NamedTemporaryFile\<close>, which creates an empty file under a new name.\<close>

definition unlink_missing_ok :: "env \<Rightarrow> string \<Rightarrow> unit op" where
  "unlink_missing_ok E p = seqM (suppress [PyFileNotFoundError] (act E (Sys (UnlinkFile p))))
     (modify (\<lambda>w. w\<lparr>files := (files w)(p := None)\<rparr>))"

definition make_temp :: "env \<Rightarrow> string op" where
  "make_temp E = bindM (ask (ans_str E) (Sys MakeTemp)) (\<lambda>p.
     seqM (modify (\<lambda>w. w\<lparr>files := (files w)(p \<mapsto> [])\<rparr>)) (ret p))"

text \<open>The body of a \<open>with\<close> statement is an argument of the context manager.\<close>

definition temporary_file :: "env \<Rightarrow> string option \<Rightarrow> (string option \<Rightarrow> 'a op) \<Rightarrow> 'a op" where
  "temporary_file E contents body =
     (if falsy contents then body None
      else bindM (make_temp E) (\<lambda>p. seqM (write_text E p (the contents))
        (try_finally (body (Some p)) (unlink_missing_ok E p))))"

text \<open>
  The body of \<open>isolate_instance\<close> says whether the statements after the \<open>with\<close> statement run: a
  \<open>return\<close> in the body skips them, an exception that is suppressed does not.
\<close>

definition isolate_instance :: "env \<Rightarrow> bool op \<Rightarrow> bool op" where
  "isolate_instance E body =
     bindM (fetch_instances E (client_host E)) (\<lambda>instances.
       if length instances = 1 then body
       else try_else (block [set_instance_option E (client_host E) ''tag:_hidden'' (VBool True),
           update_variable E (client_host E) ''offline_mode'' (VStr ''ON'')]) [ExecutionErrorC]
         (\<lambda>_. body)
         (\<lambda>_. bindM (try_except body [PyException] (\<lambda>_. ret True)) (\<lambda>go.
           try_else (block [update_variable E (client_host E) ''offline_mode'' (VStr ''OFF''),
               set_instance_option E (client_host E) ''tag:_hidden'' (VBool False)]) [ExecutionErrorC]
             (\<lambda>_. ret go) (\<lambda>_. ret go))))"

section \<open>The manager\<close>

definition contained :: "string \<Rightarrow> param \<Rightarrow> bool" where
  "contained s p = (case p of ParamStr t \<Rightarrow> sublist s t | ParamList ts \<Rightarrow> s \<in> set ts)"

definition backup_in_progress :: "instance_info \<Rightarrow> bool" where
  "backup_in_progress i \<longleftrightarrow> contained ''Instance has offline_mode enabled'' (ii_errors i) \<and> ii_hidden i"

definition check_cluster :: "env \<Rightarrow> unit op" where
  "check_cluster E =
     bindM (fetch_instances E (client_host E)) (\<lambda>instances.
     bindM (cluster_fetch_state E (client_host E)) (\<lambda>state.
       if state \<notin> {Some ''OK'', Some ''OK_PARTIAL''} then raise (runtime_error ''Cluster is not in a healthy state'')
       else for_each (\<lambda>(label, info). if backup_in_progress info
           then raise (runtime_error (''Backup already in progress in instance '' @ label)) else ret ()) instances))"

definition check_instance :: "env \<Rightarrow> unit op" where
  "check_instance E =
     bindM (count_cluster_members E (client_host E) None) (\<lambda>members.
     bindM (inst_fetch_role E (client_host E)) (\<lambda>role.
       if role = Some ''PRIMARY'' \<and> members > 1 then raise (runtime_error ''Instance is the cluster primary'')
       else bindM (inst_fetch_state E (client_host E)) (\<lambda>state.
         if state \<noteq> Some ''ONLINE'' then raise (runtime_error ''Instance is not in a healthy state'') else ret ())))"

definition check_backup :: "env \<Rightarrow> string \<Rightarrow> unit op" where
  "check_backup E backup_path =
     bindM (storage E) (\<lambda>cfg.
       temporary_file E (ca_chain cfg) (\<lambda>ca_chain_file.
         seqM (build_backup_client E ca_chain_file)
           (bindM (lift (bucket_name cfg)) (\<lambda>bucket. act E (Sto (GetObject bucket backup_path))))))"

definition backup_command :: "env \<Rightarrow> int \<Rightarrow> string \<Rightarrow> string \<Rightarrow> string \<Rightarrow> string list" where
  "backup_command E cores_num username password temp_dir_path = (let p = the_paths E in
     [binary p ''xtrabackup'', ''--defaults-file='' @ mysql_config_default p, ''--defaults-group=mysqld'',
      ''--parallel='' @ str_int cores_num, ''--user='' @ username, ''--password='' @ password,
      ''--socket='' @ mysql_socket p, ''--lock-ddl'', ''--backup'', ''--stream=xbstream'',
      ''--xtrabackup-plugin-dir='' @ backup_plugins p, ''--target-dir='' @ temp_dir_path,
      ''--no-version-check'', ''--no-server-version-check''])"

definition upload_command :: "env \<Rightarrow> int \<Rightarrow> string list \<Rightarrow> string \<Rightarrow> string list" where
  "upload_command E cores_num upload_args backup_path =
     [binary (the_paths E) ''xbcloud'', ''put'', ''--curl-retriable-errors=7'', ''--insecure'',
      ''--parallel='' @ str_int cores_num, ''--md5'', ''--storage='' @ storage_name] @ upload_args @ [backup_path]"

definition create_backup :: "env \<Rightarrow> string \<Rightarrow> string \<Rightarrow> string \<Rightarrow> (string \<times> string) op" where
  "create_backup E backup_path username password =
     bindM (get_cores E) (\<lambda>cores_num.
     bindM (create_temporary_ca E) (\<lambda>ca_chain_path.
     bindM (create_temporary_dir E backup_dir_prefix) (\<lambda>temp_dir_path.
     bindM (storage E) (\<lambda>cfg.
     bindM (build_backup_args cfg ca_chain_path) (\<lambda>upload_args.
     bindM (build_backup_env cfg) (\<lambda>upload_env.
       let upload = upload_command E cores_num upload_args backup_path in
       bindM (execute_async E (backup_command E cores_num username password temp_dir_path) []
         (execute_async E upload upload_env (ask (ans_str E) (Sys (ReadPipe upload))))) (\<lambda>output.
       ret (output, temp_dir_path))))))))"

definition decompress_command :: "env \<Rightarrow> int \<Rightarrow> string \<Rightarrow> string list" where
  "decompress_command E cores_num temp_dir_path =
     [binary (the_paths E) ''xbstream'', ''--decompress'', ''-x'', ''--directory='' @ temp_dir_path,
      ''--parallel='' @ str_int cores_num]"

definition download_command :: "env \<Rightarrow> int \<Rightarrow> string list \<Rightarrow> string \<Rightarrow> string list" where
  "download_command E cores_num download_args object_path =
     [binary (the_paths E) ''xbcloud'', ''get'', ''--curl-retriable-errors=7'',
      ''--parallel='' @ str_int cores_num, ''--storage='' @ storage_name] @ download_args @ [object_path]"

definition download_backup :: "env \<Rightarrow> string \<Rightarrow> (string \<times> string) op" where
  "download_backup E backup_id =
     bindM (get_cores E) (\<lambda>cores_num.
     bindM (create_temporary_ca E) (\<lambda>ca_chain_path.
     bindM (create_temporary_dir E state_dir_prefix) (\<lambda>temp_dir_path.
     bindM (storage E) (\<lambda>cfg.
     bindM (build_backup_args cfg ca_chain_path) (\<lambda>download_args.
     bindM (build_backup_env cfg) (\<lambda>download_env.
     bindM (lift (bucket_path cfg)) (\<lambda>path.
       let decompress = decompress_command E cores_num temp_dir_path in
       bindM (execute_async E (download_command E cores_num download_args (path @ ''/'' @ backup_id)) download_env
         (execute_async E decompress [] (ask (ans_str E) (Sys (ReadPipe decompress))))) (\<lambda>output.
       ret (output, temp_dir_path)))))))))"

text \<open>The paginator asks for the pages, here all their keys at once, when \<open>collect_backups\<close> iterates over them.\<close>

definition list_backups :: "env \<Rightarrow> string op" where
  "list_backups E =
     bindM (storage E) (\<lambda>cfg.
     bindM (lift (bucket_name cfg)) (\<lambda>bucket.
     bindM (lift (bucket_path cfg)) (\<lambda>path.
       temporary_file E (ca_chain cfg) (\<lambda>ca_chain_file.
         seqM (build_backup_client E ca_chain_file)
           (bindM (ask (ans_strs E) (Sto (ListObjects bucket (path @ ''/'')))) (\<lambda>keys.
             ret (format_backups (collect_backups keys))))))))"

definition prepare_backup :: "env \<Rightarrow> string \<Rightarrow> int \<Rightarrow> string op" where
  "prepare_backup E backup_path pool_size = (let p = the_paths E in execute_sync E
     [binary p ''xtrabackup'', ''--prepare'', ''--use-memory='' @ str_int pool_size, ''--rollback-prepared-trx'',
      ''--xtrabackup-plugin-dir='' @ backup_plugins p, ''--target-dir='' @ backup_path, ''--no-version-check''] [])"

definition backup_recreate_cluster :: "env \<Rightarrow> string \<Rightarrow> unit op" where
  "backup_recreate_cluster E instance_label =
     seqM (configure_instance E [] []) (recreate_cluster E instance_label)"

definition restore_backup :: "env \<Rightarrow> string \<Rightarrow> string op" where
  "restore_backup E backup_path = (let p = the_paths E in execute_sync E
     [binary p ''xtrabackup'', ''--defaults-file='' @ mysql_config_default p, ''--defaults-group=mysqld'',
      ''--datadir='' @ mysql_data p, ''--move-back'', ''--force-non-empty-directories'',
      ''--xtrabackup-plugin-dir='' @ backup_plugins p, ''--target-dir='' @ backup_path, ''--no-version-check''] [])"

definition remove_backup :: "env \<Rightarrow> unit op" where
  "remove_backup E = run_silent E [''find'', mysql_temp (the_paths E), ''-mindepth'', ''1'', ''-path'',
     path_div (mysql_temp (the_paths E)) backup_dir_prefix @ ''_*'', ''-delete'']"

definition reset_data_dir :: "env \<Rightarrow> unit op" where
  "reset_data_dir E = run_silent E [''find'', mysql_data (the_paths E), ''-mindepth'', ''1'', ''-not'', ''-path'',
     path_div (mysql_data (the_paths E)) state_dir_prefix @ ''_*'', ''-delete'']"

definition reset_logs_dir :: "env \<Rightarrow> unit op" where
  "reset_logs_dir E = run_silent E [''find'', mysql_logs (the_paths E), ''-mindepth'', ''1'', ''-delete'']"

definition reset_temp_dir :: "env \<Rightarrow> unit op" where
  "reset_temp_dir E = run_silent E [''find'', mysql_temp (the_paths E), ''-mindepth'', ''1'', ''-delete'']"

definition upload_file :: "env \<Rightarrow> string \<Rightarrow> string \<Rightarrow> unit op" where
  "upload_file E contents path =
     bindM (storage E) (\<lambda>cfg.
     bindM (lift (bucket_name cfg)) (\<lambda>bucket.
       temporary_file E (ca_chain cfg) (\<lambda>ca_chain_file.
       temporary_file E (Some contents) (\<lambda>contents_file.
         seqM (build_backup_client E ca_chain_file)
           (act E (Sto (UploadObject bucket contents_file path)))))))"

section \<open>The handler\<close>

definition build_backup_metadata :: "env \<Rightarrow> string \<Rightarrow> string" where
  "build_backup_metadata E request_time = concat (map (\<lambda>s. s @ [newline])
     [''Date Backup Requested: '' @ request_time, ''Model Name: '' @ model_name E, ''App Name: '' @ app_name E,
      ''Unit Name: '' @ unit_name E, ''Juju Version: '' @ juju_version E])"

text \<open>
  The handlers return early; a step that may do so answers whether the next one runs.
  \<open>or_fail m cs msg\<close> is \<open>try: m except cs as e: event.fail(msg + e); return\<close>.
\<close>

definition or_fail :: "'a op \<Rightarrow> pyclass list \<Rightarrow> string \<Rightarrow> 'a option op" where
  "or_fail m cs msg = try_else m cs (\<lambda>e. seqM (event_fail (msg @ message e)) (ret None)) (\<lambda>x. ret (Some x))"

definition isolated_backup :: "env \<Rightarrow> string \<Rightarrow> bool op" where
  "isolated_backup E backup_path =
     bindM (secret_get_value None (Some (secret_label E)) PASSWORD_KEY_BACKUPS) (\<lambda>password.
     bindM (or_fail (seqM (set_unit_status E (MaintenanceStatus ''Creating backup''))
         (create_backup E backup_path USERNAME_BACKUPS password)) [PyOSError, PyRuntimeError]
         ''Failed to create backup: '') (\<lambda>made. case made of None \<Rightarrow> ret False
     | Some (output, _) \<Rightarrow>
         bindM (or_fail (block [upload_file E output (backup_path @ ''.log''), remove_backup E]) [PyRuntimeError]
           ''Failed to upload backup logs: '') (\<lambda>logged. ret (logged \<noteq> None))))"

definition on_create_backup :: "env \<Rightarrow> bool \<Rightarrow> unit op" where
  "on_create_backup E force =
     (if \<not> has_backup_relation E
      then event_fail (''Skipping backup creation: relation '' @ RELATION_BACKUPS @ '' missing'')
      else bindM (initialized E) (\<lambda>ready.
        if \<not> ready then event_fail ''Skipping backup creation: charm is not initialized''
        else if refreshing E then event_fail ''Skipping backup creation: charm is refreshing''
        else bindM (try_else (block [check_cluster E, check_instance E]) [PyRuntimeError]
            (\<lambda>e. if force then ret True
                 else seqM (event_fail (''Backup cannot be created: '' @ message e)) (ret False))
            (\<lambda>_. ret True)) (\<lambda>go. if \<not> go then ret () else
          bindM (ask (ans_str E) (Sys CurrentTime)) (\<lambda>request_time.
          bindM (or_fail (bindM (storage E) (\<lambda>cfg. bindM (lift (bucket_path cfg)) (\<lambda>path. ret (path @ ''/'' @ request_time))))
            [PyRuntimeError] ''Failed to build metadata: '') (\<lambda>built. case built of None \<Rightarrow> ret ()
          | Some backup_path \<Rightarrow>
            bindM (or_fail (upload_file E (build_backup_metadata E request_time) (backup_path @ ''.metadata''))
              [PyException] ''Failed to upload metadata: '') (\<lambda>uploaded. case uploaded of None \<Rightarrow> ret ()
            | Some _ \<Rightarrow>
              bindM (isolate_instance E (isolated_backup E backup_path)) (\<lambda>go.
                if go then event_set_results [(''backup-id'', request_time)] else ret ())))))))"

definition on_list_backups :: "env \<Rightarrow> unit op" where
  "on_list_backups E =
     (if \<not> has_backup_relation E
      then event_fail (''Skipping backup listing: relation '' @ RELATION_BACKUPS @ '' missing'')
      else try_except (bindM (list_backups E) (\<lambda>backups. event_set_results [(''backups'', backups)])) [PyException]
        (\<lambda>e. event_fail (''Failed to retrieve backups: '' @ message e)))"

definition reset_and_restore :: "env \<Rightarrow> string \<Rightarrow> unit op" where
  "reset_and_restore E path = block [reset_data_dir E, reset_logs_dir E, seqM (restore_backup E path) (ret ()), reset_temp_dir E]"

definition restore_and_start :: "env \<Rightarrow> string \<Rightarrow> unit op" where
  "restore_and_start E path =
     bindM (or_fail (reset_and_restore E path) [PyRuntimeError] ''Failed to restore backup: '') (\<lambda>restored.
       case restored of None \<Rightarrow> ret ()
       | Some _ \<Rightarrow> seqM (server_start E) (seqM (bindM (build_unit_status E) (set_unit_status E))
           (bindM (or_fail (backup_recreate_cluster E (get_unit_label (unit_name E))) [PyRuntimeError]
             ''Failed to recreate cluster: '') (\<lambda>recreated. case recreated of None \<Rightarrow> ret ()
           | Some _ \<Rightarrow> event_set_results [(''completed'', ''ok'')]))))"

definition replace_data :: "env \<Rightarrow> string \<Rightarrow> unit op" where
  "replace_data E path = block
     [set_unit_status E (MaintenanceStatus ''Restoring backup''), server_stop E, restore_and_start E path]"

definition on_restore_backup :: "env \<Rightarrow> string option \<Rightarrow> unit op" where
  "on_restore_backup E backup_param =
     (if \<not> has_backup_relation E
      then event_fail (''Skipping backup restoration: relation '' @ RELATION_BACKUPS @ '' missing'')
      else bindM (initialized E) (\<lambda>ready.
        if \<not> ready then event_fail ''Skipping backup restoration: charm is not initialized''
        else if refreshing E then event_fail ''Skipping backup restoration: charm is refreshing''
        else if planned_units E > 1 then event_fail ''Skipping backup restoration: charm has more than one unit''
        else let backup_id = strip_slashes (strip (case backup_param of None \<Rightarrow> [] | Some s \<Rightarrow> s)) in
        if backup_id = [] then event_fail ''Skipping backup restoration: missing ID''
        else bindM (or_fail (bindM (storage E) (\<lambda>cfg. bindM (lift (bucket_path cfg)) (\<lambda>path.
            check_backup E (path @ ''/'' @ backup_id @ ''.md5'')))) [PyException]
            ''Failed to check for backup existence: '') (\<lambda>checked. case checked of None \<Rightarrow> ret ()
        | Some _ \<Rightarrow>
          bindM (manager_calculate_buffer_pool E) (\<lambda>buffer_pool.
          bindM (or_fail (seqM (set_unit_status E (MaintenanceStatus ''Downloading backup''))
              (bindM (download_backup E backup_id) (\<lambda>(_, path).
               seqM (prepare_backup E path buffer_pool) (ret path)))) [PyRuntimeError]
              ''Failed to download backup: '') (\<lambda>got. case got of None \<Rightarrow> ret ()
          | Some path \<Rightarrow> replace_data E path)))))"

section \<open>Temporary files do not outlive the call\<close>

text \<open>The names that \<open>NamedTemporaryFile\<close> may choose, and programs that at most remove files of these names.\<close>

definition temp_names :: "env \<Rightarrow> string set" where
  "temp_names E = {n. \<exists>tr. ans_str E tr (Sys MakeTemp) = Inr n}"

definition drops_only :: "env \<Rightarrow> 'a op \<Rightarrow> bool" where
  "drops_only E m \<longleftrightarrow> (\<forall>w. \<exists>N \<subseteq> temp_names E. files (snd (m w)) = files w |` (- N))"

lemma drops_only_keeps: "(\<And>F. keeps (\<lambda>w. files w = F) m) \<Longrightarrow> drops_only E m"
  unfolding drops_only_def
proof
  fix w assume k: "\<And>F. keeps (\<lambda>w. files w = F) m"
  have "files (snd (m w)) = files w" using keepsD [OF k refl surjective_pairing] .
  then show "\<exists>N \<subseteq> temp_names E. files (snd (m w)) = files w |` (- N)"
    by (intro exI [where x = "{}"]) (simp add: restrict_map_def)
qed

lemma drops_only_bindM:
  assumes "drops_only E m" "\<And>x. drops_only E (f x)"
  shows "drops_only E (bindM m f)"
  unfolding drops_only_def
proof
  fix w
  obtain r v where r: "m w = (r, v)" by force
  then obtain N where N: "N \<subseteq> temp_names E" "files v = files w |` (- N)"
    using assms(1) unfolding drops_only_def by (metis snd_conv)
  show "\<exists>N \<subseteq> temp_names E. files (snd (bindM m f w)) = files w |` (- N)"
  proof (cases r)
    case (Inl e)
    with r N show ?thesis by (auto simp: bindM_def)
  next
    case (Inr x)
    from assms(2) obtain M where "M \<subseteq> temp_names E" "files (snd (f x v)) = files v |` (- M)"
      unfolding drops_only_def by meson
    with r Inr N show ?thesis by (intro exI [where x = "N \<union> M"]) (auto simp: bindM_def)
  qed
qed

lemma drops_only_temporary_file:
  assumes wr: "\<And>tr p t. ans_unit E tr (Sys (WriteFile p t)) = Inr ()"
    and ul: "\<And>tr p. ans_unit E tr (Sys (UnlinkFile p)) = Inr ()"
    and body: "\<And>x. drops_only E (body x)"
  shows "drops_only E (temporary_file E contents body)"
proof (cases "falsy contents")
  case False
  show ?thesis unfolding drops_only_def
  proof
    fix w :: world
    let ?v = "\<lambda>p. w\<lparr>trace := trace w @ [Sys MakeTemp, Sys (WriteFile p (the contents))],
      files := (files w)(p \<mapsto> the contents)\<rparr>"
    show "\<exists>N \<subseteq> temp_names E. files (snd (temporary_file E contents body w)) = files w |` (- N)"
    proof (cases "ans_str E (trace w) (Sys MakeTemp)")
      case (Inl e)
      with False show ?thesis
        by (intro exI [where x = "{}"])
          (simp add: temporary_file_def make_temp_def bindM_def monad_simps restrict_map_def)
    next
      case (Inr p)
      obtain r u where r: "body (Some p) (?v p) = (r, u)" by force
      then obtain N where N: "N \<subseteq> temp_names E" "files u = files (?v p) |` (- N)"
        using body unfolding drops_only_def by (metis snd_conv)
      have "snd (temporary_file E contents body w) = u\<lparr>trace := trace u @ [Sys (UnlinkFile p)], files := (files u)(p := None)\<rparr>"
        using False Inr r
        by (simp add: temporary_file_def make_temp_def unlink_missing_ok_def write_text_def try_finally_def
            suppress_def try_except_def bindM_def seqM_def monad_simps wr ul)
      moreover have "p \<in> temp_names E" using Inr by (auto simp: temp_names_def)
      ultimately show ?thesis using N
        by (intro exI [where x = "insert p N"]) (auto simp: fun_eq_iff restrict_map_def)
    qed
  qed
qed (simp add: temporary_file_def body)

lemma keeps_storage [keeps]: "keeps I (storage E)"
  by (auto simp: storage_def intro: keeps split: sum.splits option.splits)

lemma keeps_build_client [keeps]:
  "(\<And>w es. I w \<Longrightarrow> I (w\<lparr>trace := es\<rparr>)) \<Longrightarrow> keeps I (build_backup_client E ca)"
  unfolding build_backup_client_def by (intro keeps)

text \<open>
  (C40) Uploading an object, checking for a backup and listing the backups leave no temporary file behind, whatever
  the storage answers: when files can be written and removed, and temporary files get names that do not exist,
  the files after the call are those before it.
\<close>

theorem no_temporary_file_left:
  assumes "\<And>tr p t. ans_unit E tr (Sys (WriteFile p t)) = Inr ()" "\<And>tr p. ans_unit E tr (Sys (UnlinkFile p)) = Inr ()"
    and "\<And>tr p. ans_str E tr (Sys MakeTemp) = Inr p \<Longrightarrow> files w p = None"
  shows "files (snd (upload_file E contents path w)) = files w \<and> files (snd (check_backup E path w)) = files w
    \<and> files (snd (list_backups E w)) = files w"
proof -
  have final: "files (snd (m w)) = files w" if "drops_only E m" for m :: "'x op"
  proof -
    from that obtain N where N: "N \<subseteq> temp_names E" "files (snd (m w)) = files w |` (- N)"
      unfolding drops_only_def by meson
    from N(1) assms(3) have "files w |` (- N) = files w"
      by (auto simp: temp_names_def fun_eq_iff restrict_map_def)
    with N(2) show ?thesis by simp
  qed
  note rules = drops_only_bindM drops_only_temporary_file assms(1,2)
  have k: "drops_only E (storage E)" "drops_only E (lift r)" for r :: "exn + string"
    by (rule drops_only_keeps; intro keeps)+
  have "drops_only E (upload_file E contents path)"
    unfolding upload_file_def by (intro rules k) (auto intro!: drops_only_keeps keeps)
  moreover have "drops_only E (check_backup E path)"
    unfolding check_backup_def by (intro rules k) (auto intro!: drops_only_keeps keeps)
  moreover have "drops_only E (list_backups E)"
    unfolding list_backups_def by (intro rules k) (auto intro!: drops_only_keeps keeps)
  ultimately show ?thesis by (simp add: final)
qed

text \<open>A storage with a CA chain, at which every upload fails.\<close>

definition backup_params :: "param dict" where
  "backup_params = [(''bucket'', ParamStr ''b''), (''access-key'', ParamStr ''a''), (''secret-key'', ParamStr ''s''),
     (''path'', ParamStr ''p''), (''tls-ca-chain'', ParamList [''ca''])]"

definition backup_env :: env where
  "backup_env = quiet_env\<lparr>storage_info := backup_params,
     ans_str := \<lambda>_ e. (case e of Sys MakeTemp \<Rightarrow> Inr ''/tmp/t'' | _ \<Rightarrow> Inr []),
     ans_unit := \<lambda>_ e. (case e of Sto (UploadObject _ _ _) \<Rightarrow> Inl (Exn [ClientErrorC, PyException] ''denied'') | _ \<Rightarrow> Inr ())\<rparr>"

theorem no_temporary_file_left_witness:
  "files (snd (upload_file backup_env ''x'' ''y'' quiet_world)) = files quiet_world \<and>
   files (snd (check_backup backup_env ''y'' quiet_world)) = files quiet_world \<and>
   files (snd (list_backups backup_env quiet_world)) = files quiet_world"
  by (rule no_temporary_file_left) (simp_all add: backup_env_def quiet_world_def)

section \<open>Isolation is undone\<close>

abbreviation hidden_event :: "env \<Rightarrow> bool \<Rightarrow> event" where
  "hidden_event E b \<equiv> Clu (client_host E) (UpdateInstance (client_cluster E) (client_host E) (client_port E) [(''tag:_hidden'', VBool b)])"

abbreviation offline_event :: "env \<Rightarrow> string \<Rightarrow> event" where
  "offline_event E v \<equiv> Sql (client_host E) (SetVariable Scope_GLOBAL ''offline_mode'' (VStr v))"

text \<open>
  (C26) When the instance could be isolated, the calls that make it accessible again are the last calls,
  whatever the isolated operation did.  An exception of the operation is dropped: the
  statements after it run as if it had succeeded.
\<close>

theorem isolation_undone:
  assumes "fetch_instances E (client_host E) w = (Inr instances, w1)" and "length instances \<noteq> 1"
    and "\<And>tr b. ans_unit E tr (hidden_event E b) = Inr ()" and "\<And>tr v. ans_unit E tr (offline_event E v) = Inr ()"
    and "body (w1\<lparr>trace := trace w1 @ [hidden_event E True, offline_event E ''ON'']\<rparr>) = (r, w2)"
    and "\<And>e. r = Inl e \<Longrightarrow> caught [PyException] e"
  shows "isolate_instance E body w = (Inr (case r of Inl e \<Rightarrow> True | Inr go \<Rightarrow> go),
     w2\<lparr>trace := trace w2 @ [offline_event E ''OFF'', hidden_event E False]\<rparr>)"
  using assms
  by (cases r) (simp_all add: isolate_instance_def set_instance_option_def update_variable_def set_variable_def
      try_else_def try_except_def bindM_def seqM_def monad_simps)

text \<open>A cluster of two whose isolated instance fails to upload the log of its backup.\<close>

definition two_env :: env where
  "two_env = backup_env\<lparr>ans_status := \<lambda>_ _. Inr \<lparr>cs_role = ''PRIMARY'', cs_state = ''OK'', cs_primary = ''h0:3306'',
     cs_topology = [(''mysql-0'', sample_instance ''ONLINE'' ''R/W''), (''mysql-1'', sample_instance ''ONLINE'' ''R/O'')]\<rparr>\<rparr>"

lemma two_answers:
  "ans_unit two_env tr (Clu h c) = Inr ()" "ans_unit two_env tr (Sql h q) = Inr ()"
  "client_host two_env = ''h0''" "client_cluster two_env = ''c''"
  "ans_status two_env tr e = Inr \<lparr>cs_role = ''PRIMARY'', cs_state = ''OK'', cs_primary = ''h0:3306'',
     cs_topology = [(''mysql-0'', sample_instance ''ONLINE'' ''R/W''), (''mysql-1'', sample_instance ''ONLINE'' ''R/O'')]\<rparr>"
  by (simp_all add: two_env_def backup_env_def quiet_env_def)

theorem isolation_undone_witness:
  "\<exists>w1. isolate_instance two_env (raise (value_error ''Filename'')) quiet_world = (Inr True, w1) \<and>
     trace w1 = [Clu ''h0'' (FetchClusterStatus ''c''), hidden_event two_env True, offline_event two_env ''ON'',
       offline_event two_env ''OFF'', hidden_event two_env False]"
proof -
  let ?is = "[(''mysql-0'', sample_instance ''ONLINE'' ''R/W''), (''mysql-1'', sample_instance ''ONLINE'' ''R/O'')]"
  let ?w1 = "quiet_world\<lparr>trace := [Clu ''h0'' (FetchClusterStatus ''c'')]\<rparr>"
  have f: "fetch_instances two_env (client_host two_env) quiet_world = (Inr ?is, ?w1)"
    by (simp add: fetch_instances_def fetch_cluster_status_def try_except_def try_else_def bindM_def monad_simps two_answers
        quiet_world_def)
  let ?b = "raise (value_error ''Filename'') :: bool op"
  have "isolate_instance two_env ?b quiet_world = (Inr (case Inl (value_error ''Filename'') of Inl e \<Rightarrow> True | Inr go \<Rightarrow> go),
      snd (isolate_instance two_env ?b quiet_world)) \<and>
    trace (snd (isolate_instance two_env ?b quiet_world)) = [Clu ''h0'' (FetchClusterStatus ''c''), hidden_event two_env True,
      offline_event two_env ''ON'', offline_event two_env ''OFF'', hidden_event two_env False]"
    using isolation_undone [OF f, of ?b] by (simp add: two_answers monad_simps)
  then show ?thesis by auto
qed

section \<open>What a restore destroys, and when\<close>

definition run_command :: "event \<Rightarrow> string list" where
  "run_command e = (case e of Sys (RunProcess _ _ c _) \<Rightarrow> c | Wkl (ContainerExec _ _ c _) \<Rightarrow> c | _ \<Rightarrow> [])"

definition wipes_data :: "env \<Rightarrow> event \<Rightarrow> bool" where
  "wipes_data E e \<longleftrightarrow> mysql_data (the_paths E) \<in> set (run_command e) \<and> ''-delete'' \<in> set (run_command e)"

definition prepares :: "event \<Rightarrow> bool" where
  "prepares e \<longleftrightarrow> ''--prepare'' \<in> set (run_command e)"

definition stops_server :: "event \<Rightarrow> bool" where
  "stops_server e \<longleftrightarrow> e = Wkl (SnapStop server_name) \<or> e = Wkl (ContainerStop server_name)"

definition succeeded :: "env \<Rightarrow> event list \<Rightarrow> event \<Rightarrow> bool" where
  "succeeded E tr e = (case e of
     Sys (RunProcess _ _ _ _) \<Rightarrow> (case ans_proc E tr e of Inr (code, _) \<Rightarrow> code = 0 | Inl _ \<Rightarrow> False)
   | Wkl (ContainerExec _ _ _ _) \<Rightarrow> (case ans_str E tr e of Inr _ \<Rightarrow> True | Inl _ \<Rightarrow> False)
   | _ \<Rightarrow> (case ans_unit E tr e of Inr _ \<Rightarrow> True | Inl _ \<Rightarrow> False))"

definition prepared :: "env \<Rightarrow> event list \<Rightarrow> event list \<Rightarrow> bool" where
  "prepared E base tr \<longleftrightarrow> (\<exists>a p b. tr = base @ a @ p # b \<and> prepares p \<and> succeeded E (base @ a) p)"

definition prepared_then_stopped :: "env \<Rightarrow> event list \<Rightarrow> event list \<Rightarrow> bool" where
  "prepared_then_stopped E base tr \<longleftrightarrow>
     (\<exists>a s b. tr = a @ s # b \<and> prepared E base a \<and> stops_server s \<and> succeeded E a s)"

lemma prepared_append: "prepared E base tr \<Longrightarrow> prepared E base (tr @ es)"
  unfolding prepared_def by (metis append.assoc append_Cons)

lemma prepared_then_stopped_append:
  "prepared_then_stopped E base tr \<Longrightarrow> prepared_then_stopped E base (tr @ es)"
  unfolding prepared_then_stopped_def by (metis append.assoc append_Cons)

lemma execute_sync_run:
  assumes "execute_sync E c environ w = (Inr out, v)"
  shows "\<exists>p. trace v = trace w @ [p] \<and> run_command p = c \<and> succeeded E (trace w) p"
proof (cases "substrate E")
  case K8S
  let ?p = "Wkl (ContainerExec (system_user E) (system_group E) c environ)"
  from K8S assms have "trace v = trace w @ [?p] \<and> succeeded E (trace w) ?p"
    by (auto simp: execute_sync_def container_execute_sync_def succeeded_def bindM_Inr_iff try_except_def
        monad_simps split: sum.splits if_splits)
  then show ?thesis by (intro exI [where x = ?p]) (simp add: run_command_def)
next
  case VM
  let ?p = "Sys (RunProcess (resolve_user E c) (resolve_group E c) c environ)"
  from VM assms have "trace v = trace w @ [?p] \<and> succeeded E (trace w) ?p"
    by (auto simp: execute_sync_def machine_execute_sync_def succeeded_def bindM_Inr_iff
        monad_simps split: sum.splits if_splits)
  then show ?thesis by (intro exI [where x = ?p]) (simp add: run_command_def)
qed

lemma prepare_run:
  assumes "prepare_backup E path pool w = (Inr out, v)"
  shows "\<exists>p. trace v = trace w @ [p] \<and> prepares p \<and> succeeded E (trace w) p"
  using execute_sync_run [OF assms [unfolded prepare_backup_def Let_def]] by (auto simp: prepares_def)

lemma succeeded_stop:
  "succeeded E tr (Wkl (SnapStop n)) \<longleftrightarrow> ans_unit E tr (Wkl (SnapStop n)) = Inr ()"
  "succeeded E tr (Wkl (ContainerStop n)) \<longleftrightarrow> ans_unit E tr (Wkl (ContainerStop n)) = Inr ()"
  by (simp_all add: succeeded_def split: sum.split)

lemma stop_run:
  assumes "server_stop E w = (Inr (), v)"
  shows "\<exists>b s. trace v = (trace w @ b) @ [s] \<and> stops_server s \<and> succeeded E (trace w @ b) s"
proof (cases "substrate E")
  case K8S
  with assms have "trace v = (trace w @ [hd (drop (length (trace w)) (trace v))]) @ [Wkl (ContainerStop server_name)] \<and>
      ans_unit E (trace w @ [hd (drop (length (trace w)) (trace v))]) (Wkl (ContainerStop server_name)) = Inr ()"
    by (auto simp: server_stop_def k8s_server_stop_def server_add_layer_def seqM_Inr_iff monad_simps)
  then show ?thesis by (metis stops_server_def succeeded_stop(2))
next
  case VM
  with assms have "trace v = (trace w @ [Wkl SnapPresent]) @ [Wkl (SnapStop server_name)] \<and>
      ans_unit E (trace w @ [Wkl SnapPresent]) (Wkl (SnapStop server_name)) = Inr ()"
    by (auto simp: server_stop_def vm_server_stop_def require_snap_def bindM_Inr_iff monad_simps split: if_splits)
  then show ?thesis by (metis stops_server_def succeeded_stop(1))
qed

text \<open>Before its last step the handler deletes nothing.\<close>

lemma emits_execute_sync:
  assumes "P (Sys (RunProcess (resolve_user E c) (resolve_group E c) c v))"
    "P (Wkl (ContainerExec (system_user E) (system_group E) c v))"
  shows "emits P (execute_sync E c v)"
  unfolding execute_sync_def container_execute_sync_def machine_execute_sync_def
  by (cases "substrate E"; simp; intro emits assms)

lemma emits_storage [emits]: "calls R (storage E)"
  by (auto simp: storage_def intro: emits split: sum.splits option.splits)

lemma emits_build_args [emits]: "calls R (build_backup_args cfg ca)" "calls R (build_backup_env cfg)"
  unfolding build_backup_args_def build_backup_env_def by (intro emits)+

lemma emits_or_fail [emits]: "calls R m \<Longrightarrow> calls R (or_fail m cs msg)"
  unfolding or_fail_def by (intro emits)

lemma emits_temporary [emits]:
  assumes "\<And>tr. R tr (Sys MakeTemp)" "\<And>tr p t. R tr (Sys (WriteFile p t))" "\<And>tr p. R tr (Sys (UnlinkFile p))"
  shows "(\<And>x. calls R (body x)) \<Longrightarrow> calls R (temporary_file E c body)"
  unfolding temporary_file_def make_temp_def unlink_missing_ok_def by (intro emits assms; simp)

lemma emits_backup_checks:
  assumes "\<And>c. P (Sto c)" "P (Sys MakeTemp)" "\<And>p t. P (Sys (WriteFile p t))" "\<And>p. P (Sys (UnlinkFile p))"
  shows "emits P (check_backup E path)"
  unfolding check_backup_def build_backup_client_def by (intro emits assms)

lemma emits_download:
  assumes "\<And>c. P (Sto c)" "\<And>c. run_command (Sys c) = [] \<Longrightarrow> P (Sys c)" "\<And>c. run_command (Wkl c) = [] \<Longrightarrow> P (Wkl c)"
  shows "emits P (download_backup E i)"
  unfolding download_backup_def create_temporary_ca_def create_temporary_dir_def secrets_choice_def get_cores_def
    container_get_cores_def get_container_cores_def get_node_cores_def get_container_limits_def node_name_def
    machine_get_cores_def execute_async_def container_execute_async_def machine_execute_async_def
  by (intro emits assms) (simp_all add: run_command_def)

lemma or_fail_Some:
  assumes "or_fail m cs msg w = (Inr (Some x), v)"
  shows "m w = (Inr x, v)"
  using assms
  by (cases "m w") (auto simp: or_fail_def try_else_def seqM_def bindM_def monad_simps split: sum.splits if_splits)

abbreviation fetch_and_prepare :: "env \<Rightarrow> string \<Rightarrow> int \<Rightarrow> string op" where
  "fetch_and_prepare E backup_id pool \<equiv> seqM (set_unit_status E (MaintenanceStatus ''Downloading backup''))
     (bindM (download_backup E backup_id) (\<lambda>(_, path). seqM (prepare_backup E path pool) (ret path)))"

lemma set_unit_status_trace: "trace (snd (set_unit_status E st w)) = trace w"
  by (simp add: set_unit_status_def monad_simps)

lemma fetch_and_prepare_run:
  assumes "fetch_and_prepare E i pool w = (Inr path, v)" and "trace w = base @ c"
  shows "prepared E base (trace v)"
proof -
  obtain w1 w2 out where s: "set_unit_status E (MaintenanceStatus ''Downloading backup'') w = (Inr (), w1)"
    and d: "download_backup E i w1 = (Inr (out, path), w2)" and p: "\<exists>o2. prepare_backup E path pool w2 = (Inr o2, v)"
    using assms(1) by (auto simp: seqM_Inr_iff bindM_Inr_iff monad_simps)
  have "emits (\<lambda>_. True) (download_backup E i)" by (rule emits_download) simp_all
  then obtain es where "trace w2 = trace w1 @ es" using d by (auto elim: emitsE)
  moreover have "trace w1 = trace w" using set_unit_status_trace s by (metis snd_conv)
  moreover obtain q where "trace v = trace w2 @ [q]" "prepares q" "succeeded E (trace w2) q"
    using p prepare_run by blast
  ultimately show ?thesis
    unfolding prepared_def using assms(2) by (intro exI [where x = "c @ es"] exI [where x = q] exI [where x = "[]"]) simp
qed

lemma emits_replace_tail: "emits (\<lambda>_. True) (reset_and_restore E path)"
  "emits (\<lambda>_. True) (backup_recreate_cluster E l)"
  unfolding reset_and_restore_def reset_data_dir_def reset_logs_dir_def restore_backup_def reset_temp_dir_def Let_def
    backup_recreate_cluster_def configure_instance_def recreate_cluster_def set_instance_config_def
  by (intro emits; simp)+

lemma replace_data_guarded:
  assumes "prepared E base (trace w)"
  shows "calls_at (\<lambda>tr e. wipes_data E e \<longrightarrow> prepared_then_stopped E base tr) (replace_data E path) w"
proof -
  let ?R = "\<lambda>tr e. wipes_data E e \<longrightarrow> prepared_then_stopped E base tr"
  have quiet: "emits (\<lambda>e. \<not> wipes_data E e) m \<Longrightarrow> calls_at ?R m v" for m :: "'x op" and v
    using calls_emits [of "\<lambda>e. \<not> wipes_data E e" m ?R] by (simp add: calls_iff_calls_at)
  have stop: "emits (\<lambda>e. \<not> wipes_data E e) (server_stop E)"
    unfolding server_stop_def k8s_server_stop_def vm_server_stop_def require_snap_def server_add_layer_def
    by (intro emits) (simp_all add: wipes_data_def run_command_def)
  have tail: "calls_at ?R m v" if "prepared_then_stopped E base (trace v)" "emits (\<lambda>_. True) m" for m :: "unit op" and v
    by (rule calls_at_history [where Q = "prepared_then_stopped E base"])
      (auto intro: that prepared_then_stopped_append)
  have rest: "emits (\<lambda>_. True) (restore_and_start E path)"
    unfolding restore_and_start_def by (intro emits emits_replace_tail; simp)
  show ?thesis
    unfolding replace_data_def block.simps seqM_def
  proof (rule calls_at_bindM [OF quiet])
    show "emits (\<lambda>e. \<not> wipes_data E e) (set_unit_status E (MaintenanceStatus ''Restoring backup''))" by (intro emits)
    fix x v assume "set_unit_status E (MaintenanceStatus ''Restoring backup'') w = (Inr x, v)"
    then have v: "trace v = trace w" using set_unit_status_trace by (metis snd_conv)
    show "calls_at ?R (bindM (server_stop E) (\<lambda>_. restore_and_start E path)) v"
    proof (rule calls_at_bindM [OF quiet [OF stop] tail [OF _ rest]])
      fix y v2 assume "server_stop E v = (Inr y, v2)"
      then obtain b c where "trace v2 = (trace v @ b) @ [c]" "stops_server c" "succeeded E (trace v @ b) c"
        using stop_run [of E v v2] by auto
      with v show "prepared_then_stopped E base (trace v2)"
        unfolding prepared_then_stopped_def using prepared_append [OF assms, of b] by fastforce
    qed
  qed
qed

lemma binary_not_delete: "''-delete'' \<noteq> binary (system_paths s) c"
  by (cases s) (simp_all add: system_paths_def container_paths_def machine_paths_def path_div_def Let_def)

lemma emits_before_restore:
  fixes E defines "P \<equiv> \<lambda>e. \<not> wipes_data E e"
  shows "emits P (initialized E)" "emits P (manager_calculate_buffer_pool E)"
    "emits P (or_fail (fetch_and_prepare E i n) cs m)"
    "emits P (or_fail (bindM (storage E) (\<lambda>cfg. bindM (lift (bucket_path cfg)) (\<lambda>path. check_backup E (path @ x)))) cs m)"
proof -
  have no_run: "run_command x = [] \<Longrightarrow> P x" for x by (simp add: P_def wipes_data_def)
  have prep: "emits P (prepare_backup E p n)" for p n
    unfolding prepare_backup_def Let_def
    by (rule emits_execute_sync) (simp_all add: P_def wipes_data_def run_command_def binary_not_delete)
  show "emits P (initialized E)"
    unfolding initialized_def server_running_def container_running_def snap_running_def
    by (intro emits no_run) (simp_all add: run_command_def)
  show "emits P (manager_calculate_buffer_pool E)"
    unfolding manager_calculate_buffer_pool_def get_memory_def machine_get_memory_def container_get_memory_def
      get_container_memory_def get_node_memory_def get_container_limits_def node_name_def
    by (intro emits no_run) (simp_all add: run_command_def)
  show "emits P (or_fail (fetch_and_prepare E i n) cs m)"
    by (intro emits emits_download prep no_run) (simp_all add: run_command_def)
  show "emits P (or_fail (bindM (storage E) (\<lambda>cfg. bindM (lift (bucket_path cfg)) (\<lambda>path. check_backup E (path @ x)))) cs m)"
    by (intro emits emits_backup_checks no_run) (simp_all add: run_command_def)
qed

lemma restore_quiet:
  assumes "emits (\<lambda>e. \<not> wipes_data E e) m"
  shows "calls_at (\<lambda>tr e. wipes_data E e \<longrightarrow> prepared_then_stopped E tr0 tr) m v"
    "m v = (x, v2) \<Longrightarrow> \<exists>es. trace v2 = trace v @ es"
proof -
  show "calls_at (\<lambda>tr e. wipes_data E e \<longrightarrow> prepared_then_stopped E tr0 tr) m v"
    using calls_emits [OF assms, of "\<lambda>tr e. wipes_data E e \<longrightarrow> prepared_then_stopped E tr0 tr"] by (simp add: calls_iff_calls_at)
  show "m v = (x, v2) \<Longrightarrow> \<exists>es. trace v2 = trace v @ es" using assms by (auto elim: emitsE)
qed

lemma restore_checked_guarded:
  assumes "\<exists>c. trace v = tr0 @ c"
  shows "calls_at (\<lambda>tr e. wipes_data E e \<longrightarrow> prepared_then_stopped E tr0 tr)
    (bindM (or_fail (bindM (storage E) (\<lambda>cfg. bindM (lift (bucket_path cfg)) (\<lambda>path. check_backup E (path @ x)))) cs m)
      (\<lambda>c. case c of None \<Rightarrow> ret () | Some _ \<Rightarrow> bindM (manager_calculate_buffer_pool E) (\<lambda>n. bindM (or_fail (fetch_and_prepare E i n) cs' m')
          (\<lambda>got. case got of None \<Rightarrow> ret () | Some path \<Rightarrow> replace_data E path)))) v"
proof -
  let ?R = "\<lambda>tr e. wipes_data E e \<longrightarrow> prepared_then_stopped E tr0 tr"
  note pool = emits_before_restore(2) [of E] and fetch = emits_before_restore(3) [of E] and check = emits_before_restore(4) [of E]
  have final: "calls_at ?R (bindM (or_fail (fetch_and_prepare E i n) cs' m') (\<lambda>got. case got of None \<Rightarrow> ret ()
      | Some path \<Rightarrow> replace_data E path)) v1" if "\<exists>c. trace v1 = tr0 @ c" for n v1
  proof (rule calls_at_bindM [OF restore_quiet(1) [OF fetch]])
    fix got v2 assume "or_fail (fetch_and_prepare E i n) cs' m' v1 = (Inr got, v2)"
    with that show "calls_at ?R (case got of None \<Rightarrow> ret () | Some path \<Rightarrow> replace_data E path) v2"
      by (cases got) (auto intro: restore_quiet(1) [OF emits_basic(1)] replace_data_guarded fetch_and_prepare_run dest!: or_fail_Some)
  qed
  have pooled: "calls_at ?R (bindM (manager_calculate_buffer_pool E) (\<lambda>n. bindM (or_fail (fetch_and_prepare E i n) cs' m')
      (\<lambda>got. case got of None \<Rightarrow> ret () | Some path \<Rightarrow> replace_data E path))) v1" if "\<exists>c. trace v1 = tr0 @ c" for v1
    by (rule calls_at_bindM [OF restore_quiet(1) [OF pool] final]) (use that restore_quiet(2) [OF pool] in fastforce)
  show ?thesis
  proof (rule calls_at_bindM [OF restore_quiet(1) [OF check]])
    fix c v2 assume "or_fail (bindM (storage E) (\<lambda>cfg. bindM (lift (bucket_path cfg)) (\<lambda>path.
      check_backup E (path @ x)))) cs m v = (Inr c, v2)"
    then have "\<exists>c. trace v2 = tr0 @ c" using assms restore_quiet(2) [OF check] by fastforce
    then show "calls_at ?R (case c of None \<Rightarrow> ret () | Some _ \<Rightarrow>
        bindM (manager_calculate_buffer_pool E) (\<lambda>n. bindM (or_fail (fetch_and_prepare E i n) cs' m')
          (\<lambda>got. case got of None \<Rightarrow> ret () | Some path \<Rightarrow> replace_data E path))) v2"
      by (cases c) (auto intro: restore_quiet(1) [OF emits_basic(1)] pooled)
  qed
qed

text \<open>
  (C5) A restore deletes data only after the backup was downloaded and prepared and, after that, the server was
  stopped, both with success.
\<close>

theorem restore_deletes_after_prepare:
  assumes "on_restore_backup E backup_id w = (r, w')" and "trace w' = trace w @ xs @ e # ys" and "wipes_data E e"
  shows "prepared_then_stopped E (trace w) (trace w @ xs)"
proof -
  let ?R = "\<lambda>tr e. wipes_data E e \<longrightarrow> prepared_then_stopped E (trace w) tr"
  note init = emits_before_restore(1) [of E]
  have fails: "calls_at ?R (event_fail m) v" for m v by (rule restore_quiet(1)) (intro emits)
  have "calls_at ?R (on_restore_backup E backup_id) w"
  proof (cases "has_backup_relation E")
    case True
    show ?thesis
      unfolding on_restore_backup_def Let_def if_not_P [OF not_not [THEN iffD2, OF True]]
      by (rule calls_at_bindM [OF restore_quiet(1) [OF init]])
        (auto intro!: fails restore_checked_guarded dest: restore_quiet(2) [OF init])
  qed (simp add: on_restore_backup_def fails)
  then obtain es where "trace w' = trace w @ es" "chain ?R (trace w) es" using assms(1) by (auto simp: calls_at_def)
  with assms(2,3) show ?thesis by simp
qed

text \<open>
  A single unit on which a backup is found, downloaded and prepared; the removal of the
  data directory then fails.
\<close>

definition restore_env :: env where
  "restore_env = quiet_env\<lparr>planned_units := 1,
     storage_info := [(''bucket'', ParamStr ''b''), (''access-key'', ParamStr ''a''), (''secret-key'', ParamStr ''s''), (''path'', ParamStr ''p'')],
     ans_strs := \<lambda>_ _. Inr [''c''],
     ans_proc := \<lambda>_ e. Inr (if ''-delete'' \<in> set (run_command e) then 1 else 0, [])\<rparr>"

definition restore_world :: world where
  "restore_world = sample_world\<lparr>files := [''/proc/meminfo'' \<mapsto> ''MemTotal: 9 kB'', ''/proc/cpuinfo'' \<mapsto> ''processor'']\<rparr>"

definition restore_cfg :: "param dict" where
  "restore_cfg = [(''bucket'', ParamStr ''b''), (''access-key'', ParamStr ''a''), (''secret-key'', ParamStr ''s''), (''path'', ParamStr ''p''),
     (''endpoint'', ParamStr ''https://s3.amazonaws.com''), (''region'', ParamStr []), (''s3-uri-style'', ParamStr ''auto''),
     (''s3-api-version'', ParamStr ''auto'')]"

lemma restore_answers:
  "substrate restore_env = VM" "has_peers restore_env" "has_backup_relation restore_env" "refresh restore_env = Some False"
  "planned_units restore_env = 1" "client_host restore_env = ''h0''" "ans_unit restore_env tr e = Inr ()"
  "ans_bool restore_env tr e = Inr True" "ans_nat restore_env tr e = Inr 0" "ans_str restore_env tr e = Inr []"
  "ans_strs restore_env tr e = Inr [''c'']" "construct_endpoint restore_env r = None"
  "ans_proc restore_env tr e = Inr (if ''-delete'' \<in> set (run_command e) then 1 else 0, [])"
  by (simp_all add: restore_env_def quiet_env_def)

lemma restore_storage: "storage restore_env = ret restore_cfg"
proof -
  have "build_config [(''bucket'', ParamStr ''b''), (''access-key'', ParamStr ''a''), (''secret-key'', ParamStr ''s''),
    (''path'', ParamStr ''p'')] = Inr restore_cfg" by code_simp
  then show ?thesis by (simp add: storage_def configure_def restore_env_def quiet_env_def)
qed

lemma restore_reads:
  "config_str restore_cfg ''bucket'' = Inr ''b''" "config_str restore_cfg ''path'' = Inr ''p''"
  "config_str restore_cfg ''region'' = Inr []" "config_str restore_cfg ''access-key'' = Inr ''a''"
  "config_str restore_cfg ''secret-key'' = Inr ''s''" "config_str restore_cfg ''s3-uri-style'' = Inr ''auto''"
  "config_str restore_cfg ''s3-api-version'' = Inr ''auto''"
  "config_str restore_cfg ''endpoint'' = Inr ''https://s3.amazonaws.com''" "ca_chain restore_cfg = None"
  "strip_slashes (strip ''t'') = ''t''" "app_get_cluster_name (app_bag restore_world) = Some ''c''"
  "meminfo_bytes ''MemTotal: 9 kB'' = Inr 9216" "files restore_world ''/proc/meminfo'' = Some ''MemTotal: 9 kB''"
  "files restore_world ''/proc/cpuinfo'' = Some ''processor''" "trace restore_world = []"
  by code_simp+

lemmas restore_run = on_restore_backup_def initialized_def server_running_def snap_running_def inst_fetch_cluster_labels_def
  cluster_name_def read_app_def refreshing_def check_backup_def temporary_file_def build_backup_client_def build_endpoint_def
  bucket_path_def bucket_name_def manager_calculate_buffer_pool_def get_memory_def machine_get_memory_def read_text_def
  download_backup_def get_cores_def machine_get_cores_def create_temporary_ca_def create_temporary_dir_def secrets_choice_def
  build_backup_args_def build_backup_env_def execute_async_def machine_execute_async_def prepare_backup_def execute_sync_def
  machine_execute_sync_def replace_data_def restore_and_start_def reset_and_restore_def reset_data_dir_def run_silent_def
  server_stop_def vm_server_stop_def require_snap_def set_unit_status_def or_fail_def outcome_def falsy_iff
  try_except_def try_else_def bindM_def seqM_def monad_simps

lemma four: "[0 ..< 4] = [0, 1, 2, Suc 2]"
  by (simp add: upt_rec)

lemma restore_wipes:
  "\<exists>u g. Sys (RunProcess u g [''find'', mysql_data (the_paths restore_env), ''-mindepth'', ''1'', ''-not'', ''-path'',
     path_div (mysql_data (the_paths restore_env)) state_dir_prefix @ ''_*'', ''-delete''] [])
   \<in> set (trace (snd (on_restore_backup restore_env (Some ''t'') restore_world)))"
  by (simp add: restore_run Let_def four run_command_def binary_not_delete restore_answers restore_storage restore_reads)

theorem restore_deletes_after_prepare_witness:
  "\<exists>xs e ys. trace (snd (on_restore_backup restore_env (Some ''t'') restore_world)) = xs @ e # ys \<and>
     wipes_data restore_env e \<and> prepared_then_stopped restore_env [] xs"
proof -
  let ?r = "on_restore_backup restore_env (Some ''t'') restore_world"
  obtain u g where "Sys (RunProcess u g [''find'', mysql_data (the_paths restore_env), ''-mindepth'', ''1'', ''-not'', ''-path'',
     path_div (mysql_data (the_paths restore_env)) state_dir_prefix @ ''_*'', ''-delete''] []) \<in> set (trace (snd ?r))"
    (is "?e \<in> _") using restore_wipes by blast
  then obtain xs ys where t: "trace (snd ?r) = trace restore_world @ xs @ ?e # ys"
    unfolding restore_reads append_Nil by (meson split_list)
  have w: "wipes_data restore_env ?e" by (simp add: wipes_data_def run_command_def)
  from restore_deletes_after_prepare [OF surjective_pairing t w] t w show ?thesis
    unfolding restore_reads append_Nil by blast
qed

text \<open>
  A restore that fails after the server was stopped leaves it stopped: the handler fails the action and
  makes no further call, neither to start the server nor to set another status.
\<close>

theorem failed_restore_leaves_server_stopped:
  assumes "\<not> refreshing E" and "server_stop E (w\<lparr>unit_status := MaintenanceStatus ''Restoring backup''\<rparr>) = (Inr (), w1)"
    and "reset_and_restore E path w1 = (Inl e, w2)" and "caught [PyRuntimeError] e"
  shows "replace_data E path w = (Inr (), w2\<lparr>action_failure := Some (''Failed to restore backup: '' @ message e)\<rparr>)"
  using assms
  by (simp add: replace_data_def restore_and_start_def set_unit_status_def or_fail_def try_else_def bindM_def seqM_def monad_simps)

theorem failed_restore_leaves_server_stopped_witness:
  "\<exists>w1. replace_data restore_env ''/t'' restore_world = (Inr (), w1) \<and>
     action_failure w1 = Some ''Failed to restore backup: Failed to execute command: 1'' \<and>
     last (trace w1) \<noteq> Wkl (SnapStart server_name)"
proof -
  let ?w = "restore_world\<lparr>unit_status := MaintenanceStatus ''Restoring backup''\<rparr>"
  let ?w1 = "snd (server_stop restore_env ?w)"
  let ?w2 = "snd (reset_and_restore restore_env ''/t'' ?w1)"
  have a: "\<not> refreshing restore_env" by (simp add: refreshing_def restore_answers)
  have b: "server_stop restore_env ?w = (Inr (), ?w1)" by (simp add: restore_run restore_answers)
  have one: "str_int 1 = ''1''" by code_simp
  have c: "reset_and_restore restore_env ''/t'' ?w1 = (Inl (command_failed (str_int 1)), ?w2)"
    and d: "last (trace ?w2) \<noteq> Wkl (SnapStart server_name)"
    by (simp_all add: restore_run run_command_def restore_answers)
  from failed_restore_leaves_server_stopped [OF a b c] d show ?thesis
    by (simp add: command_failed_def runtime_error_def caught_def one)
qed

end
