(* ===== verification/PrivateKey.thy ===== *)
theory PrivateKey
  imports PyString
begin

text \<open>
  The private key that an administrator hands over in a secret: \<open>BaseTLSManager.parse_private_key\<close> of
  \<open>managers/managers/tls.py\<close>.  The text is the base64 form of the key.  Bytes are natural numbers below 256, and the
  decoded text is a list of Unicode code points.  \<open>valid\<close> stands for \<open>PrivateKey.is_valid\<close> of the certificates library.
\<close>

section \<open>Base64\<close>

text \<open>
  \<open>b64decode\<close> of the standard library in its default mode: characters outside of the alphabet are skipped, and the
  first complete padding ends the text.  \<open>quad\<close> counts the characters of the current group of four, \<open>left\<close> holds the
  bits not yet written and \<open>pads\<close> the padding seen since the last character of the alphabet.
\<close>

definition b64_alphabet :: string where
  "b64_alphabet = ''ABCDEFGHIJKLMNOPQRSTUVWXYZabcdefghijklmnopqrstuvwxyz0123456789+/''"

definition b64_char :: "nat \<Rightarrow> char" where
  "b64_char v = b64_alphabet ! v"

definition b64_value :: "char \<Rightarrow> nat option" where
  "b64_value c =
     (if is_ascii_upper c then Some (of_char c - 65)
      else if is_ascii_lower c then Some (of_char c - 71)
      else if is_digit c then Some (of_char c + 4)
      else if c = CHR ''+'' then Some 62
      else if c = CHR ''/'' then Some 63 else None)"

fun cons_ok :: "'a \<Rightarrow> exn + 'a list \<Rightarrow> exn + 'a list" where
  "cons_ok x (Inl e) = Inl e"
| "cons_ok x (Inr xs) = Inr (x # xs)"

fun a2b_base64 :: "string \<Rightarrow> nat \<Rightarrow> nat \<Rightarrow> nat \<Rightarrow> exn + nat list" where
  "a2b_base64 [] quad left pads = (if quad = 0 then Inr [] else Inl (value_error ''Incorrect padding''))"
| "a2b_base64 (c # s) quad left pads =
     (if c = CHR ''='' then
        (if 2 \<le> quad \<and> 4 \<le> quad + Suc pads then Inr []
         else a2b_base64 s quad left (if 2 \<le> quad then Suc pads else pads))
      else (case b64_value c of
        None \<Rightarrow> a2b_base64 s quad left pads
      | Some v \<Rightarrow>
          (if quad = 0 then a2b_base64 s 1 v 0
           else if quad = 1 then cons_ok (4 * left + v div 16) (a2b_base64 s 2 (v mod 16) 0)
           else if quad = 2 then cons_ok (16 * left + v div 4) (a2b_base64 s 3 (v mod 4) 0)
           else cons_ok (64 * left + v) (a2b_base64 s 0 0 0))))"

definition b64decode :: "string \<Rightarrow> exn + nat list" where
  "b64decode s =
     (if \<exists>c \<in> set s. (128 :: nat) \<le> of_char c
      then Inl (value_error ''string argument should contain only ASCII characters'')
      else a2b_base64 s 0 0 0)"

section \<open>UTF-8\<close>

definition continuation :: "nat \<Rightarrow> bool" where
  "continuation b \<longleftrightarrow> 128 \<le> b \<and> b < 192"

definition scalar :: "nat \<Rightarrow> bool" where
  "scalar c \<longleftrightarrow> c < 55296 \<or> 57344 \<le> c \<and> c < 1114112"

definition utf8_error :: exn where
  "utf8_error = value_error ''utf-8 codec cannot decode bytes''"

fun utf8_decode :: "nat list \<Rightarrow> exn + nat list" where
  "utf8_decode [] = Inr []"
| "utf8_decode (b # bs) =
     (if b < 128 then cons_ok b (utf8_decode bs)
      else if 192 \<le> b \<and> b < 224 then (case bs of
        b1 # r \<Rightarrow> (let c = 64 * (b - 192) + (b1 - 128) in
          if continuation b1 \<and> 128 \<le> c then cons_ok c (utf8_decode r) else Inl utf8_error)
      | _ \<Rightarrow> Inl utf8_error)
      else if 224 \<le> b \<and> b < 240 then (case bs of
        b1 # b2 # r \<Rightarrow> (let c = 4096 * (b - 224) + 64 * (b1 - 128) + (b2 - 128) in
          if continuation b1 \<and> continuation b2 \<and> 2048 \<le> c \<and> scalar c then cons_ok c (utf8_decode r)
          else Inl utf8_error)
      | _ \<Rightarrow> Inl utf8_error)
      else if 240 \<le> b \<and> b < 248 then (case bs of
        b1 # b2 # b3 # r \<Rightarrow> (let c = 262144 * (b - 240) + 4096 * (b1 - 128) + 64 * (b2 - 128) + (b3 - 128) in
          if continuation b1 \<and> continuation b2 \<and> continuation b3 \<and> 65536 \<le> c \<and> scalar c
          then cons_ok c (utf8_decode r) else Inl utf8_error)
      | _ \<Rightarrow> Inl utf8_error)
      else Inl utf8_error)"

section \<open>The key\<close>

text \<open>\<open>str.strip()\<close> removes every character that Unicode counts as white space.\<close>

definition unicode_space :: "nat \<Rightarrow> bool" where
  "unicode_space c \<longleftrightarrow> 9 \<le> c \<and> c \<le> 13 \<or> 28 \<le> c \<and> c \<le> 32 \<or> 8192 \<le> c \<and> c \<le> 8202
     \<or> c \<in> {133, 160, 5760, 8232, 8233, 8239, 8287, 12288}"

text \<open>\<open>re.match\<close> of \<open>(-+(BEGIN|END) [A-Z ]+-+)\<close> at the start of the text: no step of it can be continued in two ways.\<close>

definition private_key_pattern :: "string \<Rightarrow> bool" where
  "private_key_pattern s =
     (let a = dropWhile (\<lambda>c. c = CHR ''-'') s;
          b = (if starts_with ''BEGIN '' a then drop 6 a else if starts_with ''END '' a then drop 4 a else []);
          d = dropWhile (\<lambda>c. is_ascii_upper c \<or> c = CHR '' '') b
      in a \<noteq> s \<and> d \<noteq> b \<and> d \<noteq> [] \<and> hd d = CHR ''-'')"

definition parse_private_key :: "(nat list \<Rightarrow> bool) \<Rightarrow> string \<Rightarrow> nat list option" where
  "parse_private_key valid private_key =
     (if private_key_pattern private_key then None
      else (case b64decode private_key of
        Inl _ \<Rightarrow> None
      | Inr bytes \<Rightarrow> (case utf8_decode bytes of
          Inl _ \<Rightarrow> None
        | Inr decoded \<Rightarrow>
            (let raw_key = strip_chars unicode_space decoded in
             if valid raw_key then Some raw_key else None))))"

section \<open>Encoders to compare with\<close>

fun b64encode :: "nat list \<Rightarrow> string" where
  "b64encode (a # b # c # r) =
     b64_char (a div 4) # b64_char (16 * (a mod 4) + b div 16) # b64_char (4 * (b mod 16) + c div 64) # b64_char (c mod 64)
       # b64encode r"
| "b64encode [a, b] = [b64_char (a div 4), b64_char (16 * (a mod 4) + b div 16), b64_char (4 * (b mod 16)), CHR ''='']"
| "b64encode [a] = [b64_char (a div 4), b64_char (16 * (a mod 4)), CHR ''='', CHR ''='']"
| "b64encode [] = []"

definition utf8_char :: "nat \<Rightarrow> nat list" where
  "utf8_char c =
     (if c < 128 then [c]
      else if c < 2048 then [192 + c div 64, 128 + c mod 64]
      else if c < 65536 then [224 + c div 4096, 128 + c div 64 mod 64, 128 + c mod 64]
      else [240 + c div 262144, 128 + c div 4096 mod 64, 128 + c div 64 mod 64, 128 + c mod 64])"

definition utf8_encode :: "nat list \<Rightarrow> nat list" where
  "utf8_encode cs = concat (map utf8_char cs)"

section \<open>Codecs\<close>

text \<open>What the two decoders promise of their encoders, and what follows for one applied after the other.\<close>

locale codec =
  fixes enc :: "'a list \<Rightarrow> 'b list" and dec :: "'b list \<Rightarrow> exn + 'a list" and ok :: "'a \<Rightarrow> bool"
  assumes dec_enc: "list_all ok xs \<Longrightarrow> dec (enc xs) = Inr xs"
begin

lemma enc_inj: "list_all ok xs \<Longrightarrow> list_all ok ys \<Longrightarrow> enc xs = enc ys \<Longrightarrow> xs = ys"
  by (metis dec_enc sum.inject(2))

end

locale codec_chain = inner: codec enc1 dec1 ok1 + outer: codec enc2 dec2 ok2
  for enc1 :: "'a list \<Rightarrow> 'b list" and dec1 ok1 and enc2 :: "'b list \<Rightarrow> 'c list" and dec2 ok2 +
  assumes enc_ok: "list_all ok1 xs \<Longrightarrow> list_all ok2 (enc1 xs)"
begin

lemma dec_twice: "list_all ok1 xs \<Longrightarrow> dec2 (enc2 (enc1 xs)) = Inr (enc1 xs) \<and> dec1 (enc1 xs) = Inr xs"
  by (simp add: inner.dec_enc outer.dec_enc enc_ok)

end

lemma b64_char_props:
  assumes "v < 64"
  shows "b64_value (b64_char v) = Some v" "b64_char v \<noteq> CHR ''=''" "of_char (b64_char v) < (128 :: nat)"
proof -
  have "\<forall>v \<in> set [0..<64]. b64_value (b64_char v) = Some v \<and> b64_char v \<noteq> CHR ''='' \<and> of_char (b64_char v) < (128 :: nat)"
    by code_simp
  with assms show "b64_value (b64_char v) = Some v" "b64_char v \<noteq> CHR ''=''" "of_char (b64_char v) < (128 :: nat)"
    by simp_all
qed

lemma byte_parts:
  assumes "(b :: nat) < 256"
  shows "b div 4 < 64" "b div 16 < 16" "b div 64 < 4" "b div 16 div 16 = 0" "b div 64 div 4 = 0"
    "b div 16 mod 16 = b div 16" "b div 64 mod 4 = b div 64"
  using assms by (simp_all add: less_mult_imp_div_less)

lemma sextet_bounds:
  fixes a b :: nat
  assumes "b < 256"
  shows "16 * (a mod 4) + b div 16 < 64" "4 * (a mod 16) + b div 64 < 64" "4 * (a mod 16) < 64" "16 * (a mod 4) < 64"
proof -
  have "a mod 4 < 4" "a mod 16 < 16" by simp_all
  then show "16 * (a mod 4) + b div 16 < 64" "4 * (a mod 16) + b div 64 < 64" "4 * (a mod 16) < 64" "16 * (a mod 4) < 64"
    using byte_parts(2,3) [OF assms] by linarith+
qed

lemma a2b_b64encode: "list_all (\<lambda>b. b < 256) bs \<Longrightarrow> a2b_base64 (b64encode bs) 0 l p = Inr bs"
proof (induction bs arbitrary: l p rule: b64encode.induct)
  case (1 a b c r)
  then show ?case by (simp add: b64_char_props byte_parts sextet_bounds)
qed (simp_all add: b64_char_props byte_parts sextet_bounds)

lemma b64encode_ascii: "list_all (\<lambda>b. b < 256) bs \<Longrightarrow> c \<in> set (b64encode bs) \<Longrightarrow> of_char c < (128 :: nat)"
  by (induction bs rule: b64encode.induct) (auto simp: b64_char_props byte_parts sextet_bounds)

interpretation base64: codec b64encode b64decode "\<lambda>b. b < 256"
proof
  fix bs :: "nat list"
  assume "list_all (\<lambda>b. b < 256) bs"
  then show "b64decode (b64encode bs) = Inr bs"
    using b64encode_ascii by (force simp: b64decode_def a2b_b64encode)
qed

lemma utf8_decode_char: "scalar c \<Longrightarrow> utf8_decode (utf8_char c @ bs) = cons_ok c (utf8_decode bs)"
proof -
  have 1: "64 * (c div 64) + c mod 64 = c" by simp
  have "64 * (c div 4096) + c div 64 mod 64 = c div 64" "64 * (c div 262144) + c div 4096 mod 64 = c div 4096"
    using mult_div_mod_eq [of 64 "c div 64"] mult_div_mod_eq [of 64 "c div 4096"] by (simp_all add: div_mult2_eq [symmetric])
  with 1 have 2: "4096 * (c div 4096) + 64 * (c div 64 mod 64) + c mod 64 = c"
    and 3: "262144 * (c div 262144) + 4096 * (c div 4096 mod 64) + 64 * (c div 64 mod 64) + c mod 64 = c"
    by linarith+
  assume "scalar c"
  then show ?thesis
    using 1 2 3
    by (auto simp: utf8_char_def scalar_def continuation_def Let_def less_mult_imp_div_less)
qed

interpretation utf8: codec utf8_encode utf8_decode scalar
proof
  fix cs :: "nat list"
  assume "list_all scalar cs"
  then show "utf8_decode (utf8_encode cs) = Inr cs"
    by (induction cs) (simp_all add: utf8_encode_def utf8_decode_char)
qed

lemma utf8_char_bytes: "scalar c \<Longrightarrow> list_all (\<lambda>b. b < 256) (utf8_char c)"
  by (auto simp: utf8_char_def scalar_def less_mult_imp_div_less)

interpretation key_text: codec_chain utf8_encode utf8_decode scalar b64encode b64decode "\<lambda>b. b < 256"
proof
  fix cs :: "nat list"
  assume "list_all scalar cs"
  then show "list_all (\<lambda>b. b < 256) (utf8_encode cs)"
    by (induction cs) (simp_all add: utf8_encode_def utf8_char_bytes)
qed

section \<open>What the parser accepts\<close>

definition b64_kept :: "char \<Rightarrow> bool" where
  "b64_kept c \<longleftrightarrow> c = CHR ''='' \<or> b64_value c \<noteq> None"

lemma a2b_filter: "a2b_base64 (filter b64_kept s) quad left pads = a2b_base64 s quad left pads"
  by (induction s arbitrary: quad left pads) (auto simp: b64_kept_def split: option.splits)

lemma strip_chars_inner:
  assumes "list_all p pre" "list_all p post" "key \<noteq> []" "\<not> p (hd key)" "\<not> p (last key)"
  shows "strip_chars p (pre @ key @ post) = key"
proof -
  have "dropWhile p (pre @ key @ post) = key @ post"
    using assms by (cases key) (auto simp: list_all_iff)
  moreover have "dropWhile p (rev post @ rev key) = rev key"
    using assms by (subst dropWhile_append2) (auto simp: list_all_iff hd_rev intro!: dropWhile_idem_hd)
  ultimately show ?thesis by (simp add: strip_chars_def)
qed

text \<open>
  (C29) The base64 form of a key is read back as exactly this key, without the white space that may surround it and however the
  base64 text is broken into lines, or it is refused when the certificates library finds the key not valid.  Only this form is
  accepted: a key that is given as PEM text, not encoded, is refused (\<open>pem_refused\<close> below).
\<close>

theorem private_key_round_trip:
  assumes "\<forall>c \<in> set s. of_char c < (128 :: nat)" "\<not> private_key_pattern s"
    and "filter b64_kept s = b64encode (utf8_encode (pre @ key @ post))" "list_all scalar (pre @ key @ post)"
    and "list_all unicode_space pre" "list_all unicode_space post"
    and "key \<noteq> []" "\<not> unicode_space (hd key)" "\<not> unicode_space (last key)"
  shows "parse_private_key valid s = (if valid key then Some key else None)"
proof -
  have "b64decode s = b64decode (b64encode (utf8_encode (pre @ key @ post)))"
  proof -
    have "\<forall>c \<in> set (filter b64_kept s). of_char c < (128 :: nat)" using assms(1) by simp
    then show ?thesis
      using assms(1) a2b_filter [of s 0 0 0] unfolding assms(3) [symmetric] b64decode_def by (auto simp: not_le)
  qed
  with key_text.dec_twice [OF assms(4)] assms(2) strip_chars_inner [OF assms(5-9)] show ?thesis
    by (simp add: parse_private_key_def)
qed

theorem private_key_round_trip_witness:
  "parse_private_key (\<lambda>k. length k = 2) (''IGvD'' @ [CHR 0x0A] @ ''qQo='') = Some [107, 233]"
proof -
  have "parse_private_key (\<lambda>k. length k = 2) (''IGvD'' @ [CHR 0x0A] @ ''qQo='') =
      (if length [107, 233 :: nat] = 2 then Some [107, 233] else None)"
  proof (rule private_key_round_trip [where pre = "[32]" and post = "[10]"])
    show "filter b64_kept (''IGvD'' @ [CHR 0x0A] @ ''qQo='') = b64encode (utf8_encode ([32] @ [107, 233] @ [10]))"
      by code_simp
  qed (simp_all add: private_key_pattern_def scalar_def unicode_space_def)
  then show ?thesis by simp
qed

text \<open>A key in its PEM form, not encoded, is refused.\<close>

lemma pem_refused:
  assumes "label \<noteq> []" "list_all (\<lambda>c. is_ascii_upper c \<or> c = CHR '' '') label"
  shows "parse_private_key valid (replicate (Suc n) (CHR ''-'') @ ''BEGIN '' @ label @ CHR ''-'' # rest) = None"
proof -
  have "dropWhile (\<lambda>c. is_ascii_upper c \<or> c = CHR '' '') (label @ CHR ''-'' # rest) = CHR ''-'' # rest"
    using assms(2) by (subst dropWhile_append2) (auto simp: list_all_iff is_ascii_upper_def)
  moreover have "\<not> is_ascii_upper (CHR ''-'')" by (simp add: is_ascii_upper_def)
  moreover have "dropWhile (\<lambda>c. c = CHR ''-'') (replicate (Suc n) (CHR ''-'') @ ''BEGIN '' @ label @ CHR ''-'' # rest) =
      ''BEGIN '' @ label @ CHR ''-'' # rest"
    by (subst dropWhile_append2) auto
  ultimately show ?thesis
    using assms(1) by (auto simp: parse_private_key_def private_key_pattern_def Let_def starts_with_def)
qed

text \<open>The decoder of UTF-8 accepts nothing but what the encoder writes: no overlong form, no surrogate.\<close>

lemma pack:
  fixes w x y z :: nat
  assumes "z < 64" and c2: "c2 = 64 * x + z"
  shows "c2 div 64 = x" "c2 mod 64 = z"
  using assms by simp_all

lemma utf8_char_packed:
  fixes w x y z :: nat
  assumes "y < 64" "z < 64"
  shows "128 \<le> 64 * x + z \<Longrightarrow> x < 32 \<Longrightarrow> utf8_char (64 * x + z) = [192 + x, 128 + z]"
    and "2048 \<le> 4096 * x + 64 * y + z \<Longrightarrow> x < 16 \<Longrightarrow> utf8_char (4096 * x + 64 * y + z) = [224 + x, 128 + y, 128 + z]"
    and "65536 \<le> 262144 * w + 4096 * x + 64 * y + z \<Longrightarrow> x < 64 \<Longrightarrow>
      utf8_char (262144 * w + 4096 * x + 64 * y + z) = [240 + w, 128 + x, 128 + y, 128 + z]"
proof -
  assume "128 \<le> 64 * x + z" "x < 32"
  with assms pack [OF assms(2) refl, of x] show "utf8_char (64 * x + z) = [192 + x, 128 + z]"
    by (simp add: utf8_char_def)
next
  let ?c = "4096 * x + 64 * y + z"
  assume "2048 \<le> ?c" "x < 16"
  have c: "?c = 64 * (64 * x + y) + z" by simp
  have "?c div 4096 = ?c div 64 div 64" using div_mult2_eq [of ?c 64 64] by simp
  with \<open>2048 \<le> ?c\<close> \<open>x < 16\<close> assms pack [OF assms(2) c] pack [OF assms(1) refl, of x]
  show "utf8_char ?c = [224 + x, 128 + y, 128 + z]"
    unfolding utf8_char_def by simp
next
  let ?c = "262144 * w + 4096 * x + 64 * y + z"
  assume "65536 \<le> ?c" "x < 64"
  have c: "?c = 64 * (64 * (64 * w + x) + y) + z" by simp
  have d: "?c div 4096 = ?c div 64 div 64" "?c div 262144 = ?c div 64 div 64 div 64"
    using div_mult2_eq [of ?c 64 64] div_mult2_eq [of ?c 4096 64] by simp_all
  from \<open>65536 \<le> ?c\<close> \<open>x < 64\<close> assms show "utf8_char ?c = [240 + w, 128 + x, 128 + y, 128 + z]"
    unfolding utf8_char_def d pack [OF assms(2) c] pack [OF assms(1) refl] pack [OF \<open>x < 64\<close> refl] by simp
qed

lemma offsetE: "(n :: nat) \<le> b \<Longrightarrow> b < m \<Longrightarrow> (\<And>x. b = n + x \<Longrightarrow> x < m - n \<Longrightarrow> P) \<Longrightarrow> P"
  by (metis le_add_diff_inverse diff_less_mono)

lemma continuationE:
  assumes "continuation b" obtains z where "b = 128 + z" "z < 64"
  using assms by (auto simp: continuation_def elim: offsetE [of 128 b 192])

lemma cons_ok_Inr: "cons_ok c x = Inr cs \<longleftrightarrow> (\<exists>cs'. cs = c # cs' \<and> x = Inr cs')"
  by (cases x) auto

lemma utf8_decode_lead:
  assumes "utf8_decode (b # bs) = Inr cs"
  obtains c r cs' where "cs = c # cs'" "b # bs = utf8_char c @ r" "utf8_decode r = Inr cs'"
proof -
  note d = assms [unfolded utf8_decode.simps(2)]
  consider "b < 128" | "192 \<le> b" "b < 224" | "224 \<le> b" "b < 240" | "240 \<le> b" "b < 248"
    using d by (auto split: if_splits)
  then show thesis
  proof cases
    case 1
    with d that [of b "tl cs" bs] show ?thesis by (auto simp: cons_ok_Inr utf8_char_def)
  next
    case 2
    with d obtain b1 r cs' where "bs = b1 # r" "continuation b1" "128 \<le> 64 * (b - 192) + (b1 - 128)"
        "cs = (64 * (b - 192) + (b1 - 128)) # cs'" "utf8_decode r = Inr cs'"
      by (auto simp: Let_def cons_ok_Inr split: list.splits if_splits)
    with 2 show ?thesis
      by (elim offsetE [of 192] continuationE) (auto intro!: that simp: utf8_char_packed(1) [of 0])
  next
    case 3
    with d obtain b1 b2 r cs' where "bs = b1 # b2 # r" "continuation b1" "continuation b2"
        "2048 \<le> 4096 * (b - 224) + 64 * (b1 - 128) + (b2 - 128)"
        "cs = (4096 * (b - 224) + 64 * (b1 - 128) + (b2 - 128)) # cs'" "utf8_decode r = Inr cs'"
      by (auto simp: Let_def cons_ok_Inr split: list.splits if_splits)
    with 3 show ?thesis
      by (elim offsetE [of 224] continuationE) (auto intro!: that simp: utf8_char_packed(2))
  next
    case 4
    with d obtain b1 b2 b3 r cs' where "bs = b1 # b2 # b3 # r" "continuation b1" "continuation b2" "continuation b3"
        "65536 \<le> 262144 * (b - 240) + 4096 * (b1 - 128) + 64 * (b2 - 128) + (b3 - 128)"
        "cs = (262144 * (b - 240) + 4096 * (b1 - 128) + 64 * (b2 - 128) + (b3 - 128)) # cs'" "utf8_decode r = Inr cs'"
      by (auto simp: Let_def cons_ok_Inr split: list.splits if_splits)
    with 4 show ?thesis
      by (elim offsetE [of 240] continuationE) (auto intro!: that simp: utf8_char_packed(3))
  qed
qed

lemma utf8_decode_sound: "utf8_decode bs = Inr cs \<Longrightarrow> utf8_encode cs = bs"
proof (induction cs arbitrary: bs)
  case Nil
  then show ?case by (cases bs) (auto simp: utf8_encode_def simp del: utf8_decode.simps(2) elim: utf8_decode_lead)
next
  case (Cons c cs)
  then obtain b bs' where "bs = b # bs'" by (cases bs) auto
  with Cons show ?case by (auto simp: utf8_encode_def simp del: utf8_decode.simps(2) elim!: utf8_decode_lead)
qed

text \<open>An accepted key is one that the library finds valid, and it is the text of the secret without the space around it.\<close>

lemma parse_private_key_sound:
  assumes "parse_private_key valid s = Some key"
  shows "valid key \<and> \<not> private_key_pattern s \<and>
    (\<exists>cs. b64decode s = Inr (utf8_encode cs) \<and> key = strip_chars unicode_space cs)"
  using assms by (auto simp: parse_private_key_def Let_def split: if_splits sum.splits dest!: utf8_decode_sound)

end
