(* ===== verification/Tls.thy ===== *)
theory Tls
  imports RollingOps PrivateKey
begin

text \<open>
  TLS: \<open>events/handlers/tls.py\<close> and \<open>managers/managers/tls.py\<close>, for the connections of clients and for those between
  the members of the group.  The certificates come from the TLS library, the environment; the private key of the
  configuration is parsed as in \<open>PrivateKey\<close>.
\<close>

section \<open>The managers\<close>

datatype tls_type = Client_TLS | Peer_TLS

fun tls_type_name :: "tls_type \<Rightarrow> string" where
  "tls_type_name Client_TLS = ''client''"
| "tls_type_name Peer_TLS = ''peer''"

definition ca_file_name :: string where "ca_file_name = ''custom-ca.pem''"
definition cert_file_name :: string where "cert_file_name = ''custom-server-cert.pem''"
definition private_key_file_name :: string where "private_key_file_name = ''custom-server-key.pem''"

definition get_private_key_uri :: "env \<Rightarrow> tls_type \<Rightarrow> string option op" where
  "get_private_key_uri E t = read_app E (app_get_private_key_uri (tls_type_name t))"

definition set_private_key_uri :: "env \<Rightarrow> tls_type \<Rightarrow> string option \<Rightarrow> unit op" where
  "set_private_key_uri E t uri = write_app E (app_set_private_key_uri (tls_type_name t) uri)"

definition delete_private_key_uri :: "env \<Rightarrow> tls_type \<Rightarrow> unit op" where
  "delete_private_key_uri E t = write_app E (app_delete_private_key_uri (tls_type_name t))"

definition tls_path :: "env \<Rightarrow> tls_type \<Rightarrow> string \<Rightarrow> string" where
  "tls_path E t name = path_div (mysql_data (the_paths E)) (tls_type_name t @ ''_'' @ name)"

definition save_tls_file :: "env \<Rightarrow> tls_type \<Rightarrow> string \<Rightarrow> string option \<Rightarrow> string option op" where
  "save_tls_file E t name contents =
     (if falsy contents then ret None
      else seqM (write_text E (tls_path E t name) (the contents)) (ret (Some (tls_path E t name))))"

definition save_private_key :: "env \<Rightarrow> tls_type \<Rightarrow> string option \<Rightarrow> string option op" where
  "save_private_key E t = save_tls_file E t private_key_file_name"

definition save_ca :: "env \<Rightarrow> tls_type \<Rightarrow> string option \<Rightarrow> string option op" where
  "save_ca E t = save_tls_file E t ca_file_name"

definition save_cert :: "env \<Rightarrow> tls_type \<Rightarrow> string option \<Rightarrow> string option op" where
  "save_cert E t = save_tls_file E t cert_file_name"

definition client_tls_enable :: "env \<Rightarrow> string \<Rightarrow> string \<Rightarrow> string \<Rightarrow> unit op" where
  "client_tls_enable E ca_path cert_path key_path = block
     [set_client_tls E (client_host E) ca_path cert_path key_path True, kill_client_sessions E (client_host E)]"

definition client_tls_disable :: "env \<Rightarrow> unit op" where
  "client_tls_disable E = block
     [set_client_tls E (client_host E) [] [] [] False, kill_client_sessions E (client_host E)]"

definition peer_tls_enable :: "env \<Rightarrow> string \<Rightarrow> string \<Rightarrow> string \<Rightarrow> unit op" where
  "peer_tls_enable E ca_path cert_path key_path = set_group_tls E (client_host E) ca_path cert_path key_path True"

definition peer_tls_disable :: "env \<Rightarrow> unit op" where
  "peer_tls_disable E = set_group_tls E (client_host E) [] [] [] False"

definition tls_enable :: "env \<Rightarrow> tls_type \<Rightarrow> string \<Rightarrow> string \<Rightarrow> string \<Rightarrow> unit op" where
  "tls_enable E t = (case t of Client_TLS \<Rightarrow> client_tls_enable E | Peer_TLS \<Rightarrow> peer_tls_enable E)"

definition tls_disable :: "env \<Rightarrow> tls_type \<Rightarrow> unit op" where
  "tls_disable E t = (case t of Client_TLS \<Rightarrow> client_tls_disable E | Peer_TLS \<Rightarrow> peer_tls_disable E)"

section \<open>The handlers\<close>

definition get_tls_data :: "env \<Rightarrow> (string option \<times> string option \<times> string option) op" where
  "get_tls_data E = bindM (ask (ans_certs E) (Juju GetAssignedCertificates)) (\<lambda>(certs, private_key).
     ret (case certs of [] \<Rightarrow> (None, None, private_key) | (ca, cert) # _ \<Rightarrow> (Some ca, Some cert, private_key)))"

definition save_tls_data :: "env \<Rightarrow> tls_type \<Rightarrow> string option \<Rightarrow> string option \<Rightarrow> string option \<Rightarrow>
    (string option \<times> string option \<times> string option) op" where
  "save_tls_data E t ca cert key =
     bindM (save_ca E t ca) (\<lambda>ca_path. bindM (save_cert E t cert) (\<lambda>cert_path.
     bindM (save_private_key E t key) (\<lambda>key_path. ret (ca_path, cert_path, key_path))))"

definition base_on_certificate_available :: "env \<Rightarrow> tls_type \<Rightarrow> unit op" where
  "base_on_certificate_available E t =
     bindM (server_running E) (\<lambda>running.
       if \<not> running then defer_event
       else seqM (set_unit_status E (MaintenanceStatus ''Enabling TLS''))
         (bindM (get_tls_data E) (\<lambda>(ca, cert, key).
           try_else (save_tls_data E t ca cert key) [PebbleErrorC] (\<lambda>_. defer_event)
             (\<lambda>(ca_path, cert_path, key_path).
               try_else (tls_enable E t (str_opt ca_path) (str_opt cert_path) (str_opt key_path)) [PyRuntimeError]
                 (\<lambda>_. set_unit_status E (BlockedStatus ''Failed to enable TLS''))
                 (\<lambda>_. bindM (build_unit_status E) (set_unit_status E))))))"

definition on_certificate_available :: "env \<Rightarrow> tls_type \<Rightarrow> unit op" where
  "on_certificate_available E t = (case t of
     Client_TLS \<Rightarrow> base_on_certificate_available E t
   | Peer_TLS \<Rightarrow> seqM (base_on_certificate_available E t) (act E (Juju (RequestLock cluster_callback))))"

definition tls_on_relation_broken :: "env \<Rightarrow> tls_type \<Rightarrow> unit op" where
  "tls_on_relation_broken E t =
     bindM (server_running E) (\<lambda>running.
       if \<not> running then defer_event
       else seqM (set_unit_status E (MaintenanceStatus ''Disabling TLS''))
         (try_else (tls_disable E t) [PyRuntimeError]
           (\<lambda>_. set_unit_status E (BlockedStatus ''Failed to disable TLS''))
           (\<lambda>_. seqM (if is_leader E then delete_private_key_uri E t else ret ())
             (bindM (build_unit_status E) (set_unit_status E)))))"

definition private_key_option :: "env \<Rightarrow> tls_type \<Rightarrow> string option" where
  "private_key_option E t = (case t of
     Client_TLS \<Rightarrow> cfg_tls_client_private_key (config E) | Peer_TLS \<Rightarrow> cfg_tls_peer_private_key (config E))"

definition client_on_config_changed :: "env \<Rightarrow> unit op" where
  "client_on_config_changed E =
     (let new_uri = cfg_tls_client_private_key (config E) in
      bindM (get_private_key_uri E Client_TLS) (\<lambda>old_uri.
       if new_uri = old_uri then ret ()
       else if refreshing E then defer_event
       else seqM (act E (Juju EmitRefreshCertificates))
         (if is_leader E then set_private_key_uri E Client_TLS new_uri else ret ())))"

definition peer_on_config_changed :: "env \<Rightarrow> unit op" where
  "peer_on_config_changed E =
     (let new_uri = cfg_tls_peer_private_key (config E) in
      bindM (get_private_key_uri E Peer_TLS) (\<lambda>old_uri.
       if new_uri = old_uri then ret ()
       else if refreshing E then defer_event
       else seqM (act E (Juju EmitRefreshCertificates))
         (if is_leader E then set_private_key_uri E Peer_TLS new_uri else ret ())))"

definition tls_on_config_changed :: "env \<Rightarrow> tls_type \<Rightarrow> unit op" where
  "tls_on_config_changed E t = (case t of
     Client_TLS \<Rightarrow> client_on_config_changed E | Peer_TLS \<Rightarrow> peer_on_config_changed E)"

text \<open>Both constructors of the handlers read the key of the configuration and hand it over to the library.\<close>

definition client_parse_private_key :: "(nat list \<Rightarrow> bool) \<Rightarrow> env \<Rightarrow> nat list option op" where
  "client_parse_private_key valid E =
     (if falsy (cfg_tls_client_private_key (config E)) then ret None
      else try_else (secret_get_value (cfg_tls_client_private_key (config E)) None ''private-key'')
        [PyValueError] (\<lambda>_. ret None) (\<lambda>private_key. ret (parse_private_key valid private_key)))"

definition peer_parse_private_key :: "(nat list \<Rightarrow> bool) \<Rightarrow> env \<Rightarrow> nat list option op" where
  "peer_parse_private_key valid E =
     (if falsy (cfg_tls_peer_private_key (config E)) then ret None
      else try_else (secret_get_value (cfg_tls_peer_private_key (config E)) None ''private-key'')
        [PyValueError] (\<lambda>_. ret None) (\<lambda>private_key. ret (parse_private_key valid private_key)))"

definition tls_parse_private_key :: "(nat list \<Rightarrow> bool) \<Rightarrow> env \<Rightarrow> tls_type \<Rightarrow> nat list option op" where
  "tls_parse_private_key valid E t = (case t of
     Client_TLS \<Rightarrow> client_parse_private_key valid E | Peer_TLS \<Rightarrow> peer_parse_private_key valid E)"

lemma tls_on_config_changed_eq:
  "tls_on_config_changed E t =
     bindM (get_private_key_uri E t) (\<lambda>old_uri.
       if private_key_option E t = old_uri then ret ()
       else if refreshing E then defer_event
       else seqM (act E (Juju EmitRefreshCertificates))
         (if is_leader E then set_private_key_uri E t (private_key_option E t) else ret ()))"
  unfolding tls_on_config_changed_def client_on_config_changed_def peer_on_config_changed_def private_key_option_def Let_def
  by (induction t) (simp_all only: tls_type.case)

lemma tls_parse_private_key_eq:
  "tls_parse_private_key valid E t =
     (if falsy (private_key_option E t) then ret None
      else try_else (secret_get_value (private_key_option E t) None ''private-key'')
        [PyValueError] (\<lambda>_. ret None) (\<lambda>private_key. ret (parse_private_key valid private_key)))"
  by (induction t) (simp_all add: tls_parse_private_key_def client_parse_private_key_def peer_parse_private_key_def
      private_key_option_def)

section \<open>What a manager promises\<close>

text \<open>
  Enabling TLS tells the server the three paths and touches no file.  \<open>ca_var\<close>, \<open>cert_var\<close> and \<open>key_var\<close> are the
  variables of the server that name the files.
\<close>

definition told :: "env \<Rightarrow> string \<Rightarrow> string \<Rightarrow> event list \<Rightarrow> bool" where
  "told E var path es \<longleftrightarrow> Sql (client_host E) (SetVariable Scope_PERSIST var (VStr path)) \<in> set es"

locale tls_manager =
  fixes E :: env and enable :: "string \<Rightarrow> string \<Rightarrow> string \<Rightarrow> unit op" and ca_var cert_var key_var :: string
  assumes enable_files: "keeps (\<lambda>w. files w = F) (enable ca cert key)"
    and enable_told: "enable ca cert key w = (Inr (), w') \<Longrightarrow>
      \<exists>es. trace w' = trace w @ es \<and> told E ca_var ca es \<and> told E cert_var cert es \<and> told E key_var key es"
begin

lemma enabled:
  assumes "save_tls_data E t (Some ca) (Some cert) (Some key) w = (Inr (a, b, c), w1)" "ca \<noteq> []" "cert \<noteq> []" "key \<noteq> []"
    and "enable (str_opt a) (str_opt b) (str_opt c) w1 = (Inr (), w2)"
  shows "files w2 (tls_path E t ca_file_name) = Some ca \<and> files w2 (tls_path E t cert_file_name) = Some cert \<and>
    files w2 (tls_path E t private_key_file_name) = Some key \<and>
    (\<exists>es. trace w2 = trace w1 @ es \<and> told E ca_var (tls_path E t ca_file_name) es \<and>
      told E cert_var (tls_path E t cert_file_name) es \<and> told E key_var (tls_path E t private_key_file_name) es)"
proof -
  have d: "tls_path E t ca_file_name \<noteq> tls_path E t cert_file_name" "tls_path E t ca_file_name \<noteq> tls_path E t private_key_file_name"
    "tls_path E t cert_file_name \<noteq> tls_path E t private_key_file_name"
    by (auto simp: tls_path_def path_div_def ca_file_name_def cert_file_name_def private_key_file_name_def)
  from assms(1-4) have s: "a = Some (tls_path E t ca_file_name)" "b = Some (tls_path E t cert_file_name)"
      "c = Some (tls_path E t private_key_file_name)"
    and f: "files w1 (tls_path E t ca_file_name) = Some ca" "files w1 (tls_path E t cert_file_name) = Some cert"
      "files w1 (tls_path E t private_key_file_name) = Some key"
    using d d [THEN not_sym]
    by (auto simp: save_tls_data_def save_ca_def save_cert_def save_private_key_def save_tls_file_def falsy_iff write_text_def
        bindM_Inr_iff seqM_Inr_iff monad_simps)
  have "files w2 = files w1" using keepsD [OF enable_files refl assms(5)] .
  with f s enable_told [OF assms(5)] show ?thesis by (simp add: str_opt_def)
qed

end

lemmas tls_run = client_tls_enable_def peer_tls_enable_def set_client_tls_def set_group_tls_def set_variable_def
  kill_client_sessions_def told_def Let_def bindM_Inr_iff seqM_Inr_iff monad_simps

interpretation client_tls: tls_manager E "client_tls_enable E" "''ssl_ca''" "''ssl_cert''" "''ssl_key''" for E
proof
  show "keeps (\<lambda>w. files w = F) (client_tls_enable E ca cert key)" for F ca cert key
    unfolding client_tls_enable_def set_client_tls_def set_variable_def kill_client_sessions_def by (intro keeps) simp_all
qed (auto simp: tls_run)

interpretation peer_tls: tls_manager E "peer_tls_enable E" "''group_replication_recovery_ssl_ca''"
  "''group_replication_recovery_ssl_cert''" "''group_replication_recovery_ssl_key''" for E
proof
  show "keeps (\<lambda>w. files w = F) (peer_tls_enable E ca cert key)" for F ca cert key
    unfolding peer_tls_enable_def set_group_tls_def set_variable_def by (intro keeps) simp_all
qed (auto simp: tls_run)

definition tls_variables :: "tls_type \<Rightarrow> string \<times> string \<times> string" where
  "tls_variables t = (case t of Client_TLS \<Rightarrow> (''ssl_ca'', ''ssl_cert'', ''ssl_key'')
   | Peer_TLS \<Rightarrow> (''group_replication_recovery_ssl_ca'', ''group_replication_recovery_ssl_cert'',
       ''group_replication_recovery_ssl_key''))"

text \<open>
  (C28) When TLS was enabled, with the certificate and the key that the provider assigned, the server was told three paths
  under which exactly this CA, certificate and key are stored, for the connections of clients and for those of the
  group.
\<close>

theorem tls_enabled_with_saved_files:
  assumes "save_tls_data E t (Some ca) (Some cert) (Some key) w = (Inr (a, b, c), w1)" and "ca \<noteq> []" "cert \<noteq> []" "key \<noteq> []"
    and "tls_enable E t (str_opt a) (str_opt b) (str_opt c) w1 = (Inr (), w2)"
  shows "\<exists>es. trace w2 = trace w1 @ es \<and> (case tls_variables t of (ca_var, cert_var, key_var) \<Rightarrow>
      \<exists>p q r. told E ca_var p es \<and> files w2 p = Some ca \<and> told E cert_var q es \<and> files w2 q = Some cert \<and>
        told E key_var r es \<and> files w2 r = Some key)"
proof (cases t)
  case Client_TLS
  from client_tls.enabled [OF assms(1-4)] assms(5) Client_TLS show ?thesis
    unfolding tls_variables_def tls_enable_def by fastforce
next
  case Peer_TLS
  from peer_tls.enabled [OF assms(1-4)] assms(5) Peer_TLS show ?thesis
    unfolding tls_variables_def tls_enable_def by fastforce
qed

lemma quiet_tls_data:
  "save_tls_data quiet_env Client_TLS (Some ''ca'') (Some ''cert'') (Some ''key'') quiet_world =
     (Inr (Some (tls_path quiet_env Client_TLS ca_file_name), Some (tls_path quiet_env Client_TLS cert_file_name),
        Some (tls_path quiet_env Client_TLS private_key_file_name)),
      snd (save_tls_data quiet_env Client_TLS (Some ''ca'') (Some ''cert'') (Some ''key'') quiet_world))"
  by (simp add: save_tls_data_def save_ca_def save_cert_def save_private_key_def save_tls_file_def falsy_iff write_text_def
      bindM_def seqM_def monad_simps quiet_env_def)

theorem tls_enabled_with_saved_files_witness:
  "\<exists>p (w2 :: world). told quiet_env ''ssl_key'' p (trace w2) \<and> files w2 p = Some ''key'' \<and>
     w2 = snd (tls_enable quiet_env Client_TLS (tls_path quiet_env Client_TLS ca_file_name) (tls_path quiet_env Client_TLS cert_file_name)
       (tls_path quiet_env Client_TLS private_key_file_name)
       (snd (save_tls_data quiet_env Client_TLS (Some ''ca'') (Some ''cert'') (Some ''key'') quiet_world)))"
proof -
  let ?w1 = "snd (save_tls_data quiet_env Client_TLS (Some ''ca'') (Some ''cert'') (Some ''key'') quiet_world)"
  let ?p = "\<lambda>n. str_opt (Some (tls_path quiet_env Client_TLS n))"
  let ?r = "tls_enable quiet_env Client_TLS (?p ca_file_name) (?p cert_file_name) (?p private_key_file_name) ?w1"
  have "?r = (Inr (), snd ?r)"
    by (simp add: tls_enable_def client_tls_enable_def set_client_tls_def set_variable_def kill_client_sessions_def Let_def
        bindM_def seqM_def monad_simps quiet_env_def)
  then have "\<exists>es. trace (snd ?r) = trace ?w1 @ es \<and> (case tls_variables Client_TLS of (ca_var, cert_var, key_var) \<Rightarrow>
      \<exists>p q r. told quiet_env ca_var p es \<and> files (snd ?r) p = Some ''ca'' \<and> told quiet_env cert_var q es \<and>
        files (snd ?r) q = Some ''cert'' \<and> told quiet_env key_var r es \<and> files (snd ?r) r = Some ''key'')"
    by (intro tls_enabled_with_saved_files [OF quiet_tls_data]) simp_all
  then obtain es r where "trace (snd ?r) = trace ?w1 @ es" "told quiet_env ''ssl_key'' r es" "files (snd ?r) r = Some ''key''"
    unfolding tls_variables_def tls_type.case prod.case by blast
  then have "told quiet_env ''ssl_key'' r (trace (snd ?r)) \<and> files (snd ?r) r = Some ''key''" by (simp add: told_def)
  then show ?thesis unfolding str_opt_def option.case by blast
qed

text \<open>
  (C37) Removing the private key from the configuration never settles: the leader stores the word \<open>None\<close> as the new key, which
  differs from the absent option, so every further change of the configuration asks for new certificates again.
\<close>

theorem unset_private_key_never_settles:
  assumes "private_key_option E t = None" and "is_leader E" "\<not> refreshing E" "has_peers E"
    and "\<And>tr. ans_unit E tr (Juju EmitRefreshCertificates) = Inr ()"
    and "app_get_private_key_uri (tls_type_name t) (app_bag w) \<noteq> None"
  shows "tls_on_config_changed E t w = (Inr (), w\<lparr>trace := trace w @ [Juju EmitRefreshCertificates],
      app_bag := (app_bag w)(build_secret_uri_key (tls_type_name t) \<mapsto> ''None'')\<rparr>) \<and>
    app_get_private_key_uri (tls_type_name t) (app_bag (snd (tls_on_config_changed E t w))) = Some ''None''"
  using assms
  by (auto simp: tls_on_config_changed_eq get_private_key_uri_def set_private_key_uri_def read_app_def write_app_def
      app_set_private_key_uri_def app_get_private_key_uri_def str_opt_def bindM_def seqM_def monad_simps)

theorem unset_private_key_never_settles_witness:
  "\<exists>w1 w2. tls_on_config_changed quiet_env Client_TLS (quiet_world\<lparr>app_bag := [''client-private-key'' \<mapsto> ''secret:k'']\<rparr>) = (Inr (), w1)
     \<and> trace w1 = [Juju EmitRefreshCertificates]
     \<and> tls_on_config_changed quiet_env Client_TLS w1 = (Inr (), w2)
     \<and> trace w2 = [Juju EmitRefreshCertificates, Juju EmitRefreshCertificates]"
proof -
  have e: "private_key_option quiet_env Client_TLS = None" "is_leader quiet_env" "\<not> refreshing quiet_env" "has_peers quiet_env"
    "ans_unit quiet_env tr (Juju EmitRefreshCertificates) = Inr ()" for tr
    by (simp_all add: private_key_option_def refreshing_def quiet_env_def quiet_config_def)
  let ?w = "quiet_world\<lparr>app_bag := [''client-private-key'' \<mapsto> ''secret:k'']\<rparr>"
  have "app_get_private_key_uri (tls_type_name Client_TLS) (app_bag ?w) \<noteq> None"
    by (simp add: app_get_private_key_uri_def get_text_def build_secret_uri_key_def)
  note 1 = unset_private_key_never_settles [OF e this]
  have "app_get_private_key_uri (tls_type_name Client_TLS) (app_bag (snd (tls_on_config_changed quiet_env Client_TLS ?w))) \<noteq> None"
    using conjunct2 [OF 1] by (metis option.distinct(1))
  note 2 = unset_private_key_never_settles [OF e this]
  from 1 2 show ?thesis by (simp add: quiet_world_def)
qed

text \<open>
  Whatever the configuration and the secrets are, the key is read without an exception and without a call, and the
  state is not touched: a broken key is the same as no key.  A key comes out only when the secret of the option has one.
\<close>

lemma tls_parse_private_key_total:
  "\<exists>k. tls_parse_private_key valid E t w = (Inr k, w) \<and>
     (\<forall>key. k = Some key \<longrightarrow> (\<exists>uri c s. private_key_option E t = Some uri \<and> secrets w uri = Some c \<and>
        c ''private-key'' = Some s \<and> parse_private_key valid s = Some key))"
proof (cases "falsy (private_key_option E t)")
  case True
  then show ?thesis by (simp add: tls_parse_private_key_eq monad_simps)
next
  case False
  then obtain uri where u: "private_key_option E t = Some uri" "uri \<noteq> []" by (rule not_falsyE)
  show ?thesis
  proof (cases "secrets w uri")
    case None
    with u show ?thesis
      by (auto simp: tls_parse_private_key_eq secret_get_value_def get_secret_def try_else_def bindM_def monad_simps falsy_iff)
  next
    case (Some c)
    with u show ?thesis
      by (cases "falsy (c ''private-key'')")
        (auto simp: tls_parse_private_key_eq secret_get_value_def get_secret_def try_else_def bindM_def monad_simps falsy_iff)
  qed
qed

text \<open>
  Without an assigned certificate the server is told the path \<open>None\<close>: the saving step writes nothing and its answers
  are turned into text.
\<close>

lemma tls_enabled_without_certificate:
  assumes "ans_certs E (trace w) (Juju GetAssignedCertificates) = Inr ([], None)"
  shows "get_tls_data E w = (Inr (None, None, None), w\<lparr>trace := trace w @ [Juju GetAssignedCertificates]\<rparr>)"
    "save_tls_data E t None None None v = (Inr (None, None, None), v)" "str_opt None = ''None''"
  using assms
  by (simp_all add: get_tls_data_def save_tls_data_def save_ca_def save_cert_def save_private_key_def save_tls_file_def
      falsy_iff str_opt_def bindM_def monad_simps)

end
