(* ===== verification/OperatorServices.thy ===== *)
theory OperatorServices
  imports Charm
begin

text \<open>
  The background processes of the operator (\<open>services/\<close>): each is a Python process that the operator starts and whose id
  it keeps in the databag of its unit, and each runs an endless loop that dispatches events to the operator.  The
  loops are modelled by their first \<open>n\<close> turns.
\<close>

section \<open>Start and stop\<close>

datatype operator_service = AddressResolutionService | LogrotateService | SelfHealingService

fun service_name :: "operator_service \<Rightarrow> string" where
  "service_name AddressResolutionService = ''IP address''"
| "service_name LogrotateService = ''log-rotate''"
| "service_name SelfHealingService = ''self-healing''"

definition get_process_id :: "env \<Rightarrow> operator_service \<Rightarrow> int option op" where
  "get_process_id E s = bindM (read_unit E (unit_name E) (case s of
     AddressResolutionService \<Rightarrow> get_address_service_pid | LogrotateService \<Rightarrow> get_logrotate_service_pid
   | SelfHealingService \<Rightarrow> get_healing_service_pid)) lift"

definition set_process_id :: "env \<Rightarrow> operator_service \<Rightarrow> int \<Rightarrow> unit op" where
  "set_process_id E s pid = write_unit E (case s of
     AddressResolutionService \<Rightarrow> set_address_service_pid pid | LogrotateService \<Rightarrow> set_logrotate_service_pid pid
   | SelfHealingService \<Rightarrow> set_healing_service_pid pid)"

definition delete_process_id :: "env \<Rightarrow> operator_service \<Rightarrow> unit op" where
  "delete_process_id E s = write_unit E (case s of
     AddressResolutionService \<Rightarrow> delete_address_service_pid | LogrotateService \<Rightarrow> delete_logrotate_service_pid
   | SelfHealingService \<Rightarrow> delete_healing_service_pid)"

text \<open>\<open>if not process_id\<close>: no id, or zero.\<close>

definition no_process :: "int option \<Rightarrow> bool" where
  "no_process pid \<longleftrightarrow> pid = None \<or> pid = Some 0"

definition service_running :: "env \<Rightarrow> int option op \<Rightarrow> bool op" where
  "service_running E get_pid =
     bindM get_pid (\<lambda>process_id.
       if no_process process_id then ret False
       else try_else (act E (Sys (ProcessCheck (the process_id)))) [CalledProcessErrorC] (\<lambda>_. ret False) (\<lambda>_. ret True))"

definition service_start :: "env \<Rightarrow> int option op \<Rightarrow> (int \<Rightarrow> unit op) \<Rightarrow> string \<Rightarrow> string \<Rightarrow> string \<Rightarrow> unit op" where
  "service_start E get_pid set_pid name unit_nm operator_path =
     bindM (service_running E get_pid) (\<lambda>running.
       if running then ret ()
       else if os_environ E ''JUJU_CONTEXT_ID'' = None then raise (key_error ''JUJU_CONTEXT_ID'')
       else bindM (ask (ans_nat E) (Sys (SpawnService name unit_nm operator_path))) (\<lambda>pid. set_pid (int pid)))"

definition service_stop :: "env \<Rightarrow> int option op \<Rightarrow> unit op \<Rightarrow> unit op" where
  "service_stop E get_pid delete_pid =
     bindM get_pid (\<lambda>process_id.
       if no_process process_id then ret ()
       else try_else (act E (Sys (KillProcess (the process_id)))) [PyOSError] (\<lambda>_. ret ()) (\<lambda>_. delete_pid))"

definition operator_start :: "env \<Rightarrow> operator_service \<Rightarrow> unit op" where
  "operator_start E s =
     service_start E (get_process_id E s) (set_process_id E s) (service_name s) (unit_name E) (charm_dir E)"

definition operator_stop :: "env \<Rightarrow> operator_service \<Rightarrow> unit op" where
  "operator_stop E s = service_stop E (get_process_id E s) (delete_process_id E s)"

text \<open>The last statement of the constructors of three handlers, which runs at every hook.\<close>

definition start_if_initialized :: "env \<Rightarrow> operator_service \<Rightarrow> unit op" where
  "start_if_initialized E s = bindM (initialized E) (\<lambda>ready. if ready then operator_start E s else ret ())"

text \<open>
  What the three abstract methods of \<open>BaseOperatorService\<close> promise, once the peer relation exists: they keep one number, and
  make no call.
\<close>

locale pid_store =
  fixes E :: env and get_pid :: "int option op" and set_pid :: "int \<Rightarrow> unit op" and delete_pid :: "unit op"
  assumes get_total: "get_pid w = (fst (get_pid w), w)"
    and get_trace: "fst (get_pid (w\<lparr>trace := tr\<rparr>)) = fst (get_pid w)"
    and set_get: "has_peers E \<Longrightarrow> set_pid p w = (Inr (), w') \<Longrightarrow> fst (get_pid w') = Inr (Some p)"
    and delete_get: "has_peers E \<Longrightarrow> delete_pid w = (Inr (), w') \<Longrightarrow> fst (get_pid w') = Inr None"
begin

lemma started_once:
  assumes "has_peers E" and "service_start E get_pid set_pid name u path w = (Inr (), w1)"
    and alive: "\<And>tr pid. ans_unit E tr (Sys (ProcessCheck pid)) = Inr ()"
    and positive: "\<And>tr k. ans_nat E tr (Sys (SpawnService name u path)) = Inr k \<Longrightarrow> 0 < k"
  shows "\<exists>pid. service_start E get_pid set_pid name u path w1 = (Inr (), w1\<lparr>trace := trace w1 @ [Sys (ProcessCheck pid)]\<rparr>)"
proof -
  have run: "service_start E get_pid set_pid name u path v = (Inr (), v\<lparr>trace := trace v @ [Sys (ProcessCheck p)]\<rparr>)"
    if "get_pid v = (Inr (Some p), v)" "p \<noteq> 0" for v p
    using that
    by (simp add: service_start_def service_running_def no_process_def try_else_def bindM_def monad_simps alive)
  obtain pid w0 where g: "get_pid w = (Inr pid, w0)"
    using assms(2) by (auto simp: service_start_def service_running_def bindM_Inr_iff)
  then have w0: "w0 = w" using get_total [of w] by simp
  show ?thesis
  proof (cases "no_process pid")
    case True
    with assms(2) g w0 obtain k w2 where "ans_nat E (trace w) (Sys (SpawnService name u path)) = Inr k"
      "set_pid (int k) w2 = (Inr (), w1)"
      by (auto simp: service_start_def service_running_def bindM_Inr_iff monad_simps split: if_splits)
    then have "fst (get_pid w1) = Inr (Some (int k))" "0 < k" using set_get [OF assms(1)] positive by blast+
    then show ?thesis using run [of w1 "int k"] get_total [of w1] by auto
  next
    case False
    then obtain p where p: "pid = Some p" "p \<noteq> 0" by (cases pid) (auto simp: no_process_def)
    then have w1: "w1 = w\<lparr>trace := trace w @ [Sys (ProcessCheck p)]\<rparr>" using run [of w p] g w0 assms(2) by simp
    then have "get_pid w1 = (Inr (Some p), w1)" using get_trace [where w = w] get_total [of w1] g p by simp
    then show ?thesis using run p by blast
  qed
qed

lemma stopped:
  assumes "has_peers E" and "service_stop E get_pid delete_pid w = (Inr (), w1)"
    and "\<And>tr pid. ans_unit E tr (Sys (KillProcess pid)) = Inr ()"
  shows "service_running E get_pid w1 = (Inr False, w1)"
proof -
  obtain pid where g: "get_pid w = (Inr pid, w)"
    using assms(2) get_total [of w] by (auto simp: service_stop_def bindM_Inr_iff)
  then have "\<exists>q. get_pid w1 = (Inr q, w1) \<and> no_process q"
  proof (cases "no_process pid")
    case True
    with g assms(2) show ?thesis by (auto simp: service_stop_def bindM_def monad_simps)
  next
    case False
    with g assms(2,3) have "delete_pid (w\<lparr>trace := trace w @ [Sys (KillProcess (the pid))]\<rparr>) = (Inr (), w1)"
      by (simp add: service_stop_def bindM_def try_else_def monad_simps)
    from delete_get [OF assms(1) this] get_total [of w1] show ?thesis by (auto simp: no_process_def)
  qed
  then show ?thesis by (auto simp: service_running_def bindM_def monad_simps)
qed

end

interpretation operator_pid: pid_store E "get_process_id E s" "set_process_id E s" "delete_process_id E s" for E s
  by unfold_locales
    (cases s; auto simp: get_process_id_def set_process_id_def delete_process_id_def read_unit_def write_unit_def unit_access
      pop_key_def bindM_def monad_simps)+

text \<open>
  A background service is not started twice: after a start that returned, as long as the process is alive and the peer
  relation exists, the next start only looks at the process.
\<close>

theorem operator_started_once:
  assumes "has_peers E" and "operator_start E s w = (Inr (), w1)"
    and "\<And>tr pid. ans_unit E tr (Sys (ProcessCheck pid)) = Inr ()"
    and "\<And>tr k. ans_nat E tr (Sys (SpawnService (service_name s) (unit_name E) (charm_dir E))) = Inr k \<Longrightarrow> 0 < k"
  shows "\<exists>pid. operator_start E s w1 = (Inr (), w1\<lparr>trace := trace w1 @ [Sys (ProcessCheck pid)]\<rparr>)"
  using operator_pid.started_once [OF assms(1) assms(2) [unfolded operator_start_def] assms(3,4)]
  unfolding operator_start_def .

definition spawn_env :: env where
  "spawn_env = quiet_env\<lparr>os_environ := (\<lambda>_. Some ''1''), ans_nat := (\<lambda>_ _. Inr 42)\<rparr>"

theorem operator_started_once_witness:
  "\<exists>w1 pid. operator_start spawn_env LogrotateService quiet_world = (Inr (), w1) \<and>
     operator_start spawn_env LogrotateService w1 = (Inr (), w1\<lparr>trace := trace w1 @ [Sys (ProcessCheck pid)]\<rparr>)"
proof -
  let ?r = "operator_start spawn_env LogrotateService quiet_world"
  have "fst ?r = Inr ()"
    by (simp add: operator_start_def service_start_def service_running_def get_process_id_def read_unit_def unit_access
        get_number_def falsy_iff no_process_def set_process_id_def write_unit_def bindM_def monad_simps
        spawn_env_def quiet_env_def quiet_world_def)
  then have "?r = (Inr (), snd ?r)" by (metis prod.collapse)
  then have "\<exists>pid. operator_start spawn_env LogrotateService (snd ?r) =
      (Inr (), (snd ?r)\<lparr>trace := trace (snd ?r) @ [Sys (ProcessCheck pid)]\<rparr>)"
    by (rule operator_started_once [rotated]) (simp_all add: spawn_env_def quiet_env_def)
  with \<open>?r = (Inr (), snd ?r)\<close> show ?thesis by metis
qed

text \<open>A service that was stopped is not running.\<close>

lemma operator_stopped:
  assumes "has_peers E" and "operator_stop E s w = (Inr (), w1)"
    and "\<And>tr pid. ans_unit E tr (Sys (KillProcess pid)) = Inr ()"
  shows "service_running E (get_process_id E s) w1 = (Inr False, w1)"
  by (rule operator_pid.stopped [OF assms(1) assms(2) [unfolded operator_stop_def] assms(3)])

section \<open>The loops\<close>

text \<open>
  \<open>juju-exec\<close> with \<open>check=True\<close>: a dispatch that fails ends the process.  The monotonic clock is read in microseconds, in
  which the rounding of floating-point seconds is invisible.
\<close>

definition dispatch_event :: "env \<Rightarrow> string \<Rightarrow> string \<Rightarrow> string \<Rightarrow> unit op" where
  "dispatch_event E hook operator_unit operator_path =
     act E (Sys (JujuExec operator_unit (''JUJU_DISPATCH_PATH=hooks/'' @ hook) (operator_path @ ''/dispatch'')))"

definition resolve_local_address :: "env \<Rightarrow> string op" where
  "resolve_local_address E = try_except (ask (ans_str E) (Sys LocalAddress)) [PyException] (\<lambda>_. ret ''127.0.0.1'')"

fun address_loop :: "env \<Rightarrow> string \<Rightarrow> string \<Rightarrow> string option \<Rightarrow> nat \<Rightarrow> unit op" where
  "address_loop E u p previous_address 0 = ret ()"
| "address_loop E u p previous_address (Suc n) =
     bindM (resolve_local_address E) (\<lambda>address.
       seqM (if falsy previous_address then ret ()
             else if previous_address \<noteq> Some address then dispatch_event E ''address_changed'' u p else ret ())
         (seqM (act E (Sys (Sleep 30)))
           (address_loop E u p (if falsy previous_address \<or> previous_address \<noteq> Some address
              then Some address else previous_address) n)))"

definition address_main :: "env \<Rightarrow> string \<Rightarrow> string \<Rightarrow> nat \<Rightarrow> unit op" where
  "address_main E u p n = address_loop E u p None n"

definition minute :: nat where "minute = 60000000"

definition sleep_minute :: "env \<Rightarrow> nat \<Rightarrow> unit op" where
  "sleep_minute E start_time =
     bindM (ask (ans_nat E) (Sys Monotonic)) (\<lambda>now. act E (Sys (SleepMicros (minute - (now - start_time) mod minute))))"

fun logrotate_loop :: "env \<Rightarrow> string \<Rightarrow> string \<Rightarrow> nat \<Rightarrow> nat \<Rightarrow> unit op" where
  "logrotate_loop E u p start_time 0 = ret ()"
| "logrotate_loop E u p start_time (Suc n) =
     seqM (sleep_minute E start_time) (seqM (dispatch_event E ''log_rotation'' u p) (logrotate_loop E u p start_time n))"

definition logrotate_main :: "env \<Rightarrow> string \<Rightarrow> string \<Rightarrow> nat \<Rightarrow> unit op" where
  "logrotate_main E u p n = bindM (ask (ans_nat E) (Sys Monotonic)) (\<lambda>start_time. logrotate_loop E u p start_time n)"

fun healing_main :: "env \<Rightarrow> string \<Rightarrow> string \<Rightarrow> nat \<Rightarrow> unit op" where
  "healing_main E u p 0 = ret ()"
| "healing_main E u p (Suc n) =
     seqM (dispatch_event E ''self_healing'' u p) (seqM (act E (Sys (Sleep 120))) (healing_main E u p n))"

text \<open>The addresses that the loop saw, read off its calls, and how often an address differs from the one before.\<close>

definition address_seen :: "env \<Rightarrow> event list \<Rightarrow> string" where
  "address_seen E tr = (case ans_str E tr (Sys LocalAddress) of Inr a \<Rightarrow> a | Inl _ \<Rightarrow> ''127.0.0.1'')"

fun seen :: "env \<Rightarrow> event list \<Rightarrow> event list \<Rightarrow> string list" where
  "seen E tr [] = []"
| "seen E tr (e # es) = (if e = Sys LocalAddress then [address_seen E tr] else []) @ seen E (tr @ [e]) es"

fun changes :: "string option \<Rightarrow> string list \<Rightarrow> nat" where
  "changes prev [] = 0"
| "changes prev (a # as) = (if falsy prev \<or> prev = Some a then 0 else 1) + changes (Some a) as"

definition dispatches :: "event list \<Rightarrow> nat" where
  "dispatches es = length (filter (\<lambda>e. case e of Sys (JujuExec _ _ _) \<Rightarrow> True | _ \<Rightarrow> False) es)"

lemma address_loop_run:
  "address_loop E u p prev n w = (Inr (), w') \<Longrightarrow>
   \<exists>es. trace w' = trace w @ es \<and> length (seen E (trace w) es) = n \<and>
     dispatches es = changes prev (seen E (trace w) es)"
proof (induction n arbitrary: prev w)
  case 0
  then show ?case by (auto simp: monad_simps dispatches_def intro!: exI [where x = "[]"])
next
  case (Suc n)
  let ?d = "Sys (JujuExec u ''JUJU_DISPATCH_PATH=hooks/address_changed'' (p @ ''/dispatch''))"
  obtain a w1 where a: "resolve_local_address E w = (Inr a, w1)" using Suc.prems by (auto simp: bindM_Inr_iff)
  then have w1: "w1 = w\<lparr>trace := trace w @ [Sys LocalAddress]\<rparr>" and s: "address_seen E (trace w) = a"
    by (auto simp: resolve_local_address_def address_seen_def try_except_def monad_simps split: sum.splits if_splits)
  define m where "m = (if falsy prev \<or> prev = Some a then [] else [?d])"
  let ?w2 = "w\<lparr>trace := trace w @ Sys LocalAddress # m @ [Sys (Sleep 30)]\<rparr>"
  have "address_loop E u p (Some a) n ?w2 = (Inr (), w')"
    using Suc.prems a w1
    by (auto simp: bindM_Inr_iff seqM_Inr_iff monad_simps dispatch_event_def m_def falsy_iff split: if_splits)
  from Suc.IH [OF this] obtain es where es: "trace w' = trace ?w2 @ es" "length (seen E (trace ?w2) es) = n"
    "dispatches es = changes (Some a) (seen E (trace ?w2) es)" by blast
  then show ?case
    by (intro exI [where x = "Sys LocalAddress # m @ Sys (Sleep 30) # es"]) (auto simp: m_def s dispatches_def)
qed

text \<open>
  The address service dispatches an event exactly as often as the address that it sees differs from the one it saw
  before; the first address it sees dispatches nothing.
\<close>

theorem address_service_dispatches_changes:
  assumes "address_main E u p n w = (Inr (), w')"
  shows "\<exists>es. trace w' = trace w @ es \<and> length (seen E (trace w) es) = n \<and>
    dispatches es = changes None (seen E (trace w) es)"
  using address_loop_run assms unfolding address_main_def .

text \<open>An address that changes after the first turn, with the cable unplugged.\<close>

definition unplugged_env :: env where
  "unplugged_env = quiet_env\<lparr>ans_str := (\<lambda>tr _. if tr = [] then Inr ''10.0.0.1'' else Inl (Exn [PyOSError, PyException] []))\<rparr>"

theorem address_service_dispatches_changes_witness:
  "\<exists>w'. address_main unplugged_env ''mysql/0'' ''/c'' 3 quiet_world = (Inr (), w') \<and> dispatches (trace w') = 1 \<and>
     (\<exists>es. trace w' = trace quiet_world @ es \<and> length (seen unplugged_env (trace quiet_world) es) = 3 \<and>
       dispatches es = changes None (seen unplugged_env (trace quiet_world) es))"
proof -
  let ?r = "address_main unplugged_env ''mysql/0'' ''/c'' 3 quiet_world"
  have "fst ?r = Inr ()" and d: "dispatches (trace (snd ?r)) = 1"
    by (simp_all add: address_main_def numeral_3_eq_3 resolve_local_address_def dispatch_event_def dispatches_def
        try_except_def bindM_def seqM_def monad_simps falsy_iff caught_def unplugged_env_def quiet_env_def quiet_world_def)
  then have r: "?r = (Inr (), snd ?r)" by (metis prod.collapse)
  from address_service_dispatches_changes [OF r] r d show ?thesis by metis
qed

text \<open>The log-rotation service sleeps for at most a minute, and wakes up at a whole number of minutes after its start.\<close>

lemma sleep_minute_bounds:
  assumes "start \<le> now"
  defines "d \<equiv> minute - (now - start) mod minute"
  shows "0 < d \<and> d \<le> minute \<and> minute dvd (now + d - start)"
proof -
  have m: "(now - start) mod minute < minute" by (simp add: minute_def)
  have "now + d - start = (now - start) div minute * minute + minute"
    using m assms(1) div_mult_mod_eq [of "now - start" minute] unfolding d_def by linarith
  with m show ?thesis unfolding d_def by simp
qed

end
