(* ===== verification/LogRotation.thy ===== *)
theory LogRotation
  imports OperatorServices
begin

text \<open>
  Log rotation: \<open>events/handlers/log_rotation.py\<close>, \<open>managers/managers/logrotate.py\<close>, the set-up of
  \<open>services/logrotate/service.py\<close> and its template \<open>resources/logrotate/config.j2\<close>.  A block tag of the template leaves the
  line end that follows it, and the line end of the last line is dropped, as Jinja does by default.  The values
  of the enumeration \<open>LogType\<close> of \<open>mysql_shell\<close> are parameters.
\<close>

section \<open>The configuration file\<close>

definition TextLogs :: "env \<Rightarrow> string list" where
  "TextLogs E = map (log_type_value E) [LogType_ERROR, LogType_GENERAL, LogType_SLOW]"

record logrotate_options =
  lr_archive_dir :: string
  lr_logs_dir :: string
  lr_retention_days :: int
  lr_compress :: bool
  lr_log_types :: "string list"
  lr_user :: string
  lr_group :: string

definition log_stanza :: "logrotate_options \<Rightarrow> string \<Rightarrow> string list" where
  "log_stanza c log =
     [[], lr_logs_dir c @ ''/'' @ log @ ''.log {'', ''    olddir '' @ lr_archive_dir c @ ''/archive_'' @ log, ''}'']"

definition logrotate_lines :: "logrotate_options \<Rightarrow> string list" where
  "logrotate_lines c =
     [''# Create dedicated subdirectory for rotated files'',
      ''createolddir 770 '' @ lr_user c @ '' '' @ lr_group c,
      [],
      ''# Frequency of logs rotation'',
      ''hourly'',
      ''maxage '' @ str_int (lr_retention_days c),
      ''rotate '' @ str_int (lr_retention_days c * 24 * 60),
      [],
      ''# Compression settings'',
      [], if lr_compress c then ''compress'' else ''nocompress'', [], [],
      ''# Naming of rotated files should be in the format:'',
      ''dateext'',
      ''dateformat -%Y%m%d_%H%M'',
      [],
      ''# Settings to prevent misconfigurations:'',
      ''ifempty'', ''missingok'', ''nomail'', ''nosharedscripts'',
      [],
      ''# The `copytruncate` option is needed because rotated logs might be in a different filesystem'',
      ''# The `nocopytruncate` option would fail with `failed to rename ...: Invalid cross-device link`'',
      ''copy'', ''copytruncate'',
      []]
     @ concat (map (log_stanza c) (lr_log_types c)) @ [[]]"

definition logrotate_config_text :: "logrotate_options \<Rightarrow> string" where
  "logrotate_config_text c = join_with [newline] (logrotate_lines c)"

definition logrotate_setup :: "env \<Rightarrow> int \<Rightarrow> bool \<Rightarrow> string list \<Rightarrow> unit op" where
  "logrotate_setup E retention_days compress log_types =
     write_text E (logrotate_config (the_paths E)) (logrotate_config_text
       \<lparr>lr_archive_dir = mysql_archive (the_paths E), lr_logs_dir = mysql_logs (the_paths E),
        lr_retention_days = retention_days, lr_compress = compress, lr_log_types = log_types,
        lr_user = system_user E, lr_group = system_group E\<rparr>)"

section \<open>The manager\<close>

definition get_synced_flag :: "env \<Rightarrow> bool option op" where
  "get_synced_flag E = read_unit E (unit_name E) get_logrotate_sync_flag"

definition set_synced_flag :: "env \<Rightarrow> bool \<Rightarrow> unit op" where
  "set_synced_flag E flag = write_unit E (set_logrotate_sync_flag flag)"

definition delete_synced_flag :: "env \<Rightarrow> unit op" where
  "delete_synced_flag E = write_unit E delete_logrotate_sync_flag"

definition rotate_logs :: "env \<Rightarrow> bool \<Rightarrow> unit op" where
  "rotate_logs E audit_log_enabled =
     try_else (execute_sync E [''logrotate'', ''--force'', ''--state'', ''/dev/null'', logrotate_config (the_paths E)] [])
       [PyRuntimeError] (\<lambda>_. ret ())
       (\<lambda>_. seqM (inst_flush_native_logs E (client_host E) (TextLogs E))
         (if audit_log_enabled then inst_flush_audit_log E (client_host E) else ret ()))"

section \<open>The handler\<close>

definition log_types_of :: "env \<Rightarrow> string list" where
  "log_types_of E = map lower (TextLogs E @ (if cfg_plugin_audit_enabled (config E) then [''audit''] else []))"

definition retention_days_of :: "charm_config \<Rightarrow> bool \<Rightarrow> exn + int" where
  "retention_days_of cfg synchronized = (case cfg_logs_retention_period cfg of
     Days n \<Rightarrow> Inr n
   | Auto s \<Rightarrow> if s = ''auto'' then Inr (if synchronized then 1 else 3) else int_of_str s)"

definition update_config :: "env \<Rightarrow> unit op" where
  "update_config E =
     bindM (get_synced_flag E) (\<lambda>flag. let synchronized = (flag = Some True) in
     bindM (lift (retention_days_of (config E) synchronized)) (\<lambda>retention_days.
       logrotate_setup E retention_days synchronized (log_types_of E)))"

definition on_log_rotation :: "env \<Rightarrow> unit op" where
  "on_log_rotation E =
     bindM (system_ready E) (\<lambda>ready. if \<not> ready then ret ()
     else bindM (initialized E) (\<lambda>init. if \<not> init then ret ()
     else if refreshing E then ret ()
     else rotate_logs E (cfg_plugin_audit_enabled (config E))))"

definition logs_on_config_changed :: "env \<Rightarrow> unit op" where
  "logs_on_config_changed E = bindM (system_ready E) (\<lambda>ready. if \<not> ready then ret () else update_config E)"

definition logs_on_relation_created :: "env \<Rightarrow> unit op" where
  "logs_on_relation_created E = bindM (system_ready E) (\<lambda>ready.
     if \<not> ready then defer_event else block [set_synced_flag E True, update_config E])"

definition logs_on_relation_broken :: "env \<Rightarrow> unit op" where
  "logs_on_relation_broken E = bindM (system_ready E) (\<lambda>ready.
     if \<not> ready then ret () else block [delete_synced_flag E, update_config E])"

section \<open>What the file says\<close>

definition logrotate_options_of :: "env \<Rightarrow> bool \<Rightarrow> int \<Rightarrow> logrotate_options" where
  "logrotate_options_of E synced days =
     \<lparr>lr_archive_dir = mysql_archive (the_paths E), lr_logs_dir = mysql_logs (the_paths E), lr_retention_days = days,
      lr_compress = synced, lr_log_types = log_types_of E, lr_user = system_user E, lr_group = system_group E\<rparr>"

lemma update_config_run:
  assumes "has_peers E" and "retention_days_of (config E) (get_logrotate_sync_flag (unit_bags w (unit_name E)) = Some True) = Inr days"
    and "\<And>tr p t. ans_unit E tr (Sys (WriteFile p t)) = Inr ()"
  shows "\<exists>v. update_config E w = (Inr (), v) \<and> files v = (files w)(logrotate_config (the_paths E) \<mapsto>
    logrotate_config_text (logrotate_options_of E (get_logrotate_sync_flag (unit_bags w (unit_name E)) = Some True) days))"
  using assms
  by (simp add: update_config_def get_synced_flag_def read_unit_def logrotate_setup_def logrotate_options_of_def write_text_def
      Let_def bindM_def seqM_def monad_simps)

text \<open>
  The rotation follows the relation to the observability stack: once related, the logs are compressed and, unless the
  configuration says otherwise, kept for one day; once the relation is gone, they are kept uncompressed for three days.
\<close>

theorem log_rotation_follows_relation:
  assumes "has_peers E" and "cfg_logs_retention_period (config E) = Auto ''auto''"
    and "\<And>tr. ans_bool E tr (Wkl CanConnect) = Inr True" and "\<And>tr p t. ans_unit E tr (Sys (WriteFile p t)) = Inr ()"
  shows "files (snd (logs_on_relation_created E w)) (logrotate_config (the_paths E)) =
      Some (logrotate_config_text (logrotate_options_of E True 1)) \<and>
    files (snd (logs_on_relation_broken E w)) (logrotate_config (the_paths E)) =
      Some (logrotate_config_text (logrotate_options_of E False 3))"
proof -
  have ready: "\<exists>tr. system_ready E w = (Inr True, w\<lparr>trace := tr\<rparr>)"
  proof (cases "substrate E")
    case VM
    then show ?thesis by (intro exI [where x = "trace w"]) (simp add: system_ready_def monad_simps)
  qed (auto simp: system_ready_def monad_simps assms(3))
  then obtain tr where r: "system_ready E w = (Inr True, w\<lparr>trace := tr\<rparr>)" by blast
  have "set_synced_flag E True v = (Inr (), v\<lparr>unit_bags := (unit_bags v)(unit_name E := set_logrotate_sync_flag True (unit_bags v (unit_name E)))\<rparr>)"
    "delete_synced_flag E v = (Inr (), v\<lparr>unit_bags := (unit_bags v)(unit_name E := delete_logrotate_sync_flag (unit_bags v (unit_name E)))\<rparr>)" for v
    by (simp_all add: set_synced_flag_def delete_synced_flag_def write_unit_def monad_simps assms(1))
  note flags = this
  have "get_logrotate_sync_flag (set_logrotate_sync_flag True d) = Some True" "get_logrotate_sync_flag (delete_logrotate_sync_flag d) = None" for d
    by (simp_all add: unit_access pop_key_def)
  note reads = this
  let ?c = "w\<lparr>trace := tr, unit_bags := (unit_bags w)(unit_name E := set_logrotate_sync_flag True (unit_bags w (unit_name E)))\<rparr>"
  let ?b = "w\<lparr>trace := tr, unit_bags := (unit_bags w)(unit_name E := delete_logrotate_sync_flag (unit_bags w (unit_name E)))\<rparr>"
  obtain v1 v2 where "update_config E ?c = (Inr (), v1)" "update_config E ?b = (Inr (), v2)"
    "files v1 (logrotate_config (the_paths E)) = Some (logrotate_config_text (logrotate_options_of E True 1))"
    "files v2 (logrotate_config (the_paths E)) = Some (logrotate_config_text (logrotate_options_of E False 3))"
    using update_config_run [OF assms(1), where w = ?c and days = 1, OF _ assms(4)]
      update_config_run [OF assms(1), where w = ?b and days = 3, OF _ assms(4)]
    by (auto simp: reads retention_days_of_def assms(2))
  with r flags show ?thesis
    by (simp add: logs_on_relation_created_def logs_on_relation_broken_def bindM_def seqM_def)
qed

theorem log_rotation_follows_relation_witness:
  "files (snd (logs_on_relation_created quiet_env quiet_world)) ''/etc/logrotate.d/flush_mysql_logs'' =
     Some (logrotate_config_text (logrotate_options_of quiet_env True 1))"
proof -
  have p: "logrotate_config (the_paths quiet_env) = ''/etc/logrotate.d/flush_mysql_logs''" by code_simp
  have "has_peers quiet_env" "cfg_logs_retention_period (config quiet_env) = Auto ''auto''"
    by (simp_all add: quiet_env_def quiet_config_def)
  from log_rotation_follows_relation [OF this, of quiet_world] show ?thesis unfolding p by (simp add: quiet_env_def)
qed

text \<open>With compression the file says so, and each type of log is moved to an archive of its own.\<close>

lemma logrotate_lines_compress:
  "''compress'' \<in> set (logrotate_lines c) \<longleftrightarrow> lr_compress c" if "lr_logs_dir c = CHR ''/'' # d"
  using that by (auto simp: logrotate_lines_def log_stanza_def)

lemma logrotate_lines_archive:
  "log \<in> set (lr_log_types c) \<Longrightarrow>
     {lr_logs_dir c @ ''/'' @ log @ ''.log {'', ''    olddir '' @ lr_archive_dir c @ ''/archive_'' @ log} \<subseteq> set (logrotate_lines c)"
  unfolding logrotate_lines_def set_append set_concat set_map by (rule subset_trans [of _ "set (log_stanza c log)"])
    (simp add: log_stanza_def, blast)

end
