(* ===== verification/Address.thy ===== *)
theory Address
  imports OperatorServices
begin

text \<open>
  Address changes on machines: \<open>events/handlers/address.py\<close> and \<open>managers/managers/address.py\<close>.  Every unit publishes its address
  and host names in its databag, as JSON, and writes those of its peers to its hosts file.
\<close>

section \<open>The manager\<close>

definition set_hostname :: "env \<Rightarrow> machine_host \<Rightarrow> unit op" where
  "set_hostname E host = write_unit E (set_address_hostname (into_dict host))"

definition cleanup_hosts :: "env \<Rightarrow> unit op" where
  "cleanup_hosts E = remove_hosts E"

definition manager_update_hosts :: "env \<Rightarrow> machine_host list \<Rightarrow> unit op" where
  "manager_update_hosts E hosts =
     seqM (for_each (\<lambda>host. update_hosts E (mh_address host) (mh_names host)) hosts)
       (try_except (inst_flush_host_cache E (client_host E)) [ExecutionErrorC] (\<lambda>_. ret ()))"

section \<open>The handler\<close>

text \<open>An empty object, array or string counts as no value.\<close>

definition truthy :: "json option \<Rightarrow> bool" where
  "truthy j \<longleftrightarrow> j \<notin> {None, Some (JObj []), Some (JArr []), Some (JStr []), Some (JInt 0)}"

fun collect_hostnames :: "env \<Rightarrow> string list \<Rightarrow> json list op" where
  "collect_hostnames E [] = ret []"
| "collect_hostnames E (u # us) =
     bindM (bindM (read_unit E u get_address_hostname) lift) (\<lambda>peer_hostname.
     bindM (collect_hostnames E us) (\<lambda>rest.
       ret (if truthy peer_hostname then the peer_hostname # rest else rest)))"

definition collect_peer_hostnames :: "env \<Rightarrow> json list op" where
  "collect_peer_hostnames E = (if \<not> has_peers E then ret [] else collect_hostnames E (peer_units E))"

definition update_hostname :: "env \<Rightarrow> unit op" where
  "update_hostname E =
     bindM (get_unit_address E (unit_name E) RELATION_PEERS) (\<lambda>address.
     bindM (ask (ans_str E) (Sys GetHostname)) (\<lambda>hostname.
     bindM (ask (ans_str E) (Sys GetFqdn)) (\<lambda>fqdn.
       set_hostname E \<lparr>mh_address = address, mh_names = [hostname, fqdn]\<rparr>)))"

definition on_address_change :: "env \<Rightarrow> unit op" where
  "on_address_change E = bindM (system_ready E) (\<lambda>ready.
     if \<not> ready then defer_event else block [update_hostname E, server_stop E, server_start E])"

definition on_relation_event :: "env \<Rightarrow> unit op" where
  "on_relation_event E = bindM (system_ready E) (\<lambda>ready.
     if \<not> ready then ret ()
     else bindM (collect_peer_hostnames E) (\<lambda>peer_hostnames.
       if peer_hostnames = [] then ret ()
       else seqM (cleanup_hosts E)
         (bindM (mapM (\<lambda>host. lift (from_dict host)) peer_hostnames) (manager_update_hosts E))))"

section \<open>What reaches the hosts file\<close>

definition published_host :: "world \<Rightarrow> string \<Rightarrow> machine_host option \<Rightarrow> bool" where
  "published_host w u h = (case h of
     None \<Rightarrow> falsy (unit_bags w u service_address_hostname_key)
   | Some host \<Rightarrow> unit_bags w u service_address_hostname_key = Some (json_dumps (into_dict host)))"

lemma read_published:
  "published_host w u h \<Longrightarrow> get_address_hostname (unit_bags w u) = Inr (map_option into_dict h)"
  by (cases h) (auto simp: published_host_def get_address_hostname_def falsy_iff json_round_trip)

lemma truthy_into_dict: "truthy (Some (into_dict h))" "\<not> truthy None"
  by (simp_all add: truthy_def into_dict_def)

lemma collect_hostnames_run:
  assumes "has_peers E" and "list_all (\<lambda>u. published_host w u (H u)) us"
  shows "collect_hostnames E us w = (Inr (map into_dict (List.map_filter H us)), w)"
  using assms(2)
proof (induction us)
  case (Cons u us)
  then show ?case
    by (cases "H u") (auto simp: bindM_def read_unit_def assms(1) read_published truthy_into_dict map_filter_simps monad_simps)
qed (simp add: monad_simps map_filter_simps)

lemma hosts_from_dict: "mapM (\<lambda>host. lift (from_dict host)) (map into_dict hs) w = (Inr hs, w)"
  by (induction hs) (simp_all add: bindM_def monad_simps)

lemma update_hosts_run:
  assumes "substrate E = VM" and "\<And>tr a ns. ans_unit E tr (Sys (HostsAdd a ns)) = Inr ()"
  shows "for_each (\<lambda>host. update_hosts E (mh_address host) (mh_names host)) hs w =
    (Inr (), w\<lparr>trace := trace w @ map (\<lambda>h. Sys (HostsAdd (mh_address h) (mh_names h))) hs\<rparr>)"
  by (induction hs arbitrary: w)
    (simp_all add: update_hosts_def machine_update_hosts_def try_except_def seqM_def bindM_def monad_simps assms)

abbreviation flush_hosts :: "env \<Rightarrow> event" where
  "flush_hosts E \<equiv> Sql (client_host E) (ExecuteSql [RawSql ''TRUNCATE TABLE performance_schema.host_cache''])"

text \<open>
  (C30) What a unit publishes about its host reaches the hosts files of its peers: on a change of the peer relation, a unit removes
  the entries it manages, adds exactly the addresses and names that its peers published, whatever characters these have,
  and flushes the host cache of its server.
\<close>

theorem published_hosts_reach_peers:
  assumes "substrate E = VM" and "has_peers E" and "list_all (\<lambda>u. published_host w u (H u)) (peer_units E)"
    and "List.map_filter H (peer_units E) \<noteq> []"
    and "\<And>tr. ans_unit E tr (Sys HostsRemove) = Inr ()" and "\<And>tr a ns. ans_unit E tr (Sys (HostsAdd a ns)) = Inr ()"
    and "\<And>tr. ans_unit E tr (flush_hosts E) = Inr ()"
  shows "on_relation_event E w = (Inr (), w\<lparr>trace := trace w @ [Sys HostsRemove]
    @ map (\<lambda>h. Sys (HostsAdd (mh_address h) (mh_names h))) (List.map_filter H (peer_units E)) @ [flush_hosts E]\<rparr>)"
  using assms
  by (simp add: on_relation_event_def system_ready_def collect_peer_hostnames_def collect_hostnames_run cleanup_hosts_def
      remove_hosts_def machine_remove_hosts_def manager_update_hosts_def hosts_from_dict update_hosts_run
      inst_flush_host_cache_def try_except_def bindM_def seqM_def monad_simps)

text \<open>What \<open>update_hostname\<close> of a unit stores is published in this sense.\<close>

lemma update_hostname_publishes:
  assumes "substrate E = VM" "has_peers E" and "ans_str E (trace w) (Sys GetHostname) = Inr n"
    "ans_str E (trace w @ [Sys GetHostname]) (Sys GetFqdn) = Inr q"
  shows "published_host (snd (update_hostname E w)) (unit_name E) (Some \<lparr>mh_address = own_address E w, mh_names = [n, q]\<rparr>)"
  using assms
  by (auto simp: update_hostname_def own_address_def get_unit_address_def vm_get_unit_address_def read_unit_def set_hostname_def
      write_unit_def set_address_hostname_def published_host_def bindM_def monad_simps falsy_iff split: option.splits)

definition two_hosts :: "string \<Rightarrow> machine_host option" where
  "two_hosts u = (if u = ''mysql/1'' then Some \<lparr>mh_address = ''10.0.0.2'', mh_names = [''m1'', ''m1.lxd'']\<rparr> else None)"

definition hosts_world :: world where
  "hosts_world = quiet_world\<lparr>unit_bags := (\<lambda>u. case two_hosts u of None \<Rightarrow> Map.empty
     | Some h \<Rightarrow> [service_address_hostname_key \<mapsto> json_dumps (into_dict h)])\<rparr>"

theorem published_hosts_reach_peers_witness:
  "trace (snd (on_relation_event quiet_env hosts_world)) =
     [Sys HostsRemove, Sys (HostsAdd ''10.0.0.2'' [''m1'', ''m1.lxd'']), flush_hosts quiet_env]"
proof -
  have p: "peer_units quiet_env = [''mysql/1'', ''mysql/2'']" by (simp add: quiet_env_def)
  have "List.map_filter two_hosts [''mysql/1'', ''mysql/2''] = [\<lparr>mh_address = ''10.0.0.2'', mh_names = [''m1'', ''m1.lxd'']\<rparr>]"
    by (simp add: map_filter_simps two_hosts_def)
  note h = this
  have l: "list_all (\<lambda>u. published_host hosts_world u (two_hosts u)) (peer_units quiet_env)"
    by (simp add: p published_host_def hosts_world_def falsy_iff split: option.split)
  have e: "substrate quiet_env = VM" "has_peers quiet_env" "ans_unit quiet_env tr e = Inr ()" for tr e by (simp_all add: quiet_env_def)
  have "on_relation_event quiet_env hosts_world = (Inr (), hosts_world\<lparr>trace := trace hosts_world @ [Sys HostsRemove]
    @ map (\<lambda>h. Sys (HostsAdd (mh_address h) (mh_names h))) (List.map_filter two_hosts (peer_units quiet_env)) @ [flush_hosts quiet_env]\<rparr>)"
    by (rule published_hosts_reach_peers [OF e(1,2) l]) (simp_all only: p h e list.distinct not_False_eq_True)
  then show ?thesis unfolding p h by (simp add: hosts_world_def quiet_world_def)
qed

end
