(* ===== verification/Operator.thy ===== *)
theory Operator
  imports SelfHealing Cluster Database Backup Tls LogRotation Address
begin

text \<open>
  The operator as a whole: the hooks that Juju may run on a unit, in any order and on any unit, with the state that
  the units of the application share.  What holds in every reachable state of a deployment is proved by
  induction over the steps; the hooks are gone through once, in a locale that says what an invariant of the
  shared state has to withstand.
\<close>

section \<open>The hooks\<close>

datatype hook =
    Install | Start | LeaderElected | LeaderChanged | ConfigChanged | UpdateStatus | StorageDetaching
  | ClusterStatus "cluster_status \<Rightarrow> string" "cluster_set_status \<Rightarrow> string" bool
  | GetPassword string | SetPassword string string | PromotePrimary string bool | RecreateCluster
  | PeerCreated | PeerJoined | PeerChanged | PeerDeparted
  | DatabaseRequested nat string "string option" | DatabaseCreated | DatabaseBroken nat | DatabaseDeparted nat string
  | CreateBackup bool | ListBackups | RestoreBackup "string option"
  | CertificateAvailable tls_type | TlsBroken tls_type | TlsConfigChanged tls_type
  | RotateLogs | LogsConfigChanged | LogsRelated | LogsUnrelated
  | AddressChanged | AddressRelation | SelfHeal
  | RestartCallback | ReplicationCallback | PreRefreshChecks | RefreshSnap string
  | BackgroundService operator_service

fun run_hook :: "env \<Rightarrow> hook \<Rightarrow> unit op" where
  "run_hook E Install = on_install E"
| "run_hook E Start = on_start E"
| "run_hook E LeaderElected = on_leader_elected E"
| "run_hook E LeaderChanged = on_leader_changed E"
| "run_hook E ConfigChanged = on_config_changed E"
| "run_hook E UpdateStatus = on_update_status E"
| "run_hook E StorageDetaching = on_storage_detaching E"
| "run_hook E (ClusterStatus show_cluster show_set b) = on_cluster_status E show_cluster show_set b"
| "run_hook E (GetPassword u) = on_get_password E u"
| "run_hook E (SetPassword u p) = on_set_password E u p"
| "run_hook E (PromotePrimary scope force) = on_promote_primary E scope force"
| "run_hook E RecreateCluster = on_recreate_cluster E"
| "run_hook E PeerCreated = cluster_on_relation_created E"
| "run_hook E PeerJoined = cluster_on_relation_joined E"
| "run_hook E PeerChanged = cluster_on_relation_changed E"
| "run_hook E PeerDeparted = cluster_on_relation_departed E"
| "run_hook E (DatabaseRequested i d r) = on_database_requested E i d r"
| "run_hook E DatabaseCreated = database_on_relation_created E"
| "run_hook E (DatabaseBroken i) = database_on_relation_broken E i"
| "run_hook E (DatabaseDeparted i u) = database_on_relation_departed E i u"
| "run_hook E (CreateBackup force) = on_create_backup E force"
| "run_hook E ListBackups = on_list_backups E"
| "run_hook E (RestoreBackup i) = on_restore_backup E i"
| "run_hook E (CertificateAvailable t) = on_certificate_available E t"
| "run_hook E (TlsBroken t) = tls_on_relation_broken E t"
| "run_hook E (TlsConfigChanged t) = tls_on_config_changed E t"
| "run_hook E RotateLogs = on_log_rotation E"
| "run_hook E LogsConfigChanged = logs_on_config_changed E"
| "run_hook E LogsRelated = logs_on_relation_created E"
| "run_hook E LogsUnrelated = logs_on_relation_broken E"
| "run_hook E AddressChanged = on_address_change E"
| "run_hook E AddressRelation = on_relation_event E"
| "run_hook E SelfHeal = on_self_healing E"
| "run_hook E RestartCallback = seqM (restart_instance E) (ret ())"
| "run_hook E ReplicationCallback = seqM (restart_cluster E) (ret ())"
| "run_hook E PreRefreshChecks = run_pre_refresh_checks_before_any_units_refreshed E"
| "run_hook E (RefreshSnap r) = refresh_snap E r"
| "run_hook E (BackgroundService s) = start_if_initialized E s"

text \<open>
  What an invariant of the shared state has to withstand: everything that is private to a unit or a hook, and the few
  writes to the databag of the application and to its secret.
\<close>

locale shared_invariant =
  fixes E :: env and I :: "world \<Rightarrow> bool"
  assumes frame: "I w \<Longrightarrow> I (w\<lparr>trace := tr\<rparr>)" "I w \<Longrightarrow> I (w\<lparr>files := fs\<rparr>)" "I w \<Longrightarrow> I (w\<lparr>unit_bags := bs\<rparr>)"
      "I w \<Longrightarrow> I (w\<lparr>unit_status := s\<rparr>)" "I w \<Longrightarrow> I (w\<lparr>app_status := s\<rparr>)" "I w \<Longrightarrow> I (w\<lparr>deferred := b\<rparr>)"
      "I w \<Longrightarrow> I (w\<lparr>action_failure := f\<rparr>)" "I w \<Longrightarrow> I (w\<lparr>action_results := rs\<rparr>)"
    and app_writes: "I w \<Longrightarrow> I (w\<lparr>app_bag := app_set_cluster_set_name n (app_bag w)\<rparr>)"
      "I w \<Longrightarrow> I (w\<lparr>app_bag := app_delete_cluster_removed_flag (app_bag w)\<rparr>)"
      "I w \<Longrightarrow> I (w\<lparr>app_bag := app_set_private_key_uri p n (app_bag w)\<rparr>)"
      "I w \<Longrightarrow> I (w\<lparr>app_bag := app_delete_private_key_uri p (app_bag w)\<rparr>)"
    and naming: "keeps I (set_cluster_name E (cfg_cluster_name (config E)))"
    and creating: "keeps I (create_passwords E)"
    and updating: "k \<in> set (map snd USERNAME_TO_PASSWORD_KEY) \<Longrightarrow> keeps I (update_password E k v)"
begin

lemmas laws = keeps frame app_writes

lemma services:
  "keeps I (server_setup E u p)" "keeps I (read_server_config E)" "keeps I (helper_apply_config E old new)" "keeps I (save_config E)" "keeps I (get_cores E)"
  "keeps I (manager_calculate_buffer_pool E)" "keeps I (run_silent E c)" "keeps I (set_unit_address E r)"
  "keeps I body \<Longrightarrow> keeps I (execute_async E c v body)"
  unfolding server_setup_def k8s_server_setup_def vm_server_setup_def k8s_reset_directories_def
      vm_reset_directories_def k8s_init_directories_def vm_init_directories_def
      k8s_set_operator_user_def vm_set_operator_user_def k8s_server_start_def k8s_server_stop_def
      vm_server_start_def vm_server_stop_def require_snap_def server_add_layer_def wait_for_connection_def
      helper_apply_config_def update_dynamic_var_def save_config_def build_server_config_def write_server_config_def
      get_cores_def machine_get_cores_def container_get_cores_def get_container_cores_def get_node_cores_def
      get_container_limits_def node_name_def manager_calculate_buffer_pool_def run_silent_def
      set_unit_address_def vm_set_unit_address_def
      execute_async_def container_execute_async_def machine_execute_async_def read_server_config_def
  by (intro laws; assumption?)+

lemma clients:
  "keeps I (install_components E h cs)" "keeps I (create_router_role E h r)" "keeps I (create_auth_roles E h)"
  "keeps I (inst_create_user E h u p rs)" "keeps I (inst_delete_root E h)" "keeps I (kill_client_sessions E h)"
  "keeps I (set_client_tls E h a b c e)" "keeps I (set_group_tls E h a b c e)" "keeps I (wait_recovering E h)"
  "keeps I (inst_delete_user E h u)" "keeps I (inst_delete_users_by_attrs E h at)" "keeps I (inst_fetch_user_by_attrs E h at)"
  "keeps I (cluster_remove_router E h r)" "keeps I (inst_create_database E h d)"
  "keeps I (inst_create_database_user E h d u p ro)" "keeps I (inst_flush_native_logs E h l)" "keeps I (inst_flush_audit_log E h)"
  "keeps I (inst_flush_host_cache E h)"
proof -
  have "keeps I (wait_recovering_loop E h n)" for n by (induction n) (auto intro!: laws)
  then show "keeps I (wait_recovering E h)" by (simp add: wait_recovering_def)
qed (unfold install_components_def create_router_role_def create_auth_roles_def inst_create_user_def inst_delete_root_def
    kill_client_sessions_def set_client_tls_def set_group_tls_def set_variable_def inst_delete_user_def
    inst_delete_users_by_attrs_def inst_fetch_user_by_attrs_def cluster_remove_router_def inst_create_database_def
    inst_create_database_user_def build_database_dba_role_def inst_flush_native_logs_def inst_flush_audit_log_def
    inst_flush_host_cache_def; intro laws; assumption?)+

lemmas parts = laws services clients

lemma lifecycle_hooks:
  "keeps I (on_install E)" "keeps I (on_start E)" "keeps I (on_leader_elected E)" "keeps I (on_leader_changed E)"
  "keeps I (on_config_changed E)" "keeps I (on_update_status E)" "keeps I (on_storage_detaching E)"
  unfolding on_install_def on_start_def on_leader_elected_def on_leader_changed_def on_config_changed_def
    on_update_status_def on_storage_detaching_def fetch_passwords_def start_server_service_def init_server_service_def
    install_system_components_def create_system_roles_def create_system_users_def password_at_def
    start_exporter_service_def update_unit_state_def lifecycle_update_state_def set_leader_flag_def
    set_cluster_set_name_def create_random_hash_def apply_config_def is_cluster_primary_def
    lifecycle_promote_instance_def lifecycle_remove_instance_def
  by (intro parts naming creating; assumption?)+

lemma cluster_hooks:
  "keeps I (on_cluster_status E f g b)" "keeps I (on_get_password E u)" "keeps I (on_set_password E u p)"
  "keeps I (on_promote_primary E sc force)" "keeps I (on_recreate_cluster E)" "keeps I (cluster_on_relation_created E)"
  "keeps I (cluster_on_relation_joined E)" "keeps I (cluster_on_relation_changed E)" "keeps I (cluster_on_relation_departed E)"
proof -
  show "keeps I (on_set_password E u p)"
  proof (cases "map_of USERNAME_TO_PASSWORD_KEY u")
    case (Some k)
    then have "k \<in> set (map snd USERNAME_TO_PASSWORD_KEY)" by (force dest: map_of_SomeD)
    then show ?thesis
      unfolding on_set_password_def create_system_password_def Some option.case by (intro parts updating; assumption?)
  qed (unfold on_set_password_def, simp, intro laws)
qed (unfold on_cluster_status_def on_get_password_def on_promote_primary_def on_recreate_cluster_def
    cluster_on_relation_created_def cluster_on_relation_joined_def cluster_on_relation_changed_def
    cluster_on_relation_departed_def action_promote_instance_def action_promote_cluster_def manager_promote_instance_def
    manager_recreate_cluster_def manager_fetch_cluster_status_def manager_fetch_cluster_set_status_def
    cluster_update_state_def join_instance_def; intro parts; assumption?)+

lemma database_hooks:
  "keeps I (on_database_requested E i d r)" "keeps I (database_on_relation_created E)" "keeps I (database_on_relation_broken E i)"
  "keeps I (database_on_relation_departed E i u)"
  unfolding on_database_requested_def database_on_relation_created_def database_on_relation_broken_def
    database_on_relation_departed_def set_database_def set_database_user_def set_database_version_def set_relation_field_def
    create_database_def create_database_user_def fetch_version_def delete_users_def remove_router_def get_removing_flag_def
    set_removing_flag_def
  by (intro parts; assumption?)+

lemma backup_parts:
  "keeps I (upload_file E c p)" "keeps I (check_backup E p)" "keeps I (list_backups E)" "keeps I (create_backup E a b c)"
  "keeps I (download_backup E a)" "keeps I (isolated_backup E a)"
  "keeps I body \<Longrightarrow> keeps I (isolate_instance E body)" "keeps I (replace_data E p)" "keeps I (prepare_backup E p n)"
  "keeps I (check_cluster E)" "keeps I (check_instance E)"
proof -
  have t: "(\<And>x. keeps I (b x)) \<Longrightarrow> keeps I (temporary_file E c b)" for b :: "string option \<Rightarrow> 'b op" and c
    unfolding temporary_file_def make_temp_def unlink_missing_ok_def suppress_def
    by (intro parts; (assumption | auto simp: keeps_def monad_simps frame)?)
  show up: "keeps I (upload_file E c p)" for c p
    unfolding upload_file_def by (intro t parts; assumption?)
  show "keeps I (check_backup E p)" "keeps I (list_backups E)"
    unfolding check_backup_def list_backups_def by (intro t parts; assumption?)+
  have d: "keeps I (create_temporary_dir E x)" for x
    unfolding create_temporary_dir_def secrets_choice_def by (intro parts; assumption?)
  have ca: "keeps I (create_temporary_ca E)" unfolding create_temporary_ca_def by (intro d parts; assumption?)
  have ar: "keeps I (build_backup_args cfg x)" "keeps I (build_backup_env cfg)" for cfg x
    unfolding build_backup_args_def build_backup_env_def by (intro laws)+
  show cr: "keeps I (create_backup E a b c)" for a b c
    unfolding create_backup_def by (intro d ca ar parts; assumption?)
  show "keeps I (download_backup E a)" unfolding download_backup_def by (intro d ca ar parts; assumption?)
  show "keeps I (isolated_backup E a)"
    unfolding isolated_backup_def or_fail_def remove_backup_def by (intro up cr parts; assumption?)
  show "keeps I body \<Longrightarrow> keeps I (isolate_instance E body)"
    unfolding isolate_instance_def by (intro parts; assumption?)
  show "keeps I (replace_data E p)" "keeps I (prepare_backup E p n)" "keeps I (check_cluster E)" "keeps I (check_instance E)"
    unfolding replace_data_def restore_and_start_def or_fail_def reset_and_restore_def reset_data_dir_def reset_logs_dir_def
      restore_backup_def reset_temp_dir_def backup_recreate_cluster_def prepare_backup_def check_cluster_def check_instance_def
    by (intro parts; assumption?)+
qed

lemma backup_hooks:
  "keeps I (on_create_backup E force)" "keeps I (on_list_backups E)" "keeps I (on_restore_backup E i)"
  unfolding on_create_backup_def on_list_backups_def on_restore_backup_def or_fail_def
  by (intro backup_parts parts; assumption?)+

lemma tls_hooks:
  "keeps I (on_certificate_available E t)" "keeps I (tls_on_relation_broken E t)" "keeps I (tls_on_config_changed E t)"
  unfolding on_certificate_available_def base_on_certificate_available_def get_tls_data_def save_tls_data_def save_ca_def
    save_cert_def save_private_key_def save_tls_file_def tls_enable_def client_tls_enable_def peer_tls_enable_def
    tls_on_relation_broken_def tls_disable_def client_tls_disable_def peer_tls_disable_def delete_private_key_uri_def
    tls_on_config_changed_eq get_private_key_uri_def set_private_key_uri_def
  by (cases t; simp only: tls_type.case; intro parts; assumption?)+

lemma log_and_address_hooks:
  "keeps I (on_log_rotation E)" "keeps I (logs_on_config_changed E)" "keeps I (logs_on_relation_created E)"
  "keeps I (logs_on_relation_broken E)" "keeps I (on_address_change E)" "keeps I (on_relation_event E)"
  "keeps I (start_if_initialized E s)"
proof -
  have c: "keeps I (collect_hostnames E us)" for us by (induction us) (auto intro!: laws)
  show "keeps I (on_relation_event E)"
    unfolding on_relation_event_def collect_peer_hostnames_def cleanup_hosts_def remove_hosts_def machine_remove_hosts_def
      manager_update_hosts_def update_hosts_def machine_update_hosts_def
    by (intro c parts; assumption?)
qed (unfold on_log_rotation_def logs_on_config_changed_def logs_on_relation_created_def logs_on_relation_broken_def rotate_logs_def
    update_config_def get_synced_flag_def set_synced_flag_def delete_synced_flag_def logrotate_setup_def on_address_change_def
    update_hostname_def set_hostname_def start_if_initialized_def operator_start_def service_start_def service_running_def
    get_process_id_def set_process_id_def; intro parts; assumption?)+

lemma rolling_hooks:
  "keeps I (restart_instance E)" "keeps I (restart_cluster E)" "keeps I (run_pre_refresh_checks_before_any_units_refreshed E)"
  "keeps I (refresh_snap E r)" "keeps I (on_self_healing E)"
proof -
  have c: "keeps I (check_waiting_ops E cb us)" for cb us by (induction us) (auto intro!: laws)
  show "keeps I (restart_instance E)" "keeps I (restart_cluster E)"
    unfolding restart_instance_def restart_cluster_def is_cluster_primary_def restart_server_def recover_instance_def
      recover_cluster_def rolling_recover_instance_def restart_instance_replication_def
    by (intro c parts; assumption?)+
qed (unfold run_pre_refresh_checks_before_any_units_refreshed_def refresh_check_cluster_def refresh_prepare_cluster_def
    refresh_prepare_instance_def refresh_snap_def on_self_healing_def recover_from_online_leader_def
    recover_from_online_follower_def recover_from_offline_leader_def recover_from_offline_follower_def
    rejoin_instance_def collect_peer_addresses_def collect_peer_states_def healing_rejoin_instance_def
    healing_stop_replication_def recover_cluster_quorum_def healing_recreate_cluster_def set_both_statuses_def
    fetch_cluster_members_def; intro parts; assumption?)+

theorem kept_by_every_hook: "keeps I (run_hook E h)"
  by (cases h)
    (simp_all add: lifecycle_hooks cluster_hooks database_hooks backup_hooks tls_hooks log_and_address_hooks rolling_hooks
      keeps_seqM keeps_basic)

end

section \<open>A deployment\<close>

text \<open>
  The units of an application share its databags and its secret; files, statuses and the rest belong to a unit.  A hook
  that raises does not change what is shared: Juju drops the writes of a failed hook.
\<close>

record deployment =
  shared :: world
  own :: "string \<Rightarrow> world"

definition initial :: deployment where
  "initial = \<lparr>shared = quiet_world, own = (\<lambda>_. quiet_world)\<rparr>"

definition enter :: "env \<Rightarrow> deployment \<Rightarrow> world" where
  "enter E d = (own d (unit_name E))\<lparr>trace := [], app_bag := app_bag (shared d), unit_bags := unit_bags (shared d),
     secrets := secrets (shared d), deferred := False, action_failure := None, action_results := []\<rparr>"

definition run_on :: "env \<Rightarrow> hook \<Rightarrow> deployment \<Rightarrow> deployment" where
  "run_on E h d = (case run_hook E h (enter E d) of
     (Inr _, w) \<Rightarrow> \<lparr>shared = w, own = (own d)(unit_name E := w)\<rparr>
   | (Inl _, w) \<Rightarrow> d\<lparr>own := (own d)(unit_name E := w)\<rparr>)"

text \<open>A step: some unit runs some hook, in an environment that \<open>P\<close> admits.\<close>

inductive system_step :: "(env \<Rightarrow> bool) \<Rightarrow> deployment \<Rightarrow> deployment \<Rightarrow> bool" for P where
  hook: "P E \<Longrightarrow> system_step P d (run_on E h d)"

inductive_cases system_stepE: "system_step P d d'"

abbreviation reachable :: "(env \<Rightarrow> bool) \<Rightarrow> deployment \<Rightarrow> deployment \<Rightarrow> bool" where
  "reachable P \<equiv> (system_step P)\<^sup>*\<^sup>*"

lemma reachable_invariant:
  assumes "reachable P d d'" "J (shared d)"
    and "\<And>E h w r w'. P E \<Longrightarrow> J w \<Longrightarrow> run_hook E h w = (r, w') \<Longrightarrow> J w'"
    and "\<And>E d. J (shared d) \<Longrightarrow> J (enter E d)"
  shows "J (shared d')"
  using assms(1,2)
proof (induction rule: rtranclp_induct)
  case (step d1 d2)
  from step.hyps(2) obtain E h where P: "P E" and d2: "d2 = run_on E h d1" by (rule system_stepE)
  obtain r w where r: "run_hook E h (enter E d1) = (r, w)" by force
  have d1: "J (shared d1)" by (rule step.IH [OF step.prems])
  have w: "J w" by (rule assms(3) [OF P assms(4) [OF d1] r])
  show ?case
  proof (cases r)
    case (Inl e)
    with d1 show ?thesis unfolding d2 run_on_def r prod.case Inl sum.case by simp
  next
    case (Inr u)
    with w show ?thesis unfolding d2 run_on_def r prod.case Inr sum.case by simp
  qed
qed

section \<open>The secret of the application\<close>

definition password_secret :: "string \<Rightarrow> world \<Rightarrow> bool" where
  "password_secret a w = (case secrets w (RELATION_PEERS @ ''.'' @ a @ ''.app'') of
     None \<Rightarrow> True | Some c \<Rightarrow> dom c = set (map snd USERNAME_TO_PASSWORD_KEY))"

lemma create_passwords_keeps: "keeps (password_secret (app_name E)) (create_passwords E)"
proof (rule keepsI)
  fix w assume w: "password_secret (app_name E) w"
  obtain r w1 where r: "create_passwords E w = (r, w1)" by force
  show "password_secret (app_name E) (snd (create_passwords E w))"
  proof (cases r)
    case (Inr u)
    with create_passwords_run [of E w w1] r show ?thesis by (auto simp: password_secret_def secret_label_def)
  next
    case (Inl e)
    have "keeps (\<lambda>v. secrets v = secrets w) (mapM (\<lambda>_. create_system_password E) (map snd USERNAME_TO_PASSWORD_KEY))"
      unfolding create_system_password_def by (intro keeps) simp_all
    with r Inl have "secrets w1 = secrets w"
      by (auto simp: create_passwords_def Let_def bindM_def secret_create_def monad_simps split: prod.splits sum.splits
          dest: keepsD [where I = "\<lambda>v. secrets v = secrets w"])
    with w r show ?thesis by (simp add: password_secret_def)
  qed
qed

interpretation passwords: shared_invariant E "password_secret (app_name E)" for E
proof
  show "keeps (password_secret (app_name E)) (create_passwords E)" by (rule create_passwords_keeps)
  show "keeps (password_secret (app_name E)) (set_cluster_name E (cfg_cluster_name (config E)))"
    unfolding set_cluster_name_def create_random_hash_def by (intro keeps) (simp_all add: password_secret_def)
  show "keeps (password_secret (app_name E)) (update_password E k v)" if "k \<in> set (map snd USERNAME_TO_PASSWORD_KEY)" for k v
  proof (rule keepsI)
    fix w assume "password_secret (app_name E) w"
    with that show "password_secret (app_name E) (snd (update_password E k v w))"
      by (auto simp: password_secret_def update_password_def secret_get_content_def secret_set_content_def get_secret_def
          secret_label_def bindM_def monad_simps falsy_iff split: option.splits)
  qed
qed (simp_all add: password_secret_def)

text \<open>
  In every reachable state of a deployment, whatever hooks its units ran, in whatever order and with whatever
  answers of the environment, the secret of the application, once it exists, has exactly the keys of the four
  system users: no password is ever missing and nothing else is stored there.
\<close>

theorem passwords_always_complete:
  assumes "reachable (\<lambda>E. app_name E = a) initial d"
  shows "case secrets (shared d) (RELATION_PEERS @ ''.'' @ a @ ''.app'') of None \<Rightarrow> True
    | Some c \<Rightarrow> dom c = {PASSWORD_KEY_BACKUPS, PASSWORD_KEY_MONITOR, PASSWORD_KEY_OPERATOR, PASSWORD_KEY_REPLICATION}"
proof -
  have "password_secret a (shared d)"
  proof (rule reachable_invariant [OF assms])
    show "password_secret a w'" if "app_name E = a" "password_secret a w" "run_hook E h w = (r, w')" for E h w r w'
      using keepsD [OF passwords.kept_by_every_hook [of E h] _ that(3)] that(1,2) by simp
  qed (simp_all add: password_secret_def initial_def quiet_world_def enter_def)
  moreover have "set (map snd USERNAME_TO_PASSWORD_KEY) =
      {PASSWORD_KEY_BACKUPS, PASSWORD_KEY_MONITOR, PASSWORD_KEY_OPERATOR, PASSWORD_KEY_REPLICATION}"
    by (auto simp: USERNAME_TO_PASSWORD_KEY_def)
  ultimately show ?thesis unfolding password_secret_def by metis
qed

lemma abc_first_leader:
  "\<exists>c. secrets (shared (run_on abc_env LeaderElected initial)) (RELATION_PEERS @ ''.'' @ ''mysql'' @ ''.app'') = Some c"
proof -
  have e: "enter abc_env initial = quiet_world" by (simp add: enter_def initial_def quiet_world_def)
  have a: "has_peers abc_env" "app_name abc_env = ''mysql''" by (simp_all add: abc_env_def quiet_env_def)
  obtain w1 where w1: "on_leader_elected abc_env quiet_world = (Inr (), w1)" using abc_leader_elected by blast
  obtain v where "secrets w1 = secrets v" "create_passwords abc_env quiet_world = (Inr (), v)"
    using on_leader_elected_run [OF a(1) w1] by (auto simp: quiet_world_def)
  then obtain c where "secrets w1 (secret_label abc_env) = Some c" using create_passwords_run by metis
  moreover have "shared (run_on abc_env LeaderElected initial) = w1" by (simp add: run_on_def e w1)
  ultimately show ?thesis by (simp add: secret_label_def a)
qed

theorem passwords_always_complete_witness:
  "\<exists>c. secrets (shared (run_on abc_env LeaderElected initial)) (RELATION_PEERS @ ''.'' @ ''mysql'' @ ''.app'') = Some c \<and>
     dom c = {PASSWORD_KEY_BACKUPS, PASSWORD_KEY_MONITOR, PASSWORD_KEY_OPERATOR, PASSWORD_KEY_REPLICATION}"
proof -
  have "system_step (\<lambda>E. app_name E = ''mysql'') initial (run_on abc_env LeaderElected initial)"
    by (rule hook) (simp add: abc_env_def quiet_env_def)
  then have "reachable (\<lambda>E. app_name E = ''mysql'') initial (run_on abc_env LeaderElected initial)" by blast
  from passwords_always_complete [OF this] abc_first_leader show ?thesis by auto
qed

section \<open>The name of the cluster\<close>

abbreviation keeps_name :: "env \<Rightarrow> string \<Rightarrow> bool" where
  "keeps_name E n \<equiv> falsy (cfg_cluster_name (config E)) \<or> cfg_cluster_name (config E) = Some n"

definition cluster_named :: "env \<Rightarrow> string \<Rightarrow> world \<Rightarrow> bool" where
  "cluster_named E n w \<longleftrightarrow> (keeps_name E n \<longrightarrow> app_get_cluster_name (app_bag w) = Some n)"

interpretation name: shared_invariant E "cluster_named E n" for E n
proof
  show "keeps (cluster_named E n) (create_passwords E)"
    unfolding create_passwords_def create_system_password_def secret_create_def Let_def
    by (intro keeps) (simp_all add: cluster_named_def keeps_def monad_simps)
  show "keeps (cluster_named E n) (update_password E k v)" for k v
    unfolding update_password_def secret_get_content_def secret_set_content_def get_secret_def
    by (intro keeps) (simp_all add: cluster_named_def keeps_def monad_simps)
  show "keeps (cluster_named E n) (set_cluster_name E (cfg_cluster_name (config E)))"
  proof (rule keepsI)
    fix w assume w: "cluster_named E n w"
    show "cluster_named E n (snd (set_cluster_name E (cfg_cluster_name (config E)) w))"
    proof (cases "has_peers E \<and> keeps_name E n")
      case True
      with w have g: "app_get_cluster_name (app_bag w) = Some n" by (simp add: cluster_named_def)
      then have "n \<noteq> []" "app_bag w cluster_name_key = Some n"
        by (auto simp: app_get_cluster_name_def get_text_def falsy_iff split: if_splits)
      with True have "set_cluster_name E (cfg_cluster_name (config E)) w = (Inr (), w)"
        by (intro set_cluster_name_again [of E n]) (auto simp: falsy_iff)
      with w show ?thesis by simp
    next
      case False
      have "keeps (\<lambda>v. has_peers E \<or> app_bag v = app_bag w) (set_cluster_name E (cfg_cluster_name (config E)))"
        unfolding set_cluster_name_def create_random_hash_def by (intro keeps) auto
      then have "has_peers E \<or> app_bag (snd (set_cluster_name E (cfg_cluster_name (config E)) w)) = app_bag w"
        by (simp add: keeps_def)
      with False w show ?thesis by (auto simp: cluster_named_def)
    qed
  qed
qed (simp_all add: cluster_named_def app_access pop_key_def)

text \<open>
  (C4) The name of the cluster is stable: once stored it never changes, whatever hooks the units run, as long as the
  configuration names no cluster or this one.
\<close>

theorem cluster_name_stable:
  assumes "reachable P d d'" and "\<And>E. P E \<Longrightarrow> keeps_name E n" and "app_get_cluster_name (app_bag (shared d)) = Some n"
  shows "app_get_cluster_name (app_bag (shared d')) = Some n"
proof (rule reachable_invariant [OF assms(1), where J = "\<lambda>w. app_get_cluster_name (app_bag w) = Some n"])
  fix E h w r w' assume "P E" "app_get_cluster_name (app_bag w) = Some n" "run_hook E h w = (r, w')"
  then show "app_get_cluster_name (app_bag w') = Some n"
    using keepsD [OF name.kept_by_every_hook [of E n h]] assms(2) by (auto simp: cluster_named_def)
qed (simp_all add: assms(3) enter_def)

theorem cluster_name_stable_witness:
  "app_get_cluster_name (app_bag (shared (run_on quiet_env LeaderChanged \<lparr>shared = sample_world, own = (\<lambda>_. quiet_world)\<rparr>))) = Some ''c''"
proof -
  let ?d = "\<lparr>shared = sample_world, own = (\<lambda>_. quiet_world)\<rparr>"
  have "system_step (\<lambda>E. E = quiet_env) ?d (run_on quiet_env LeaderChanged ?d)" by (rule hook) simp
  then have r: "reachable (\<lambda>E. E = quiet_env) ?d (run_on quiet_env LeaderChanged ?d)" by blast
  have "keeps_name E ''c''" if "E = quiet_env" for E using that by (simp add: quiet_env_def quiet_config_def falsy_iff)
  moreover have "app_get_cluster_name (app_bag (shared ?d)) = Some ''c''"
    by (simp add: sample_world_def quiet_world_def app_get_cluster_name_def get_text_def)
  ultimately show ?thesis by (rule cluster_name_stable [OF r])
qed

text \<open>
  The name is not set once: at every later election of a leader a configured name that differs from the stored one replaces
  it, although the running cluster keeps the name it was created with.
\<close>

theorem configured_name_overwrites:
  assumes "has_peers E" and "secrets w (secret_label E) = Some c" and "cfg_cluster_name (config E) = Some m" and "m \<noteq> []"
  shows "app_get_cluster_name (app_bag (snd (on_leader_elected E w))) = Some m"
proof -
  let ?n = "\<lambda>v :: world. app_get_cluster_name (app_bag v) = Some m"
  let ?v = "w\<lparr>unit_bags := (unit_bags w)(unit_name E := set_unit_leader_flag True (unit_bags w (unit_name E))),
    app_bag := (app_bag w)(cluster_name_key \<mapsto> m)\<rparr>"
  have "keeps ?n (set_cluster_set_name E (cfg_cluster_set_name (config E)))"
    unfolding set_cluster_set_name_def create_random_hash_def by (intro keeps) (simp_all add: app_access)
  moreover have "?n ?v" using assms(4) by (simp add: app_access)
  ultimately have "?n (snd (set_cluster_set_name E (cfg_cluster_set_name (config E)) ?v))" by (simp add: keeps_def)
  moreover have "on_leader_elected E w = set_cluster_set_name E (cfg_cluster_set_name (config E)) ?v"
    using assms
    by (simp add: on_leader_elected_def fetch_passwords_run set_leader_flag_def write_unit_def set_cluster_name_def write_app_def
        app_set_cluster_name_def str_opt_def falsy_iff bindM_def seqM_def monad_simps)
  ultimately show ?thesis by simp
qed

definition renaming_env :: env where
  "renaming_env = quiet_env\<lparr>config := quiet_config\<lparr>cfg_cluster_name := Some ''new''\<rparr>\<rparr>"

theorem configured_name_overwrites_witness:
  "app_get_cluster_name (app_bag (snd (on_leader_elected renaming_env
     (sample_world\<lparr>secrets := [secret_label renaming_env \<mapsto> Map.empty]\<rparr>)))) = Some ''new''
   \<and> app_get_cluster_name (app_bag sample_world) = Some ''c''"
proof -
  let ?w = "sample_world\<lparr>secrets := [secret_label renaming_env \<mapsto> Map.empty]\<rparr>"
  have "has_peers renaming_env" "cfg_cluster_name (config renaming_env) = Some ''new''" "secrets ?w (secret_label renaming_env) = Some Map.empty"
    by (simp_all add: renaming_env_def quiet_env_def)
  from configured_name_overwrites [OF this(1,3,2)] show ?thesis
    by (simp add: sample_world_def quiet_world_def app_get_cluster_name_def get_text_def)
qed

end
