(* ===== verification/Platform.thy ===== *)
theory Platform
  imports Prelude
begin

text \<open>
  The check of the architecture (\<open>charm/architecture.py\<close>) that the entry points of the charms make before they build the operator.
  The manifest of the charm is \<open>None\<close> when its file does not exist; a base may name no architecture.
\<close>

definition check_architecture :: "string list option list option \<Rightarrow> string \<Rightarrow> bool" where
  "check_architecture manifest hardware_architecture = (case manifest of
     None \<Rightarrow> False
   | Some bs \<Rightarrow> let manifest_architectures = concat (map (\<lambda>b. case b of None \<Rightarrow> [] | Some as \<Rightarrow> as) bs) in
       ''amd64'' \<in> set manifest_architectures \<and> hardware_architecture = ''x86_64''
       \<or> ''arm64'' \<in> set manifest_architectures \<and> hardware_architecture = ''aarch64''
       \<or> ''s390x'' \<in> set manifest_architectures \<and> hardware_architecture = ''s390x'')"

text \<open>The order of the bases does not matter, and an unknown machine is never accepted.\<close>

lemma check_architecture_bases:
  "mset bs = mset cs \<Longrightarrow> check_architecture (Some bs) m = check_architecture (Some cs) m"
  by (simp add: check_architecture_def Let_def) (metis mset_eq_setD)

lemma check_architecture_machine:
  "check_architecture b m \<Longrightarrow> m \<in> {''x86_64'', ''aarch64'', ''s390x''}"
  by (auto simp: check_architecture_def Let_def split: option.splits)

end
