(* ===== verification/Wiring.thy ===== *)
theory Wiring
  imports Operator Platform
begin

text \<open>
  How the parts are put together (\<open>charm/operator/\<close>, the constructors of the handlers, the entry points).  Juju runs the
  operator once for every event: the charm object is built, with its handlers in a fixed order, then events deferred
  earlier are emitted again, and then the observers of the event run in the order in which the handlers registered them.
  An exception anywhere ends the run, and Juju drops what was written.
\<close>

section \<open>Handlers and what they observe\<close>

definition RELATION_LOGS_K8S :: string where "RELATION_LOGS_K8S = ''logging''"
definition RELATION_LOGS_VM :: string where "RELATION_LOGS_VM = ''cos-agent''"
definition RELATION_TLS_CLIENT :: string where "RELATION_TLS_CLIENT = ''client-certificates''"
definition RELATION_TLS_PEER :: string where "RELATION_TLS_PEER = ''peer-certificates''"
definition RELATION_TRACING :: string where "RELATION_TRACING = ''tracing''"

datatype juju_event =
    OnInstall | OnStart | OnLeaderElected | OnLeaderSettingsChanged | OnConfigChanged | OnUpdateStatus
  | OnStorageDetaching string | OnAction string
  | OnRelationCreated string | OnRelationJoined string | OnRelationChanged string | OnRelationDeparted string | OnRelationBroken string
  | OnAddressChanged | OnLogRotation | OnSelfHealing
  | OnDatabaseRequested | OnCertificateAvailable tls_type

text \<open>What the handlers read from the event object.\<close>

record event_args =
  ea_show_cluster :: "cluster_status \<Rightarrow> string"
  ea_show_set :: "cluster_set_status \<Rightarrow> string"
  ea_cluster_set :: bool
  ea_username :: string
  ea_password :: string
  ea_scope :: string
  ea_force :: bool
  ea_backup_id :: "string option"
  ea_relation_id :: nat
  ea_database :: string
  ea_roles :: "string option"
  ea_departing_unit :: string

type_synonym observer = "juju_event \<times> (event_args \<Rightarrow> hook)"

datatype event_handler =
    AddressEventHandler | BackupS3EventHandler | ClusterEventHandler | DatabaseEventHandler | LifecycleEventHandler
  | LogRotationEventHandler | SelfHealingEventHandler | TLSClientEventHandler | TLSPeerEventHandler

definition address_observers :: "observer list" where
  "address_observers = [(OnAddressChanged, \<lambda>_. AddressChanged), (OnRelationJoined RELATION_PEERS, \<lambda>_. AddressRelation),
     (OnRelationChanged RELATION_PEERS, \<lambda>_. AddressRelation), (OnRelationDeparted RELATION_PEERS, \<lambda>_. AddressRelation)]"

definition backup_observers :: "observer list" where
  "backup_observers = [(OnAction ''create-backup'', \<lambda>a. CreateBackup (ea_force a)), (OnAction ''list-backups'', \<lambda>_. ListBackups),
     (OnAction ''restore'', \<lambda>a. RestoreBackup (ea_backup_id a))]"

definition cluster_observers :: "observer list" where
  "cluster_observers =
     [(OnAction ''get-cluster-status'', \<lambda>a. ClusterStatus (ea_show_cluster a) (ea_show_set a) (ea_cluster_set a)),
      (OnAction ''get-password'', \<lambda>a. GetPassword (ea_username a)),
      (OnAction ''set-password'', \<lambda>a. SetPassword (ea_username a) (ea_password a)),
      (OnAction ''promote-to-primary'', \<lambda>a. PromotePrimary (ea_scope a) (ea_force a)),
      (OnAction ''recreate-cluster'', \<lambda>_. RecreateCluster),
      (OnRelationCreated RELATION_PEERS, \<lambda>_. PeerCreated), (OnRelationJoined RELATION_PEERS, \<lambda>_. PeerJoined),
      (OnRelationChanged RELATION_PEERS, \<lambda>_. PeerChanged), (OnRelationDeparted RELATION_PEERS, \<lambda>_. PeerDeparted)]"

definition database_observers :: "observer list" where
  "database_observers =
     [(OnDatabaseRequested, \<lambda>a. DatabaseRequested (ea_relation_id a) (ea_database a) (ea_roles a)),
      (OnRelationCreated RELATION_DATABASE, \<lambda>_. DatabaseCreated),
      (OnRelationBroken RELATION_DATABASE, \<lambda>a. DatabaseBroken (ea_relation_id a)),
      (OnRelationDeparted RELATION_DATABASE, \<lambda>a. DatabaseDeparted (ea_relation_id a) (ea_departing_unit a))]"

definition lifecycle_observers :: "observer list" where
  "lifecycle_observers =
     [(OnInstall, \<lambda>_. Install), (OnStart, \<lambda>_. Start), (OnLeaderElected, \<lambda>_. LeaderElected),
      (OnLeaderSettingsChanged, \<lambda>_. LeaderChanged), (OnConfigChanged, \<lambda>_. ConfigChanged), (OnUpdateStatus, \<lambda>_. UpdateStatus),
      (OnStorageDetaching ''archive'', \<lambda>_. StorageDetaching), (OnStorageDetaching ''data'', \<lambda>_. StorageDetaching),
      (OnStorageDetaching ''logs'', \<lambda>_. StorageDetaching), (OnStorageDetaching ''temp'', \<lambda>_. StorageDetaching)]"

definition log_rotation_observers :: "string \<Rightarrow> observer list" where
  "log_rotation_observers relation =
     [(OnLogRotation, \<lambda>_. RotateLogs), (OnConfigChanged, \<lambda>_. LogsConfigChanged),
      (OnRelationCreated relation, \<lambda>_. LogsRelated), (OnRelationBroken relation, \<lambda>_. LogsUnrelated)]"

definition self_healing_observers :: "observer list" where
  "self_healing_observers = [(OnSelfHealing, \<lambda>_. SelfHeal)]"

definition tls_observers :: "tls_type \<Rightarrow> string \<Rightarrow> observer list" where
  "tls_observers t relation_name =
     [(OnConfigChanged, \<lambda>_. TlsConfigChanged t), (OnCertificateAvailable t, \<lambda>_. CertificateAvailable t),
      (OnRelationBroken relation_name, \<lambda>_. TlsBroken t)]"

definition observers :: "substrate \<Rightarrow> event_handler \<Rightarrow> observer list" where
  "observers s h = (case h of
     AddressEventHandler \<Rightarrow> address_observers
   | BackupS3EventHandler \<Rightarrow> backup_observers
   | ClusterEventHandler \<Rightarrow> cluster_observers
   | DatabaseEventHandler \<Rightarrow> database_observers
   | LifecycleEventHandler \<Rightarrow> lifecycle_observers
   | LogRotationEventHandler \<Rightarrow> log_rotation_observers (case s of K8S \<Rightarrow> RELATION_LOGS_K8S | VM \<Rightarrow> RELATION_LOGS_VM)
   | SelfHealingEventHandler \<Rightarrow> self_healing_observers
   | TLSClientEventHandler \<Rightarrow> tls_observers Client_TLS RELATION_TLS_CLIENT
   | TLSPeerEventHandler \<Rightarrow> tls_observers Peer_TLS RELATION_TLS_PEER)"

section \<open>Building the charm\<close>

definition vm_handlers :: "event_handler list" where
  "vm_handlers = [AddressEventHandler, BackupS3EventHandler, ClusterEventHandler, DatabaseEventHandler, LifecycleEventHandler,
     LogRotationEventHandler, SelfHealingEventHandler, TLSClientEventHandler, TLSPeerEventHandler]"

definition k8s_handlers :: "event_handler list" where
  "k8s_handlers = [BackupS3EventHandler, ClusterEventHandler, DatabaseEventHandler, LifecycleEventHandler,
     LogRotationEventHandler, SelfHealingEventHandler, TLSClientEventHandler, TLSPeerEventHandler]"

definition charm_handlers :: "substrate \<Rightarrow> event_handler list" where
  "charm_handlers s = (case s of K8S \<Rightarrow> k8s_handlers | VM \<Rightarrow> vm_handlers)"

text \<open>The storage is built from the connection info of the relation as soon as there is any.\<close>

definition S3BackupStorage :: "env \<Rightarrow> exn + unit" where
  "S3BackupStorage E = (case configure E of Inl e \<Rightarrow> Inl e | Inr None \<Rightarrow> Inr ()
     | Inr (Some cfg) \<Rightarrow> map_sum id (\<lambda>_. ()) (build_endpoint E cfg))"

text \<open>
  Reading an option of the configuration validates all of them: the values that are set go through their validators, values that
  are refused are collected into one \<open>ValidationError\<close>, which is a \<open>ValueError\<close>, and any other exception of a validator gets
  through.  The text of the error is left out.
\<close>

fun collect_refused :: "(exn + unit) list \<Rightarrow> exn list \<Rightarrow> exn + unit" where
  "collect_refused [] refused = (if refused = [] then Inr () else Inl (Exn [PyValueError, PyException] ''ValidationError''))"
| "collect_refused (Inr _ # rs) refused = collect_refused rs refused"
| "collect_refused (Inl e # rs) refused = (if caught [PyValueError] e then collect_refused rs (refused @ [e]) else Inl e)"

definition if_set :: "('a \<Rightarrow> exn + 'a) \<Rightarrow> 'a option \<Rightarrow> exn + unit" where
  "if_set validator v = (case v of None \<Rightarrow> Inr () | Some x \<Rightarrow> map_sum id (\<lambda>_. ()) (validator x))"

definition validated :: "charm_config \<Rightarrow> exn + unit" where
  "validated c = collect_refused
     [if_set cluster_name_validator (cfg_cluster_name c), if_set cluster_name_validator (cfg_cluster_set_name c),
      if_set max_connections_validator (cfg_max_connections c), if_set profile_limit_memory_validator (cfg_profile_limit_memory c),
      if_set binlog_retention_days_validator (Some (cfg_binlog_retention_days c)),
      if_set logs_retention_period_validator (Some (cfg_logs_retention_period c))] []"

text \<open>What the constructors do besides observing.  \<open>valid\<close> says which keys the cryptography library accepts.\<close>

definition build_handler :: "(nat list \<Rightarrow> bool) \<Rightarrow> env \<Rightarrow> event_handler \<Rightarrow> unit op" where
  "build_handler valid E h = (case h of
     AddressEventHandler \<Rightarrow> start_if_initialized E AddressResolutionService
   | BackupS3EventHandler \<Rightarrow> lift (S3BackupStorage E)
   | LogRotationEventHandler \<Rightarrow> start_if_initialized E LogrotateService
   | SelfHealingEventHandler \<Rightarrow> start_if_initialized E SelfHealingService
   | TLSClientEventHandler \<Rightarrow> seqM (lift (validated (config E))) (seqM (client_parse_private_key valid E) (ret ()))
   | TLSPeerEventHandler \<Rightarrow> seqM (lift (validated (config E))) (seqM (peer_parse_private_key valid E) (ret ()))
   | _ \<Rightarrow> ret ())"

text \<open>What the refresh library answers: one of its exceptions, another one, or the refresh object.\<close>

record refresh_object =
  in_progress :: bool
  workload_allowed_to_start :: bool
  next_unit_allowed_to_refresh :: bool

datatype refresh_outcome =
    KubernetesJujuAppNotTrusted | PeerRelationNotReady | UnitTearingDown | RefreshError exn | Refreshed refresh_object

definition allow_next_unit :: "refresh_object \<Rightarrow> refresh_object" where
  "allow_next_unit r = (if workload_allowed_to_start r then r\<lparr>next_unit_allowed_to_refresh := True\<rparr> else r)"

definition not_trusted :: exn where
  "not_trusted = Exn [PyException] ''KubernetesJujuAppNotTrusted''"

definition vm_build_refresh :: "refresh_outcome \<Rightarrow> exn + refresh_object option" where
  "vm_build_refresh R = (case R of PeerRelationNotReady \<Rightarrow> Inr None | UnitTearingDown \<Rightarrow> Inr None
     | KubernetesJujuAppNotTrusted \<Rightarrow> Inl not_trusted | RefreshError e \<Rightarrow> Inl e | Refreshed r \<Rightarrow> Inr (Some (allow_next_unit r)))"

definition k8s_build_refresh :: "refresh_outcome \<Rightarrow> exn + refresh_object option" where
  "k8s_build_refresh R = (case R of KubernetesJujuAppNotTrusted \<Rightarrow> Inr None | PeerRelationNotReady \<Rightarrow> Inr None
     | UnitTearingDown \<Rightarrow> Inr None | RefreshError e \<Rightarrow> Inl e | Refreshed r \<Rightarrow> Inr (Some (allow_next_unit r)))"

definition build_refresh :: "substrate \<Rightarrow> refresh_outcome \<Rightarrow> exn + refresh_object option" where
  "build_refresh s R = (case s of K8S \<Rightarrow> k8s_build_refresh R | VM \<Rightarrow> vm_build_refresh R)"

text \<open>The connection of the executor, and the names that the clients are built with.\<close>

definition build_mysql_clients :: "env \<Rightarrow> (connection_details \<times> string \<times> string) op" where
  "build_mysql_clients E = bindM (build_mysql_connection E) (\<lambda>details. bindM (cluster_name E) (\<lambda>name.
     bindM (cluster_set_name E) (\<lambda>set_name. ret (details, name, set_name))))"

definition charm_init :: "(nat list \<Rightarrow> bool) \<Rightarrow> refresh_outcome \<Rightarrow> env \<Rightarrow> refresh_object option op" where
  "charm_init valid R E = seqM (build_mysql_clients E)
     (seqM (for_each (build_handler valid E) (charm_handlers (substrate E))) (lift (build_refresh (substrate E) R)))"

section \<open>Running an event\<close>

definition observing :: "substrate \<Rightarrow> juju_event \<Rightarrow> event_args \<Rightarrow> hook list" where
  "observing s ev a = map (\<lambda>(_, callback). callback a) (filter (\<lambda>(e, _). e = ev) (concat (map (observers s) (charm_handlers s))))"

definition with_refresh :: "refresh_object option \<Rightarrow> env \<Rightarrow> env" where
  "with_refresh r E = E\<lparr>refresh := map_option in_progress r\<rparr>"

text \<open>\<open>pending\<close> are the deferred events, which the framework emits again first.\<close>

definition run_event :: "(nat list \<Rightarrow> bool) \<Rightarrow> refresh_outcome \<Rightarrow> env \<Rightarrow> hook list \<Rightarrow> juju_event \<Rightarrow> event_args \<Rightarrow> unit op" where
  "run_event valid R E pending ev a = bindM (charm_init valid R E) (\<lambda>r.
     for_each (run_hook (with_refresh r E)) (pending @ observing (substrate E) ev a))"

text \<open>The entry point: on a machine of another architecture the charm blocks the unit and raises.\<close>

definition WrongArchitectureCharm :: "string \<Rightarrow> unit op" where
  "WrongArchitectureCharm hardware_arch = seqM
     (modify (\<lambda>w. w\<lparr>unit_status := BlockedStatus (''Charm incompatible with '' @ hardware_arch @
        '' architecture. If this app is being refreshed, rollback'')\<rparr>))
     (raise (runtime_error (''Incompatible architecture: this charm revision does not support '' @ hardware_arch @
        ''. If this app is being refreshed, rollback with instructions from Charmhub docs. '' @
        ''If this app is being deployed for the first time, remove it and deploy it again using a compatible revision.'')))"

definition charm_main :: "string list option list option \<Rightarrow> string \<Rightarrow> unit op \<Rightarrow> unit op" where
  "charm_main manifest hardware_arch main =
     (if check_architecture manifest hardware_arch then main else WrongArchitectureCharm hardware_arch)"

lemmas wiring = observing_def charm_handlers_def vm_handlers_def k8s_handlers_def observers_def address_observers_def
  backup_observers_def cluster_observers_def database_observers_def lifecycle_observers_def log_rotation_observers_def
  self_healing_observers_def tls_observers_def

text \<open>
  On machines a unit writes the addresses of its peers to the hosts file before it looks at the cluster; and the private keys
  of TLS are looked at last, so that an exception while the configuration is applied leaves them alone.
\<close>

lemma peers_resolved_before_cluster:
  "observing VM (OnRelationJoined RELATION_PEERS) a = [AddressRelation, PeerJoined]"
  "observing VM (OnRelationChanged RELATION_PEERS) a = [AddressRelation, PeerChanged]"
  "observing VM (OnRelationDeparted RELATION_PEERS) a = [AddressRelation, PeerDeparted]"
  by (simp_all add: wiring RELATION_PEERS_def RELATION_DATABASE_def)

lemma config_changed_order:
  "observing s OnConfigChanged a = [ConfigChanged, LogsConfigChanged, TlsConfigChanged Client_TLS, TlsConfigChanged Peer_TLS]"
  by (cases s) (simp_all add: wiring)

lemma refresh_moves_on:
  "build_refresh s R = Inr (Some r) \<Longrightarrow> workload_allowed_to_start r \<Longrightarrow> next_unit_allowed_to_refresh r"
  by (cases s; cases R)
    (auto simp: build_refresh_def vm_build_refresh_def k8s_build_refresh_def allow_next_unit_def split: if_splits)

lemma wrong_architecture:
  "\<not> check_architecture manifest m \<Longrightarrow> \<exists>e. fst (charm_main manifest m main w) = Inl e \<and> caught [PyRuntimeError] e"
  by (simp add: charm_main_def WrongArchitectureCharm_def seqM_def bindM_def monad_simps runtime_error_def caught_def)

section \<open>Observability\<close>

definition vm_build_cos_agent :: "(string \<times> nat) list" where
  "vm_build_cos_agent = [(''/metrics'', exporter_port)]"

text \<open>The destination of the traces on machines, from what the agent library says of itself and of its endpoint.\<close>

definition vm_build_cos_traces :: "bool \<Rightarrow> string \<Rightarrow> string option" where
  "vm_build_cos_traces is_ready endpoint =
     (if \<not> is_ready then None else if starts_with ''https://'' endpoint then None else Some (endpoint @ ''/v1/traces''))"

definition k8s_build_cos_metrics :: "string list" where
  "k8s_build_cos_metrics = [''*:'' @ show_nat exporter_port]"

text \<open>The files that the log proxy forwards on Kubernetes.\<close>

definition k8s_build_cos_logging :: "env \<Rightarrow> string list" where
  "k8s_build_cos_logging E = map (path_div (mysql_logs (the_paths E))) (TextLogs E)"

section \<open>The state of a deployment\<close>

context shared_invariant
begin

lemma kept_by_charm_init: "keeps I (charm_init valid R E)"
proof -
  have c: "keeps I (build_mysql_clients E)"
    unfolding build_mysql_clients_def build_mysql_connection_def secret_get_value_def get_secret_def cluster_set_name_def
    by (intro parts; assumption?)
  have t: "keeps I (client_parse_private_key valid E)" "keeps I (peer_parse_private_key valid E)"
    unfolding client_parse_private_key_def peer_parse_private_key_def secret_get_value_def get_secret_def by (intro parts; assumption?)+
  have "keeps I (build_handler valid E h)" for h
    by (cases h) (auto simp: build_handler_def intro!: log_and_address_hooks t keeps_seqM keeps_basic keeps)
  then have "keeps I (for_each (build_handler valid E) hs)" for hs by (rule keeps_for_each)
  then show ?thesis unfolding charm_init_def by (intro keeps_seqM keeps_basic c)
qed

end

lemma keeps_run_event:
  assumes "keeps I (charm_init valid R E)" "\<And>r h. keeps I (run_hook (with_refresh r E) h)"
  shows "keeps I (run_event valid R E pending ev a)"
  unfolding run_event_def by (intro keeps assms)

text \<open>An event that raises leaves what is shared alone.\<close>

definition dispatch_on :: "(nat list \<Rightarrow> bool) \<Rightarrow> refresh_outcome \<Rightarrow> env \<Rightarrow> hook list \<Rightarrow> juju_event \<Rightarrow> event_args \<Rightarrow> deployment \<Rightarrow> deployment" where
  "dispatch_on valid R E pending ev a d = (case run_event valid R E pending ev a (enter E d) of
     (Inr _, w) \<Rightarrow> \<lparr>shared = w, own = (own d)(unit_name E := w)\<rparr>
   | (Inl _, w) \<Rightarrow> d\<lparr>own := (own d)(unit_name E := w)\<rparr>)"

inductive event_step :: "(env \<Rightarrow> bool) \<Rightarrow> deployment \<Rightarrow> deployment \<Rightarrow> bool" for P where
  dispatch: "P E \<Longrightarrow> event_step P d (dispatch_on valid R E pending ev a d)"

inductive_cases event_stepE: "event_step P d d'"

lemma event_reachable_invariant:
  assumes "(event_step P)\<^sup>*\<^sup>* d d'" "J (shared d)"
    and "\<And>E valid R pending ev a. P E \<Longrightarrow> keeps J (run_event valid R E pending ev a)"
    and "\<And>E d. J (shared d) \<Longrightarrow> J (enter E d)"
  shows "J (shared d')"
  using assms(1,2)
proof (induction rule: rtranclp_induct)
  case (step d1 d2)
  from step.hyps(2) obtain E valid R pending ev a where P: "P E" and d2: "d2 = dispatch_on valid R E pending ev a d1" by (rule event_stepE)
  obtain r w where r: "run_event valid R E pending ev a (enter E d1) = (r, w)" by force
  have d1: "J (shared d1)" by (rule step.IH [OF step.prems])
  have w: "J w" using keepsD [OF assms(3) [OF P] assms(4) [OF d1] r] .
  then show ?case using d1 by (cases r) (simp_all add: d2 dispatch_on_def r)
qed

text \<open>
  (C1) In every state of a deployment that is reached by dispatching events to its units, whatever the events, their order, the
  events deferred before and the answers of the environment, the secret of the application, once it exists, has exactly the
  keys of the four system users: no password is ever missing and nothing else is stored there.
\<close>

theorem dispatched_passwords_complete:
  assumes "(event_step (\<lambda>E. app_name E = a))\<^sup>*\<^sup>* initial d"
  shows "case secrets (shared d) (RELATION_PEERS @ ''.'' @ a @ ''.app'') of None \<Rightarrow> True
    | Some c \<Rightarrow> dom c = {PASSWORD_KEY_BACKUPS, PASSWORD_KEY_MONITOR, PASSWORD_KEY_OPERATOR, PASSWORD_KEY_REPLICATION}"
proof -
  have "password_secret a (shared d)"
  proof (rule event_reachable_invariant [OF assms])
    fix E :: env and valid R pending ev args assume a: "app_name E = a"
    then have "app_name (with_refresh r E) = a" for r by (simp add: with_refresh_def)
    then show "keeps (password_secret a) (run_event valid R E pending ev args)"
      using passwords.kept_by_charm_init [of E] passwords.kept_by_every_hook a by (metis keeps_run_event)
  qed (simp_all add: password_secret_def initial_def quiet_world_def enter_def)
  moreover have "set (map snd USERNAME_TO_PASSWORD_KEY) =
      {PASSWORD_KEY_BACKUPS, PASSWORD_KEY_MONITOR, PASSWORD_KEY_OPERATOR, PASSWORD_KEY_REPLICATION}"
    by (auto simp: USERNAME_TO_PASSWORD_KEY_def)
  ultimately show ?thesis unfolding password_secret_def by metis
qed

section \<open>Events that never get through\<close>

lemma failing_handler_stops:
  assumes "h \<in> set (charm_handlers (substrate E))" "\<And>v. \<exists>x v'. build_handler valid E h v = (Inl x, v')"
  shows "\<exists>x w'. \<forall>pending ev a. run_event valid R E pending ev a w = (Inl x, w')"
proof -
  have "\<exists>x v'. for_each (build_handler valid E) hs v = (Inl x, v')" if "h \<in> set hs" for hs v
    using that
  proof (induction hs arbitrary: v)
    case (Cons g hs)
    obtain y v1 where y: "build_handler valid E g v = (y, v1)" by force
    show ?case
    proof (cases y)
      case (Inr u)
      then have "g \<noteq> h" using assms(2) [of v] y by auto
      with Cons Inr y show ?thesis by (simp add: seqM_def bindM_def)
    qed (simp add: seqM_def bindM_def y)
  qed simp
  note h = this [OF assms(1)]
  obtain y v where y: "build_mysql_clients E w = (y, v)" by force
  have "\<exists>x w'. charm_init valid R E w = (Inl x, w')"
    using h [of v] y by (cases y) (auto simp: charm_init_def seqM_def bindM_def)
  then show ?thesis by (auto simp: run_event_def bindM_def)
qed

lemma collect_refused_ok: "collect_refused rs refused = Inr () \<longleftrightarrow> refused = [] \<and> (\<forall>r \<in> set rs. r = Inr ())"
  by (induction rs refused rule: collect_refused.induct) auto

lemma if_set_ok: "if_set validator v = Inr () \<longleftrightarrow> (\<forall>x. v = Some x \<longrightarrow> (\<exists>y. validator x = Inr y))"
  by (cases v; cases "validator (the v)") (simp_all add: if_set_def)

lemma validators_accept:
  "(\<exists>y. cluster_name_validator n = Inr y) \<longleftrightarrow> cluster_name_validator n = Inr n"
  "(\<exists>y. max_connections_validator i = Inr y) \<longleftrightarrow> MIN_CONNS \<le> i"
  "(\<exists>y. profile_limit_memory_validator i = Inr y) \<longleftrightarrow> 600 \<le> i \<and> i \<le> 9999999"
  "(\<exists>y. binlog_retention_days_validator i = Inr y) \<longleftrightarrow> 1 \<le> i"
  "(\<exists>y. logs_retention_period_validator p = Inr y) \<longleftrightarrow>
     (case p of Auto s \<Rightarrow> s = ''auto'' | Days n \<Rightarrow> 0 < n \<and> n < 999)"
  by (simp_all add: cluster_name_validator_def max_connections_validator_def profile_limit_memory_validator_def
      binlog_retention_days_validator_def logs_retention_period_validator_def not_le split: retention.split)

text \<open>The configuration is accepted exactly when every validator accepts the value that is set.\<close>

lemma validated_ok:
  "validated c = Inr () \<longleftrightarrow>
     (\<forall>n. cfg_cluster_name c = Some n \<longrightarrow> cluster_name_validator n = Inr n) \<and>
     (\<forall>n. cfg_cluster_set_name c = Some n \<longrightarrow> cluster_name_validator n = Inr n) \<and>
     (\<forall>n. cfg_max_connections c = Some n \<longrightarrow> MIN_CONNS \<le> n) \<and>
     (\<forall>n. cfg_profile_limit_memory c = Some n \<longrightarrow> 600 \<le> n \<and> n \<le> 9999999) \<and>
     1 \<le> cfg_binlog_retention_days c \<and>
     (case cfg_logs_retention_period c of Auto s \<Rightarrow> s = ''auto'' | Days n \<Rightarrow> 0 < n \<and> n < 999)"
  by (simp add: validated_def collect_refused_ok if_set_ok validators_accept)

text \<open>
  (C39) Connection info of the backup storage that lacks a required key, and a value of the configuration that its validator refuses,
  stop the operator as a whole: the storage is built and the configuration is read in constructors, nothing catches the
  exceptions, and so every event ends before any handler or deferred event runs, in the same way whatever the event is.
\<close>

theorem refused_settings_stop_every_event:
  assumes "storage_info E \<noteq> [] \<and> (\<exists>k \<in> set required_params. \<not> dict_has (storage_info E) k) \<or> validated (config E) = Inl e"
  shows "\<exists>x w'. \<forall>pending ev a. run_event valid R E pending ev a w = (Inl x, w')"
  using assms
proof
  assume "storage_info E \<noteq> [] \<and> (\<exists>k \<in> set required_params. \<not> dict_has (storage_info E) k)"
  then have "configure E = Inl (value_error ''Invalid storage configuration. Required keys missing'')"
    by (auto simp: configure_def build_config_def list_all_iff)
  then show ?thesis
    by (intro failing_handler_stops [of BackupS3EventHandler])
      (simp_all add: charm_handlers_def k8s_handlers_def vm_handlers_def build_handler_def S3BackupStorage_def monad_simps split: substrate.splits)
next
  assume "validated (config E) = Inl e"
  then show ?thesis
    by (intro failing_handler_stops [of TLSClientEventHandler])
      (simp_all add: charm_handlers_def k8s_handlers_def vm_handlers_def build_handler_def seqM_def bindM_def monad_simps split: substrate.splits)
qed

text \<open>
  On Kubernetes the log proxy is given files that are not rotated: whatever the values of the types of logs are, the file that is forwarded for a type,
  its value below the directory of the logs, is not the file of this type in the configuration of \<open>logrotate\<close>, which is in lower case and ends in \<open>.log\<close>.
\<close>

lemma forwarded_not_rotated:
  "list_all2 (\<lambda>f log. f \<noteq> mysql_logs (the_paths E) @ ''/'' @ lower log @ ''.log'') (k8s_build_cos_logging E) (TextLogs E)"
proof -
  have "length (path_div d log) < length (d @ ''/'' @ lower log @ ''.log'')" for d log
    by (simp add: path_div_def lower_def)
  then have "path_div d log \<noteq> d @ ''/'' @ lower log @ ''.log''" for d log by (metis less_irrefl)
  then show ?thesis by (simp add: k8s_build_cos_logging_def list_all2_conv_all_nth)
qed

section \<open>A concrete run\<close>

text \<open>A unit on a machine on which the snap is not yet installed is elected as the leader.\<close>

definition sample_args :: event_args where
  "sample_args = \<lparr>ea_show_cluster = (\<lambda>_. []), ea_show_set = (\<lambda>_. []), ea_cluster_set = False, ea_username = [], ea_password = [],
     ea_scope = [], ea_force = False, ea_backup_id = None, ea_relation_id = 0, ea_database = [], ea_roles = None, ea_departing_unit = []\<rparr>"

definition fresh_env :: env where
  "fresh_env = abc_env\<lparr>ans_bool := \<lambda>_ _. Inr False\<rparr>"

lemma fresh_init:
  "\<exists>tr. charm_init (\<lambda>_. True) PeerRelationNotReady fresh_env quiet_world = (Inr None, quiet_world\<lparr>trace := tr\<rparr>)"
proof -
  have s: "substrate fresh_env = VM" "ans_bool fresh_env = (\<lambda>_ _. Inr False)" "ans_str fresh_env = (\<lambda>_ _. Inr [])"
    "storage_info fresh_env = []" "validated (config fresh_env) = Inr ()" "cfg_tls_client_private_key (config fresh_env) = None" "cfg_tls_peer_private_key (config fresh_env) = None"
    by (simp_all add: fresh_env_def abc_env_def quiet_env_def quiet_config_def validated_ok)
  have h: "start_if_initialized fresh_env x w = (Inr (), w\<lparr>trace := trace w @ [Wkl SnapPresent]\<rparr>)" for x w
    by (simp add: start_if_initialized_def initialized_def server_running_def snap_running_def s bindM_def monad_simps)
  obtain c where c: "build_mysql_clients fresh_env quiet_world = (Inr c, quiet_world\<lparr>trace := [Sys GetFqdn]\<rparr>)"
    by (simp add: build_mysql_clients_def build_mysql_connection_def secret_get_value_def get_secret_def get_hostname_def
        machine_get_hostname_def cluster_name_def cluster_set_name_def read_app_def s try_except_def bindM_def monad_simps quiet_world_def)
  show ?thesis
    by (rule exI [where x = "[Sys GetFqdn, Wkl SnapPresent, Wkl SnapPresent, Wkl SnapPresent]"])
      (simp add: c charm_init_def charm_handlers_def vm_handlers_def build_handler_def S3BackupStorage_def configure_def build_refresh_def
        vm_build_refresh_def client_parse_private_key_def peer_parse_private_key_def s h seqM_def bindM_def monad_simps)
qed

text \<open>Draws that go round the three classes of characters give strong passwords at every time.\<close>

lemma abc_strong: "strong_password (drawn abc_draws n)"
proof -
  have "abc_draws (n + i) = abc_draws (n mod 3 + i)" for i by (simp add: abc_draws_def mod_simps)
  then have "drawn abc_draws n = drawn abc_draws (n mod 3)" by (simp add: drawn_def)
  moreover have "n mod 3 \<in> {0, 1, 2}" by auto
  moreover have "strong_password (drawn abc_draws 0)" "strong_password (drawn abc_draws 1)" "strong_password (drawn abc_draws 2)"
    by code_simp+
  ultimately show ?thesis by auto
qed

lemma abc_passwords:
  assumes "ans_nat E = (\<lambda>tr _. Inr (abc_draws (length tr)))" "loop_fuel E = Suc n"
  shows "\<exists>ps es. mapM (\<lambda>_. create_system_password E) xs w = (Inr ps, w\<lparr>trace := trace w @ es\<rparr>)"
proof (induction xs arbitrary: w)
  case (Cons x xs)
  let ?es = "replicate 24 (Sys (RandomChoice (length password_choices)))"
  have "create_password E w = (Inr (drawn abc_draws (length (trace w))), w\<lparr>trace := trace w @ ?es\<rparr>)"
    using abc_strong [of "length (trace w)"]
    by (simp add: create_password_def assms(2) mapM_draws [OF assms(1)] system_password_len_def drawn_def bindM_def monad_simps)
  with Cons.IH [of "w\<lparr>trace := trace w @ ?es\<rparr>"] show ?case
    by (auto simp: create_system_password_def bindM_def monad_simps)
qed (auto simp: monad_simps intro: exI [where x = "[]"])

lemma fresh_leader:
  "\<exists>w. run_event (\<lambda>_. True) PeerRelationNotReady fresh_env [] OnLeaderElected sample_args quiet_world = (Inr (), w) \<and>
     secrets w (secret_label fresh_env) \<noteq> None"
proof -
  let ?E = "with_refresh None fresh_env"
  obtain tr where i: "charm_init (\<lambda>_. True) PeerRelationNotReady fresh_env quiet_world = (Inr None, quiet_world\<lparr>trace := tr\<rparr>)"
    using fresh_init by blast
  have s: "substrate fresh_env = VM" by (simp add: fresh_env_def abc_env_def quiet_env_def)
  have o: "observing VM OnLeaderElected sample_args = [LeaderElected]" by (simp add: wiring)
  have E: "ans_nat ?E = (\<lambda>tr _. Inr (abc_draws (length tr)))" "loop_fuel ?E = Suc 2" "has_peers ?E"
    "secret_label ?E = secret_label fresh_env" "falsy (cfg_cluster_name (config ?E))" "falsy (cfg_cluster_set_name (config ?E))"
    by (simp_all add: with_refresh_def fresh_env_def abc_env_def quiet_env_def quiet_config_def secret_label_def eval_nat_numeral falsy_iff)
  let ?w = "quiet_world\<lparr>trace := tr\<rparr>"
  obtain w2 where "create_passwords ?E ?w = (Inr (), w2)" "app_bag w2 = Map.empty"
    using abc_passwords [OF E(1,2), of "map snd USERNAME_TO_PASSWORD_KEY" ?w]
    by (auto simp: create_passwords_def Let_def bindM_def secret_create_def monad_simps quiet_world_def)
  moreover have "secrets ?w (secret_label ?E) = None" by (simp add: quiet_world_def)
  ultimately have "\<exists>w1. on_leader_elected ?E ?w = (Inr (), w1)"
    using E
    by (simp add: on_leader_elected_def bindM_def seqM_def fetch_passwords_run monad_simps set_leader_flag_def
        set_cluster_name_def set_cluster_set_name_def write_app_def write_unit_def read_app_def
        create_random_hash_def app_get_cluster_name_def app_get_cluster_set_name_def get_text_def
        app_set_cluster_name_def cluster_name_key_def cluster_set_name_key_def)
  then obtain w1 where w1: "on_leader_elected ?E ?w = (Inr (), w1)" by blast
  obtain v where "secrets w1 = secrets v" "create_passwords ?E ?w = (Inr (), v)"
    using on_leader_elected_run [OF E(3) w1] by (auto simp: quiet_world_def)
  then have "secrets w1 (secret_label fresh_env) \<noteq> None" using create_passwords_run [of ?E ?w v] E(4) by auto
  then show ?thesis using i w1 by (simp add: run_event_def s o bindM_def seqM_def monad_simps)
qed

theorem dispatched_passwords_complete_witness:
  "\<exists>c. secrets (shared (dispatch_on (\<lambda>_. True) PeerRelationNotReady fresh_env [] OnLeaderElected sample_args initial))
       (RELATION_PEERS @ ''.'' @ ''mysql'' @ ''.app'') = Some c \<and>
     dom c = {PASSWORD_KEY_BACKUPS, PASSWORD_KEY_MONITOR, PASSWORD_KEY_OPERATOR, PASSWORD_KEY_REPLICATION}"
proof -
  let ?d = "dispatch_on (\<lambda>_. True) PeerRelationNotReady fresh_env [] OnLeaderElected sample_args initial"
  have a: "app_name fresh_env = ''mysql''" by (simp add: fresh_env_def abc_env_def quiet_env_def)
  have "event_step (\<lambda>E. app_name E = ''mysql'') initial ?d" by (rule dispatch) (rule a)
  then have r: "(event_step (\<lambda>E. app_name E = ''mysql''))\<^sup>*\<^sup>* initial ?d" by blast
  have "enter fresh_env initial = quiet_world" by (simp add: enter_def initial_def quiet_world_def)
  then have "secrets (shared ?d) (RELATION_PEERS @ ''.'' @ ''mysql'' @ ''.app'') \<noteq> None"
    using fresh_leader by (auto simp: dispatch_on_def secret_label_def a)
  with dispatched_passwords_complete [OF r] show ?thesis by auto
qed

text \<open>Connection info with a bucket and no keys.\<close>

definition keyless_env :: env where
  "keyless_env = quiet_env\<lparr>storage_info := [(''bucket'', ParamStr ''b'')]\<rparr>"

theorem refused_settings_stop_every_event_witness:
  "\<exists>x y. fst (run_event (\<lambda>_. True) UnitTearingDown keyless_env [] OnUpdateStatus sample_args quiet_world) = Inl x \<and>
     fst (run_event (\<lambda>_. True) UnitTearingDown keyless_env [SelfHeal] OnInstall sample_args quiet_world) = Inl x \<and>
     fst (run_event (\<lambda>_. True) UnitTearingDown (quiet_env\<lparr>config := quiet_config\<lparr>cfg_max_connections := Some 1\<rparr>\<rparr>) [] OnInstall sample_args
       quiet_world) = Inl y"
proof -
  have "storage_info keyless_env \<noteq> []" "''access-key'' \<in> set required_params" "\<not> dict_has (storage_info keyless_env) ''access-key''"
    by (simp_all add: keyless_env_def required_params_def dict_has_def dict_keys_def)
  then have k: "storage_info keyless_env \<noteq> [] \<and> (\<exists>k \<in> set required_params. \<not> dict_has (storage_info keyless_env) k) \<or>
      validated (config keyless_env) = Inl e" for e by blast
  let ?E = "quiet_env\<lparr>config := quiet_config\<lparr>cfg_max_connections := Some 1\<rparr>\<rparr>"
  have "validated (config ?E) = Inl (Exn [PyValueError, PyException] ''ValidationError'')" by code_simp
  from refused_settings_stop_every_event [OF disjI2, OF this] refused_settings_stop_every_event [OF k]
  show ?thesis by (metis fst_conv)
qed

end
