(* ===== verification/DataInterfaces.thy ===== *)
theory DataInterfaces
  imports Json
begin

text \<open>
  The provider half of the relation library (\<open>libs/data_platform_libs/v0/data_interfaces.py\<close>) that the database
  handler talks to: the comparison of databags, the cache of Juju secrets, reading and writing of the fields of a
  relation, which may live in the databag or in a secret, and the handlers of the relation events.

  Juju itself (relations, databags, secrets) is the state \<open>provider\<close>.  The remote application of a relation may be
  absent (\<open>rd_remote = None\<close>).  A secret is found by its id or by the label under which it is known.  The parts of
  the environment are the version of Juju, the validation of secret contents and the ids of new secrets in
  \<open>ops\<close>, the order of Python sets, and \<open>Fernet\<close> of the cryptography package, \<open>None\<close> when it is not installed.  The
  lists of secret fields are read as lists of strings, which is what the requirer half writes.
\<close>

section \<open>The state\<close>

record relation_data =
  rd_local :: "string dict"
  rd_remote :: "string dict option"
  rd_remote_model :: "string option"

record juju_secret =
  js_id :: string
  js_label :: "string option"
  js_content :: "string dict"
  js_granted :: "nat list"

record cached_secret =
  cs_id :: string
  cs_content :: "string dict"

datatype provider_event = DatabaseRequestedE | DatabaseEntityRequestedE | DatabaseEntityPermissionsChangedE

record provider =
  pr_rels :: "nat \<Rightarrow> relation_data option"
  pr_store :: "juju_secret list"
  pr_cache :: "string \<Rightarrow> cached_secret option"
  local_secret_fields :: "string list"
  remote_secret_fields :: "string list"
  pr_emitted :: "(provider_event \<times> nat) list"

record fernet =
  fn_new :: "string \<Rightarrow> exn option"
  fn_encrypt :: "string \<Rightarrow> string \<Rightarrow> exn + string"
  fn_decrypt :: "string \<Rightarrow> string \<Rightarrow> exn + string"
  fn_generate_key :: string

record provider_env =
  pe_leader :: bool
  pe_model_uuid :: string
  pe_relation_name :: string
  pe_has_secrets :: bool
  pe_set_order :: "string list \<Rightarrow> string list"
  pe_check_content :: "string dict \<Rightarrow> exn option"
  pe_new_id :: "juju_secret list \<Rightarrow> string"
  pe_fernet :: "fernet option"

type_synonym 'a pop = "(provider, 'a) M"

definition secret_not_found :: exn where
  "secret_not_found = Exn [SecretNotFoundErrorC, ModelErrorC, PyException] ''secret not found''"

definition data_interfaces_error :: "string \<Rightarrow> exn" where
  "data_interfaces_error msg = Exn [DataInterfacesErrorC, PyException] msg"

definition secrets_unavailable :: "string \<Rightarrow> exn" where
  "secrets_unavailable msg = Exn [SecretsUnavailableErrorC, SecretErrorC, DataInterfacesErrorC, PyException] msg"

definition secret_already_exists :: exn where
  "secret_already_exists =
     Exn [SecretAlreadyExistsErrorC, SecretErrorC, DataInterfacesErrorC, PyException] ''already exists''"

definition premature_data_access :: exn where
  "premature_data_access = Exn [PrematureDataAccessErrorC, DataInterfacesErrorC, PyException]
     ''Premature access to relation data, update is forbidden before the connection is initialized.''"

definition data_access_error :: exn where
  "data_access_error = Exn [ModelErrorC, PyException] ''this unit is not the leader''"

section \<open>Databags\<close>

text \<open>
  Databags of Juju: a value is read with \<open>get\<close>, writing the empty text removes a key, the databag of the own
  application is for leaders only, and there is no databag of an absent application.
\<close>

definition bag_put :: "string \<Rightarrow> string \<Rightarrow> string dict \<Rightarrow> string dict" where
  "bag_put k v d = (if v = [] then AList.delete k d else AList.update k v d)"

definition bag_update :: "string dict \<Rightarrow> string dict \<Rightarrow> string dict" where
  "bag_update d e = foldl (\<lambda>acc (k, v). bag_put k v acc) d e"

definition the_relation :: "nat \<Rightarrow> relation_data pop" where
  "the_relation i = bindM (gets (\<lambda>p. pr_rels p i)) (\<lambda>r. case r of
     None \<Rightarrow> raise (data_interfaces_error ''Relation could not be retrieved'') | Some r \<Rightarrow> ret r)"

definition read_local :: "provider_env \<Rightarrow> nat \<Rightarrow> string dict pop" where
  "read_local P i = (if pe_leader P then bindM (the_relation i) (\<lambda>r. ret (rd_local r)) else raise data_access_error)"

definition read_remote :: "nat \<Rightarrow> string dict pop" where
  "read_remote i = bindM (the_relation i) (\<lambda>r. case rd_remote r of None \<Rightarrow> raise (key_error ''None'') | Some d \<Rightarrow> ret d)"

definition write_local :: "provider_env \<Rightarrow> nat \<Rightarrow> (string dict \<Rightarrow> string dict) \<Rightarrow> unit pop" where
  "write_local P i f =
     (if pe_leader P
      then bindM (the_relation i) (\<lambda>r. modify (\<lambda>p. p\<lparr>pr_rels := (pr_rels p)(i \<mapsto> r\<lparr>rd_local := f (rd_local r)\<rparr>)\<rparr>))
      else raise data_access_error)"

definition get_default :: "string dict \<Rightarrow> string \<Rightarrow> string \<Rightarrow> string" where
  "get_default d k v = (case map_of d k of None \<Rightarrow> v | Some x \<Rightarrow> x)"

definition get_encoded_dict :: "string dict \<Rightarrow> string \<Rightarrow> json dict option pop" where
  "get_encoded_dict d field = bindM (lift (json_loads (get_default d field ''{}''))) (\<lambda>data.
     ret (case data of JObj ms \<Rightarrow> Some ms | _ \<Rightarrow> None))"

fun json_strings :: "json list \<Rightarrow> string list" where
  "json_strings [] = []"
| "json_strings (JStr s # js) = s # json_strings js"
| "json_strings (j # js) = json_strings js"

definition get_encoded_list :: "string dict \<Rightarrow> string \<Rightarrow> string list option pop" where
  "get_encoded_list d field = bindM (lift (json_loads (get_default d field ''[]''))) (\<lambda>data.
     ret (case data of JArr js \<Rightarrow> Some (json_strings js) | _ \<Rightarrow> None))"

definition set_encoded_field :: "provider_env \<Rightarrow> nat \<Rightarrow> string \<Rightarrow> json \<Rightarrow> unit pop" where
  "set_encoded_field P i field v = write_local P i (bag_put field (json_dumps v))"

record key_diff =
  kd_added :: "string list"
  kd_changed :: "string list"
  kd_deleted :: "string list"

definition relation_diff :: "provider_env \<Rightarrow> nat \<Rightarrow> key_diff pop" where
  "relation_diff P i =
     bindM (read_local P i) (\<lambda>local.
     bindM (get_encoded_dict local ''data'') (\<lambda>old.
       let old_data = (case old of None \<Rightarrow> [] | Some d \<Rightarrow> d) in
     bindM (the_relation i) (\<lambda>r.
       let new_data = (case rd_remote r of None \<Rightarrow> [] | Some d \<Rightarrow> filter (\<lambda>(k, v). k \<noteq> ''data'') d);
           add = filter (\<lambda>k. \<not> dict_has old_data k) (dict_keys new_data);
           del = filter (\<lambda>k. \<not> dict_has new_data k) (dict_keys old_data);
           cha = filter (\<lambda>k. dict_has new_data k \<and> map_of old_data k \<noteq> map_option JStr (map_of new_data k)) (dict_keys old_data)
       in seqM (set_encoded_field P i ''data'' (JObj (dict_map JStr new_data)))
         (ret \<lparr>kd_added = add, kd_changed = cha, kd_deleted = del\<rparr>))))"

section \<open>Secrets\<close>

datatype secret_group = USER | TLS | MTLS | ENTITY | EXTRA

fun group_name :: "secret_group \<Rightarrow> string" where
  "group_name USER = ''user''"
| "group_name TLS = ''tls''"
| "group_name MTLS = ''mtls''"
| "group_name ENTITY = ''entity''"
| "group_name EXTRA = ''extra''"

definition SECRET_LABEL_MAP :: "(string \<times> secret_group) list" where
  "SECRET_LABEL_MAP = [(''username'', USER), (''password'', USER), (''uris'', USER), (''read-only-uris'', USER),
     (''tls'', TLS), (''tls-ca'', TLS), (''mtls-cert'', MTLS), (''entity-name'', ENTITY), (''entity-password'', ENTITY)]"

definition find_label :: "string \<Rightarrow> juju_secret list \<Rightarrow> juju_secret option" where
  "find_label label st = find (\<lambda>s. js_label s = Some label) st"

definition find_id :: "string \<Rightarrow> juju_secret list \<Rightarrow> juju_secret option" where
  "find_id i st = find (\<lambda>s. js_id s = i) st"

definition change_secret :: "string \<Rightarrow> (juju_secret \<Rightarrow> juju_secret) \<Rightarrow> juju_secret list \<Rightarrow> juju_secret list" where
  "change_secret i f st = map (\<lambda>s. if js_id s = i then f s else s) st"

text \<open>
  \<open>CachedSecret\<close> and \<open>SecretCache\<close>.  A cached secret is addressed by its label; what it holds of the content is
  empty until the first read.  The provider passes no legacy labels, so the lookups by old labels find nothing.
\<close>

definition secret_meta :: "string \<Rightarrow> string option \<Rightarrow> string option pop" where
  "secret_meta label uri =
     bindM (gets (\<lambda>p. find_label label (pr_store p))) (\<lambda>s. case s of
       Some s \<Rightarrow> ret (Some (js_id s))
     | None \<Rightarrow>
         if falsy uri then ret None
         else bindM (gets (\<lambda>p. find_id (the uri) (pr_store p))) (\<lambda>s. case s of
           None \<Rightarrow> raise secret_not_found
         | Some s \<Rightarrow> seqM (modify (\<lambda>p. p\<lparr>pr_store := change_secret (js_id s) (\<lambda>s. s\<lparr>js_label := Some label\<rparr>) (pr_store p)\<rparr>))
             (ret (Some (js_id s)))))"

definition cache_get :: "string \<Rightarrow> string option \<Rightarrow> bool pop" where
  "cache_get label uri =
     bindM (gets (\<lambda>p. pr_cache p label)) (\<lambda>c. case c of
       Some _ \<Rightarrow> ret True
     | None \<Rightarrow> bindM (secret_meta label uri) (\<lambda>m. case m of
         None \<Rightarrow> ret False
       | Some i \<Rightarrow> seqM (modify (\<lambda>p. p\<lparr>pr_cache := (pr_cache p)(label \<mapsto> \<lparr>cs_id = i, cs_content = []\<rparr>)\<rparr>)) (ret True)))"

definition cached :: "string \<Rightarrow> cached_secret pop" where
  "cached label = bindM (gets (\<lambda>p. pr_cache p label)) (\<lambda>c. case c of None \<Rightarrow> raise (key_error label) | Some c \<Rightarrow> ret c)"

definition cached_get_content :: "string \<Rightarrow> string dict pop" where
  "cached_get_content label =
     bindM (cached label) (\<lambda>c.
       if cs_content c \<noteq> [] then ret (cs_content c)
       else bindM (gets (\<lambda>p. find_id (cs_id c) (pr_store p))) (\<lambda>s. case s of
         None \<Rightarrow> raise secret_not_found
       | Some s \<Rightarrow> seqM (modify (\<lambda>p. p\<lparr>pr_cache := (pr_cache p)(label \<mapsto> c\<lparr>cs_content := js_content s\<rparr>)\<rparr>))
           (ret (js_content s))))"

definition dict_eq :: "'v dict \<Rightarrow> 'v dict \<Rightarrow> bool" where
  "dict_eq d e \<longleftrightarrow> list_all (\<lambda>k. map_of d k = map_of e k) (dict_keys d @ dict_keys e)"

definition check_content :: "provider_env \<Rightarrow> string dict \<Rightarrow> unit pop" where
  "check_content P content = (case pe_check_content P content of None \<Rightarrow> ret () | Some e \<Rightarrow> raise e)"

definition cached_set_content :: "provider_env \<Rightarrow> string \<Rightarrow> string dict \<Rightarrow> unit pop" where
  "cached_set_content P label content =
     bindM (cached_get_content label) (\<lambda>old.
       if dict_eq content old then ret ()
       else bindM (cached label) (\<lambda>c.
         if content \<noteq> [] then block
           [check_content P content,
            modify (\<lambda>p. p\<lparr>pr_store := change_secret (cs_id c) (\<lambda>s. s\<lparr>js_content := content\<rparr>) (pr_store p),
              pr_cache := (pr_cache p)(label \<mapsto> c\<lparr>cs_content := content\<rparr>)\<rparr>)]
         else modify (\<lambda>p. p\<lparr>pr_store := filter (\<lambda>s. js_id s \<noteq> cs_id c) (pr_store p)\<rparr>)))"

definition cache_add :: "provider_env \<Rightarrow> string \<Rightarrow> string dict \<Rightarrow> nat \<Rightarrow> string pop" where
  "cache_add P label content i =
     bindM (gets (\<lambda>p. pr_cache p label)) (\<lambda>c. case c of
       Some _ \<Rightarrow> raise secret_already_exists
     | None \<Rightarrow> seqM (check_content P content) (bindM (gets (\<lambda>p. pe_new_id P (pr_store p))) (\<lambda>new.
         seqM (modify (\<lambda>p. p\<lparr>
             pr_store := pr_store p @ [\<lparr>js_id = new, js_label = Some label, js_content = content, js_granted = [i]\<rparr>],
             pr_cache := (pr_cache p)(label \<mapsto> \<lparr>cs_id = new, cs_content = []\<rparr>)\<rparr>))
           (ret new))))"

definition cache_remove :: "string \<Rightarrow> unit pop" where
  "cache_remove label =
     bindM (cache_get label None) (\<lambda>b. if \<not> b then ret ()
       else bindM (cached label) (\<lambda>c. modify (\<lambda>p. p\<lparr>pr_store := filter (\<lambda>s. js_id s \<noteq> cs_id c) (pr_store p),
         pr_cache := (pr_cache p)(label := None)\<rparr>)))"

section \<open>The fields of a relation\<close>

definition generate_secret_label :: "string \<Rightarrow> nat \<Rightarrow> secret_group \<Rightarrow> string" where
  "generate_secret_label relation_name relation_id group_mapping =
     relation_name @ ''.'' @ show_nat relation_id @ ''.'' @ group_name group_mapping @ ''.secret''"

definition generate_secret_field_name :: "secret_group \<Rightarrow> string" where
  "generate_secret_field_name group_mapping = ''secret-'' @ group_name group_mapping"

definition is_secret_field :: "string \<Rightarrow> bool" where
  "is_secret_field field = starts_with ''secret-'' field"

definition relation_from_secret_label :: "string \<Rightarrow> (string \<times> int) option" where
  "relation_from_secret_label secret_label =
     (let contents = split_char (CHR ''.'') secret_label in
      if length contents < 3 then None
      else (let rest = butlast (butlast contents) in
        case int_of_str (last rest) of Inl _ \<Rightarrow> None
        | Inr relation_id \<Rightarrow> Some (join_with ''.'' (butlast rest), relation_id)))"

definition my_secret_groups :: "string list \<Rightarrow> secret_group list" where
  "my_secret_groups names = concat (map (\<lambda>field. case map_of SECRET_LABEL_MAP field of None \<Rightarrow> [] | Some g \<Rightarrow> [g]) names)"

definition secret_fields :: "provider_env \<Rightarrow> (provider \<Rightarrow> string list) \<Rightarrow> string list option pop" where
  "secret_fields P f = gets (\<lambda>p. if pe_has_secrets P then Some (f p) else None)"

definition get_secret_uri :: "provider_env \<Rightarrow> nat \<Rightarrow> secret_group \<Rightarrow> string option pop" where
  "get_secret_uri P i grp =
     (if \<not> pe_has_secrets P then raise (data_interfaces_error ''Secrets are not enabled for this component'')
      else bindM (gets local_secret_fields) (\<lambda>names.
        bindM (if grp \<in> set (my_secret_groups names) then read_local P i else read_remote i) (\<lambda>d.
          ret (map_of d (generate_secret_field_name grp)))))"

definition set_secret_uri :: "provider_env \<Rightarrow> nat \<Rightarrow> secret_group \<Rightarrow> string \<Rightarrow> unit pop" where
  "set_secret_uri P i grp secret_uri = write_local P i (bag_put (generate_secret_field_name grp) secret_uri)"

definition juju_secrets_only :: "provider_env \<Rightarrow> 'a pop \<Rightarrow> 'a pop" where
  "juju_secrets_only P m =
     (if \<not> pe_has_secrets P then raise (secrets_unavailable ''Secrets unavailable on current Juju version'') else m)"

definition leader_only :: "provider_env \<Rightarrow> 'a \<Rightarrow> 'a pop \<Rightarrow> 'a pop" where
  "leader_only P none m = (if \<not> pe_leader P then ret none else m)"

text \<open>The label of the secret when there is one.\<close>

definition get_relation_secret :: "provider_env \<Rightarrow> nat \<Rightarrow> secret_group \<Rightarrow> string option pop" where
  "get_relation_secret P i grp = juju_secrets_only P
     (let label = generate_secret_label (pe_relation_name P) i grp in
      bindM (cache_get label None) (\<lambda>found.
        if found then ret (Some label)
        else bindM (gets (\<lambda>p. pr_rels p i)) (\<lambda>r. case r of None \<Rightarrow> ret None
          | Some _ \<Rightarrow> bindM (get_secret_uri P i grp) (\<lambda>secret_uri.
              if falsy secret_uri then ret None
              else bindM (cache_get label secret_uri) (\<lambda>found. ret (if found then Some label else None))))))"

text \<open>What an operation on a secret group returns: a dictionary, or whether it succeeded.\<close>

datatype op_result = OpDict "string dict" | OpBool bool

fun truthy :: "op_result \<Rightarrow> bool" where
  "truthy (OpDict d) = (d \<noteq> [])"
| "truthy (OpBool b) = b"

definition get_group_secret_contents :: "provider_env \<Rightarrow> nat \<Rightarrow> secret_group \<Rightarrow> string list \<Rightarrow> op_result pop" where
  "get_group_secret_contents P i grp names =
     bindM (get_relation_secret P i grp) (\<lambda>secret. case secret of
       None \<Rightarrow> ret (OpDict [])
     | Some label \<Rightarrow> bindM (cached_get_content label) (\<lambda>data.
         ret (OpDict (filter (\<lambda>(k, v). names = [] \<or> k \<in> set names) data))))"

definition content_for_secret_group :: "string dict \<Rightarrow> string list \<Rightarrow> secret_group \<Rightarrow> string dict" where
  "content_for_secret_group content names grp =
     (if grp = EXTRA then filter (\<lambda>(k, v). k \<in> set names \<and> k \<notin> set (map fst SECRET_LABEL_MAP)) content
      else filter (\<lambda>(k, v). k \<in> set names \<and> map_of SECRET_LABEL_MAP k = Some grp) content)"

definition add_relation_secret :: "provider_env \<Rightarrow> string dict \<Rightarrow> nat \<Rightarrow> secret_group \<Rightarrow> string list \<Rightarrow> op_result pop" where
  "add_relation_secret P data i grp names = juju_secrets_only P
     (bindM (get_secret_uri P i grp) (\<lambda>uri.
       if \<not> falsy uri then ret (OpBool False)
       else bindM (cache_add P (generate_secret_label (pe_relation_name P) i grp)
           (content_for_secret_group data names grp) i) (\<lambda>secret_id.
         if secret_id = [] then raise (Exn [SecretErrorC, DataInterfacesErrorC, PyException] ''Secret added but is missing Secret ID'')
         else seqM (set_secret_uri P i grp secret_id) (ret (OpBool True)))))"

definition update_relation_secret :: "provider_env \<Rightarrow> string dict \<Rightarrow> nat \<Rightarrow> secret_group \<Rightarrow> string list \<Rightarrow> op_result pop" where
  "update_relation_secret P data i grp names = juju_secrets_only P
     (bindM (get_relation_secret P i grp) (\<lambda>secret. case secret of
       None \<Rightarrow> ret (OpBool False)
     | Some label \<Rightarrow> bindM (cached_get_content label) (\<lambda>old_content.
         seqM (cached_set_content P label (dict_update old_content (content_for_secret_group data names grp)))
           (ret (OpBool True)))))"

definition add_or_update_relation_secrets ::
  "provider_env \<Rightarrow> string dict \<Rightarrow> nat \<Rightarrow> secret_group \<Rightarrow> string list \<Rightarrow> op_result pop" where
  "add_or_update_relation_secrets P data i grp names =
     bindM (get_relation_secret P i grp) (\<lambda>secret.
       if secret \<noteq> None then update_relation_secret P data i grp names
       else add_relation_secret P data i grp names)"

fun pop_all :: "string list \<Rightarrow> string dict \<Rightarrow> string dict option" where
  "pop_all [] d = Some d"
| "pop_all (f # fs) d = (if dict_has d f then pop_all fs (AList.delete f d) else None)"

definition delete_relation_secret ::
  "provider_env \<Rightarrow> string list \<Rightarrow> nat \<Rightarrow> secret_group \<Rightarrow> string list \<Rightarrow> op_result pop" where
  "delete_relation_secret P names i grp group_fields = juju_secrets_only P
     (bindM (get_relation_secret P i grp) (\<lambda>secret. case secret of
       None \<Rightarrow> ret (OpBool False)
     | Some label \<Rightarrow> bindM (cached_get_content label) (\<lambda>old_content. case pop_all names old_content of
         None \<Rightarrow> ret (OpBool False)
       | Some new_content \<Rightarrow>
           seqM (if new_content = []
               then seqM (write_local P i (AList.delete (generate_secret_field_name grp)))
                 (cache_remove (generate_secret_label (pe_relation_name P) i grp))
               else cached_set_content P label new_content)
             (ret (OpBool True)))))"

text \<open>Secret fields by their group, in the order of their first appearance.\<close>

definition group_of :: "string \<Rightarrow> secret_group" where
  "group_of key = (case map_of SECRET_LABEL_MAP key of None \<Rightarrow> EXTRA | Some g \<Rightarrow> g)"

definition group_secret_fields :: "string list \<Rightarrow> (secret_group \<times> string list) list" where
  "group_secret_fields keys =
     map (\<lambda>g. (g, filter (\<lambda>k. group_of k = g) keys)) (rev (remdups (rev (map group_of keys))))"

fun process_groups :: "(secret_group \<Rightarrow> op_result pop) \<Rightarrow> (secret_group \<times> string list) list \<Rightarrow>
    string dict \<Rightarrow> string list \<Rightarrow> (string dict \<times> string list) pop" where
  "process_groups operation [] result normal_fields = ret (result, normal_fields)"
| "process_groups operation ((grp, keys) # gs) result normal_fields =
     bindM (operation grp) (\<lambda>group_result.
       if truthy group_result
       then process_groups operation gs
         (case group_result of OpDict d \<Rightarrow> dict_update result d | OpBool _ \<Rightarrow> result) normal_fields
       else process_groups operation gs result (normal_fields @ keys))"

definition process_secret_fields :: "provider_env \<Rightarrow> nat \<Rightarrow> string list option \<Rightarrow> string list \<Rightarrow>
    (nat \<Rightarrow> secret_group \<Rightarrow> string list \<Rightarrow> op_result pop) \<Rightarrow> (string dict \<times> string list) pop" where
  "process_secret_fields P i req_secret_fields impacted operation =
     (let req = (case req_secret_fields of None \<Rightarrow> [] | Some fs \<Rightarrow> fs) in
      bindM (if req \<noteq> [] \<and> pe_leader P then bindM (read_local P i) (\<lambda>d. ret (\<exists>k \<in> set req. dict_has d k)) else ret False)
        (\<lambda>fallback_to_databag.
          if req \<noteq> [] \<and> pe_has_secrets P \<and> \<not> fallback_to_databag
          then (let normal_fields = filter (\<lambda>k. k \<notin> set req) impacted;
                    names = pe_set_order P (remdups (filter (\<lambda>k. k \<in> set req) impacted))
                in process_groups (\<lambda>grp. operation i grp names) (group_secret_fields names) [] normal_fields)
          else ret ([], impacted)))"

section \<open>Reading and writing\<close>

definition load_secrets_from_databag :: "nat \<Rightarrow> unit pop" where
  "load_secrets_from_databag i =
     bindM (read_remote i) (\<lambda>d.
     bindM (get_encoded_list d ''requested-secrets'') (\<lambda>requested_secrets.
     bindM (get_encoded_list d ''provided-secrets'') (\<lambda>provided_secrets. block
       [case requested_secrets of None \<Rightarrow> ret () | Some fs \<Rightarrow> modify (\<lambda>p. p\<lparr>local_secret_fields := fs\<rparr>),
        case provided_secrets of None \<Rightarrow> ret () | Some fs \<Rightarrow> modify (\<lambda>p. p\<lparr>remote_secret_fields := fs\<rparr>)])))"

definition CROSS_MODEL_RELATION_CONSUMER_SECRETS :: "string list" where
  "CROSS_MODEL_RELATION_CONSUMER_SECRETS = [''mtls-cert'', ''requested-entity-secret'']"

definition get_encryption_key :: "nat \<Rightarrow> string option pop" where
  "get_encryption_key i =
     bindM (read_remote i) (\<lambda>d. let encryption_secret = map_of d ''encryption-secret'' in
       if falsy encryption_secret then ret None
       else bindM (gets (\<lambda>p. find_id (the encryption_secret) (pr_store p))) (\<lambda>s. case s of
         None \<Rightarrow> raise secret_not_found | Some s \<Rightarrow> ret (map_of (js_content s) ''encryption-key'')))"

text \<open>A relation to another model: the identifier of the model is known and differs from the own one.\<close>

definition cross_model :: "provider_env \<Rightarrow> relation_data \<Rightarrow> bool" where
  "cross_model P r = (case rd_remote_model r of None \<Rightarrow> False | Some u \<Rightarrow> u \<noteq> [] \<and> u \<noteq> pe_model_uuid P)"

fun decrypt_fields :: "fernet \<Rightarrow> string \<Rightarrow> string dict \<Rightarrow> exn + string dict" where
  "decrypt_fields f key [] = Inr []"
| "decrypt_fields f key ((k, v) # d) =
     (let value = (if k \<notin> set CROSS_MODEL_RELATION_CONSUMER_SECRETS then Inr v
        else (case (case fn_new f key of Some e \<Rightarrow> Inl e | None \<Rightarrow> fn_decrypt f key v) of
          Inr x \<Rightarrow> Inr x
        | Inl e \<Rightarrow> if caught [PyAttributeError, InvalidTokenC, PyTypeError, PyValueError] e then Inr v else Inl e))
      in case value of Inl e \<Rightarrow> Inl e | Inr x \<Rightarrow> map_sum id (Cons (k, x)) (decrypt_fields f key d))"

definition fetch_relation_data_without_secrets ::
  "provider_env \<Rightarrow> string dict pop \<Rightarrow> nat \<Rightarrow> string list \<Rightarrow> string dict pop" where
  "fetch_relation_data_without_secrets P read i names =
     bindM read (\<lambda>d.
       if d = [] then ret []
       else (let relation_data = (if names \<noteq> [] then map (\<lambda>k. (k, the (map_of d k))) (filter (dict_has d) names) else d) in
         bindM (the_relation i) (\<lambda>r.
           if \<not> cross_model P r then ret relation_data
           else bindM (get_encryption_key i) (\<lambda>encryption_key.
             if falsy encryption_key then ret relation_data
             else (case pe_fernet P of None \<Rightarrow> ret relation_data
               | Some f \<Rightarrow> lift (decrypt_fields f (the encryption_key) relation_data))))))"

definition fetch_relation_data_with_secrets ::
  "provider_env \<Rightarrow> string dict pop \<Rightarrow> string list option \<Rightarrow> nat \<Rightarrow> string list \<Rightarrow> string dict pop" where
  "fetch_relation_data_with_secrets P read req_secret_fields i names0 =
     bindM (if names0 \<noteq> [] then ret (names0, [])
        else bindM read (\<lambda>d. let normal = filter (\<lambda>k. \<not> is_secret_field k) (dict_keys d) in
          ret (normal @ (case req_secret_fields of None \<Rightarrow> [] | Some fs \<Rightarrow> fs), normal))) (\<lambda>(names, normal).
     bindM (if names \<noteq> [] then process_secret_fields P i req_secret_fields names (get_group_secret_contents P)
        else ret ([], normal)) (\<lambda>(result, normal_fields).
       if normal_fields = [] then ret result
       else bindM (fetch_relation_data_without_secrets P read i (pe_set_order P (remdups normal_fields)))
         (\<lambda>d. ret (dict_update result d))))"

definition fetch_specific_relation_data :: "provider_env \<Rightarrow> nat \<Rightarrow> string list \<Rightarrow> string dict pop" where
  "fetch_specific_relation_data P i names =
     bindM (the_relation i) (\<lambda>r. if rd_remote r = None then ret []
       else seqM (load_secrets_from_databag i)
         (bindM (secret_fields P remote_secret_fields) (\<lambda>req.
           fetch_relation_data_with_secrets P (read_remote i) req i names)))"

definition fetch_my_specific_relation_data :: "provider_env \<Rightarrow> nat \<Rightarrow> string list \<Rightarrow> string dict pop" where
  "fetch_my_specific_relation_data P i names =
     seqM (load_secrets_from_databag i)
       (bindM (secret_fields P local_secret_fields) (\<lambda>req.
         fetch_relation_data_with_secrets P (read_local P i) req i names))"

definition fetch_relation_field :: "provider_env \<Rightarrow> nat \<Rightarrow> string \<Rightarrow> string option pop" where
  "fetch_relation_field P relation_id field =
     bindM (fetch_specific_relation_data P relation_id [field]) (\<lambda>d. ret (map_of d field))"

definition fetch_my_relation_field :: "provider_env \<Rightarrow> nat \<Rightarrow> string \<Rightarrow> string option pop" where
  "fetch_my_relation_field P relation_id field = leader_only P None
     (seqM (the_relation relation_id)
       (bindM (fetch_my_specific_relation_data P relation_id [field]) (\<lambda>d. ret (map_of d field))))"

fun encrypt_fields :: "fernet option \<Rightarrow> string \<Rightarrow> string dict \<Rightarrow> exn + string dict" where
  "encrypt_fields fn key [] = Inr []"
| "encrypt_fields fn key ((k, v) # d) =
     (let value = (case fn of None \<Rightarrow> Inr []
        | Some f \<Rightarrow>
            (case (case fn_new f key of Some e \<Rightarrow> Inl e
                   | None \<Rightarrow> if k \<in> set CROSS_MODEL_RELATION_CONSUMER_SECRETS then fn_encrypt f key v else Inr v) of
              Inr x \<Rightarrow> Inr x
            | Inl e \<Rightarrow> if caught [PyAttributeError, InvalidTokenC, PyValueError, PyTypeError] e then Inr [] else Inl e))
      in case value of Inl e \<Rightarrow> Inl e | Inr x \<Rightarrow> map_sum id (Cons (k, x)) (encrypt_fields fn key d))"

definition update_relation_data_without_secrets :: "provider_env \<Rightarrow> nat \<Rightarrow> string dict \<Rightarrow> unit pop" where
  "update_relation_data_without_secrets P i data =
     bindM (get_encryption_key i) (\<lambda>encryption_key. bindM (the_relation i) (\<lambda>r.
     bindM (if \<not> falsy encryption_key \<and> cross_model P r then lift (encrypt_fields (pe_fernet P) (the encryption_key) data)
        else ret data) (\<lambda>data. write_local P i (\<lambda>d. bag_update d data))))"

definition delete_relation_data_without_secrets :: "provider_env \<Rightarrow> nat \<Rightarrow> string list \<Rightarrow> unit pop" where
  "delete_relation_data_without_secrets P i names = write_local P i (fold AList.delete names)"

definition base_update_relation_data :: "provider_env \<Rightarrow> nat \<Rightarrow> string dict \<Rightarrow> unit pop" where
  "base_update_relation_data P i data =
     seqM (load_secrets_from_databag i)
       (bindM (secret_fields P local_secret_fields) (\<lambda>req.
        bindM (process_secret_fields P i req (dict_keys data) (add_or_update_relation_secrets P data)) (\<lambda>(_, normal_fields).
          update_relation_data_without_secrets P i (filter (\<lambda>(k, v). k \<in> set normal_fields) data))))"

definition provider_update_relation_data :: "provider_env \<Rightarrow> nat \<Rightarrow> string dict \<Rightarrow> unit pop" where
  "provider_update_relation_data P i data =
     bindM (fetch_relation_field P i ''database'') (\<lambda>resource.
       if resource = None \<and>
         (\<exists>k \<in> set (dict_keys data). k \<notin> {''endpoints'', ''read-only-endpoints'', ''replset'', ''encryption-secret''})
       then raise premature_data_access
       else base_update_relation_data P i data)"

definition update_relation_data :: "provider_env \<Rightarrow> nat \<Rightarrow> string dict \<Rightarrow> unit pop" where
  "update_relation_data P relation_id data = leader_only P ()
     (seqM (the_relation relation_id) (provider_update_relation_data P relation_id data))"

definition base_delete_relation_data :: "provider_env \<Rightarrow> nat \<Rightarrow> string list \<Rightarrow> unit pop" where
  "base_delete_relation_data P i names =
     bindM (the_relation i) (\<lambda>r.
     seqM (if rd_remote r \<noteq> None then load_secrets_from_databag i else ret ())
       (bindM (secret_fields P local_secret_fields) (\<lambda>req.
        bindM (process_secret_fields P i req names (delete_relation_secret P names)) (\<lambda>(_, normal_fields).
          delete_relation_data_without_secrets P i normal_fields))))"

definition delete_relation_data :: "provider_env \<Rightarrow> nat \<Rightarrow> string list \<Rightarrow> unit pop" where
  "delete_relation_data P relation_id names = leader_only P ()
     (seqM (the_relation relation_id) (base_delete_relation_data P relation_id names))"

section \<open>What the handlers set\<close>

definition set_credentials :: "provider_env \<Rightarrow> nat \<Rightarrow> string \<Rightarrow> string \<Rightarrow> unit pop" where
  "set_credentials P i username password = update_relation_data P i [(''username'', username), (''password'', password)]"

definition set_tls :: "provider_env \<Rightarrow> nat \<Rightarrow> string \<Rightarrow> unit pop" where
  "set_tls P i tls = update_relation_data P i [(''tls'', tls)]"

definition set_tls_ca :: "provider_env \<Rightarrow> nat \<Rightarrow> string \<Rightarrow> unit pop" where
  "set_tls_ca P i tls_ca = update_relation_data P i [(''tls-ca'', tls_ca)]"

definition provider_set_database :: "provider_env \<Rightarrow> nat \<Rightarrow> string \<Rightarrow> unit pop" where
  "provider_set_database P i database_name = update_relation_data P i [(''database'', database_name)]"

definition set_prefix_databases :: "provider_env \<Rightarrow> nat \<Rightarrow> string list \<Rightarrow> unit pop" where
  "set_prefix_databases P i databases = update_relation_data P i [(''prefix-databases'', join_with '','' (sort databases))]"

definition set_endpoints :: "provider_env \<Rightarrow> nat \<Rightarrow> string \<Rightarrow> unit pop" where
  "set_endpoints P i connection_strings = update_relation_data P i [(''endpoints'', connection_strings)]"

definition set_read_only_endpoints :: "provider_env \<Rightarrow> nat \<Rightarrow> string \<Rightarrow> unit pop" where
  "set_read_only_endpoints P i connection_strings = update_relation_data P i [(''read-only-endpoints'', connection_strings)]"

definition set_replset :: "provider_env \<Rightarrow> nat \<Rightarrow> string \<Rightarrow> unit pop" where
  "set_replset P i replset = update_relation_data P i [(''replset'', replset)]"

definition set_uris :: "provider_env \<Rightarrow> nat \<Rightarrow> string \<Rightarrow> unit pop" where
  "set_uris P i uris = update_relation_data P i [(''uris'', uris)]"

definition set_read_only_uris :: "provider_env \<Rightarrow> nat \<Rightarrow> string \<Rightarrow> unit pop" where
  "set_read_only_uris P i uris = update_relation_data P i [(''read-only-uris'', uris)]"

definition set_version :: "provider_env \<Rightarrow> nat \<Rightarrow> string \<Rightarrow> unit pop" where
  "set_version P i version = update_relation_data P i [(''version'', version)]"

definition set_subordinated :: "provider_env \<Rightarrow> nat \<Rightarrow> unit pop" where
  "set_subordinated P i = update_relation_data P i [(''subordinated'', ''true'')]"

section \<open>The events of a relation\<close>

definition provider_on_relation_created :: "provider_env \<Rightarrow> nat \<Rightarrow> unit pop" where
  "provider_on_relation_created P i =
     (if \<not> pe_leader P then ret ()
      else bindM (the_relation i) (\<lambda>r. case rd_remote_model r of
        None \<Rightarrow> ret ()
      | Some remote_model_uuid \<Rightarrow>
          if pe_model_uuid P = remote_model_uuid then ret ()
          else (case pe_fernet P of None \<Rightarrow> ret () | Some f \<Rightarrow>
            (let secret_label = pe_model_uuid P @ ''-'' @ show_nat i @ ''-encryption-secret'' in
             bindM (gets (\<lambda>p. find_label secret_label (pr_store p))) (\<lambda>s.
             bindM (case s of Some s \<Rightarrow> ret (js_id s)
                | None \<Rightarrow> (let content = [(''encryption-key'', fn_generate_key f)] in
                    seqM (check_content P content) (bindM (gets (\<lambda>p. pe_new_id P (pr_store p))) (\<lambda>new.
                      seqM (modify (\<lambda>p. p\<lparr>pr_store := pr_store p @
                          [\<lparr>js_id = new, js_label = Some secret_label, js_content = content, js_granted = []\<rparr>]\<rparr>))
                        (ret new))))) (\<lambda>secret_id.
             seqM (modify (\<lambda>p. p\<lparr>pr_store := change_secret secret_id (\<lambda>s. s\<lparr>js_granted := i # js_granted s\<rparr>) (pr_store p)\<rparr>))
               (if secret_id = []
                then raise (Exn [SecretErrorC, DataInterfacesErrorC, PyException] ''Encryption secret is missing secred id'')
                else update_relation_data P i [(''encryption-secret'', secret_id)])))))))"

definition base_on_relation_changed :: "nat \<Rightarrow> unit pop" where
  "base_on_relation_changed i =
     bindM (read_remote i) (\<lambda>d.
     bindM (get_encoded_list d ''requested-secrets'') (\<lambda>requested_secrets.
     bindM (get_encoded_list d ''provided-secrets'') (\<lambda>provided_secrets. block
       [case requested_secrets of None \<Rightarrow> ret () | Some fs \<Rightarrow> modify (\<lambda>p. p\<lparr>local_secret_fields := fs\<rparr>),
        case provided_secrets of None \<Rightarrow> ret () | Some fs \<Rightarrow> modify (\<lambda>p. p\<lparr>remote_secret_fields := fs\<rparr>)])))"

definition validate_entity_consistency :: "key_diff \<Rightarrow> unit pop" where
  "validate_entity_consistency diff =
     for_each (\<lambda>key. if key \<in> set (kd_changed diff)
         then raise (value_error (''Cannot change '' @ key @ '' after relation has already been created'')) else ret ())
       [''entity-type'', ''extra-user-roles'', ''extra-group-roles'']"

definition emit :: "provider_event \<Rightarrow> nat \<Rightarrow> unit pop" where
  "emit e i = modify (\<lambda>p. p\<lparr>pr_emitted := pr_emitted p @ [(e, i)]\<rparr>)"

definition provider_on_relation_changed :: "provider_env \<Rightarrow> nat \<Rightarrow> unit pop" where
  "provider_on_relation_changed P i =
     seqM (base_on_relation_changed i)
       (if \<not> pe_leader P then ret ()
        else bindM (relation_diff P i) (\<lambda>diff.
          seqM (validate_entity_consistency diff)
            (if ''database'' \<in> set (kd_added diff) \<and> ''entity-type'' \<notin> set (kd_added diff) then emit DatabaseRequestedE i
             else if ''database'' \<in> set (kd_added diff) \<and> ''entity-type'' \<in> set (kd_added diff) then emit DatabaseEntityRequestedE i
             else if ''database'' \<notin> set (kd_added diff) \<and> ''entity-type'' \<notin> set (kd_added diff) \<and>
               (''entity-permissions'' \<in> set (kd_added diff) \<or> ''entity-permissions'' \<in> set (kd_changed diff))
             then emit DatabaseEntityPermissionsChangedE i
             else ret ())))"

text \<open>What a handler reads of the event: the database and the roles that the client asked for.\<close>

definition event_database :: "relation_data \<Rightarrow> string option" where
  "event_database r = (case rd_remote r of None \<Rightarrow> None | Some d \<Rightarrow> map_of d ''database'')"

definition event_extra_user_roles :: "relation_data \<Rightarrow> string option" where
  "event_extra_user_roles r = (case rd_remote r of None \<Rightarrow> None | Some d \<Rightarrow> map_of d ''extra-user-roles'')"

definition event_external_node_connectivity :: "relation_data \<Rightarrow> bool" where
  "event_external_node_connectivity r = (case rd_remote r of None \<Rightarrow> False
     | Some d \<Rightarrow> get_default d ''external-node-connectivity'' ''false'' = ''true'')"

definition event_prefix_matching :: "relation_data \<Rightarrow> string option" where
  "event_prefix_matching r = (case rd_remote r of None \<Rightarrow> None | Some d \<Rightarrow> map_of d ''prefix-matching'')"

section \<open>Labels\<close>

lemma split_char_snoc:
  "c \<notin> set t \<Longrightarrow> split_char c (s @ c # t) = split_char c s @ [t]"
  by (induction s) (auto simp: split_char_free split: list.splits)

text \<open>The label of a secret leads back to its relation, also when the name of the relation has dots.\<close>

lemma relation_of_secret_label:
  "relation_from_secret_label (generate_secret_label n i g) = Some (n, int i)"
proof -
  have free: "CHR ''.'' \<notin> set (show_nat i)" "CHR ''.'' \<notin> set (group_name g)"
    using show_nat_digits [of "CHR ''.''" i] by (auto simp: is_digit_def) (cases g; simp)
  have dot: "CHR ''.'' \<notin> set ''secret''" by simp
  have eq: "generate_secret_label n i g =
      ((n @ CHR ''.'' # show_nat i) @ CHR ''.'' # group_name g) @ CHR ''.'' # ''secret''"
    by (simp add: generate_secret_label_def)
  have "split_char (CHR ''.'') (generate_secret_label n i g) =
      ((split_char (CHR ''.'') n @ [show_nat i]) @ [group_name g]) @ [''secret'']"
    unfolding eq split_char_snoc [OF dot] split_char_snoc [OF free(2)] split_char_snoc [OF free(1)] ..
  then show ?thesis
    by (simp add: relation_from_secret_label_def Let_def butlast_append join_split_char int_of_str_nat)
qed

section \<open>A request is announced once\<close>

definition remembered :: "string dict \<Rightarrow> json" where
  "remembered d = JObj (dict_map JStr (filter (\<lambda>(k, v). k \<noteq> ''data'') d))"

lemma dict_ok_filter: "dict_ok d \<Longrightarrow> dict_ok (filter P d)"
  by (simp add: dict_ok_def dict_keys_def distinct_map_filter)

lemma remembered_ok: "dict_ok d \<Longrightarrow> json_loads (json_dumps (remembered d)) = Inr (remembered d)"
proof (rule json_round_trip)
  assume "dict_ok d"
  then show "json_ok (remembered d)"
    unfolding remembered_def json_ok.simps
    by (simp add: dict_ok_filter) (auto simp: dict_map_def list_all_iff)
qed

lemma run_databags:
  assumes "pr_rels p i = Some r"
  shows "the_relation i p = (Inr r, p)"
    "pe_leader P \<Longrightarrow> read_local P i p = (Inr (rd_local r), p)"
    "rd_remote r = Some d \<Longrightarrow> read_remote i p = (Inr d, p)"
    "pe_leader P \<Longrightarrow> write_local P i f p = (Inr (), p\<lparr>pr_rels := (pr_rels p)(i \<mapsto> r\<lparr>rd_local := f (rd_local r)\<rparr>)\<rparr>)"
  using assms
  by (simp_all add: the_relation_def read_local_def read_remote_def write_local_def bindM_def monad_simps)

definition old_data :: "json \<Rightarrow> json dict" where
  "old_data j = (case j of JObj ms \<Rightarrow> ms | _ \<Rightarrow> [])"

definition new_data :: "string dict \<Rightarrow> string dict" where
  "new_data d = filter (\<lambda>(k, v). k \<noteq> ''data'') d"

definition compare :: "json dict \<Rightarrow> string dict \<Rightarrow> key_diff" where
  "compare old new = \<lparr>kd_added = filter (\<lambda>k. \<not> dict_has old k) (dict_keys new),
     kd_changed = filter (\<lambda>k. dict_has new k \<and> map_of old k \<noteq> map_option JStr (map_of new k)) (dict_keys old),
     kd_deleted = filter (\<lambda>k. \<not> dict_has new k) (dict_keys old)\<rparr>"

lemma relation_diff_run:
  assumes "pe_leader P" "pr_rels p i = Some r" "rd_remote r = Some d"
  shows "relation_diff P i p = (case json_loads (get_default (rd_local r) ''data'' ''{}'') of
     Inl e \<Rightarrow> (Inl e, p)
   | Inr j \<Rightarrow> (Inr (compare (old_data j) (new_data d)), p\<lparr>pr_rels := (pr_rels p)(i \<mapsto>
       r\<lparr>rd_local := bag_put ''data'' (json_dumps (remembered d)) (rd_local r)\<rparr>)\<rparr>))"
  using assms
  by (auto simp: relation_diff_def run_databags get_encoded_dict_def set_encoded_field_def bindM_def seqM_def monad_simps Let_def
      compare_def old_data_def new_data_def remembered_def split: sum.splits json.splits)

lemma compare_same: "compare (dict_map JStr d) d = \<lparr>kd_added = [], kd_changed = [], kd_deleted = []\<rparr>"
  by (simp add: compare_def dict_has_def filter_empty_conv)

text \<open>The events that a change of the databag raises, from the difference and the entity fields.\<close>

definition announced :: "key_diff \<Rightarrow> provider_event option" where
  "announced k =
     (if ''database'' \<in> set (kd_added k)
      then Some (if ''entity-type'' \<in> set (kd_added k) then DatabaseEntityRequestedE else DatabaseRequestedE)
      else if ''entity-type'' \<notin> set (kd_added k) \<and> ''entity-permissions'' \<in> set (kd_added k) \<union> set (kd_changed k)
      then Some DatabaseEntityPermissionsChangedE else None)"

definition entity_changed :: "key_diff \<Rightarrow> bool" where
  "entity_changed k \<longleftrightarrow> {''entity-type'', ''extra-user-roles'', ''extra-group-roles''} \<inter> set (kd_changed k) \<noteq> {}"

lemma validate_run:
  "\<not> entity_changed k \<Longrightarrow> validate_entity_consistency k p = (Inr (), p)"
  "entity_changed k \<Longrightarrow> \<exists>m. validate_entity_consistency k p = (Inl (value_error m), p)"
  by (auto simp: validate_entity_consistency_def entity_changed_def seqM_def bindM_def monad_simps)

definition listed :: "json \<Rightarrow> string list \<Rightarrow> string list" where
  "listed j old = (case j of JArr js \<Rightarrow> json_strings js | _ \<Rightarrow> old)"

lemma base_on_relation_changed_eq:
  assumes "pr_rels p i = Some r" "rd_remote r = Some d"
  shows "base_on_relation_changed i p =
    (case json_loads (get_default d ''requested-secrets'' ''[]'') of Inl e \<Rightarrow> (Inl e, p)
     | Inr l \<Rightarrow> (case json_loads (get_default d ''provided-secrets'' ''[]'') of Inl e \<Rightarrow> (Inl e, p)
       | Inr m \<Rightarrow> (Inr (), p\<lparr>local_secret_fields := listed l (local_secret_fields p),
           remote_secret_fields := listed m (remote_secret_fields p)\<rparr>)))"
proof -
  have d: "read_remote i p = (Inr d, p)" using run_databags(3) [OF assms] .
  show ?thesis
    unfolding base_on_relation_changed_def
    by (simp add: d get_encoded_list_def bindM_def seqM_def monad_simps listed_def split: sum.splits json.splits)
qed

lemma base_on_relation_changed_run:
  assumes "pr_rels p i = Some r" "rd_remote r = Some d" "base_on_relation_changed i p = (Inr (), p1)"
  shows "\<exists>ls rs. p1 = p\<lparr>local_secret_fields := ls, remote_secret_fields := rs\<rparr>"
    "pr_rels q i = Some r' \<Longrightarrow> rd_remote r' = Some d \<Longrightarrow>
       \<exists>ls rs. base_on_relation_changed i q = (Inr (), q\<lparr>local_secret_fields := ls, remote_secret_fields := rs\<rparr>)"
  using assms(3) by (auto simp: base_on_relation_changed_eq [OF assms(1,2)] base_on_relation_changed_eq split: sum.splits)

lemma provider_on_relation_changed_run:
  assumes "pe_leader P" "pr_rels p i = Some r" "rd_remote r = Some d" "base_on_relation_changed i p = (Inr (), p1)"
    and "json_loads (get_default (rd_local r) ''data'' ''{}'') = Inr j" "\<not> entity_changed (compare (old_data j) (new_data d))"
  shows "\<exists>p'. provider_on_relation_changed P i p = (Inr (), p') \<and>
    pr_rels p' = (pr_rels p)(i \<mapsto> r\<lparr>rd_local := bag_put ''data'' (json_dumps (remembered d)) (rd_local r)\<rparr>) \<and>
    pr_emitted p' = pr_emitted p @ (case announced (compare (old_data j) (new_data d)) of None \<Rightarrow> [] | Some e \<Rightarrow> [(e, i)])"
proof -
  from base_on_relation_changed_run(1) [OF assms(2-4)] obtain ls rs
    where p1: "p1 = p\<lparr>local_secret_fields := ls, remote_secret_fields := rs\<rparr>" by blast
  then have "pr_rels p1 i = Some r" by (simp add: assms(2))
  note d = relation_diff_run [OF assms(1) this assms(3)]
  show ?thesis
    unfolding provider_on_relation_changed_def
    by (simp add: seqM_def bindM_def assms(1,4,5) d [unfolded p1] validate_run(1) [OF assms(6)] announced_def emit_def monad_simps p1)
qed

lemma provider_on_relation_changed_ok:
  assumes "pe_leader P" "pr_rels p i = Some r" "rd_remote r = Some d" "provider_on_relation_changed P i p = (Inr (), p')"
  shows "\<exists>p1 j. base_on_relation_changed i p = (Inr (), p1) \<and> json_loads (get_default (rd_local r) ''data'' ''{}'') = Inr j \<and>
    \<not> entity_changed (compare (old_data j) (new_data d))"
proof -
  from assms(1,4) obtain p1 k p2 where b: "base_on_relation_changed i p = (Inr (), p1)" "relation_diff P i p1 = (Inr k, p2)"
    "\<exists>p3. validate_entity_consistency k p2 = (Inr (), p3)"
    by (auto simp: provider_on_relation_changed_def seqM_Inr_iff bindM_Inr_iff)
  from base_on_relation_changed_run(1) [OF assms(2,3) b(1)] have "pr_rels p1 i = Some r" by (auto simp: assms(2))
  from relation_diff_run [OF assms(1) this assms(3)] b(2) obtain j
    where j: "json_loads (get_default (rd_local r) ''data'' ''{}'') = Inr j" "k = compare (old_data j) (new_data d)"
    by (auto split: sum.splits)
  have "\<not> entity_changed k"
  proof
    assume "entity_changed k"
    from validate_run(2) [OF this, of p2] b(3) show False by auto
  qed
  with b(1) j show ?thesis by blast
qed

end
