(* ===== verification/Provider.thy ===== *)
theory Provider
  imports DataInterfaces
begin

text \<open>
  What the provider half of the relation library guarantees: fields that a client asked for as secrets are never
  written to the databag, and published credentials are read back, in the same hook and in later ones.
\<close>

section \<open>Invariants of the own databag\<close>

text \<open>
  What an invariant of the own databag of a relation has to withstand when fields are read, and when secrets are written.
\<close>

locale databag_invariant =
  fixes P :: provider_env and i :: nat and I :: "provider \<Rightarrow> bool"
  assumes frame: "I p \<Longrightarrow> I (p\<lparr>pr_store := st\<rparr>)" "I p \<Longrightarrow> I (p\<lparr>pr_cache := c\<rparr>)"
      "I p \<Longrightarrow> I (p\<lparr>local_secret_fields := fs\<rparr>)" "I p \<Longrightarrow> I (p\<lparr>remote_secret_fields := fs\<rparr>)"
    and uri: "keeps I (set_secret_uri P i g u)"
begin

lemma modifies:
  "keeps I (modify (\<lambda>p. p\<lparr>pr_store := f p\<rparr>))" "keeps I (modify (\<lambda>p. p\<lparr>pr_cache := h p\<rparr>))"
  "keeps I (modify (\<lambda>p. p\<lparr>pr_store := f p, pr_cache := h p\<rparr>))"
  "keeps I (modify (\<lambda>p. p\<lparr>local_secret_fields := fs\<rparr>))" "keeps I (modify (\<lambda>p. p\<lparr>remote_secret_fields := fs\<rparr>))"
  by (simp_all add: keeps_def monad_simps frame)

lemmas base = keeps modifies

lemma secrets:
  "keeps I (secret_meta l u)" "keeps I (cache_get l u)" "keeps I (cached l)" "keeps I (cached_get_content l)"
  "keeps I (check_content P c)" "keeps I (cached_set_content P l c)" "keeps I (cache_add P l c j)"
proof -
  show m: "keeps I (secret_meta l u)" for l u unfolding secret_meta_def by (intro base)
  show "keeps I (cache_get l u)" unfolding cache_get_def by (intro base m)
  show c: "keeps I (cached l)" for l unfolding cached_def by (intro base)
  show g: "keeps I (cached_get_content l)" for l unfolding cached_get_content_def by (intro base c)
  show k: "keeps I (check_content P c)" for c unfolding check_content_def by (intro base)
  show "keeps I (cached_set_content P l c)" unfolding cached_set_content_def by (intro base g c k)
  show "keeps I (cache_add P l c j)" unfolding cache_add_def by (intro base k)
qed

lemma reads:
  "keeps I (the_relation j)" "keeps I (read_local P j)" "keeps I (read_remote j)" "keeps I (get_secret_uri P j g)"
  "keeps I (get_encoded_list d f)" "keeps I (load_secrets_from_databag j)" "keeps I (secret_fields P h)"
  "keeps I (get_encryption_key j)"
proof -
  show t: "keeps I (the_relation j)" for j unfolding the_relation_def by (intro base)
  show l: "keeps I (read_local P j)" unfolding read_local_def by (intro base t)
  show r: "keeps I (read_remote j)" for j unfolding read_remote_def by (intro base t)
  show "keeps I (get_secret_uri P j g)" unfolding get_secret_uri_def by (intro base l r)
  show e: "keeps I (get_encoded_list d f)" for d f unfolding get_encoded_list_def by (intro base)
  show "keeps I (load_secrets_from_databag j)" unfolding load_secrets_from_databag_def by (intro base e r)
  show "keeps I (secret_fields P h)" unfolding secret_fields_def by (intro base)
  show "keeps I (get_encryption_key j)" unfolding get_encryption_key_def by (intro base r)
qed

lemma groups:
  "keeps I m \<Longrightarrow> keeps I (juju_secrets_only P m)" "keeps I (get_relation_secret P j g)"
  "keeps I (get_group_secret_contents P j g fs)" "keeps I (update_relation_secret P dat j g fs)"
  "keeps I (add_relation_secret P dat i g fs)" "keeps I (add_or_update_relation_secrets P dat i g fs)"
proof -
  show j: "keeps I m \<Longrightarrow> keeps I (juju_secrets_only P m)" for m :: "'b pop"
    unfolding juju_secrets_only_def by (intro base)
  show r: "keeps I (get_relation_secret P j g)" for j g
    unfolding get_relation_secret_def juju_secrets_only_def by (intro base secrets reads)
  show "keeps I (get_group_secret_contents P j g fs)" unfolding get_group_secret_contents_def by (intro base r secrets)
  show u: "keeps I (update_relation_secret P dat j g fs)" for j
    unfolding update_relation_secret_def juju_secrets_only_def by (intro base r secrets)
  show a: "keeps I (add_relation_secret P dat i g fs)"
    unfolding add_relation_secret_def juju_secrets_only_def by (intro base r secrets reads uri)
  show "keeps I (add_or_update_relation_secrets P dat i g fs)"
    unfolding add_or_update_relation_secrets_def by (intro base r u a)
qed

lemma processing:
  assumes "\<And>g fs. keeps I (operation i g fs)"
  shows "keeps I (process_groups (\<lambda>g. operation i g fs) gs result nf)" "keeps I (process_secret_fields P i req names operation)"
proof -
  show g: "keeps I (process_groups (\<lambda>g. operation i g fs) gs result nf)" for fs gs result nf
    by (induction gs arbitrary: result nf) (auto intro!: base assms)
  show "keeps I (process_secret_fields P i req names operation)"
    unfolding process_secret_fields_def by (intro base g reads)
qed

lemma fetching: "keeps I (fetch_relation_field P i f)"
proof -
  have w: "keeps I (fetch_relation_data_without_secrets P (read_remote i) i ns)" for ns
    unfolding fetch_relation_data_without_secrets_def by (intro base reads)
  have s: "keeps I (fetch_relation_data_with_secrets P (read_remote i) req i ns)" for req ns
    unfolding fetch_relation_data_with_secrets_def by (intro base reads w processing groups)
  show ?thesis
    unfolding fetch_relation_field_def fetch_specific_relation_data_def by (intro base reads s)
qed

end

section \<open>Secrets stay out of the databag\<close>

definition secret_free :: "nat \<Rightarrow> string dict \<Rightarrow> string list \<Rightarrow> provider \<Rightarrow> bool" where
  "secret_free i d req p \<longleftrightarrow>
     (\<exists>r. pr_rels p i = Some r \<and> rd_remote r = Some d \<and> (\<forall>k \<in> set req. \<not> dict_has (rd_local r) k))"

lemma dict_has_update: "dict_has (AList.update k v d) l \<longleftrightarrow> l = k \<or> dict_has d l"
  by (auto simp: dict_has_iff update_conv')

lemma dict_has_delete: "dict_has (AList.delete k d) l \<longleftrightarrow> l \<noteq> k \<and> dict_has d l"
  by (auto simp: dict_has_iff delete_conv')

lemma dict_has_bag_put: "dict_has (bag_put k v d) l \<Longrightarrow> l = k \<or> dict_has d l"
  by (auto simp: bag_put_def dict_has_update dict_has_delete split: if_splits)

lemma dict_has_bag_update: "dict_has (bag_update d e) l \<Longrightarrow> dict_has e l \<or> dict_has d l"
proof (induction e arbitrary: d)
  case (Cons a e)
  obtain k v where a: "a = (k, v)" by force
  with Cons.prems have "dict_has (bag_update (bag_put k v d) e) l" by (simp add: bag_update_def)
  from Cons.IH [OF this] dict_has_bag_put [of k v d l] show ?case by (auto simp: a dict_has_def dict_keys_def)
qed (simp add: bag_update_def)

lemma secret_field_name: "is_secret_field (generate_secret_field_name g)"
  by (simp add: is_secret_field_def generate_secret_field_name_def starts_with_iff)

lemma secret_free_put:
  assumes "secret_free i d req p" "\<And>l. \<forall>k \<in> set req. \<not> dict_has l k \<Longrightarrow> \<forall>k \<in> set req. \<not> dict_has (f l) k"
  shows "secret_free i d req (snd (write_local P i f p))"
  using assms by (auto simp: secret_free_def write_local_def the_relation_def bindM_def monad_simps)

text \<open>The names of the fields that hold the identifiers of secrets are not asked for as secrets.\<close>

abbreviation plain_request :: "string list \<Rightarrow> bool" where
  "plain_request req \<equiv> list_all (\<lambda>k. \<not> is_secret_field k) req"

interpretation secret_free: databag_invariant P i "\<lambda>p. plain_request req \<longrightarrow> secret_free i d req p" for P i d req
proof
  show "keeps (\<lambda>p. plain_request req \<longrightarrow> secret_free i d req p) (set_secret_uri P i g u)" for g u
  proof (rule keepsI, rule impI)
    fix p assume "plain_request req \<longrightarrow> secret_free i d req p" and r: "plain_request req"
    then have "secret_free i d req p" by simp
    then show "secret_free i d req (snd (set_secret_uri P i g u p))"
      unfolding set_secret_uri_def
      by (rule secret_free_put) (use r secret_field_name [of g] dict_has_bag_put in \<open>fastforce simp: list_all_iff\<close>)
  qed
qed (simp_all add: secret_free_def)

lemma get_secret_uri_state: "snd (get_secret_uri P i g p) = p"
  by (auto simp: get_secret_uri_def read_local_def read_remote_def the_relation_def bindM_def monad_simps split: option.splits)

lemma cache_get_none:
  "cache_get l u p = (Inr False, p') \<Longrightarrow> p' = p \<and> falsy u"
  "cache_get l u p = (Inr True, p') \<Longrightarrow> \<exists>c. pr_cache p' l = Some c"
  by (auto simp: cache_get_def secret_meta_def bindM_def seqM_def monad_simps split: option.splits if_splits)

lemma get_relation_secret_none:
  assumes "get_relation_secret P i g p = (Inr None, p')" "pr_rels p i \<noteq> None"
  shows "p' = p \<and> pe_has_secrets P \<and> (\<exists>u. get_secret_uri P i g p = (Inr u, p) \<and> falsy u)"
proof -
  let ?l = "generate_secret_label (pe_relation_name P) i g"
  from assms(1) have s: "pe_has_secrets P" by (auto simp: get_relation_secret_def juju_secrets_only_def monad_simps split: if_splits)
  with assms obtain u p1 where 1: "cache_get ?l None p = (Inr False, p)" "get_secret_uri P i g p = (Inr u, p1)"
    "falsy u \<and> p' = p1 \<or> (\<exists>p2. cache_get ?l u p1 = (Inr False, p2) \<and> p' = p2 \<and> \<not> falsy u)"
    by (auto simp: get_relation_secret_def juju_secrets_only_def Let_def bindM_Inr_iff monad_simps
        split: if_splits option.splits dest: cache_get_none(1))
  moreover have "p1 = p" using get_secret_uri_state [of P i g p] 1(2) by simp
  ultimately show ?thesis using s cache_get_none(1) by blast
qed

lemma get_relation_secret_some:
  assumes "get_relation_secret P i g p = (Inr (Some l), p')"
  shows "l = generate_secret_label (pe_relation_name P) i g \<and> pe_has_secrets P \<and> (\<exists>c. pr_cache p' l = Some c)"
  using assms
  by (auto simp: get_relation_secret_def juju_secrets_only_def Let_def bindM_Inr_iff monad_simps
      split: if_splits option.splits dest: cache_get_none(2))

lemma get_relation_secret_cached:
  assumes "pe_has_secrets P" "pr_cache p (generate_secret_label (pe_relation_name P) i g) = Some c"
  shows "get_relation_secret P i g p = (Inr (Some (generate_secret_label (pe_relation_name P) i g)), p)"
  using assms by (simp add: get_relation_secret_def juju_secrets_only_def Let_def cache_get_def bindM_def monad_simps)

text \<open>Writing a group of secret fields never fails silently: it never falls back to the databag.\<close>

lemma add_or_update_true:
  assumes "add_or_update_relation_secrets P dat i g fs p = (Inr x, p')" "pr_rels p i \<noteq> None"
  shows "x = OpBool True"
proof -
  from assms(1) obtain s p1 where s: "get_relation_secret P i g p = (Inr s, p1)"
    "(if s \<noteq> None then update_relation_secret P dat i g fs else add_relation_secret P dat i g fs) p1 = (Inr x, p')"
    by (auto simp: add_or_update_relation_secrets_def bindM_Inr_iff)
  show ?thesis
  proof (cases s)
    case None
    with get_relation_secret_none [of P i g p p1] s assms(2) show ?thesis
      by (auto simp: add_relation_secret_def juju_secrets_only_def bindM_Inr_iff seqM_Inr_iff monad_simps split: if_splits)
  next
    case (Some l)
    with get_relation_secret_some [of P i g p l p1] s obtain c
      where "pe_has_secrets P" "pr_cache p1 (generate_secret_label (pe_relation_name P) i g) = Some c" by auto
    from get_relation_secret_cached [OF this] s(2) Some show ?thesis
      by (auto simp: update_relation_secret_def juju_secrets_only_def bindM_Inr_iff seqM_Inr_iff monad_simps split: if_splits)
  qed
qed

lemma process_groups_writes:
  assumes "process_groups (\<lambda>g. add_or_update_relation_secrets P dat i g fs) gs result nf p = (Inr (res, nf'), p')"
    and "secret_free i d [] p"
  shows "nf' = nf"
  using assms
proof (induction gs arbitrary: result p)
  case (Cons a gs)
  obtain g ks where a: "a = (g, ks)" by force
  with Cons.prems(1) obtain x p1 where x: "add_or_update_relation_secrets P dat i g fs p = (Inr x, p1)"
    by (auto simp: bindM_Inr_iff)
  have "x = OpBool True" using add_or_update_true [OF x] Cons.prems(2) by (auto simp: secret_free_def)
  moreover have "secret_free i d [] p1"
    using keepsD [OF secret_free.groups(6) [where req = "[]" and d = d] _ x] Cons.prems(2) by simp
  ultimately show ?case using Cons a x by (auto simp: bindM_def)
qed (simp add: monad_simps)

lemma process_writes_keep_secrets:
  assumes "process_secret_fields P i (Some req) ks (add_or_update_relation_secrets P dat) p = (Inr (res, nf), p')"
    and "secret_free i d req p" "pe_has_secrets P"
  shows "set nf \<inter> set req = {}"
proof (cases "req = []")
  case False
  obtain r where r: "pr_rels p i = Some r" "\<forall>k \<in> set req. \<not> dict_has (rd_local r) k"
    using assms(2) by (auto simp: secret_free_def)
  then have "(if req \<noteq> [] \<and> pe_leader P then bindM (read_local P i) (\<lambda>d. ret (\<exists>k \<in> set req. dict_has d k)) else ret False) p
      = (Inr False, p)"
    by (simp add: run_databags bindM_def monad_simps)
  with assms(1,3) False obtain fs where "process_groups (\<lambda>g. add_or_update_relation_secrets P dat i g fs)
      (group_secret_fields fs) [] (filter (\<lambda>k. k \<notin> set req) ks) p = (Inr (res, nf), p')"
    by (auto simp: process_secret_fields_def Let_def bindM_def)
  then have "nf = filter (\<lambda>k. k \<notin> set req) ks"
    by (rule process_groups_writes [where d = d]) (use assms(2) in \<open>auto simp: secret_free_def\<close>)
  then show ?thesis by auto
qed simp

lemma encrypt_fields_keys: "encrypt_fields fn key d = Inr e \<Longrightarrow> dict_keys e = dict_keys d"
  by (induction fn key d arbitrary: e rule: encrypt_fields.induct)
    (auto simp: dict_keys_def Let_def map_sum_def split: sum.splits option.splits if_splits)

lemma update_without_secrets_keeps:
  assumes "secret_free i d req p" "set (dict_keys e) \<inter> set req = {}"
  shows "secret_free i d req (snd (update_relation_data_without_secrets P i e p))"
proof -
  have w: "secret_free i d req (snd (write_local P i (\<lambda>d. bag_update d e') q))"
    if "secret_free i d req q" "dict_keys e' = dict_keys e" for e' q
    using that(1) by (rule secret_free_put) (use that(2) assms(2) dict_has_bag_update in \<open>fastforce simp: dict_has_def\<close>)
  have "snd (get_encryption_key i p) = p"
    by (auto simp: get_encryption_key_def read_remote_def the_relation_def bindM_def monad_simps Let_def split: option.splits)
  then show ?thesis
    using assms(1) w encrypt_fields_keys
    by (auto simp: update_relation_data_without_secrets_def bindM_def the_relation_def monad_simps split: prod.splits sum.splits option.splits)
qed

lemma load_eq: "load_secrets_from_databag i = base_on_relation_changed i"
  by (simp add: load_secrets_from_databag_def base_on_relation_changed_def)

lemma base_update_keeps_secrets:
  assumes "secret_free i d req p" "pe_has_secrets P" "plain_request req"
    and "json_loads (get_default d ''requested-secrets'' ''[]'') = Inr (JArr js)" "req = json_strings js"
  shows "secret_free i d req (snd (base_update_relation_data P i dat p))"
proof (cases "load_secrets_from_databag i p")
  case (Pair r1 p1)
  have k: "keeps (secret_free i d req) m" if "keeps (\<lambda>p. plain_request req \<longrightarrow> secret_free i d req p) m" for m :: "'b pop"
    using that assms(3) by simp
  from keepsD [OF k [OF secret_free.reads(6)] assms(1) Pair] have p1: "secret_free i d req p1" .
  show ?thesis
  proof (cases r1)
    case (Inl e)
    with Pair p1 show ?thesis by (simp add: base_update_relation_data_def seqM_def bindM_def)
  next
    case (Inr u)
    obtain r where "pr_rels p i = Some r" "rd_remote r = Some d" using assms(1) by (auto simp: secret_free_def)
    from base_on_relation_changed_eq [OF this] Pair Inr assms(4,5) have l: "local_secret_fields p1 = req"
      by (auto simp: load_eq listed_def split: sum.splits)
    obtain x p2 where x: "process_secret_fields P i (Some req) (dict_keys dat) (add_or_update_relation_secrets P dat) p1 = (x, p2)"
      by force
    have p2: "secret_free i d req p2"
      by (rule keepsD [OF k [OF secret_free.processing(2)] p1 x]) (rule secret_free.groups)
    show ?thesis
    proof (cases x)
      case (Inl e)
      with Pair Inr l x p2 assms(2) show ?thesis
        by (simp add: base_update_relation_data_def secret_fields_def seqM_def bindM_def monad_simps)
    next
      case y: (Inr y)
      obtain res nf where "y = (res, nf)" by force
      with process_writes_keep_secrets [of P i req "dict_keys dat" dat p1 res nf p2 d] x y p1 assms(2)
      have "set nf \<inter> set req = {}" by simp
      then have "set (dict_keys (filter (\<lambda>(k, v). k \<in> set nf) dat)) \<inter> set req = {}" by (auto simp: dict_keys_def)
      from update_without_secrets_keeps [OF p2 this] Pair Inr l x y \<open>y = (res, nf)\<close> assms(2) show ?thesis
        by (simp add: base_update_relation_data_def secret_fields_def seqM_def bindM_def monad_simps)
    qed
  qed
qed

lemma update_keeps_secret_free:
  assumes "secret_free i d req p" "pe_has_secrets P" "plain_request req"
    and "json_loads (get_default d ''requested-secrets'' ''[]'') = Inr (JArr js)" "req = json_strings js"
  shows "secret_free i d req (snd (update_relation_data P i dat p))"
proof -
  have f: "secret_free i d req (snd (fetch_relation_field P i f p))" for f
    using secret_free.fetching [of req i d P f] assms(1,3) by (simp add: keeps_def)
  have "secret_free i d req (snd (provider_update_relation_data P i dat p))"
    using f base_update_keeps_secrets [OF _ assms(2-5)]
    by (auto simp: provider_update_relation_data_def bindM_def monad_simps split: prod.splits sum.splits) (metis snd_conv)+
  moreover obtain r where "pr_rels p i = Some r" using assms(1) by (auto simp: secret_free_def)
  ultimately show ?thesis
    using assms(1) by (simp add: update_relation_data_def leader_only_def seqM_def bindM_def monad_simps run_databags)
qed

text \<open>
  (C12) Secrets stay out of the databag: while a client asks for fields as secrets and none of them is in the databag
  yet, no update of the relation, whatever it writes and however it ends, puts one of them there.
\<close>

theorem secrets_stay_out_of_databag:
  assumes "pe_has_secrets P" "pr_rels p i = Some r" "rd_remote r = Some d"
    and "json_loads (get_default d ''requested-secrets'' ''[]'') = Inr (JArr js)"
    and "\<forall>k \<in> set (json_strings js). \<not> is_secret_field k \<and> \<not> dict_has (rd_local r) k"
  shows "\<exists>r'. pr_rels (snd (update_relation_data P i dat p)) i = Some r' \<and> rd_remote r' = Some d \<and>
    (\<forall>k \<in> set (json_strings js). \<not> dict_has (rd_local r') k)"
proof -
  have "secret_free i d (json_strings js) p" "plain_request (json_strings js)" using assms by (auto simp: secret_free_def list_all_iff)
  from update_keeps_secret_free [OF this(1) assms(1) this(2) assms(4) refl, of dat] show ?thesis by (simp add: secret_free_def)
qed

section \<open>The cache of secrets\<close>

text \<open>
  The cached secret under a label is the one that has this label in Juju, with the same content once it was read.  The ids of secrets
  are distinct.
\<close>

definition coherent :: "string \<Rightarrow> provider \<Rightarrow> bool" where
  "coherent l p \<longleftrightarrow> distinct (map js_id (pr_store p)) \<and> (\<forall>s \<in> set (pr_store p). dict_ok (js_content s)) \<and>
     (\<forall>c. pr_cache p l = Some c \<longrightarrow> (\<exists>s. find_label l (pr_store p) = Some s \<and> js_id s = cs_id c \<and>
        (cs_content c = [] \<or> cs_content c = js_content s)))"

definition holds_secret :: "string \<Rightarrow> string \<Rightarrow> string \<Rightarrow> provider \<Rightarrow> bool" where
  "holds_secret l k v p \<longleftrightarrow> (\<exists>s. find_label l (pr_store p) = Some s \<and> map_of (js_content s) k = Some v)"

definition same_fields :: "provider \<Rightarrow> provider \<Rightarrow> bool" where
  "same_fields p p' \<longleftrightarrow> pr_rels p' = pr_rels p \<and> local_secret_fields p' = local_secret_fields p \<and>
     remote_secret_fields p' = remote_secret_fields p"

lemma find_label_SomeD: "find_label l st = Some s \<Longrightarrow> s \<in> set st \<and> js_label s = Some l"
  by (auto simp: find_label_def find_Some_iff)

lemma find_id_of_member: "distinct (map js_id st) \<Longrightarrow> s \<in> set st \<Longrightarrow> find_id (js_id s) st = Some s"
  by (induction st) (auto simp: find_id_def rev_image_eqI)

lemma find_label_change:
  assumes "\<And>s. js_label (f s) = js_label s"
  shows "find_label l (change_secret j f st) = map_option (\<lambda>s. if js_id s = j then f s else s) (find_label l st)"
  using assms by (induction st) (auto simp: find_label_def change_secret_def)

lemma change_secret_ids: "(\<And>s. js_id (f s) = js_id s) \<Longrightarrow> map js_id (change_secret j f st) = map js_id st"
  by (simp add: change_secret_def)

lemma find_label_relabel:
  assumes "find_label l st = None" "find_id u st = Some s" "distinct (map js_id st)"
  shows "find_label l (change_secret (js_id s) (\<lambda>s. s\<lparr>js_label := Some l\<rparr>) st) = Some (s\<lparr>js_label := Some l\<rparr>)"
  using assms by (induction st) (auto simp: find_label_def find_id_def change_secret_def find_Some_iff split: if_splits)

lemma cache_get_coherent:
  assumes "cache_get l u p = (Inr True, p')" "coherent l p"
  shows "coherent l p' \<and> pr_cache p' l \<noteq> None \<and> same_fields p p'"
proof (cases "pr_cache p l")
  case (Some c)
  with assms show ?thesis by (auto simp: cache_get_def bindM_def monad_simps same_fields_def)
next
  case None
  show ?thesis
  proof (cases "find_label l (pr_store p)")
    case (Some s)
    with None assms show ?thesis
      by (auto simp: cache_get_def secret_meta_def coherent_def bindM_def seqM_def monad_simps same_fields_def)
  next
    case no: None
    with None assms(1) obtain s where s: "find_id (the u) (pr_store p) = Some s"
      "p' = p\<lparr>pr_store := change_secret (js_id s) (\<lambda>s. s\<lparr>js_label := Some l\<rparr>) (pr_store p),
        pr_cache := (pr_cache p)(l \<mapsto> \<lparr>cs_id = js_id s, cs_content = []\<rparr>)\<rparr>"
      by (auto simp: cache_get_def secret_meta_def bindM_def seqM_def monad_simps split: if_splits option.splits)
    with find_label_relabel [OF no s(1)] assms(2) show ?thesis
      by (auto simp: coherent_def change_secret_ids same_fields_def) (auto simp: change_secret_def)
  qed
qed

lemma get_relation_secret_coherent:
  assumes "get_relation_secret P i g p = (Inr (Some l), p')" "coherent l p"
  shows "coherent l p' \<and> pr_cache p' l \<noteq> None \<and> same_fields p p'"
proof -
  have l: "l = generate_secret_label (pe_relation_name P) i g" using get_relation_secret_some [OF assms(1)] by blast
  have "cache_get l None p = (Inr True, p') \<or> (\<exists>u. cache_get l u p = (Inr True, p'))"
  proof (cases "cache_get l None p = (Inr False, p)")
    case True
    then obtain u q where "get_secret_uri P i g p = (Inr u, q)" "cache_get l u q = (Inr True, p')"
      using assms(1) unfolding l
      by (auto simp: get_relation_secret_def juju_secrets_only_def Let_def bindM_Inr_iff monad_simps bindM_def
          split: if_splits option.splits prod.splits sum.splits)
    with get_secret_uri_state [of P i g p] show ?thesis by auto
  next
    case False
    from assms(1) obtain b q where b: "cache_get l None p = (Inr b, q)" "b \<Longrightarrow> q = p'"
      unfolding l by (auto simp: get_relation_secret_def juju_secrets_only_def Let_def bindM_Inr_iff monad_simps split: if_splits)
    with False cache_get_none(1) [of l None p q] show ?thesis by (cases b) auto
  qed
  with cache_get_coherent [OF _ assms(2)] show ?thesis by blast
qed

lemma cached_get_content_run:
  assumes "coherent l p" "pr_cache p l \<noteq> None"
  shows "\<exists>s c. cached_get_content l p = (Inr (js_content s), p\<lparr>pr_cache := c\<rparr>) \<and> find_label l (pr_store p) = Some s \<and>
    coherent l (p\<lparr>pr_cache := c\<rparr>) \<and> (\<exists>x. c l = Some x \<and> cs_id x = js_id s)"
proof -
  obtain x s where x: "pr_cache p l = Some x" "find_label l (pr_store p) = Some s" "js_id s = cs_id x"
    "cs_content x = [] \<or> cs_content x = js_content s"
    using assms by (auto simp: coherent_def)
  then have "find_id (cs_id x) (pr_store p) = Some s"
    using find_id_of_member [of "pr_store p" s] find_label_SomeD [OF x(2)] assms(1) by (simp add: coherent_def)
  with x have "cached_get_content l p =
      (Inr (js_content s), p\<lparr>pr_cache := (if cs_content x = [] then (pr_cache p)(l \<mapsto> x\<lparr>cs_content := js_content s\<rparr>) else pr_cache p)\<rparr>)"
    by (auto simp: cached_get_content_def cached_def bindM_def seqM_def monad_simps)
  moreover have "coherent l (p\<lparr>pr_cache := (if cs_content x = [] then (pr_cache p)(l \<mapsto> x\<lparr>cs_content := js_content s\<rparr>) else pr_cache p)\<rparr>)"
    using x assms(1) by (auto simp: coherent_def)
  ultimately show ?thesis using x by fastforce
qed

lemma dict_eq_map_of: "dict_eq d e \<longleftrightarrow> map_of d = map_of e"
proof
  assume e: "dict_eq d e"
  show "map_of d = map_of e"
  proof
    fix k show "map_of d k = map_of e k"
    proof (cases "k \<in> set (dict_keys d @ dict_keys e)")
      case True
      with e show ?thesis unfolding dict_eq_def list_all_iff by blast
    next
      case False
      then have "map_of d k = None" "map_of e k = None" by (auto simp: dict_keys_def map_of_eq_None_iff)
      then show ?thesis by simp
    qed
  qed
qed (simp add: dict_eq_def list_all_iff)

lemma cached_set_content_run:
  assumes "coherent l p" "pr_cache p l \<noteq> None" "cached_set_content P l content p = (Inr (), p')" "content \<noteq> []" "dict_ok content"
  shows "coherent l p' \<and> (\<exists>s. find_label l (pr_store p') = Some s \<and> map_of (js_content s) = map_of content) \<and>
    same_fields p p'"
proof -
  obtain s c x where s: "cached_get_content l p = (Inr (js_content s), p\<lparr>pr_cache := c\<rparr>)" "find_label l (pr_store p) = Some s"
    "coherent l (p\<lparr>pr_cache := c\<rparr>)" "c l = Some x" "cs_id x = js_id s"
    using cached_get_content_run [OF assms(1,2)] by blast
  show ?thesis
  proof (cases "dict_eq content (js_content s)")
    case True
    with s assms(3) have "p' = p\<lparr>pr_cache := c\<rparr>" by (auto simp: cached_set_content_def bindM_def monad_simps)
    with s True show ?thesis by (auto simp: dict_eq_map_of same_fields_def)
  next
    case False
    with s assms(3,4) have p': "p' = p\<lparr>pr_store := change_secret (js_id s) (\<lambda>s. s\<lparr>js_content := content\<rparr>) (pr_store p),
        pr_cache := c(l \<mapsto> x\<lparr>cs_content := content\<rparr>)\<rparr>"
      by (auto simp: cached_set_content_def cached_def bindM_def seqM_def monad_simps check_content_def split: option.splits)
    have f: "find_label l (change_secret (js_id s) (\<lambda>s. s\<lparr>js_content := content\<rparr>) (pr_store p)) = Some (s\<lparr>js_content := content\<rparr>)"
      using s(2) by (subst find_label_change) simp_all
    with p' s assms(1,5) show ?thesis
      by (auto simp: coherent_def change_secret_ids same_fields_def) (auto simp: change_secret_def)
  qed
qed

lemma get_relation_secret_none_label:
  assumes "get_relation_secret P i g p = (Inr None, p')"
  shows "pr_cache p (generate_secret_label (pe_relation_name P) i g) = None \<and>
    find_label (generate_secret_label (pe_relation_name P) i g) (pr_store p) = None"
  using assms
  by (auto simp: get_relation_secret_def juju_secrets_only_def Let_def cache_get_def secret_meta_def bindM_def seqM_def monad_simps
      split: if_splits option.splits)

lemma content_for_secret_group_ok: "dict_ok dat \<Longrightarrow> dict_ok (content_for_secret_group dat fs g)"
  by (simp add: content_for_secret_group_def dict_ok_filter)

lemma find_label_snoc: "find_label l st = None \<Longrightarrow> js_label s = Some l \<Longrightarrow> find_label l (st @ [s]) = Some s"
  by (induction st) (auto simp: find_label_def)

lemma map_of_updated: "dict_ok e \<Longrightarrow> map_of e k = Some v \<Longrightarrow> map_of (dict_update d e) k = Some v"
  by (simp add: map_of_dict_update map_of_rev_distinct)

lemma add_writes:
  assumes "add_relation_secret P dat i g fs p = (Inr x, p')" "dict_ok dat" "\<And>st. pe_new_id P st \<notin> js_id ` set st"
    and "get_secret_uri P i g p = (Inr u, p)" "falsy u" "find_label l (pr_store p) = None" "coherent l p"
    and l: "l = generate_secret_label (pe_relation_name P) i g"
  shows "coherent l p' \<and> (\<forall>k v. map_of (content_for_secret_group dat fs g) k = Some v \<longrightarrow> holds_secret l k v p') \<and>
    local_secret_fields p' = local_secret_fields p \<and> remote_secret_fields p' = remote_secret_fields p"
proof -
  let ?c = "content_for_secret_group dat fs g"
  let ?s = "\<lparr>js_id = pe_new_id P (pr_store p), js_label = Some l, js_content = ?c, js_granted = [i]\<rparr>"
  obtain rs where p': "p' = p\<lparr>pr_store := pr_store p @ [?s], pr_cache := (pr_cache p)(l \<mapsto> \<lparr>cs_id = js_id ?s, cs_content = []\<rparr>), pr_rels := rs\<rparr>"
    using assms(1,4,5)
    by (auto simp: add_relation_secret_def juju_secrets_only_def cache_add_def check_content_def set_secret_uri_def write_local_def
        the_relation_def bindM_def seqM_def monad_simps l split: if_splits option.splits)
  have f: "find_label l (pr_store p @ [?s]) = Some ?s" using assms(6) by (rule find_label_snoc) simp
  have "coherent l p'"
    using assms(3) [of "pr_store p"] assms(7) content_for_secret_group_ok [OF assms(2), of fs g]
    unfolding p' coherent_def by (auto simp: f)
  then show ?thesis by (simp add: p' holds_secret_def f)
qed

lemma add_or_update_writes:
  assumes "add_or_update_relation_secrets P dat i g fs p = (Inr x, p')" "dict_ok dat" "\<And>st. pe_new_id P st \<notin> js_id ` set st"
    and "content_for_secret_group dat fs g \<noteq> []" "pr_rels p i \<noteq> None" "coherent l p"
    and l: "l = generate_secret_label (pe_relation_name P) i g"
  shows "coherent l p' \<and> (\<forall>k v. map_of (content_for_secret_group dat fs g) k = Some v \<longrightarrow> holds_secret l k v p') \<and>
    local_secret_fields p' = local_secret_fields p \<and> remote_secret_fields p' = remote_secret_fields p"
proof -
  let ?c = "content_for_secret_group dat fs g"
  from assms(1) obtain s p1 where s: "get_relation_secret P i g p = (Inr s, p1)"
    "(if s \<noteq> None then update_relation_secret P dat i g fs else add_relation_secret P dat i g fs) p1 = (Inr x, p')"
    by (auto simp: add_or_update_relation_secrets_def bindM_Inr_iff)
  show ?thesis
  proof (cases s)
    case None
    with get_relation_secret_none [of P i g p p1] s(1) assms(5) obtain u
      where "p1 = p" "get_secret_uri P i g p = (Inr u, p)" "falsy u" by auto
    with add_writes [OF _ assms(2,3) _ _ _ assms(6) l] s get_relation_secret_none_label [of P i g p p1] None l show ?thesis by simp
  next
    case (Some m)
    have m: "m = l" using get_relation_secret_some [of P i g p m p1] s(1) Some l by simp
    with get_relation_secret_coherent [of P i g p l p1] s(1) Some assms(6)
    have 1: "coherent l p1" "pr_cache p1 l \<noteq> None" "same_fields p p1" by auto
    obtain t c where t: "cached_get_content l p1 = (Inr (js_content t), p1\<lparr>pr_cache := c\<rparr>)" "find_label l (pr_store p1) = Some t"
      "coherent l (p1\<lparr>pr_cache := c\<rparr>)" "c l \<noteq> None"
      using cached_get_content_run [OF 1(1,2)] by blast
    have "dict_ok (js_content t)" using find_label_SomeD [OF t(2)] 1(1) by (simp add: coherent_def)
    then have ok: "dict_ok (dict_update (js_content t) ?c)" by (rule dict_ok_update)
    have ne: "dict_update (js_content t) ?c \<noteq> []"
    proof
      obtain k v r where "?c = (k, v) # r" using assms(4) by (cases ?c) auto
      then have "map_of ?c k = Some v" by simp
      then have "map_of (dict_update (js_content t) ?c) k = Some v"
        by (rule map_of_updated [OF content_for_secret_group_ok [OF assms(2)]])
      moreover assume "dict_update (js_content t) ?c = []"
      ultimately show False by simp
    qed
    have "cached_set_content P l (dict_update (js_content t) ?c) (p1\<lparr>pr_cache := c\<rparr>) = (Inr (), p')"
      using s(2) Some t(1) get_relation_secret_cached [of P p1 i g] get_relation_secret_some [of P i g p m p1] s(1) 1(2)
      by (auto simp: update_relation_secret_def juju_secrets_only_def bindM_def seqM_def monad_simps l split: prod.splits sum.splits)
    from cached_set_content_run [OF t(3) _ this ne ok] t(4) 1(3) show ?thesis
      using map_of_updated [OF content_for_secret_group_ok [OF assms(2)]]
      by (auto simp: holds_secret_def same_fields_def)
  qed
qed

section \<open>Published credentials are read back\<close>

lemma group_secret_fields_one:
  assumes "ks \<noteq> []" "\<forall>k \<in> set ks. group_of k = g"
  shows "group_secret_fields ks = [(g, ks)]"
proof -
  have r: "remdups (replicate n g) = (if n = 0 then [] else [g])" for n
    by (induction n) auto
  have m: "map group_of ks = replicate (length ks) g" using assms(2) by (induction ks) auto
  have "filter (\<lambda>k. group_of k = g) ks = ks" using assms(2) by (simp add: filter_id_conv)
  then show ?thesis using assms(1) by (simp add: group_secret_fields_def m r)
qed

lemma no_fallback:
  assumes "secret_free i d req p"
  shows "(if req \<noteq> [] \<and> pe_leader P then bindM (read_local P i) (\<lambda>d. ret (\<exists>k \<in> set req. dict_has d k)) else ret False) p = (Inr False, p)"
proof -
  obtain r where "pr_rels p i = Some r" "\<forall>k \<in> set req. \<not> dict_has (rd_local r) k"
    using assms by (auto simp: secret_free_def)
  then show ?thesis by (simp add: run_databags bindM_def monad_simps)
qed

text \<open>All fields belong to one group of secrets: the group is processed once.\<close>

lemma process_one_group:
  assumes "secret_free i d req p" "pe_has_secrets P" "set ks \<subseteq> set req" "ks \<noteq> []" "\<forall>k \<in> set ks. group_of k = g"
    and "\<And>xs. set (pe_set_order P xs) = set xs"
  shows "\<exists>fs. set fs = set ks \<and> process_secret_fields P i (Some req) ks operation p =
    process_groups (\<lambda>g. operation i g fs) [(g, fs)] [] [] p"
proof -
  let ?fs = "pe_set_order P (remdups (filter (\<lambda>k. k \<in> set req) ks))"
  have fs: "set ?fs = set ks" using assms(3,6) by auto
  then have "?fs \<noteq> []" using assms(4) by auto
  then have g: "group_secret_fields ?fs = [(g, ?fs)]" using fs assms(5) by (intro group_secret_fields_one) auto
  have "req \<noteq> []" using assms(3,4) by (cases req; cases ks) auto
  moreover have "filter (\<lambda>k. k \<notin> set req) ks = []" using assms(3) by (auto simp: filter_empty_conv)
  ultimately have "process_secret_fields P i (Some req) ks operation p = process_groups (\<lambda>g. operation i g ?fs) [(g, ?fs)] [] [] p"
    using no_fallback [OF assms(1), of P] assms(2) by (simp add: process_secret_fields_def bindM_def Let_def g del: process_groups.simps)
  with fs show ?thesis by blast
qed

text \<open>A secret field that Juju holds is read from there.\<close>

lemma fetch_my_secret_field:
  assumes "pe_leader P" "pe_has_secrets P" "\<And>xs. set (pe_set_order P xs) = set xs"
    and "secret_free i d req q" "f \<in> set req" "coherent l q" "holds_secret l f v q"
    and l: "l = generate_secret_label (pe_relation_name P) i (group_of f)"
    and "json_loads (get_default d ''requested-secrets'' ''[]'') = Inr (JArr js)" "req = json_strings js"
    and "json_loads (get_default d ''provided-secrets'' ''[]'') = Inr m"
  shows "fst (fetch_my_relation_field P i f q) = Inr (Some v)"
proof -
  obtain r where r: "pr_rels q i = Some r" "rd_remote r = Some d" using assms(4) by (auto simp: secret_free_def)
  define q1 where "q1 = q\<lparr>local_secret_fields := req, remote_secret_fields := listed m (remote_secret_fields q)\<rparr>"
  have load: "load_secrets_from_databag i q = (Inr (), q1)"
    using base_on_relation_changed_eq [OF r] assms(9-11) by (simp add: load_eq listed_def q1_def)
  have q1: "secret_free i d req q1" "coherent l q1" "holds_secret l f v q1" "local_secret_fields q1 = req"
    using assms(4,6,7) by (simp_all add: q1_def secret_free_def coherent_def holds_secret_def)
  obtain fs where fs: "set fs = {f}" "process_secret_fields P i (Some req) [f] (get_group_secret_contents P) q1 =
      process_groups (\<lambda>g. get_group_secret_contents P i g fs) [(group_of f, fs)] [] [] q1"
    using process_one_group [OF q1(1) assms(2) _ _ _ assms(3), of "[f]" "group_of f" "get_group_secret_contents P"] assms(5) by auto
  have "\<exists>p1. get_relation_secret P i (group_of f) q1 = (Inr (Some l), p1) \<and> coherent l p1 \<and> pr_cache p1 l \<noteq> None \<and>
      find_label l (pr_store p1) = find_label l (pr_store q1)"
    using assms(2) q1(2,3)
    by (cases "pr_cache q1 l") (auto simp: get_relation_secret_def juju_secrets_only_def Let_def l [symmetric] cache_get_def secret_meta_def
        holds_secret_def coherent_def bindM_def seqM_def monad_simps)
  then obtain p1 where p1: "get_relation_secret P i (group_of f) q1 = (Inr (Some l), p1)" "coherent l p1" "pr_cache p1 l \<noteq> None"
    "find_label l (pr_store p1) = find_label l (pr_store q1)" by blast
  obtain s c where s: "cached_get_content l p1 = (Inr (js_content s), p1\<lparr>pr_cache := c\<rparr>)" "find_label l (pr_store p1) = Some s"
    using cached_get_content_run [OF p1(2,3)] by blast
  let ?e = "filter (\<lambda>(k, v). fs = [] \<or> k \<in> set fs) (js_content s)"
  have v: "map_of (js_content s) f = Some v" using q1(3) s(2) p1(4) by (simp add: holds_secret_def)
  then have "(f, v) \<in> set ?e" using fs(1) by (auto dest: map_of_SomeD)
  then have ne: "?e \<noteq> []" by (metis empty_iff list.set(1))
  have ok: "dict_ok (js_content s)" using find_label_SomeD [OF s(2)] p1(2) by (simp add: coherent_def)
  then have oke: "dict_ok ?e" by (rule dict_ok_filter)
  then have "map_of ?e f = Some v" using \<open>(f, v) \<in> set ?e\<close> by (auto simp: dict_ok_def dict_keys_def intro: map_of_is_SomeI)
  then have "map_of (dict_update [] ?e) f = Some v" by (rule map_of_updated [OF oke])
  moreover have "get_group_secret_contents P i (group_of f) fs q1 = (Inr (OpDict ?e), p1\<lparr>pr_cache := c\<rparr>)"
    using p1(1) s(1) by (simp add: get_group_secret_contents_def bindM_def monad_simps)
  ultimately show ?thesis
    using ne assms(1,2) load q1(4) fs(2) run_databags(1) [OF r(1)]
    by (simp add: fetch_my_relation_field_def leader_only_def fetch_my_specific_relation_data_def secret_fields_def
        fetch_relation_data_with_secrets_def seqM_def bindM_def monad_simps)
qed

lemma update_without_secrets_nothing:
  assumes "update_relation_data_without_secrets P i [] p = (Inr (), p')" "secret_free i d req p"
  shows "pr_store p' = pr_store p \<and> pr_cache p' = pr_cache p \<and> pr_rels p' = pr_rels p \<and> secret_free i d req p'"
proof -
  have "snd (get_encryption_key i p) = p"
    by (auto simp: get_encryption_key_def read_remote_def the_relation_def bindM_def monad_simps Let_def split: option.splits)
  then show ?thesis
    using assms update_without_secrets_keeps [OF assms(2), of "[]" P]
    by (auto simp: update_relation_data_without_secrets_def bindM_def the_relation_def write_local_def monad_simps dict_keys_def
        bag_update_def fun_upd_idem split: prod.splits sum.splits option.splits if_splits)
qed

text \<open>A field of the databag that the client does not provide as a secret is read without touching secrets.\<close>

lemma process_no_secret:
  assumes "\<And>xs. set (pe_set_order P xs) = set xs" "case req of None \<Rightarrow> True | Some fs \<Rightarrow> f \<notin> set fs"
  shows "snd (process_secret_fields P i req [f] operation q) = q"
proof -
  have "pe_set_order P [] = []" using assms(1) [of "[]"] by simp
  then show ?thesis
    using assms(2)
    by (auto simp: process_secret_fields_def group_secret_fields_def Let_def bindM_def read_local_def the_relation_def monad_simps
        split: option.splits)
qed

lemma fetch_plain_field:
  assumes "fetch_relation_field P i f p = (x, p')" "pr_rels p i = Some r" "rd_remote r = Some d"
    and "\<And>xs. set (pe_set_order P xs) = set xs"
    and "json_loads (get_default d ''provided-secrets'' ''[]'') = Inr (JArr ps)" "f \<notin> set (json_strings ps)"
  shows "pr_store p' = pr_store p \<and> pr_cache p' = pr_cache p \<and> pr_rels p' = pr_rels p"
proof -
  let ?J = "\<lambda>q. pr_store q = pr_store p \<and> pr_cache q = pr_cache p \<and> pr_rels q = pr_rels p"
  have reads: "keeps ?J (the_relation i)" "keeps ?J (read_remote i)" "keeps ?J (get_encryption_key i)"
    unfolding the_relation_def read_remote_def get_encryption_key_def by (intro keeps)+
  have w: "keeps ?J (fetch_relation_data_without_secrets P (read_remote i) i ns)" for ns
    unfolding fetch_relation_data_without_secrets_def by (intro keeps reads)
  have c: "keeps ?J (process_secret_fields P i req [f] operation)"
    if "case req of None \<Rightarrow> True | Some fs \<Rightarrow> f \<notin> set fs" for req operation
    using process_no_secret [OF assms(4) that] by (simp add: keeps_def)
  have k: "keeps ?J (fetch_relation_data_with_secrets P (read_remote i) req i [f])"
    if "case req of None \<Rightarrow> True | Some fs \<Rightarrow> f \<notin> set fs" for req
    unfolding fetch_relation_data_with_secrets_def by (simp, intro keeps w c that)
  obtain y q2 where q2: "load_secrets_from_databag i p = (y, q2)" by force
  have J: "?J q2" "y = Inr u \<Longrightarrow> remote_secret_fields q2 = json_strings ps" for u
    using q2 base_on_relation_changed_eq [OF assms(2,3)] assms(5) by (auto simp: load_eq listed_def split: sum.splits)
  show ?thesis
  proof (cases y)
    case (Inl e)
    with q2 J(1) assms(1-3) show ?thesis
      by (auto simp: fetch_relation_field_def fetch_specific_relation_data_def run_databags seqM_def bindM_def)
  next
    case (Inr u)
    then have "\<exists>x'. fetch_relation_data_with_secrets P (read_remote i)
        (if pe_has_secrets P then Some (json_strings ps) else None) i [f] q2 = (x', p')"
      using q2 J(2) assms(1-3)
      by (auto simp: fetch_relation_field_def fetch_specific_relation_data_def run_databags secret_fields_def seqM_def bindM_def monad_simps
          split: prod.splits sum.splits)
    then obtain x' where "fetch_relation_data_with_secrets P (read_remote i)
        (if pe_has_secrets P then Some (json_strings ps) else None) i [f] q2 = (x', p')" ..
    from keepsD [OF k _ this] J(1) assms(6) show ?thesis by simp
  qed
qed

text \<open>The credentials are one group of secrets, and nothing is left for the databag.\<close>

lemma credentials_steps:
  assumes "base_update_relation_data P i [(''username'', u), (''password'', pw)] p = (Inr (), p')"
    and "pe_has_secrets P" "\<And>xs. set (pe_set_order P xs) = set xs"
    and "secret_free i d req p" "plain_request req" "{''username'', ''password''} \<subseteq> set req"
    and "json_loads (get_default d ''requested-secrets'' ''[]'') = Inr (JArr js)" "req = json_strings js"
  obtains m fs x p2 where
    "add_or_update_relation_secrets P [(''username'', u), (''password'', pw)] i USER fs
       (p\<lparr>local_secret_fields := req, remote_secret_fields := m\<rparr>) = (Inr x, p2)"
    "content_for_secret_group [(''username'', u), (''password'', pw)] fs USER = [(''username'', u), (''password'', pw)]"
    "pr_store p' = pr_store p2" "pr_cache p' = pr_cache p2" "pr_rels p' = pr_rels p2"
proof -
  let ?dat = "[(''username'', u), (''password'', pw)]" and ?ks = "[''username'', ''password'']"
  have keys: "dict_keys ?dat = ?ks" by (simp add: dict_keys_def)
  obtain r where r: "pr_rels p i = Some r" "rd_remote r = Some d" using assms(4) by (auto simp: secret_free_def)
  from assms(1,2) obtain p1 res nf p2 where 1: "load_secrets_from_databag i p = (Inr (), p1)"
    "process_secret_fields P i (Some (local_secret_fields p1)) ?ks (add_or_update_relation_secrets P ?dat) p1 = (Inr (res, nf), p2)"
    "update_relation_data_without_secrets P i (filter (\<lambda>(k, v). k \<in> set nf) ?dat) p2 = (Inr (), p')"
    by (auto simp: base_update_relation_data_def secret_fields_def keys bindM_Inr_iff seqM_Inr_iff monad_simps)
  obtain m where m: "p1 = p\<lparr>local_secret_fields := req, remote_secret_fields := m\<rparr>"
    using 1(1) base_on_relation_changed_eq [OF r] by (auto simp: load_eq listed_def assms(7,8) split: sum.splits)
  have p1: "local_secret_fields p1 = req" "secret_free i d req p1" using assms(4) by (simp_all add: m secret_free_def)
  have "\<forall>k \<in> set ?ks. group_of k = USER" "set ?ks \<subseteq> set req" "?ks \<noteq> []"
    using assms(6) by (simp_all add: group_of_def SECRET_LABEL_MAP_def)
  note one = process_one_group [OF p1(2) assms(2) this(2,3,1) assms(3), of "add_or_update_relation_secrets P ?dat"]
  obtain fs where fs: "set fs = set ?ks"
    "process_groups (\<lambda>g. add_or_update_relation_secrets P ?dat i g fs) [(USER, fs)] [] [] p1 = (Inr (res, nf), p2)"
    using one 1(2) unfolding p1(1) by metis
  have c: "content_for_secret_group ?dat fs USER = ?dat" using fs(1) by (simp add: content_for_secret_group_def SECRET_LABEL_MAP_def)
  from fs(2) obtain x where x: "add_or_update_relation_secrets P ?dat i USER fs p1 = (Inr x, p2)"
    by (auto simp: bindM_Inr_iff monad_simps split: if_splits)
  have nf: "nf = []" using process_groups_writes [OF fs(2), of d] p1(2) by (auto simp: secret_free_def)
  have "secret_free i d req p2"
    using keepsD [OF secret_free.groups(6) [where req = req and d = d] _ x] p1(2) assms(5) by simp
  from update_without_secrets_nothing [OF _ this, of P p'] 1(3) nf that x c m show thesis by auto
qed

lemma credentials_written:
  assumes "base_update_relation_data P i [(''username'', u), (''password'', pw)] p = (Inr (), p')"
    and "pe_has_secrets P" "\<And>xs. set (pe_set_order P xs) = set xs" "\<And>st. pe_new_id P st \<notin> js_id ` set st"
    and "secret_free i d req p" "plain_request req" "{''username'', ''password''} \<subseteq> set req"
    and "json_loads (get_default d ''requested-secrets'' ''[]'') = Inr (JArr js)" "req = json_strings js"
    and l: "l = generate_secret_label (pe_relation_name P) i USER" and "coherent l p"
  shows "coherent l p' \<and> holds_secret l ''username'' u p' \<and> holds_secret l ''password'' pw p'"
proof -
  let ?dat = "[(''username'', u), (''password'', pw)]"
  obtain m fs x p2 where x: "add_or_update_relation_secrets P ?dat i USER fs
      (p\<lparr>local_secret_fields := req, remote_secret_fields := m\<rparr>) = (Inr x, p2)"
    "content_for_secret_group ?dat fs USER = ?dat" "pr_store p' = pr_store p2" "pr_cache p' = pr_cache p2"
    by (rule credentials_steps [OF assms(1-3,5-9)])
  let ?p1 = "p\<lparr>local_secret_fields := req, remote_secret_fields := m\<rparr>"
  have ok: "dict_ok ?dat" by (simp add: dict_ok_def dict_keys_def)
  have "pr_rels ?p1 i \<noteq> None" "coherent l ?p1" using assms(5,11) by (auto simp: secret_free_def coherent_def)
  note w = add_or_update_writes [OF x(1) ok assms(4) _ this l, unfolded x(2)]
  then show ?thesis using x(3,4) by (simp add: coherent_def holds_secret_def)
qed

text \<open>
  The first credentials of a relation: the databag names the new secret, which has exactly the credentials and is
  granted to the relation.
\<close>

lemma my_secret_groups_member: "f \<in> set names \<Longrightarrow> map_of SECRET_LABEL_MAP f = Some g \<Longrightarrow> g \<in> set (my_secret_groups names)"
  unfolding my_secret_groups_def by (rule in_set_conv_decomp [THEN iffD1, THEN exE], assumption) auto

lemma add_links:
  assumes "add_or_update_relation_secrets P dat i USER fs p = (Inr x, p')" "pr_rels p i = Some r"
    and "pe_has_secrets P" "USER \<in> set (my_secret_groups (local_secret_fields p))" "pe_leader P"
    and "\<not> dict_has (rd_local r) ''secret-user''"
    and "pr_cache p (generate_secret_label (pe_relation_name P) i USER) = None"
    and "find_label (generate_secret_label (pe_relation_name P) i USER) (pr_store p) = None"
  shows "\<exists>s. pr_store p' = pr_store p @ [s] \<and> js_content s = content_for_secret_group dat fs USER \<and> js_granted s = [i] \<and>
    js_id s = pe_new_id P (pr_store p) \<and> js_id s \<noteq> [] \<and> pr_rels p' = (pr_rels p)(i \<mapsto> r\<lparr>rd_local := bag_put ''secret-user'' (js_id s) (rd_local r)\<rparr>)"
proof -
  have uri: "get_secret_uri P i USER p = (Inr None, p)"
    using assms(3-6) run_databags(2) [OF assms(2,5)]
    by (simp add: get_secret_uri_def bindM_def monad_simps generate_secret_field_name_def dict_has_iff)
  then have "get_relation_secret P i USER p = (Inr None, p)"
    using assms(2,3,7,8)
    by (simp add: get_relation_secret_def juju_secrets_only_def Let_def cache_get_def secret_meta_def bindM_def monad_simps falsy_iff)
  with assms(1) have "add_relation_secret P dat i USER fs p = (Inr x, p')"
    by (simp add: add_or_update_relation_secrets_def bindM_def)
  with uri assms(2,3,5,7) show ?thesis
    by (auto simp: add_relation_secret_def juju_secrets_only_def cache_add_def check_content_def set_secret_uri_def write_local_def
        the_relation_def bindM_def seqM_def monad_simps generate_secret_field_name_def falsy_iff split: if_splits option.splits)
qed

lemma update_relation_data_ok:
  assumes "update_relation_data P i dat p = (Inr (), p')" "pe_leader P"
  obtains x p1 where "fetch_relation_field P i ''database'' p = (Inr x, p1)" "base_update_relation_data P i dat p1 = (Inr (), p')"
proof -
  have "snd (the_relation i p) = p" by (auto simp: the_relation_def bindM_def monad_simps split: option.splits)
  with assms have "provider_update_relation_data P i dat p = (Inr (), p')"
    by (auto simp: update_relation_data_def leader_only_def seqM_Inr_iff)
  then show thesis
    using that by (auto simp only: provider_update_relation_data_def bindM_Inr_iff run_simps split: if_splits)
qed

text \<open>What the databag of a client says: which fields it wants as secrets, and that it does not provide its request as one.\<close>

definition client_asks :: "string dict \<Rightarrow> string list \<Rightarrow> bool" where
  "client_asks d req \<longleftrightarrow> (\<exists>js ps. json_loads (get_default d ''requested-secrets'' ''[]'') = Inr (JArr js) \<and> req = json_strings js \<and>
     json_loads (get_default d ''provided-secrets'' ''[]'') = Inr (JArr ps) \<and> ''database'' \<notin> set (json_strings ps) \<and>
     {''username'', ''password''} \<subseteq> set req \<and> plain_request req)"

lemma set_credentials_writes:
  assumes "set_credentials P i u pw p = (Inr (), p')" "pe_leader P" "pe_has_secrets P"
    and "\<And>xs. set (pe_set_order P xs) = set xs" "\<And>st. pe_new_id P st \<notin> js_id ` set st"
    and "client_asks d req" "secret_free i d req p" "coherent l p"
    and l: "l = generate_secret_label (pe_relation_name P) i USER"
  shows "coherent l p' \<and> holds_secret l ''username'' u p' \<and> holds_secret l ''password'' pw p' \<and> secret_free i d req p'"
proof -
  from assms(6) obtain js ps where c: "json_loads (get_default d ''requested-secrets'' ''[]'') = Inr (JArr js)" "req = json_strings js"
    "json_loads (get_default d ''provided-secrets'' ''[]'') = Inr (JArr ps)" "''database'' \<notin> set (json_strings ps)"
    "{''username'', ''password''} \<subseteq> set req" "plain_request req" unfolding client_asks_def by blast
  let ?dat = "[(''username'', u), (''password'', pw)]"
  obtain r where r: "pr_rels p i = Some r" "rd_remote r = Some d" using assms(7) by (auto simp: secret_free_def)
  obtain x p1 where 1: "fetch_relation_field P i ''database'' p = (Inr x, p1)" "base_update_relation_data P i ?dat p1 = (Inr (), p')"
    by (rule update_relation_data_ok [OF assms(1) [unfolded set_credentials_def] assms(2)])
  from fetch_plain_field [OF 1(1) r assms(4) c(3,4)] assms(7,8)
  have p1: "coherent l p1" "secret_free i d req p1" by (simp_all add: coherent_def secret_free_def)
  with credentials_written [OF 1(2) assms(3-5) p1(2) c(6,5,1,2) l p1(1)]
    base_update_keeps_secrets [OF p1(2) assms(3) c(6,1,2), of ?dat] 1(2)
  show ?thesis by simp
qed

lemma set_credentials_links:
  assumes "set_credentials P i u pw p = (Inr (), p')" "pe_leader P" "pe_has_secrets P"
    and "\<And>xs. set (pe_set_order P xs) = set xs" "client_asks d req" "secret_free i d req p" "pr_rels p i = Some r"
    and "\<not> dict_has (rd_local r) ''secret-user''"
    and "pr_cache p (generate_secret_label (pe_relation_name P) i USER) = None"
    and "find_label (generate_secret_label (pe_relation_name P) i USER) (pr_store p) = None"
  shows "\<exists>s. pr_store p' = pr_store p @ [s] \<and> js_content s = [(''username'', u), (''password'', pw)] \<and> js_granted s = [i] \<and>
    js_id s = pe_new_id P (pr_store p) \<and> js_id s \<noteq> [] \<and> pr_rels p' = (pr_rels p)(i \<mapsto> r\<lparr>rd_local := bag_put ''secret-user'' (js_id s) (rd_local r)\<rparr>)"
proof -
  from assms(5) obtain js ps where c: "json_loads (get_default d ''requested-secrets'' ''[]'') = Inr (JArr js)" "req = json_strings js"
    "json_loads (get_default d ''provided-secrets'' ''[]'') = Inr (JArr ps)" "''database'' \<notin> set (json_strings ps)"
    "{''username'', ''password''} \<subseteq> set req" "plain_request req" unfolding client_asks_def by blast
  let ?dat = "[(''username'', u), (''password'', pw)]"
  have d: "rd_remote r = Some d" using assms(6,7) by (simp add: secret_free_def)
  obtain x p1 where 1: "fetch_relation_field P i ''database'' p = (Inr x, p1)" "base_update_relation_data P i ?dat p1 = (Inr (), p')"
    by (rule update_relation_data_ok [OF assms(1) [unfolded set_credentials_def] assms(2)])
  from fetch_plain_field [OF 1(1) assms(7) d assms(4) c(3,4)]
  have p1: "pr_store p1 = pr_store p" "pr_cache p1 = pr_cache p" "pr_rels p1 = pr_rels p" by simp_all
  with assms(6) have "secret_free i d req p1" by (simp add: secret_free_def)
  then obtain m fs y p2 where s: "add_or_update_relation_secrets P ?dat i USER fs
      (p1\<lparr>local_secret_fields := req, remote_secret_fields := m\<rparr>) = (Inr y, p2)"
    "content_for_secret_group ?dat fs USER = ?dat" "pr_store p' = pr_store p2" "pr_rels p' = pr_rels p2"
    by (rule credentials_steps [OF 1(2) assms(3,4) _ c(6,5,1,2)])
  have "''username'' \<in> set req" using c(5) by simp
  then have "USER \<in> set (my_secret_groups req)" by (rule my_secret_groups_member) (simp add: SECRET_LABEL_MAP_def)
  with add_links [OF s(1), of r] s p1 assms(2,3,7-10) show ?thesis by simp
qed

lemma fetch_my_credentials:
  assumes "pe_leader P" "pe_has_secrets P" "\<And>xs. set (pe_set_order P xs) = set xs"
    and "client_asks d req" "secret_free i d req q" "coherent l q" "holds_secret l f v q" "f \<in> {''username'', ''password''}"
    and l: "l = generate_secret_label (pe_relation_name P) i USER"
  shows "fst (fetch_my_relation_field P i f q) = Inr (Some v)"
proof -
  from assms(4) obtain js ps where c: "json_loads (get_default d ''requested-secrets'' ''[]'') = Inr (JArr js)" "req = json_strings js"
    "json_loads (get_default d ''provided-secrets'' ''[]'') = Inr (JArr ps)" "{''username'', ''password''} \<subseteq> set req"
    unfolding client_asks_def by blast
  have "group_of f = USER" using assms(8) by (auto simp: group_of_def SECRET_LABEL_MAP_def)
  with fetch_my_secret_field [OF assms(1-3,5) _ assms(6,7) _ c(1-3)] assms(8) c(4) l show ?thesis by auto
qed

text \<open>
  Published credentials are read back: after \<open>set_credentials\<close> returned, for a client that asked for the user name and the
  password as secrets, both are read back as they were set, in the same hook and in any later hook, which starts with
  an empty cache.
\<close>

theorem published_credentials_read_back:
  assumes "pe_leader P" "pe_has_secrets P" "\<And>xs. set (pe_set_order P xs) = set xs" "\<And>st. pe_new_id P st \<notin> js_id ` set st"
    and "pr_rels p i = Some r" "rd_remote r = Some d" "client_asks d req" "\<forall>k \<in> set req. \<not> dict_has (rd_local r) k"
    and "coherent (generate_secret_label (pe_relation_name P) i USER) p"
    and "set_credentials P i u pw p = (Inr (), p')" "q = p' \<or> q = p'\<lparr>pr_cache := Map.empty\<rparr>"
  shows "fst (fetch_my_relation_field P i ''username'' q) = Inr (Some u) \<and>
    fst (fetch_my_relation_field P i ''password'' q) = Inr (Some pw)"
proof -
  let ?l = "generate_secret_label (pe_relation_name P) i USER"
  have "secret_free i d req p" using assms(5,6,8) by (simp add: secret_free_def)
  note w = set_credentials_writes [OF assms(10,1-4,7) this assms(9) refl]
  then have "coherent ?l (p'\<lparr>pr_cache := Map.empty\<rparr>)" by (simp add: coherent_def)
  then have "secret_free i d req q" "coherent ?l q" "holds_secret ?l ''username'' u q" "holds_secret ?l ''password'' pw q"
    using w assms(11) by (elim disjE; simp add: secret_free_def holds_secret_def)+
  then show ?thesis using fetch_my_credentials [OF assms(1-3,7)] by simp
qed

section \<open>Other calls leave the credentials alone\<close>

text \<open>Fields that are not secrets are written to the databag only.\<close>

lemma plain_update_keeps:
  assumes "secret_free i d req p" "client_asks d req" "f \<notin> set req"
    and "\<And>xs. set (pe_set_order P xs) = set xs"
  shows "pr_store (snd (update_relation_data P i [(f, v)] p)) = pr_store p \<and>
    pr_cache (snd (update_relation_data P i [(f, v)] p)) = pr_cache p"
proof -
  from assms(2) obtain js ps where c: "json_loads (get_default d ''requested-secrets'' ''[]'') = Inr (JArr js)" "req = json_strings js"
    "json_loads (get_default d ''provided-secrets'' ''[]'') = Inr (JArr ps)" "''database'' \<notin> set (json_strings ps)"
    unfolding client_asks_def by blast
  let ?J = "\<lambda>q. pr_store q = pr_store p \<and> pr_cache q = pr_cache p"
  obtain r where r: "pr_rels p i = Some r" "rd_remote r = Some d" using assms(1) by (auto simp: secret_free_def)
  have w: "keeps ?J (update_relation_data_without_secrets P i e)" for e
    unfolding update_relation_data_without_secrets_def get_encryption_key_def read_remote_def the_relation_def write_local_def
    by (intro keeps) (simp_all add: keeps_def monad_simps)
  have b: "?J (snd (base_update_relation_data P i [(f, v)] q))" if q: "?J q" "pr_rels q i = Some r" for q
  proof -
    obtain y q1 where q1: "load_secrets_from_databag i q = (y, q1)" by force
    have J: "?J q1" "y = Inr u \<Longrightarrow> local_secret_fields q1 = req" for u
      using q1 base_on_relation_changed_eq [OF q(2) r(2)] c q(1) by (auto simp: load_eq listed_def split: sum.splits)
    let ?pr = "\<lambda>req. process_secret_fields P i req [f] (add_or_update_relation_secrets P [(f, v)]) q1"
    have "snd (?pr (if pe_has_secrets P then Some req else None)) = q1"
      using assms(3) by (intro process_no_secret [OF assms(4)]) simp
    with q1 J w show ?thesis
      by (cases y) (auto simp: base_update_relation_data_def secret_fields_def dict_keys_def keeps_def seqM_def bindM_def monad_simps
          split: prod.splits sum.splits)
  qed
  obtain x p1 where x: "fetch_relation_field P i ''database'' p = (x, p1)" by force
  from fetch_plain_field [OF x r assms(4) c(3,4)] have "?J p1" "pr_rels p1 i = Some r" using r(1) by simp_all
  with b x r(1) show ?thesis
    by (auto simp: update_relation_data_def leader_only_def provider_update_relation_data_def run_databags seqM_def bindM_def monad_simps
        split: sum.splits)
qed

text \<open>Reading a field of the credentials keeps the secret under their label as it is, if it was \<open>held\<close> before.\<close>

definition unharmed :: "string \<Rightarrow> nat \<Rightarrow> string dict \<Rightarrow> string list \<Rightarrow> (string \<times> string) set \<Rightarrow> provider \<Rightarrow> bool" where
  "unharmed l i d req held q \<longleftrightarrow> coherent l q \<and> secret_free i d req q \<and> (\<forall>(k, v) \<in> held. holds_secret l k v q)"

lemma unharmed_cache_get: "keeps (unharmed l i d req held) (cache_get l u)"
proof (rule keepsI)
  fix q assume q: "unharmed l i d req held q"
  obtain b q' where b: "cache_get l u q = (b, q')" by force
  have "b \<noteq> Inr True \<Longrightarrow> q' = q"
    using b by (auto simp: cache_get_def secret_meta_def bindM_def seqM_def monad_simps split: option.splits if_splits)
  moreover have "unharmed l i d req held q'" if "b = Inr True"
  proof -
    have s: "coherent l q'" "same_fields q q'" using cache_get_coherent [of l u q q'] b q that by (simp_all add: unharmed_def)
    have "find_label l (pr_store q) = Some s \<Longrightarrow> find_label l (pr_store q') = Some s" for s
      using b that by (auto simp: cache_get_def secret_meta_def bindM_def seqM_def monad_simps split: option.splits)
    with s q show ?thesis by (fastforce simp: unharmed_def same_fields_def secret_free_def holds_secret_def)
  qed
  ultimately show "unharmed l i d req held (snd (cache_get l u q))" using b q by auto
qed

lemma unharmed_get_content: "keeps (unharmed l i d req held) (cached_get_content l)"
proof (rule keepsI)
  fix q assume q: "unharmed l i d req held q"
  show "unharmed l i d req held (snd (cached_get_content l q))"
  proof (cases "pr_cache q l")
    case None
    with q show ?thesis by (simp add: cached_get_content_def cached_def bindM_def monad_simps)
  next
    case (Some c)
    with cached_get_content_run [of l q] q show ?thesis by (fastforce simp: unharmed_def secret_free_def holds_secret_def)
  qed
qed

lemma unharmed_reads:
  "keeps (unharmed l i d req held) (the_relation j)" "keeps (unharmed l i d req held) (read_local P j)"
  "keeps (unharmed l i d req held) (read_remote j)" "keeps (unharmed l i d req held) (get_encryption_key j)"
  "keeps (unharmed l i d req held) (get_secret_uri P j g)"
  unfolding the_relation_def read_local_def read_remote_def get_encryption_key_def get_secret_uri_def by (intro keeps)+

lemma unharmed_group:
  assumes l: "l = generate_secret_label (pe_relation_name P) i USER"
  shows "keeps (unharmed l i d req held) (get_group_secret_contents P i USER fs)"
proof -
  have "keeps (unharmed l i d req held) (get_relation_secret P i USER)"
    unfolding get_relation_secret_def juju_secrets_only_def Let_def l [symmetric]
    by (intro keeps unharmed_cache_get unharmed_reads)
  moreover have "get_relation_secret P i USER q = (Inr (Some m), q') \<Longrightarrow> m = l" for q q' m
    using get_relation_secret_some l by blast
  ultimately show ?thesis
    using unharmed_get_content [of l i d req held] unfolding get_group_secret_contents_def keeps_def bindM_def
    by (auto simp: monad_simps split: prod.splits sum.splits option.splits) (metis snd_conv)+
qed

lemma unharmed_processing:
  assumes l: "l = generate_secret_label (pe_relation_name P) i USER"
    and "pe_has_secrets P" "f \<in> {''username'', ''password''}" "f \<in> set req" "\<And>xs. set (pe_set_order P xs) = set xs"
  shows "keeps (unharmed l i d req held) (process_secret_fields P i (Some req) [f] (get_group_secret_contents P))"
proof (rule keepsI)
  fix q assume q: "unharmed l i d req held q"
  then have free: "secret_free i d req q" by (simp add: unharmed_def)
  have "set [f] \<subseteq> set req" "\<forall>k \<in> set [f]. group_of k = USER" using assms(3,4) by (auto simp: group_of_def SECRET_LABEL_MAP_def)
  from process_one_group [OF free assms(2) this(1) _ this(2) assms(5), of "get_group_secret_contents P"]
  obtain fs where "process_secret_fields P i (Some req) [f] (get_group_secret_contents P) q =
      process_groups (\<lambda>g. get_group_secret_contents P i g fs) [(USER, fs)] [] [] q" by auto
  moreover have "keeps (unharmed l i d req held) (process_groups (\<lambda>g. get_group_secret_contents P i g fs) [(USER, fs)] [] [])"
    unfolding process_groups.simps by (intro keeps unharmed_group [OF l])
  ultimately show "unharmed l i d req held (snd (process_secret_fields P i (Some req) [f] (get_group_secret_contents P) q))"
    using q unfolding keeps_def by simp
qed

lemma fetch_my_credentials_keeps:
  assumes "unharmed l i d req held p" "client_asks d req" "pe_has_secrets P" "f \<in> {''username'', ''password''}"
    and "\<And>xs. set (pe_set_order P xs) = set xs"
    and l: "l = generate_secret_label (pe_relation_name P) i USER"
  shows "unharmed l i d req held (snd (fetch_my_relation_field P i f p))"
proof -
  let ?J = "unharmed l i d req held"
  obtain js where c: "json_loads (get_default d ''requested-secrets'' ''[]'') = Inr (JArr js)" "req = json_strings js"
    "{''username'', ''password''} \<subseteq> set req" using assms(2) unfolding client_asks_def by blast
  have w: "keeps ?J (fetch_relation_data_without_secrets P (read_local P i) i ns)" for ns
    unfolding fetch_relation_data_without_secrets_def by (intro keeps unharmed_reads)
  have "f \<in> set req" using assms(4) c(3) by auto
  note pr = unharmed_processing [OF l assms(3,4) this assms(5)]
  have fw: "keeps ?J (fetch_relation_data_with_secrets P (read_local P i) (Some req) i [f])"
    unfolding fetch_relation_data_with_secrets_def by (simp, intro keeps w pr)
  obtain r where r: "pr_rels p i = Some r" "rd_remote r = Some d" using assms(1) by (auto simp: unharmed_def secret_free_def)
  obtain y q1 where q1: "load_secrets_from_databag i p = (y, q1)" by force
  have J: "?J q1" "y = Inr u \<Longrightarrow> local_secret_fields q1 = req" for u
    using q1 base_on_relation_changed_eq [OF r] c(1,2) assms(1)
    by (auto simp: load_eq listed_def unharmed_def secret_free_def coherent_def holds_secret_def split: sum.splits)
  have f: "?J (snd (fetch_relation_data_with_secrets P (read_local P i) (Some req) i [f] q1))" using fw J(1) unfolding keeps_def by blast
  show ?thesis
  proof (cases y)
    case (Inl e)
    with q1 J(1) assms(1) r(1) show ?thesis
      by (simp add: fetch_my_relation_field_def leader_only_def fetch_my_specific_relation_data_def run_databags seqM_def bindM_def monad_simps)
  next
    case (Inr u)
    with q1 J(2) assms(1) f r(1) assms(3) show ?thesis
      by (auto simp: fetch_my_relation_field_def leader_only_def fetch_my_specific_relation_data_def secret_fields_def run_databags
          seqM_def bindM_def monad_simps split: prod.splits sum.splits)
  qed
qed

section \<open>A concrete client\<close>

definition sample_provider_env :: provider_env where
  "sample_provider_env = \<lparr>pe_leader = True, pe_model_uuid = ''m'', pe_relation_name = ''database'', pe_has_secrets = True,
     pe_set_order = (\<lambda>xs. xs), pe_check_content = (\<lambda>_. None), pe_new_id = (\<lambda>st. CHR ''s'' # concat (map js_id st)),
     pe_fernet = None\<rparr>"

definition sample_client :: "string dict" where
  "sample_client = [(''database'', ''app''), (''requested-secrets'', json_dumps (JArr [JStr ''username'', JStr ''password'']))]"

definition sample_provider :: provider where
  "sample_provider = \<lparr>pr_rels = [7 \<mapsto> \<lparr>rd_local = [], rd_remote = Some sample_client, rd_remote_model = None\<rparr>], pr_store = [],
     pr_cache = Map.empty, local_secret_fields = [], remote_secret_fields = [], pr_emitted = []\<rparr>"

lemma fresh_ids: "CHR ''s'' # concat (map js_id st) \<notin> js_id ` set st"
proof -
  have "length (js_id s) \<le> length (concat (map js_id st))" if "s \<in> set st" for s
    using that by (induction st) auto
  then show ?thesis by (metis Suc_n_not_le_n imageE length_Cons)
qed

lemma sample_client_fields:
  "pr_rels sample_provider 7 = Some \<lparr>rd_local = [], rd_remote = Some sample_client, rd_remote_model = None\<rparr>"
  "dict_ok sample_client"
  "json_loads (get_default sample_client ''requested-secrets'' ''[]'') = Inr (JArr [JStr ''username'', JStr ''password''])"
  "json_loads (get_default sample_client ''provided-secrets'' ''[]'') = Inr (JArr [])"
  "pe_leader sample_provider_env" "pe_has_secrets sample_provider_env" "set (pe_set_order sample_provider_env xs) = set xs"
  "pe_new_id sample_provider_env st \<notin> js_id ` set st"
proof -
  show "json_loads (get_default sample_client ''requested-secrets'' ''[]'') = Inr (JArr [JStr ''username'', JStr ''password''])"
    using json_round_trip [of "JArr [JStr ''username'', JStr ''password'']"] by (simp add: sample_client_def get_default_def)
  show "json_loads (get_default sample_client ''provided-secrets'' ''[]'') = Inr (JArr [])"
    using json_round_trip [of "JArr []"] by (simp add: sample_client_def get_default_def)
qed (simp_all add: sample_provider_def sample_client_def sample_provider_env_def dict_ok_def dict_keys_def fresh_ids)

lemma sample_client_asks: "client_asks sample_client [''username'', ''password'']"
  unfolding client_asks_def
  by (rule exI [where x = "[JStr ''username'', JStr ''password'']"], rule exI [where x = "[]"])
    (simp add: sample_client_fields is_secret_field_def starts_with_def)

theorem published_credentials_read_back_witness:
  "\<exists>p. set_credentials sample_provider_env 7 ''u'' ''pw'' sample_provider = (Inr (), p) \<and>
     fst (fetch_my_relation_field sample_provider_env 7 ''password'' (p\<lparr>pr_cache := Map.empty\<rparr>)) = Inr (Some ''pw'')"
proof -
  obtain p where p: "set_credentials sample_provider_env 7 ''u'' ''pw'' sample_provider = (Inr (), p)"
  proof -
    have "fst (set_credentials sample_provider_env 7 ''u'' ''pw'' sample_provider) = Inr ()" by code_simp
    then show thesis using that by (metis prod.collapse)
  qed
  have "coherent (generate_secret_label (pe_relation_name sample_provider_env) 7 USER) sample_provider"
    by (simp add: coherent_def sample_provider_def)
  from published_credentials_read_back [OF sample_client_fields(5-8,1) _ sample_client_asks _ this p, of "p\<lparr>pr_cache := Map.empty\<rparr>"] p
  show ?thesis by (auto simp: dict_has_def dict_keys_def)
qed

theorem secrets_stay_out_of_databag_witness:
  "\<exists>r. pr_rels (snd (set_credentials sample_provider_env 7 ''u'' ''pw'' sample_provider)) 7 = Some r \<and>
     \<not> dict_has (rd_local r) ''password'' \<and> \<not> dict_has (rd_local r) ''username''"
  using secrets_stay_out_of_databag [OF sample_client_fields(6,1) _ sample_client_fields(3),
      of "[(''username'', ''u''), (''password'', ''pw'')]"]
  by (auto simp: set_credentials_def is_secret_field_def starts_with_def dict_has_def dict_keys_def)

section \<open>A request is announced once\<close>

text \<open>
  A request of a client is announced to the charm once: after a leader handled a change of the relation, no leader
  of whatever unit announces anything for the same databag of the client again, as long as the remembered data
  is not touched.
\<close>

lemma announced_once:
  assumes "pe_leader P" "pr_rels p i = Some r" "rd_remote r = Some d" "dict_ok d"
    and "provider_on_relation_changed P i p = (Inr (), p1)"
    and "pe_leader P'" "pr_rels p2 i = Some r2" "rd_remote r2 = Some d"
    and "map_of (rd_local r2) ''data'' = map_of (rd_local (the (pr_rels p1 i))) ''data''"
  shows "\<exists>p3. provider_on_relation_changed P' i p2 = (Inr (), p3) \<and> pr_emitted p3 = pr_emitted p2"
proof -
  from provider_on_relation_changed_ok [OF assms(1-3,5)] obtain q j where b: "base_on_relation_changed i p = (Inr (), q)"
    "json_loads (get_default (rd_local r) ''data'' ''{}'') = Inr j" "\<not> entity_changed (compare (old_data j) (new_data d))"
    by blast
  from provider_on_relation_changed_run [OF assms(1-3) b] assms(5)
  have "map_of (rd_local r2) ''data'' = Some (json_dumps (remembered d))"
    by (auto simp: assms(9) bag_put_def update_conv')
  with remembered_ok [OF assms(4)]
  have j: "json_loads (get_default (rd_local r2) ''data'' ''{}'') = Inr (remembered d)" by (simp add: get_default_def)
  have c: "compare (old_data (remembered d)) (new_data d) = \<lparr>kd_added = [], kd_changed = [], kd_deleted = []\<rparr>"
    using compare_same [of "new_data d"] by (simp add: old_data_def remembered_def new_data_def)
  from base_on_relation_changed_run(2) [OF assms(2,3) b(1) assms(7,8)] obtain q'
    where "base_on_relation_changed i p2 = (Inr (), q')" by blast
  from provider_on_relation_changed_run [OF assms(6-8) this j] show ?thesis
    unfolding c by (auto simp: entity_changed_def announced_def)
qed

end
