(* ===== verification/DatabaseRelation.thy ===== *)
theory DatabaseRelation
  imports Database Provider
begin

text \<open>
  The database handler on top of the relation library.  The calls of the handler that write or read a field of a
  relation are carried out by the provider half of the library, on the databags and secrets of Juju, and the library
  answers them.  What the handler publishes is what the client can read; and a request may be lost when the leader changes.
\<close>

section \<open>The handler and the library\<close>

definition library_call :: "provider_env \<Rightarrow> event \<Rightarrow> unit pop" where
  "library_call P e = (case e of
     Juju (SetRelationField i f v) \<Rightarrow> update_relation_data P i [(f, v)]
   | Juju (SetCredentials i u pw) \<Rightarrow> set_credentials P i u pw
   | Juju (GetRelationField i f) \<Rightarrow> seqM (fetch_my_relation_field P i f) (ret ())
   | _ \<Rightarrow> ret ())"

definition replay :: "(event \<Rightarrow> unit pop) \<Rightarrow> provider \<Rightarrow> event list \<Rightarrow> provider" where
  "replay call p tr = foldl (\<lambda>p e. snd (call e p)) p tr"

text \<open>The environment of a hook in which the library answers.\<close>

definition with_library :: "provider_env \<Rightarrow> provider \<Rightarrow> env \<Rightarrow> env" where
  "with_library P p E = E\<lparr>
     ans_unit := \<lambda>tr e. (case e of
         Juju (SetRelationField _ _ _) \<Rightarrow> fst (library_call P e (replay (library_call P) p tr))
       | Juju (SetCredentials _ _ _) \<Rightarrow> fst (library_call P e (replay (library_call P) p tr))
       | _ \<Rightarrow> ans_unit E tr e),
     ans_ostr := \<lambda>tr e. (case e of
         Juju (GetRelationField i f) \<Rightarrow> fst (fetch_my_relation_field P i f (replay (library_call P) p tr))
       | _ \<Rightarrow> ans_ostr E tr e)\<rparr>"

text \<open>
  A change of the relation: the library compares the databags, and when it announces a request, the handler runs on it.
  The trace of the world is the one of the run of the handler.
\<close>

definition requested_database :: "provider \<Rightarrow> nat \<Rightarrow> string" where
  "requested_database p i = (case event_database (the (pr_rels p i)) of None \<Rightarrow> [] | Some d \<Rightarrow> d)"

definition requested_roles :: "provider \<Rightarrow> nat \<Rightarrow> string option" where
  "requested_roles p i = event_extra_user_roles (the (pr_rels p i))"

definition relation_changed_hook :: "provider_env \<Rightarrow> env \<Rightarrow> nat \<Rightarrow> provider \<Rightarrow> world \<Rightarrow> (exn + unit) \<times> provider \<times> world" where
  "relation_changed_hook P E i p w = (case provider_on_relation_changed P i p of
     (Inl e, p1) \<Rightarrow> (Inl e, p1, w)
   | (Inr _, p1) \<Rightarrow>
       if (DatabaseRequestedE, i) \<in> set (drop (length (pr_emitted p)) (pr_emitted p1))
       then (case on_database_requested (with_library P p1 E) i (requested_database p1 i) (requested_roles p1 i) (w\<lparr>trace := []\<rparr>) of
           (res, w1) \<Rightarrow> (res, replay (library_call P) p1 (trace w1), w1))
       else (Inr (), p1, w))"

section \<open>Published credentials\<close>

text \<open>The calls of the handler to the library are about the relation of the request, and about five fields.\<close>

definition plain_names :: "string list" where
  "plain_names = [''database'', ''version'', ''endpoints'', ''read-only-endpoints'']"

definition handler_event :: "nat \<Rightarrow> event \<Rightarrow> bool" where
  "handler_event i e = (case e of
     Juju (SetRelationField j f v) \<Rightarrow> j = i \<and> f \<in> set plain_names
   | Juju (SetCredentials j u pw) \<Rightarrow> j = i
   | Juju (GetRelationField j f) \<Rightarrow> j = i \<and> f = ''password''
   | _ \<Rightarrow> True)"

definition writes_credentials :: "event \<Rightarrow> bool" where
  "writes_credentials e = (case e of Juju (SetCredentials _ _ _) \<Rightarrow> True | _ \<Rightarrow> False)"

lemma emits_on_database_requested: "emits (handler_event i) (on_database_requested E i d rs)"
proof -
  have e: "emits (handler_event i) (handler_update_database_endpoints E i)"
    unfolding handler_update_database_endpoints_def
    by (intro emits) (simp_all add: handler_event_def plain_names_def)
  show ?thesis
    unfolding on_database_requested_def set_database_def create_database_def inst_create_database_def build_database_dba_role_def
      set_database_user_def create_database_user_def inst_create_database_user_def set_database_version_def fetch_version_def
      set_relation_field_def Let_def
    by (intro emits e) (simp_all add: handler_event_def plain_names_def)
qed

text \<open>
  What the handler relies on: a call that writes no credentials keeps the credentials \<open>held\<close>, and writing credentials
  holds them.
\<close>

locale relation_library =
  fixes call :: "event \<Rightarrow> unit pop" and i :: nat and J :: "(string \<times> string) set \<Rightarrow> provider \<Rightarrow> bool"
  assumes other: "handler_event i e \<Longrightarrow> \<not> writes_credentials e \<Longrightarrow> J held p \<Longrightarrow> J held (snd (call e p))"
    and published: "J {} p \<Longrightarrow> call (Juju (SetCredentials i u pw)) p = (Inr (), q) \<Longrightarrow> J {(''username'', u), (''password'', pw)} q"
begin

lemma held_by_replay:
  assumes "list_all (handler_event i) es" "list_all (\<lambda>e. \<not> writes_credentials e) es" "J held p"
  shows "J held (replay call p es)"
  using assms
proof (induction es arbitrary: p)
  case (Cons e es)
  then show ?case using other [of e held p] by (simp add: replay_def)
qed (simp add: replay_def)

text \<open>The credentials of a trace that writes them once are held after it.\<close>

lemma credentials_after_replay:
  assumes "list_all (handler_event i) (xs @ ys)" "list_all (\<lambda>e. \<not> writes_credentials e) (xs @ ys)" "J {} p"
    and "fst (call (Juju (SetCredentials i u pw)) (replay call p xs)) = Inr ()"
  shows "J {(''username'', u), (''password'', pw)} (replay call p (xs @ Juju (SetCredentials i u pw) # ys))"
proof -
  have x: "J {} (replay call p xs)" using assms by (intro held_by_replay) simp_all
  obtain q where q: "call (Juju (SetCredentials i u pw)) (replay call p xs) = (Inr (), q)"
    using assms(4) by (cases "call (Juju (SetCredentials i u pw)) (replay call p xs)") simp
  from held_by_replay [OF _ _ published [OF x q], of ys] assms(1,2) q show ?thesis by (simp add: replay_def)
qed

end

text \<open>The provider half of the library, run by the leader, for a client that asks for the credentials as secrets.\<close>

definition library_client :: "provider_env \<Rightarrow> string dict \<Rightarrow> string list \<Rightarrow> bool" where
  "library_client P d req \<longleftrightarrow> pe_leader P \<and> pe_has_secrets P \<and> (\<forall>xs. set (pe_set_order P xs) = set xs) \<and>
     (\<forall>st. pe_new_id P st \<notin> js_id ` set st) \<and> client_asks d req \<and> set plain_names \<inter> set req = {}"

lemma other_calls:
  assumes "library_client P d req" "l = generate_secret_label (pe_relation_name P) i USER"
    and "handler_event i e" "\<not> writes_credentials e" "unharmed l i d req held p"
  shows "unharmed l i d req held (snd (library_call P e p))"
proof -
  have P: "pe_has_secrets P" "\<And>xs. set (pe_set_order P xs) = set xs" "client_asks d req" "set plain_names \<inter> set req = {}"
    using assms(1) by (simp_all add: library_client_def)
  have w: "unharmed l i d req held (snd (update_relation_data P i [(f, v)] p))" if "f \<in> set plain_names" for f v
  proof -
    have free: "secret_free i d req p" using assms(5) by (simp add: unharmed_def)
    have "f \<notin> set req" using that P(4) by auto
    note k = plain_update_keeps [OF free P(3) this P(2), of v]
    obtain js where "plain_request req" "json_loads (get_default d ''requested-secrets'' ''[]'') = Inr (JArr js)" "req = json_strings js"
      using P(3) unfolding client_asks_def by blast
    from update_keeps_secret_free [OF free P(1) this] k assms(5) show ?thesis
      by (simp add: unharmed_def coherent_def holds_secret_def)
  qed
  have "unharmed l i d req held (snd (fetch_my_relation_field P i ''password'' p))"
    by (rule fetch_my_credentials_keeps [OF assms(5) P(3,1) _ P(2) assms(2)]) simp
  then have "unharmed l i d req held (snd (seqM (fetch_my_relation_field P i ''password'') (ret ()) p))"
    by (auto simp: seqM_def bindM_def ret_def raise_def split: prod.splits sum.splits)
  with w assms show ?thesis
    by (auto simp: library_call_def handler_event_def writes_credentials_def monad_simps split: event.splits juju_call.splits)
qed

interpretation provider_library: relation_library "library_call P" i
  "\<lambda>held p. library_client P d req \<and> unharmed (generate_secret_label (pe_relation_name P) i USER) i d req held p" for P i d req
proof (unfold_locales, goal_cases)
  case (1 e held p)
  then show ?case using other_calls by blast
next
  case (2 p u pw q)
  then have P: "pe_leader P" "pe_has_secrets P" "\<And>xs. set (pe_set_order P xs) = set xs" "\<And>st. pe_new_id P st \<notin> js_id ` set st"
    "client_asks d req" by (simp_all add: library_client_def)
  have "set_credentials P i u pw p = (Inr (), q)" using 2(2) by (simp add: library_call_def)
  from set_credentials_writes [OF this P _ _ refl] 2(1) show ?case by (simp add: unharmed_def)
qed

section \<open>Credentials are written once\<close>

text \<open>The number of calls of a kind in a run.\<close>

definition at_most :: "nat \<Rightarrow> (event \<Rightarrow> bool) \<Rightarrow> 'a op \<Rightarrow> bool" where
  "at_most n Q m \<longleftrightarrow> (\<forall>w. \<exists>es. trace (snd (m w)) = trace w @ es \<and> length (filter Q es) \<le> n)"

lemma at_most_emits: "emits (\<lambda>e. \<not> Q e) m \<Longrightarrow> at_most 0 Q m"
  unfolding emits_def at_most_def by (fastforce simp: list_all_iff filter_empty_conv)

lemma at_mostE:
  assumes "at_most n Q m" "m w = (r, w')"
  obtains es where "trace w' = trace w @ es" "length (filter Q es) \<le> n"
  using assms unfolding at_most_def by (metis snd_conv)

lemma at_most_bindM:
  assumes "at_most n Q m" "\<And>x. at_most k Q (f x)"
  shows "at_most (n + k) Q (bindM m f)"
  unfolding at_most_def
proof
  fix w
  obtain r w1 where m: "m w = (r, w1)" by force
  obtain es where es: "trace w1 = trace w @ es" "length (filter Q es) \<le> n" using at_mostE [OF assms(1) m] .
  show "\<exists>es. trace (snd (bindM m f w)) = trace w @ es \<and> length (filter Q es) \<le> n + k"
  proof (cases r)
    case (Inl e)
    then show ?thesis using m es by (simp add: bindM_def)
  next
    case (Inr x)
    obtain r2 w2 where f: "f x w1 = (r2, w2)" by force
    obtain fs where "trace w2 = trace w1 @ fs" "length (filter Q fs) \<le> k" using at_mostE [OF assms(2) f] .
    then show ?thesis using m es f Inr by (simp add: bindM_def)
  qed
qed

lemma at_most_try_else:
  assumes "at_most n Q m" "\<And>e. at_most k Q (h e)" "\<And>x. at_most k Q (f x)"
  shows "at_most (n + k) Q (try_else m cs h f)"
  unfolding at_most_def
proof
  fix w
  obtain r w1 where m: "m w = (r, w1)" by force
  obtain es where es: "trace w1 = trace w @ es" "length (filter Q es) \<le> n" using at_mostE [OF assms(1) m] .
  obtain r2 w2 where 2: "try_else m cs h f w = (r2, w2)" by force
  have "\<exists>fs. trace w2 = trace w1 @ fs \<and> length (filter Q fs) \<le> k"
    using 2 m assms(2,3) unfolding try_else_def at_most_def by (auto split: sum.splits if_splits) (metis snd_conv)+
  then show "\<exists>es. trace (snd (try_else m cs h f w)) = trace w @ es \<and> length (filter Q es) \<le> n + k"
    using es 2 by (auto simp: add_mono)
qed

lemma at_most_act: "at_most 1 Q (act E e)"
  unfolding at_most_def by (simp add: monad_simps)

lemma at_most_if: "at_most n Q m \<Longrightarrow> at_most n Q m' \<Longrightarrow> at_most n Q (if b then m else m')"
  by simp

lemma credentials_written_once: "at_most 1 writes_credentials (on_database_requested E i d rs)"
proof -
  note none = at_most_emits [where Q = writes_credentials]
  have q: "at_most 0 writes_credentials (ask (ans_ostr E) (Juju (GetRelationField i ''password'')))"
    "at_most 0 writes_credentials (create_database_user E d u pw ro)" for u pw ro
    unfolding create_database_user_def inst_create_database_user_def
    by (rule none, intro emits; simp add: writes_credentials_def)+
  have u: "at_most (0 + (0 + 1)) writes_credentials (set_database_user E i d ro)" for ro
    unfolding set_database_user_def Let_def by (intro at_most_bindM q at_most_act)
  have e: "emits (\<lambda>e. \<not> writes_credentials e) (handler_update_database_endpoints E i)"
    unfolding handler_update_database_endpoints_def by (intro emits) (simp_all add: writes_credentials_def)
  have h: "at_most 0 writes_credentials (initialized E)" "at_most 0 writes_credentials (set_unit_status E s)"
    "at_most 0 writes_credentials (set_database_version E i)"
    "at_most 0 writes_credentials (if b then set_database E i d else ret ())"
    "at_most 0 writes_credentials (block [set_unit_status E s, update_app_labels E, handler_update_database_endpoints E i])" for b s
    unfolding set_database_def create_database_def inst_create_database_def build_database_dba_role_def
      set_database_version_def fetch_version_def set_relation_field_def Let_def
    by (rule none, intro emits e; simp add: writes_credentials_def)+
  have "at_most (0 + (0 + (0 + 1) + 0)) writes_credentials
      (block [if b then set_database E i d else ret (), set_database_user E i d ro, set_database_version E i])" for b ro
    unfolding block.simps seqM_def by (intro at_most_bindM u h)
  note main = this
  have body: "at_most (0 + (0 + (0 + 1) + 0) + 0) writes_credentials
      (try_else (block [if b then set_database E i d else ret (), set_database_user E i d ro, set_database_version E i])
         cs (\<lambda>_. set_unit_status E s) (\<lambda>_. block [set_unit_status E t, update_app_labels E, handler_update_database_endpoints E i]))"
    for b ro cs s t by (rule at_most_try_else [OF main h(2,5)])
  have "at_most (0 + (0 + (0 + (0 + 1) + 0) + 0)) writes_credentials (on_database_requested E i d rs)"
    unfolding on_database_requested_def Let_def
    by (intro at_most_bindM at_most_if h body) (simp_all add: at_most_def monad_simps defer_event_def)
  then show ?thesis by simp
qed

lemma user_created_with_library: "user_created (with_library P p E) u pw tr = user_created E u pw tr"
  by (simp add: user_created_def with_library_def)

lemma username_with_library: "build_database_relation_username (with_library P p E) i = build_database_relation_username E i"
  by (simp add: build_database_relation_username_def with_library_def)

lemma run_with_library:
  assumes "on_database_requested L i db rs w = (res, w')" "trace w = []" "trace w' = xs @ Juju (SetCredentials j u pw) # ys"
  shows "j = i" "u = build_database_relation_username L i" "user_created L u pw xs" "list_all (handler_event i) (xs @ ys)"
    "list_all (\<lambda>e. \<not> writes_credentials e) (xs @ ys)"
proof -
  obtain es where "trace w' = trace w @ es" "chain (credentials_guard L i) (trace w) es"
    using callsE [OF calls_on_database_requested assms(1)] by blast
  then show "j = i" "u = build_database_relation_username L i" "user_created L u pw xs"
    using assms(2,3) by (auto simp: credentials_guard_def)
  obtain fs where "trace w' = trace w @ fs" "list_all (handler_event i) fs"
    using emitsE [OF emits_on_database_requested assms(1)] by blast
  then have "list_all (handler_event i) (xs @ Juju (SetCredentials j u pw) # ys)" using assms(2,3) by simp
  then show "list_all (handler_event i) (xs @ ys)" by simp
  obtain gs where "trace w' = trace w @ gs" "length (filter writes_credentials gs) \<le> 1"
    using at_mostE [OF credentials_written_once assms(1)] .
  then have "length (filter writes_credentials (xs @ Juju (SetCredentials j u pw) # ys)) \<le> 1" using assms(2,3) by simp
  then have "length (filter writes_credentials (xs @ ys)) = 0" by (simp add: writes_credentials_def)
  then show "list_all (\<lambda>e. \<not> writes_credentials e) (xs @ ys)" by (simp only: length_0_conv filter_empty_conv list_all_iff)
qed

text \<open>
  (C11) Credentials that a client reads work.  When the leader handles the request of a client that wants them as secrets,
  and the library accepts the credentials, then the fields that are read afterwards, in the same hook and in every later
  one, are the user of this relation and the password this user was created with before.
\<close>

theorem client_reads_created_credentials:
  assumes "pe_leader P" "pe_has_secrets P" "\<And>xs. set (pe_set_order P xs) = set xs" "\<And>st. pe_new_id P st \<notin> js_id ` set st"
    and "client_asks d req" "set plain_names \<inter> set req = {}"
    and "pr_rels p i = Some r" "rd_remote r = Some d" "\<forall>k \<in> set req. \<not> dict_has (rd_local r) k"
    and "coherent (generate_secret_label (pe_relation_name P) i USER) p"
    and "on_database_requested (with_library P p E) i db rs w = (res, w')" "trace w = []"
    and "trace w' = xs @ Juju (SetCredentials j u pw) # ys"
    and "ans_unit (with_library P p E) xs (Juju (SetCredentials j u pw)) = Inr ()"
    and "p' = replay (library_call P) p (trace w')" "q = p' \<or> q = p'\<lparr>pr_cache := Map.empty\<rparr>"
  shows "user_created E (build_database_relation_username E i) pw xs \<and>
    fst (fetch_my_relation_field P i ''username'' q) = Inr (Some (build_database_relation_username E i)) \<and>
    fst (fetch_my_relation_field P i ''password'' q) = Inr (Some pw)"
proof -
  let ?l = "generate_secret_label (pe_relation_name P) i USER" and ?held = "{(''username'', u), (''password'', pw)}"
  note run = run_with_library [OF assms(11-13)]
  have u: "u = build_database_relation_username E i" "user_created E u pw xs"
    using run(2,3) by (simp_all add: user_created_with_library username_with_library)
  have "library_client P d req \<and> unharmed ?l i d req {} p"
    using assms(1-10) by (simp add: library_client_def unharmed_def secret_free_def)
  moreover have "fst (library_call P (Juju (SetCredentials i u pw)) (replay (library_call P) p xs)) = Inr ()"
    using assms(14) run(1) by (simp add: with_library_def)
  ultimately have h: "unharmed ?l i d req ?held p'"
    using provider_library.credentials_after_replay [OF run(4,5), of P d req p u pw] assms(13,15) run(1) by simp
  then have "unharmed ?l i d req ?held (p'\<lparr>pr_cache := Map.empty\<rparr>)"
    by (simp add: unharmed_def coherent_def secret_free_def holds_secret_def)
  with h assms(16) have "unharmed ?l i d req ?held q" by blast
  then show ?thesis using fetch_my_credentials [OF assms(1-3,5)] u by (simp add: unharmed_def)
qed

section \<open>Requests that are lost\<close>

definition publishes :: "event \<Rightarrow> bool" where
  "publishes e = (case e of Juju (SetRelationField _ _ _) \<Rightarrow> True | Juju (SetCredentials _ _ _) \<Rightarrow> True
     | Juju (GetRelationField _ _) \<Rightarrow> True | _ \<Rightarrow> False)"

lemma initialized_reads: "emits (\<lambda>e. \<not> publishes e) (initialized E)"
  by (intro emits) (simp_all add: publishes_def)

lemma initialized_with_library: "initialized (with_library P p E) = initialized E"
proof -
  have "substrate (with_library P p E) = substrate E" "ans_bool (with_library P p E) = ans_bool E"
    "ans_strs (with_library P p E) = ans_strs E" "client_host (with_library P p E) = client_host E"
    "has_peers (with_library P p E) = has_peers E" by (simp_all add: with_library_def)
  then show ?thesis
    unfolding initialized_def server_running_def container_running_def snap_running_def inst_fetch_cluster_labels_def
      cluster_name_def read_app_def by (simp only:)
qed

lemma replay_quiet: "list_all (\<lambda>e. \<not> publishes e) es \<Longrightarrow> replay (library_call P) p es = p"
  by (induction es)
    (auto simp: replay_def publishes_def library_call_def monad_simps split: event.splits juju_call.splits)

text \<open>A change of the relation for which the library announces nothing does not reach the handler.\<close>

lemma unannounced_hook:
  assumes "provider_on_relation_changed P i p = (Inr (), p1)" "pr_emitted p1 = pr_emitted p"
  shows "relation_changed_hook P E i p w = (Inr (), p1, w)"
  using assms by (simp add: relation_changed_hook_def)

lemma deferring_hook:
  assumes "provider_on_relation_changed P i p = (Inr (), p1)" "pr_emitted p1 = pr_emitted p @ [(DatabaseRequestedE, i)]"
    and "fst (initialized E (w\<lparr>trace := []\<rparr>)) = Inr False"
  shows "\<exists>w1. relation_changed_hook P E i p w = (Inr (), p1, w1) \<and> deferred w1"
proof -
  let ?w = "w\<lparr>trace := []\<rparr>" and ?L = "with_library P p1 E"
  obtain w1 where i: "initialized E ?w = (Inr False, w1)" using assms(3) by (cases "initialized E ?w") auto
  have "on_database_requested ?L i (requested_database p1 i) (requested_roles p1 i) ?w = (Inr (), w1\<lparr>deferred := True\<rparr>)"
    by (simp add: on_database_requested_def initialized_with_library bindM_def i monad_simps defer_event_def)
  moreover obtain es where "trace w1 = trace ?w @ es" "list_all (\<lambda>e. \<not> publishes e) es"
    using emitsE [OF initialized_reads i] by blast
  ultimately show ?thesis using assms(1,2) by (simp add: relation_changed_hook_def replay_quiet)
qed

lemma not_leader_reads:
  assumes "\<not> is_leader E" "on_database_requested E i db rs w = (res, w')"
  shows "\<exists>es. trace w' = trace w @ es \<and> list_all (\<lambda>e. \<not> publishes e) es"
proof -
  have "on_database_requested E i db rs = bindM (initialized E) (\<lambda>ready. if \<not> ready then defer_event else ret ())"
    using assms(1) by (simp add: on_database_requested_def)
  then have "emits (\<lambda>e. \<not> publishes e) (on_database_requested E i db rs)"
    by (simp only:) (intro emits_bindM emits_if initialized_reads; simp add: emits_def defer_event_def monad_simps)
  from emitsE [OF this assms(2)] show ?thesis by blast
qed

text \<open>
  (C38) A request is lost when the leader changes while it is deferred.  The library announces a request once, to the
  unit that leads at that time, and remembers it in the databag of the application; a unit that is not yet part of the
  cluster defers it.  When another unit leads from then on, no change of the relation brings the request back as long
  as the client leaves its databag alone, and the deferred event does nothing on the unit that led before: nobody
  publishes anything for the client.
\<close>

theorem deferred_request_lost:
  assumes "pe_leader P" "pr_rels p i = Some r" "rd_remote r = Some d" "dict_ok d"
    and "provider_on_relation_changed P i p = (Inr (), p1)" "pr_emitted p1 = pr_emitted p @ [(DatabaseRequestedE, i)]"
    and "fst (initialized E (w\<lparr>trace := []\<rparr>)) = Inr False"
    and "pe_leader P'" "pr_rels p2 i = Some r2" "rd_remote r2 = Some d"
    and "map_of (rd_local r2) ''data'' = map_of (rd_local (the (pr_rels p1 i))) ''data''"
    and "\<not> is_leader E''" "on_database_requested E'' i (requested_database p1 i) (requested_roles p1 i) w3 = (res, w4)"
  shows "(\<exists>w1. relation_changed_hook P E i p w = (Inr (), p1, w1) \<and> deferred w1) \<and>
    (\<exists>p3. relation_changed_hook P' E' i p2 w2 = (Inr (), p3, w2)) \<and>
    (\<exists>es. trace w4 = trace w3 @ es \<and> list_all (\<lambda>e. \<not> publishes e) es)"
proof -
  from announced_once [OF assms(1-5,8-11)] obtain p3
    where "provider_on_relation_changed P' i p2 = (Inr (), p3)" "pr_emitted p3 = pr_emitted p2" by blast
  then show ?thesis
    using deferring_hook [OF assms(5-7)] unannounced_hook not_leader_reads [OF assms(12,13)] by blast
qed

section \<open>A concrete relation\<close>

text \<open>
  A client that already has credentials asks again.  The charm is ready, and asking for the version of the server fails
  after the credentials were published.
\<close>

definition served_provider :: provider where
  "served_provider = (snd (set_credentials sample_provider_env 7 ''u'' ''pw'' sample_provider))\<lparr>pr_cache := Map.empty\<rparr>"

definition served_env :: env where
  "served_env = requested_env\<lparr>ans_unit := \<lambda>_ _. Inr (), ans_ostr := \<lambda>_ _. Inl (Exn [PyException] [])\<rparr>"

definition served :: env where
  "served = with_library sample_provider_env served_provider served_env"

lemma served_answers:
  "substrate served = VM" "has_peers served" "is_leader served" "client_host served = ''h0''" "unit_name served = ''mysql/0''"
  "ans_bool served = (\<lambda>_ _. Inr True)" "ans_strs served tr (Sql h GetClusterLabels) = Inr [''c'']"
  "ans_unit served tr (Sql h q) = Inr ()" "ans_ostr served tr (Sql h q) = Inl (Exn [PyException] [])"
  "ans_set_status served tr e = Inr \<lparr>css_primary = ''c'',
       css_clusters = [(''c'', \<lparr>sm_role = ''PRIMARY'', sm_state = ''OK'', sm_primary = Some ''h1:3306''\<rparr>)]\<rparr>"
  by (simp_all add: served_def served_env_def with_library_def requested_env_def cluster_env_def quiet_env_def)

lemma served_password:
  assumes "list_all (\<lambda>e. \<not> publishes e) tr"
  shows "ans_ostr served tr (Juju (GetRelationField 7 ''password'')) = Inr (Some ''pw'')"
proof -
  have "fst (fetch_my_relation_field sample_provider_env 7 ''password'' served_provider) = Inr (Some ''pw'')" by code_simp
  then show ?thesis using replay_quiet [OF assms] by (simp add: served_def with_library_def)
qed

definition served_calls :: "event list" where
  "served_calls = [Wkl SnapPresent, Wkl (SnapActive server_name), Sql ''h0'' GetClusterLabels, Juju (GetRelationField 7 ''password''),
     Clu ''h0'' FetchClusterSetStatus,
     Sql ''h1'' (CreateInstanceUser (build_database_relation_username served_env 7) ''%'' ''pw'' (Some [''charmed_router'']))]"

definition served_credentials :: event where
  "served_credentials = Juju (SetCredentials 7 (build_database_relation_username served_env 7) ''pw'')"

lemma served_accepts: "ans_unit served served_calls served_credentials = Inr ()"
proof -
  have "fst (library_call sample_provider_env served_credentials (replay (library_call sample_provider_env) served_provider served_calls)) = Inr ()"
    by code_simp
  then show ?thesis by (simp add: served_def with_library_def served_credentials_def)
qed

lemma served_run:
  "trace (snd (on_database_requested served 7 ''app'' (Some ''charmed_router'') sample_world)) =
     served_calls @ served_credentials # [Sql ''h0'' GetVersion]"
proof -
  have e: "trace sample_world = []" "app_get_cluster_name (app_bag sample_world) = Some ''c''" by code_simp+
  have "split_char (CHR '','') ''charmed_router'' = [''charmed_router'']" by simp
  moreover have "build_database_relation_username served 7 = build_database_relation_username served_env 7"
    by (simp add: served_def username_with_library)
  ultimately show ?thesis
    using served_accepts
    by (simp add: provider_run served_answers e caught_def Let_def served_password publishes_def set_database_version_def
        fetch_version_def inst_fetch_version_def served_calls_def served_credentials_def)
qed

theorem client_reads_created_credentials_witness:
  "\<exists>xs q. user_created served_env (build_database_relation_username served_env 7) ''pw'' xs \<and>
     q = replay (library_call sample_provider_env) served_provider
       (trace (snd (on_database_requested served 7 ''app'' (Some ''charmed_router'') sample_world))) \<and>
     fst (fetch_my_relation_field sample_provider_env 7 ''username'' q) = Inr (Some (build_database_relation_username served_env 7)) \<and>
     fst (fetch_my_relation_field sample_provider_env 7 ''password'' q) = Inr (Some ''pw'')"
proof -
  let ?l = "generate_secret_label (pe_relation_name sample_provider_env) 7 USER"
  let ?r = "on_database_requested served 7 ''app'' (Some ''charmed_router'') sample_world"
  obtain p where p: "set_credentials sample_provider_env 7 ''u'' ''pw'' sample_provider = (Inr (), p)"
  proof -
    have "fst (set_credentials sample_provider_env 7 ''u'' ''pw'' sample_provider) = Inr ()" by code_simp
    then show thesis using that by (metis prod.collapse)
  qed
  have "secret_free 7 sample_client [''username'', ''password''] sample_provider" "coherent ?l sample_provider"
    using sample_client_fields(1) by (simp_all add: secret_free_def dict_has_def dict_keys_def coherent_def sample_provider_def)
  from set_credentials_writes [OF p sample_client_fields(5-8) sample_client_asks this refl]
  have s: "coherent ?l served_provider" "secret_free 7 sample_client [''username'', ''password''] served_provider"
    using p by (simp_all add: served_provider_def coherent_def secret_free_def)
  then obtain r where r: "pr_rels served_provider 7 = Some r" "rd_remote r = Some sample_client"
    "\<forall>k \<in> set [''username'', ''password'']. \<not> dict_has (rd_local r) k" by (auto simp: secret_free_def)
  have "trace sample_world = []" by code_simp
  moreover have "?r = (fst ?r, snd ?r)" by simp
  moreover have "set plain_names \<inter> set [''username'', ''password''] = {}" by (simp add: plain_names_def)
  ultimately show ?thesis
    using client_reads_created_credentials [OF sample_client_fields(5-8) sample_client_asks _ r s(1), of served_env, folded served_def,
        OF _ _ _ served_run [unfolded served_credentials_def] served_accepts [unfolded served_credentials_def] refl]
    by blast
qed

definition joining_env :: env where
  "joining_env = cluster_env\<lparr>ans_bool := \<lambda>_ _. Inr False\<rparr>"

theorem deferred_request_lost_witness:
  "\<exists>p1 w1 p3. relation_changed_hook sample_provider_env joining_env 7 sample_provider sample_world = (Inr (), p1, w1) \<and> deferred w1 \<and>
     relation_changed_hook sample_provider_env cluster_env 7 p1 sample_world = (Inr (), p3, sample_world)"
proof -
  let ?r = "\<lparr>rd_local = [], rd_remote = Some sample_client, rd_remote_model = None\<rparr>"
  obtain q where b: "base_on_relation_changed 7 sample_provider = (Inr (), q)"
    using base_on_relation_changed_eq [OF sample_client_fields(1), of sample_client] sample_client_fields(3,4) by auto
  have j: "json_loads (get_default (rd_local ?r) ''data'' ''{}'') = Inr (JObj [])"
    using json_round_trip [of "JObj []"] by (simp add: get_default_def dict_ok_def dict_keys_def)
  have c: "\<not> entity_changed (compare (old_data (JObj [])) (new_data sample_client))"
    "announced (compare (old_data (JObj [])) (new_data sample_client)) = Some DatabaseRequestedE"
    by (simp_all add: entity_changed_def announced_def compare_def old_data_def new_data_def sample_client_def dict_keys_def dict_has_def)
  obtain p1 where p1: "provider_on_relation_changed sample_provider_env 7 sample_provider = (Inr (), p1)"
    "pr_rels p1 = (pr_rels sample_provider)(7 \<mapsto> ?r\<lparr>rd_local := bag_put ''data'' (json_dumps (remembered sample_client)) []\<rparr>)"
    "pr_emitted p1 = pr_emitted sample_provider @ [(DatabaseRequestedE, 7)]"
    using provider_on_relation_changed_run [OF sample_client_fields(5,1) _ b j c(1)] c(2) by auto
  have n: "fst (initialized joining_env (sample_world\<lparr>trace := []\<rparr>)) = Inr False"
    by (simp add: initialized_def server_running_def snap_running_def joining_env_def cluster_env_def quiet_env_def bindM_def monad_simps)
  have "\<not> is_leader (cluster_env\<lparr>is_leader := False\<rparr>)" by simp
  from deferred_request_lost [OF sample_client_fields(5,1) _ sample_client_fields(2) p1(1,3) n sample_client_fields(5), of p1
      "?r\<lparr>rd_local := bag_put ''data'' (json_dumps (remembered sample_client)) []\<rparr>", OF _ _ _ _ this surjective_pairing] p1(2)
  have "\<exists>w1. relation_changed_hook sample_provider_env joining_env 7 sample_provider sample_world = (Inr (), p1, w1) \<and> deferred w1"
    "\<exists>p3. relation_changed_hook sample_provider_env cluster_env 7 p1 sample_world = (Inr (), p3, sample_world)" by auto
  then show ?thesis by blast
qed

end
