(* ===== verification/RelationStatus.thy ===== *)
theory RelationStatus
  imports Provider
begin

text \<open>
  The rest of the provider half of the relation library (\<open>libs/data_platform_libs/v0/data_interfaces.py\<close>): reading several
  relations at once, the dictionary view of a relation (\<open>DataDict\<close>), and the statuses that a provider raises on a relation.

  A status is kept in the field \<open>status\<close> of the databag, a JSON list sorted by the codes.  The declared types of its fields
  are assumed of the list, which only this library writes; an item of another shape is a \<open>TypeError\<close>.  The relations of the
  model are a parameter where the code enumerates them.
\<close>

section \<open>Reading relations\<close>

definition chosen_relations :: "nat list \<Rightarrow> nat list option \<Rightarrow> nat list pop" where
  "chosen_relations rels relation_ids = (case relation_ids of
     Some (i # is) \<Rightarrow> mapM (\<lambda>i. seqM (the_relation i) (ret i)) (i # is)
   | _ \<Rightarrow> ret rels)"

fun fetch_each :: "(nat \<Rightarrow> string dict pop) \<Rightarrow> nat list \<Rightarrow> (nat \<times> string dict) list \<Rightarrow> (nat \<times> string dict) list pop" where
  "fetch_each f [] data = ret data"
| "fetch_each f (i # is) data = bindM (f i) (\<lambda>d. fetch_each f is (AList.update i d data))"

definition fetch_relation_data :: "provider_env \<Rightarrow> nat list \<Rightarrow> nat list option \<Rightarrow> string list \<Rightarrow> (nat \<times> string dict) list pop" where
  "fetch_relation_data P rels relation_ids names =
     bindM (chosen_relations rels relation_ids) (\<lambda>is. fetch_each (\<lambda>i. fetch_specific_relation_data P i names) is [])"

definition fetch_my_relation_data ::
  "provider_env \<Rightarrow> nat list \<Rightarrow> nat list option \<Rightarrow> string list \<Rightarrow> (nat \<times> string dict) list option pop" where
  "fetch_my_relation_data P rels relation_ids names = leader_only P None
     (bindM (chosen_relations rels relation_ids) (\<lambda>is.
      bindM (fetch_each (\<lambda>i. fetch_my_specific_relation_data P i names) is []) (\<lambda>d. ret (Some d))))"

definition set_entity_credentials :: "provider_env \<Rightarrow> nat \<Rightarrow> string \<Rightarrow> string \<Rightarrow> unit pop" where
  "set_entity_credentials P i entity_name entity_password =
     update_relation_data P i [(''entity-name'', entity_name), (''entity-password'', entity_password)]"

text \<open>Reading one field is reading the relation, restricted to the field.\<close>

lemma fetch_relation_field_data:
  "fetch_relation_field P i f = bindM (fetch_relation_data P rels (Some [i]) [f]) (\<lambda>m.
     ret (case map_of m i of None \<Rightarrow> None | Some d \<Rightarrow> map_of d f))"
  "fetch_my_relation_field P i f = bindM (fetch_my_relation_data P rels (Some [i]) [f]) (\<lambda>m.
     ret (case m of None \<Rightarrow> None | Some m \<Rightarrow> (case map_of m i of None \<Rightarrow> None | Some d \<Rightarrow> map_of d f)))"
  by (auto simp: fetch_relation_field_def fetch_relation_data_def fetch_my_relation_field_def fetch_my_relation_data_def leader_only_def
      chosen_relations_def fetch_specific_relation_data_def the_relation_def bindM_def seqM_def monad_simps fun_eq_iff
      split: option.splits prod.splits sum.splits)

section \<open>A relation as a dictionary\<close>

definition data_dict :: "provider_env \<Rightarrow> nat \<Rightarrow> string dict pop" where
  "data_dict P i =
     bindM (fetch_my_relation_data P [] (Some [i]) []) (\<lambda>result.
     bindM (fetch_relation_data P [] (Some [i]) []) (\<lambda>result_remote.
       let remote = (case map_of result_remote i of None \<Rightarrow> [] | Some d \<Rightarrow> d) in
       ret (case result of None \<Rightarrow> remote
         | Some m \<Rightarrow> if m = [] then remote else dict_update remote (case map_of m i of None \<Rightarrow> [] | Some d \<Rightarrow> d))))"

definition dict_setitem :: "provider_env \<Rightarrow> nat \<Rightarrow> string \<Rightarrow> string \<Rightarrow> unit pop" where
  "dict_setitem P i key item = update_relation_data P i [(key, item)]"

definition dict_update_items :: "provider_env \<Rightarrow> nat \<Rightarrow> string dict \<Rightarrow> unit pop" where
  "dict_update_items P i items = update_relation_data P i items"

definition dict_getitem :: "provider_env \<Rightarrow> nat \<Rightarrow> string \<Rightarrow> string pop" where
  "dict_getitem P i key =
     bindM (if pe_leader P then fetch_my_relation_field P i key else ret None) (\<lambda>result.
     bindM (if falsy result then fetch_relation_field P i key else ret result) (\<lambda>result.
       if falsy result then raise (key_error []) else ret (the result)))"

definition dict_delitem :: "provider_env \<Rightarrow> nat \<Rightarrow> string \<Rightarrow> unit pop" where
  "dict_delitem P i key = delete_relation_data P i [key]"

definition dict_has_key :: "provider_env \<Rightarrow> nat \<Rightarrow> string \<Rightarrow> bool pop" where
  "dict_has_key P i key = bindM (data_dict P i) (\<lambda>d. ret (dict_has d key))"

definition dict_contains :: "provider_env \<Rightarrow> nat \<Rightarrow> string \<Rightarrow> bool pop" where
  "dict_contains P i item = bindM (data_dict P i) (\<lambda>d. ret (item \<in> set (map snd d)))"

definition dict_len :: "provider_env \<Rightarrow> nat \<Rightarrow> nat pop" where
  "dict_len P i = bindM (data_dict P i) (\<lambda>d. ret (length d))"

definition dict_pop :: "provider_env \<Rightarrow> nat \<Rightarrow> string \<Rightarrow> string pop" where
  "dict_pop P i item =
     bindM (fetch_my_relation_field P i item) (\<lambda>result.
       if falsy result then raise (key_error (''Item '' @ item @ '' doesn't exist.''))
       else seqM (delete_relation_data P i [item]) (ret (the result)))"

definition dict_get :: "provider_env \<Rightarrow> nat \<Rightarrow> string \<Rightarrow> string option \<Rightarrow> string option pop" where
  "dict_get P i key dflt = try_except (bindM (dict_getitem P i key) (\<lambda>v. ret (Some v))) [PyKeyError] (\<lambda>_. ret dflt)"

section \<open>What a handler reads of an entity request\<close>

definition event_extra_group_roles :: "relation_data \<Rightarrow> string option" where
  "event_extra_group_roles r = (case rd_remote r of None \<Rightarrow> None | Some d \<Rightarrow> map_of d ''extra-group-roles'')"

definition event_entity_type :: "relation_data \<Rightarrow> string option" where
  "event_entity_type r = (case rd_remote r of None \<Rightarrow> None | Some d \<Rightarrow> map_of d ''entity-type'')"

definition event_entity_permissions :: "relation_data \<Rightarrow> string option" where
  "event_entity_permissions r = (case rd_remote r of None \<Rightarrow> None | Some d \<Rightarrow> map_of d ''entity-permissions'')"

text \<open>The name of the requested entity and its password, if the client gave one.\<close>

definition requested_entity_secret_content :: "nat \<Rightarrow> (string \<times> string option) option pop" where
  "requested_entity_secret_content i =
     bindM (the_relation i) (\<lambda>r.
       let secret_uri = (case rd_remote r of None \<Rightarrow> None | Some d \<Rightarrow> map_of d ''requested-entity-secret'') in
       if falsy secret_uri then ret None
       else bindM (gets (\<lambda>p. find_id (the secret_uri) (pr_store p))) (\<lambda>s. case s of None \<Rightarrow> raise secret_not_found
         | Some s \<Rightarrow> ret (case map_of (js_content s) ''entity-name'' of None \<Rightarrow> None
             | Some name \<Rightarrow> Some (name, map_of (js_content s) ''password''))))"

section \<open>Statuses\<close>

record relation_status =
  rs_code :: int
  rs_message :: string
  rs_resolution :: string

definition is_informational :: "relation_status \<Rightarrow> bool" where "is_informational s \<longleftrightarrow> rs_code s div 1000 = 1"
definition is_transitory :: "relation_status \<Rightarrow> bool" where "is_transitory s \<longleftrightarrow> rs_code s div 1000 = 4"
definition is_fatal :: "relation_status \<Rightarrow> bool" where "is_fatal s \<longleftrightarrow> rs_code s div 1000 = 5"

definition asdict :: "relation_status \<Rightarrow> json" where
  "asdict s = JObj [(''code'', JInt (rs_code s)), (''message'', JStr (rs_message s)), (''resolution'', JStr (rs_resolution s))]"

definition type_error :: "string \<Rightarrow> exn" where
  "type_error m = Exn [PyTypeError, PyException] m"

definition attribute_error :: "string \<Rightarrow> exn" where
  "attribute_error m = Exn [PyAttributeError, PyException] m"

text \<open>\<open>RelationStatus(**item)\<close>: exactly the three fields.\<close>

definition make_status :: "json dict \<Rightarrow> exn + relation_status" where
  "make_status item = (case (map_of item ''code'', map_of item ''message'', map_of item ''resolution'') of
     (Some (JInt c), Some (JStr m), Some (JStr r)) \<Rightarrow>
       if list_all (\<lambda>k. k \<in> {''code'', ''message'', ''resolution''}) (dict_keys item)
       then Inr \<lparr>rs_code = c, rs_message = m, rs_resolution = r\<rparr> else Inl (type_error ''RelationStatus'')
   | _ \<Rightarrow> Inl (type_error ''RelationStatus''))"

definition read_status :: "json \<Rightarrow> exn + relation_status" where
  "read_status j = (case j of
     JObj item \<Rightarrow> if dict_has item ''code'' then make_status item else Inl (key_error ''code'')
   | _ \<Rightarrow> Inl (type_error ''RelationStatus''))"

type_synonym statuses = "(int \<times> relation_status) list"

fun statuses_by_code :: "json list \<Rightarrow> statuses \<Rightarrow> exn + statuses" where
  "statuses_by_code [] acc = Inr acc"
| "statuses_by_code (j # js) acc = (case read_status j of Inl e \<Rightarrow> Inl e
     | Inr s \<Rightarrow> statuses_by_code js (AList.update (rs_code s) s acc))"

definition load_statuses :: "json \<Rightarrow> exn + statuses" where
  "load_statuses j = (case j of JArr js \<Rightarrow> statuses_by_code js [] | _ \<Rightarrow> Inl (type_error ''RelationStatus''))"

text \<open>The schema of the statuses, by the text of its file, \<open>None\<close> where there is none.\<close>

definition load_status_schema :: "string option \<Rightarrow> exn + statuses" where
  "load_status_schema schema = (case schema of
     None \<Rightarrow> Inl (Exn [PyFileNotFoundError, PyOSError, PyException] ''Can't locate status schema file'')
   | Some content \<Rightarrow> (case json_loads content of Inl e \<Rightarrow> Inl e
     | Inr (JObj ms) \<Rightarrow> (case map_of ms ''statuses'' of None \<Rightarrow> Inr [] | Some j \<Rightarrow> load_statuses j)
     | Inr _ \<Rightarrow> Inl (attribute_error ''get'')))"

definition STATUS_FIELD :: string where "STATUS_FIELD = ''status''"

definition get_statuses :: "provider_env \<Rightarrow> nat \<Rightarrow> statuses option pop" where
  "get_statuses P i = leader_only P None
     (bindM (fetch_my_relation_field P i STATUS_FIELD) (\<lambda>field.
      let raw = (if falsy field then ''[]'' else the field) in
      bindM (lift (json_loads raw)) (\<lambda>j. bindM (lift (load_statuses j)) (\<lambda>m. ret (Some m)))))"

definition serialized :: "statuses \<Rightarrow> string" where
  "serialized m = json_dumps (JArr (map (\<lambda>k. asdict (the (map_of m k))) (sort (map fst m))))"

datatype status_arg = StatusCode int | StatusDict "json dict" | Status relation_status | StatusOther

definition status_of :: "statuses \<Rightarrow> status_arg \<Rightarrow> exn + relation_status" where
  "status_of schema status = (case status of
     StatusCode c \<Rightarrow> (case map_of schema c of
       None \<Rightarrow> Inl (key_error (''Status code ['' @ str_int c @ ''] not defined.'')) | Some s \<Rightarrow> Inr s)
   | StatusDict d \<Rightarrow> make_status d
   | Status s \<Rightarrow> Inr s
   | StatusOther \<Rightarrow> Inl (value_error
       ''The status should be either a RelationStatus, an appropriate dict, or the numeric status code.''))"

text \<open>On other units \<open>get_statuses\<close> returns \<open>None\<close>, which has no method \<open>update\<close> and no members.\<close>

definition raise_status :: "provider_env \<Rightarrow> statuses \<Rightarrow> nat \<Rightarrow> status_arg \<Rightarrow> unit pop" where
  "raise_status P schema i status =
     bindM (lift (status_of schema status)) (\<lambda>s.
     bindM (get_statuses P i) (\<lambda>m. case m of None \<Rightarrow> raise (attribute_error ''update'')
     | Some statuses \<Rightarrow> update_relation_data P i [(STATUS_FIELD, serialized (AList.update (rs_code s) s statuses))]))"

definition resolve_status :: "provider_env \<Rightarrow> nat \<Rightarrow> int \<Rightarrow> unit pop" where
  "resolve_status P i status_code =
     bindM (get_statuses P i) (\<lambda>m. case m of None \<Rightarrow> raise (type_error ''NoneType'')
     | Some statuses \<Rightarrow> if status_code \<notin> set (map fst statuses) then ret ()
         else update_relation_data P i [(STATUS_FIELD, serialized (AList.delete status_code statuses))])"

definition clear_statuses :: "provider_env \<Rightarrow> nat \<Rightarrow> unit pop" where
  "clear_statuses P i = delete_relation_data P i [STATUS_FIELD]"

section \<open>Plain fields\<close>

text \<open>
  A client that asked for a database in the databag, with the lists of its secret fields, and no encryption key: what its
  relation needs so that fields outside the requested secrets are written and read in the databag.
\<close>

definition plain_relation :: "nat \<Rightarrow> relation_data \<Rightarrow> string list \<Rightarrow> provider \<Rightarrow> bool" where
  "plain_relation i r req p \<longleftrightarrow> pr_rels p i = Some r \<and>
     (\<exists>d js ps. rd_remote r = Some d \<and> falsy (map_of d ''encryption-secret'') \<and> map_of d ''database'' \<noteq> None \<and>
       json_loads (get_default d ''requested-secrets'' ''[]'') = Inr (JArr js) \<and> req = json_strings js \<and>
       json_loads (get_default d ''provided-secrets'' ''[]'') = Inr (JArr ps) \<and> ''database'' \<notin> set (json_strings ps))"

text \<open>The order in which Python walks a set is some order of its members.\<close>

abbreviation walks_sets :: "provider_env \<Rightarrow> bool" where
  "walks_sets P \<equiv> \<forall>xs. mset (pe_set_order P xs) = mset xs"

lemma set_order_simps:
  assumes "walks_sets P"
  shows "pe_set_order P [] = []" "pe_set_order P [f] = [f]" "set (pe_set_order P xs) = set xs"
proof -
  have m: "mset (pe_set_order P xs) = mset xs" for xs using assms by blast
  show "pe_set_order P [] = []" using m [of "[]"] by simp
  have "length (pe_set_order P [f]) = 1" "set (pe_set_order P [f]) = {f}"
    using m [of "[f]"] mset_eq_length mset_eq_setD by fastforce+
  then show "pe_set_order P [f] = [f]" by (cases "pe_set_order P [f]") auto
  show "set (pe_set_order P xs) = set xs" using assms mset_eq_setD by blast
qed

lemma load_plain:
  assumes "plain_relation i r req p"
  obtains ps where "load_secrets_from_databag i p = (Inr (), p\<lparr>local_secret_fields := req, remote_secret_fields := ps\<rparr>)"
    "''database'' \<notin> set ps"
    "load_secrets_from_databag i (p\<lparr>local_secret_fields := req, remote_secret_fields := ps\<rparr>) =
      (Inr (), p\<lparr>local_secret_fields := req, remote_secret_fields := ps\<rparr>)"
proof -
  obtain d js ps where d: "pr_rels p i = Some r" "rd_remote r = Some d" "json_loads (get_default d ''requested-secrets'' ''[]'') = Inr (JArr js)"
    "req = json_strings js" "json_loads (get_default d ''provided-secrets'' ''[]'') = Inr (JArr ps)" "''database'' \<notin> set (json_strings ps)"
    using assms by (auto simp: plain_relation_def)
  then have "load_secrets_from_databag i q = (Inr (), q\<lparr>local_secret_fields := req, remote_secret_fields := json_strings ps\<rparr>)"
    if "pr_rels q i = Some r" for q
    using base_on_relation_changed_eq [OF that d(2)] by (simp add: load_eq listed_def)
  from this [of p] this [of "p\<lparr>local_secret_fields := req, remote_secret_fields := json_strings ps\<rparr>"] d that show thesis by simp
qed

lemma plain_relation_fields [simp]:
  "plain_relation i r req (p\<lparr>local_secret_fields := ls\<rparr>) = plain_relation i r req p"
  "plain_relation i r req (p\<lparr>remote_secret_fields := rs\<rparr>) = plain_relation i r req p"
  by (simp_all add: plain_relation_def)

lemma process_plain_fields:
  assumes "walks_sets P" "pr_rels q i = Some r" "case fs of None \<Rightarrow> True | Some fs \<Rightarrow> set ks \<inter> set fs = {}"
  shows "process_secret_fields P i fs ks operation q = (Inr ([], ks), q)"
proof (cases fs)
  case (Some ls)
  then have "filter (\<lambda>k. k \<notin> set ls) ks = ks" "filter (\<lambda>k. k \<in> set ls) ks = []"
    using assms(3) by (auto simp: filter_id_conv filter_empty_conv)
  with Some assms(2) show ?thesis
    by (simp add: process_secret_fields_def group_secret_fields_def Let_def bindM_def run_databags set_order_simps [OF assms(1)] monad_simps)
qed (simp add: process_secret_fields_def bindM_def monad_simps)

lemma process_plain:
  assumes "walks_sets P" "pr_rels q i = Some r" "case fs of None \<Rightarrow> True | Some fs \<Rightarrow> f \<notin> set fs"
  shows "process_secret_fields P i fs [f] operation q = (Inr ([], [f]), q)"
  using process_plain_fields [OF assms(1,2), where fs = fs and ks = "[f]"] assms(3) by (cases fs) auto

lemma no_encryption_key:
  "plain_relation i r req q \<Longrightarrow> get_encryption_key i q = (Inr None, q)"
  by (auto simp: plain_relation_def get_encryption_key_def run_databags bindM_def monad_simps Let_def)

lemma fetch_with_plain:
  assumes "walks_sets P" "pr_rels q i = Some r" "get_encryption_key i q = (Inr None, q)" "read q = (Inr dd, q)" "case fs of None \<Rightarrow> True | Some fs \<Rightarrow> f \<notin> set fs"
  shows "\<exists>e. fetch_relation_data_with_secrets P read fs i [f] q = (Inr e, q) \<and> map_of e f = map_of dd f"
proof -
  have "fetch_relation_data_without_secrets P read i [f] q = (Inr (case map_of dd f of None \<Rightarrow> [] | Some v \<Rightarrow> [(f, v)]), q)"
    using assms(2-4)
    by (auto simp: fetch_relation_data_without_secrets_def bindM_def monad_simps Let_def run_databags dict_has_iff falsy_iff split: option.splits)
  with process_plain [OF assms(1,2,5), of "get_group_secret_contents P"] show ?thesis
    by (auto simp: fetch_relation_data_with_secrets_def bindM_def monad_simps set_order_simps [OF assms(1)] dict_update_def
        split: option.splits)
qed

text \<open>A plain field of the own databag is read as it is there.\<close>

lemma fetch_my_plain:
  assumes "pe_leader P" "walks_sets P" "plain_relation i r req p" "f \<notin> set req"
  shows "\<exists>ps. fetch_my_relation_field P i f p = (Inr (map_of (rd_local r) f), p\<lparr>local_secret_fields := req, remote_secret_fields := ps\<rparr>)"
proof -
  obtain ps where ps: "load_secrets_from_databag i p = (Inr (), p\<lparr>local_secret_fields := req, remote_secret_fields := ps\<rparr>)"
    by (rule load_plain [OF assms(3)])
  let ?q = "p\<lparr>local_secret_fields := req, remote_secret_fields := ps\<rparr>"
  have q: "plain_relation i r req ?q" "pr_rels ?q i = Some r" "pr_rels p i = Some r" using assms(3) by (simp_all add: plain_relation_def)
  from fetch_with_plain [OF assms(2) q(2) no_encryption_key [OF q(1)], of "read_local P i", OF run_databags(2) [OF q(2) assms(1)], where fs = "if pe_has_secrets P then Some req else None" and f = f] assms(4)
  show ?thesis
    by (intro exI [of _ ps]) (auto simp: fetch_my_relation_field_def leader_only_def assms(1) run_databags(1) [OF q(3)] fetch_my_specific_relation_data_def ps
        secret_fields_def seqM_def bindM_def monad_simps)
qed

lemma update_plain:
  assumes "pe_leader P" "walks_sets P" "plain_relation i r req p" "f \<notin> set req"
  shows "\<exists>ps. update_relation_data P i [(f, v)] p = (Inr (), p\<lparr>local_secret_fields := req, remote_secret_fields := ps,
    pr_rels := (pr_rels p)(i \<mapsto> r\<lparr>rd_local := bag_put f v (rd_local r)\<rparr>)\<rparr>)"
proof -
  obtain d where d: "rd_remote r = Some d" "map_of d ''database'' \<noteq> None" and r: "pr_rels p i = Some r"
    using assms(3) by (auto simp: plain_relation_def)
  obtain ps where ps: "load_secrets_from_databag i p = (Inr (), p\<lparr>local_secret_fields := req, remote_secret_fields := ps\<rparr>)"
    "''database'' \<notin> set ps" "load_secrets_from_databag i (p\<lparr>local_secret_fields := req, remote_secret_fields := ps\<rparr>) =
      (Inr (), p\<lparr>local_secret_fields := req, remote_secret_fields := ps\<rparr>)" by (rule load_plain [OF assms(3)])
  let ?q = "p\<lparr>local_secret_fields := req, remote_secret_fields := ps\<rparr>"
  have q: "plain_relation i r req ?q" "pr_rels ?q i = Some r" using assms(3) r by simp_all
  have "\<exists>x. fetch_relation_field P i ''database'' p = (Inr (Some x), ?q)"
    using fetch_with_plain [OF assms(2) q(2) no_encryption_key [OF q(1)], of "read_remote i", OF run_databags(3) [OF q(2) d(1)], where fs = "if pe_has_secrets P then Some ps else None" and f = "''database''"]
      ps d
    by (auto simp: fetch_relation_field_def fetch_specific_relation_data_def run_databags(1) [OF r] secret_fields_def seqM_def bindM_def monad_simps)
  then show ?thesis
    using process_plain [OF assms(2) q(2), where fs = "if pe_has_secrets P then Some req else None" and f = f] assms(4) no_encryption_key [OF q(1)] ps(3)
      run_databags(4) [OF q(2) assms(1)]
    by (intro exI [of _ ps]) (auto simp: update_relation_data_def leader_only_def assms(1) run_databags(1) [OF r] run_databags(1) [OF q(2)]
        provider_update_relation_data_def base_update_relation_data_def dict_keys_def secret_fields_def
        update_relation_data_without_secrets_def bag_update_def seqM_def bindM_def monad_simps falsy_iff)
qed

lemma delete_plain:
  assumes "pe_leader P" "walks_sets P" "plain_relation i r req p" "f \<notin> set req"
  shows "\<exists>ps. delete_relation_data P i [f] p = (Inr (), p\<lparr>local_secret_fields := req, remote_secret_fields := ps,
    pr_rels := (pr_rels p)(i \<mapsto> r\<lparr>rd_local := AList.delete f (rd_local r)\<rparr>)\<rparr>)"
proof -
  have r: "pr_rels p i = Some r" "rd_remote r \<noteq> None" using assms(3) by (auto simp: plain_relation_def)
  obtain ps where ps: "load_secrets_from_databag i p = (Inr (), p\<lparr>local_secret_fields := req, remote_secret_fields := ps\<rparr>)"
    by (rule load_plain [OF assms(3)])
  let ?q = "p\<lparr>local_secret_fields := req, remote_secret_fields := ps\<rparr>"
  have q: "pr_rels ?q i = Some r" using r by simp
  show ?thesis
    using process_plain [OF assms(2) q, where fs = "if pe_has_secrets P then Some req else None" and f = f] assms(4) run_databags(4) [OF q assms(1)] r
    by (intro exI [of _ ps]) (auto simp: delete_relation_data_def leader_only_def assms(1) run_databags(1) [OF r(1)] base_delete_relation_data_def ps
        delete_relation_data_without_secrets_def secret_fields_def seqM_def bindM_def monad_simps)
qed

lemma plain_relation_put:
  "plain_relation i r req p \<Longrightarrow> plain_relation i (r\<lparr>rd_local := d\<rparr>) req (p\<lparr>pr_rels := (pr_rels p)(i \<mapsto> r\<lparr>rd_local := d\<rparr>)\<rparr>)"
  by (simp add: plain_relation_def)

section \<open>The statuses are a map\<close>

definition databag_statuses :: "string dict \<Rightarrow> exn + statuses" where
  "databag_statuses d = (case json_loads (if falsy (map_of d STATUS_FIELD) then ''[]'' else the (map_of d STATUS_FIELD)) of
     Inl e \<Rightarrow> Inl e | Inr j \<Rightarrow> load_statuses j)"

text \<open>Statuses under their own codes, each code once.\<close>

definition statuses_ok :: "statuses \<Rightarrow> bool" where
  "statuses_ok m \<longleftrightarrow> distinct (map fst m) \<and> (\<forall>(c, s) \<in> set m. rs_code s = c)"

definition sorted_statuses :: "statuses \<Rightarrow> statuses" where
  "sorted_statuses m = map (\<lambda>k. (k, the (map_of m k))) (sort (map fst m))"

lemma update_fresh: "k \<notin> fst ` set d \<Longrightarrow> AList.update k v d = d @ [(k, v)]"
  by (induction d) auto

lemma read_asdict [simp]: "read_status (asdict s) = Inr s"
  by (simp add: asdict_def read_status_def make_status_def dict_has_def dict_keys_def)

lemma statuses_by_code_all:
  assumes "statuses_ok (acc @ m)"
  shows "statuses_by_code (map (asdict \<circ> snd) m) acc = Inr (acc @ m)"
  using assms
proof (induction m arbitrary: acc)
  case (Cons a m)
  obtain c s where a: "a = (c, s)" by force
  with Cons.prems have "rs_code s = c" "c \<notin> fst ` set acc" by (auto simp: statuses_ok_def)
  with Cons.IH [of "acc @ [a]"] Cons.prems a show ?case by (simp add: update_fresh)
qed simp

lemma sorted_statuses_props:
  assumes "statuses_ok m"
  shows "statuses_ok (sorted_statuses m)" "map_of (sorted_statuses m) = map_of m" "sorted (map fst (sorted_statuses m))"
proof -
  have d: "distinct (map fst m)" using assms by (simp add: statuses_ok_def)
  have f: "map fst (sorted_statuses m) = sort (map fst m)" by (simp add: sorted_statuses_def comp_def)
  then show "sorted (map fst (sorted_statuses m))" by simp
  have "rs_code (the (map_of m c)) = c" if "c \<in> fst ` set m" for c
    using that assms d by (auto simp: statuses_ok_def)
  then show "statuses_ok (sorted_statuses m)" unfolding statuses_ok_def f using d by (auto simp: sorted_statuses_def)
  show "map_of (sorted_statuses m) = map_of m"
  proof
    fix c
    have "map_of (map (\<lambda>k. (k, the (map_of m k))) ks) c = (if c \<in> set ks then Some (the (map_of m c)) else None)" for ks
      by (induction ks) auto
    moreover have "c \<in> fst ` set m \<Longrightarrow> map_of m c \<noteq> None" by (auto simp: map_of_eq_None_iff)
    moreover have "c \<notin> fst ` set m \<Longrightarrow> map_of m c = None" by (simp add: map_of_eq_None_iff)
    ultimately show "map_of (sorted_statuses m) c = map_of m c" by (auto simp: sorted_statuses_def)
  qed
qed

lemma json_ok_asdict [simp]: "json_ok (asdict s)"
  by (simp add: asdict_def dict_ok_def dict_keys_def)

text \<open>What is written for a set of statuses reads back sorted by the codes.\<close>

lemma written_statuses:
  assumes "statuses_ok m"
  shows "databag_statuses (bag_put STATUS_FIELD (serialized m) d) = Inr (sorted_statuses m)"
proof -
  let ?j = "JArr (map (asdict \<circ> snd) (sorted_statuses m))"
  have "serialized m = json_dumps ?j" by (simp add: serialized_def sorted_statuses_def comp_def)
  moreover have "json_ok ?j" by (simp add: list_all_iff)
  then have "json_loads (json_dumps ?j) = Inr ?j" by (rule json_round_trip)
  ultimately show ?thesis
    using statuses_by_code_all [of "[]"] sorted_statuses_props(1) [OF assms]
    by (simp add: databag_statuses_def bag_put_def update_conv' falsy_iff load_statuses_def)
qed

lemma statuses_ok_change:
  assumes "statuses_ok m"
  shows "statuses_ok (AList.update (rs_code s) s m)" "statuses_ok (AList.delete c m)"
proof -
  have "set (AList.update (rs_code s) s m) \<subseteq> insert (rs_code s, s) (set m)" by (induction m) auto
  then show "statuses_ok (AList.update (rs_code s) s m)" using assms unfolding statuses_ok_def by (auto simp: distinct_update)
  show "statuses_ok (AList.delete c m)" using assms unfolding statuses_ok_def by (auto simp: AList.delete_eq distinct_map_filter)
qed

lemma get_statuses_run:
  assumes "pe_leader P" "walks_sets P" "plain_relation i r req p" "STATUS_FIELD \<notin> set req" "databag_statuses (rd_local r) = Inr m"
  shows "\<exists>ps. get_statuses P i p = (Inr (Some m), p\<lparr>local_secret_fields := req, remote_secret_fields := ps\<rparr>)"
proof -
  from fetch_my_plain [OF assms(1-4)] obtain ps where "fetch_my_relation_field P i STATUS_FIELD p =
    (Inr (map_of (rd_local r) STATUS_FIELD), p\<lparr>local_secret_fields := req, remote_secret_fields := ps\<rparr>)" ..
  with assms(1,5) show ?thesis
    by (intro exI [of _ ps], cases "falsy (map_of (rd_local r) STATUS_FIELD)")
      (auto simp: get_statuses_def leader_only_def databag_statuses_def bindM_def monad_simps Let_def split: sum.splits)
qed

definition board :: "nat \<Rightarrow> provider \<Rightarrow> int \<rightharpoonup> relation_status" where
  "board i p = (case pr_rels p i of None \<Rightarrow> Map.empty | Some r \<Rightarrow>
     (case databag_statuses (rd_local r) of Inl _ \<Rightarrow> Map.empty | Inr m \<Rightarrow> map_of m))"

definition board_ok :: "provider_env \<Rightarrow> nat \<Rightarrow> string list \<Rightarrow> provider \<Rightarrow> bool" where
  "board_ok P i req p \<longleftrightarrow> pe_leader P \<and> walks_sets P \<and> STATUS_FIELD \<notin> set req \<and>
     (\<exists>r m. plain_relation i r req p \<and> databag_statuses (rd_local r) = Inr m \<and> statuses_ok m \<and> sorted (map fst m))"

datatype status_command = Raise relation_status | Resolve int | Clear

fun run_command :: "provider_env \<Rightarrow> statuses \<Rightarrow> nat \<Rightarrow> status_command \<Rightarrow> unit pop" where
  "run_command P schema i (Raise s) = raise_status P schema i (Status s)"
| "run_command P schema i (Resolve c) = resolve_status P i c"
| "run_command P schema i Clear = clear_statuses P i"

text \<open>The contract: a board is a map from codes to statuses.\<close>

fun board_step :: "status_command \<Rightarrow> (int \<rightharpoonup> relation_status) \<Rightarrow> (int \<rightharpoonup> relation_status)" where
  "board_step (Raise s) b = b(rs_code s \<mapsto> s)"
| "board_step (Resolve c) b = b(c := None)"
| "board_step Clear b = Map.empty"

locale status_board =
  fixes ok :: "'s \<Rightarrow> bool" and shown :: "'s \<Rightarrow> int \<rightharpoonup> relation_status" and run :: "status_command \<Rightarrow> ('s, unit) M"
  assumes step: "ok s \<Longrightarrow> \<exists>s'. run c s = (Inr (), s') \<and> ok s' \<and> shown s' = board_step c (shown s)"
begin

lemma commands: "ok s \<Longrightarrow> \<exists>s'. for_each run cs s = (Inr (), s') \<and> ok s' \<and> shown s' = fold board_step cs (shown s)"
proof (induction cs arbitrary: s)
  case (Cons c cs)
  from step [OF Cons.prems] obtain s1 where s1: "run c s = (Inr (), s1)" "ok s1" "shown s1 = board_step c (shown s)" by blast
  with Cons.IH [OF s1(2)] show ?case by (auto simp: seqM_def bindM_def)
qed (simp add: monad_simps)

end

lemma put_statuses:
  assumes "board_ok P i req p" "plain_relation i r req p" "statuses_ok m"
  shows "\<exists>p'. update_relation_data P i [(STATUS_FIELD, serialized m)] p = (Inr (), p') \<and> board_ok P i req p' \<and> board i p' = map_of m"
proof -
  let ?r = "r\<lparr>rd_local := bag_put STATUS_FIELD (serialized m) (rd_local r)\<rparr>"
  from assms(1) have P: "pe_leader P" "walks_sets P" "STATUS_FIELD \<notin> set req" by (simp_all add: board_ok_def)
  from update_plain [OF P(1,2) assms(2) P(3)] obtain ps where
    u: "update_relation_data P i [(STATUS_FIELD, serialized m)] p =
      (Inr (), p\<lparr>local_secret_fields := req, remote_secret_fields := ps, pr_rels := (pr_rels p)(i \<mapsto> ?r)\<rparr>)" ..
  let ?p = "p\<lparr>local_secret_fields := req, remote_secret_fields := ps, pr_rels := (pr_rels p)(i \<mapsto> ?r)\<rparr>"
  note w = written_statuses [OF assms(3), of "rd_local r"] and sorted = sorted_statuses_props [OF assms(3)]
  have "plain_relation i ?r req ?p" using assms(2) by (simp add: plain_relation_def)
  with w sorted P have "board_ok P i req ?p" unfolding board_ok_def by fastforce
  moreover have "board i ?p = map_of m" using w sorted(2) by (simp add: board_def)
  ultimately show ?thesis using u by blast
qed

lemma board_okE:
  assumes "board_ok P i req p"
  obtains r m ps where "plain_relation i r req p" "statuses_ok m" "board i p = map_of m"
    "databag_statuses (rd_local r) = Inr m" "sorted (map fst m)"
    "get_statuses P i p = (Inr (Some m), p\<lparr>local_secret_fields := req, remote_secret_fields := ps\<rparr>)"
    "board_ok P i req (p\<lparr>local_secret_fields := req, remote_secret_fields := ps\<rparr>)"
proof -
  from assms obtain r m where r: "pe_leader P" "walks_sets P" "STATUS_FIELD \<notin> set req" "plain_relation i r req p"
    "databag_statuses (rd_local r) = Inr m" "statuses_ok m" "sorted (map fst m)" by (auto simp: board_ok_def)
  from get_statuses_run [OF r(1,2,4,3,5)] obtain ps
    where "get_statuses P i p = (Inr (Some m), p\<lparr>local_secret_fields := req, remote_secret_fields := ps\<rparr>)" ..
  moreover have "board i p = map_of m" using r(4,5) by (simp add: board_def plain_relation_def)
  ultimately show thesis using that r assms by (auto simp: board_ok_def)
qed

interpretation provider_board: status_board "board_ok P i req" "board i" "run_command P schema i" for P i req schema
proof
  fix p c assume ok: "board_ok P i req p"
  obtain r m ps where m: "plain_relation i r req p" "statuses_ok m" "board i p = map_of m" "databag_statuses (rd_local r) = Inr m"
    "sorted (map fst m)"
    "get_statuses P i p = (Inr (Some m), p\<lparr>local_secret_fields := req, remote_secret_fields := ps\<rparr>)"
    "board_ok P i req (p\<lparr>local_secret_fields := req, remote_secret_fields := ps\<rparr>)" by (rule board_okE [OF ok])
  let ?q = "p\<lparr>local_secret_fields := req, remote_secret_fields := ps\<rparr>"
  have q: "plain_relation i r req ?q" using m(1) by simp
  note put = put_statuses [OF m(7) q]
  show "\<exists>p'. run_command P schema i c p = (Inr (), p') \<and> board_ok P i req p' \<and> board i p' = board_step c (board i p)"
  proof (cases c)
    case (Raise s)
    with put [OF statuses_ok_change(1) [OF m(2), of s]] m(3,6) show ?thesis
      by (simp add: raise_status_def status_of_def bindM_def monad_simps update_conv')
  next
    case (Resolve k)
    show ?thesis
    proof (cases "k \<in> fst ` set m")
      case True
      with put [OF statuses_ok_change(2) [OF m(2), of k]] m(3,6) Resolve show ?thesis
        by (auto simp: resolve_status_def bindM_def monad_simps delete_conv')
    next
      case False
      then have "map_of m k = None" by (simp add: map_of_eq_None_iff)
      with False m(3,6,7) Resolve q show ?thesis
        by (auto simp: resolve_status_def bindM_def monad_simps board_def fun_upd_idem)
    qed
  next
    case Clear
    let ?r = "r\<lparr>rd_local := AList.delete STATUS_FIELD (rd_local r)\<rparr>"
    have P: "pe_leader P" "walks_sets P" "STATUS_FIELD \<notin> set req" using ok by (simp_all add: board_ok_def)
    from delete_plain [OF P(1,2) m(1) P(3)] obtain ps' where d: "delete_relation_data P i [STATUS_FIELD] p =
      (Inr (), p\<lparr>local_secret_fields := req, remote_secret_fields := ps', pr_rels := (pr_rels p)(i \<mapsto> ?r)\<rparr>)" ..
    let ?p = "p\<lparr>local_secret_fields := req, remote_secret_fields := ps', pr_rels := (pr_rels p)(i \<mapsto> ?r)\<rparr>"
    have "databag_statuses (rd_local ?r) = Inr []"
      using json_round_trip [of "JArr []"] by (simp add: databag_statuses_def delete_conv' falsy_iff load_statuses_def)
    moreover have "plain_relation i ?r req ?p" using m(1) by (simp add: plain_relation_def)
    ultimately have "board_ok P i req ?p \<and> board i ?p = Map.empty"
      using P by (fastforce simp: board_ok_def board_def statuses_ok_def)
    with d Clear show ?thesis by (simp add: clear_statuses_def)
  qed
qed

text \<open>
  (C19) The statuses of a relation are a map from codes to statuses: on the leader, for a client that asked for a database and
  not for the statuses as a secret, any sequence of raising, resolving and clearing succeeds, and \<open>get_statuses\<close> then returns
  exactly the statuses of the abstract board, in the order of their codes.
\<close>

theorem statuses_refine_map:
  assumes "pe_leader P" "walks_sets P" "plain_relation i r req p" "STATUS_FIELD \<notin> set req" "falsy (map_of (rd_local r) STATUS_FIELD)"
  shows "\<exists>p' m. for_each (run_command P schema i) cs p = (Inr (), p') \<and> fst (get_statuses P i p') = Inr (Some m) \<and>
    map_of m = fold board_step cs Map.empty \<and> sorted_wrt (<) (map fst m)"
proof -
  have e: "databag_statuses (rd_local r) = Inr []"
    using assms(5) json_round_trip [of "JArr []"] by (simp add: databag_statuses_def load_statuses_def)
  with assms have ok: "board_ok P i req p" unfolding board_ok_def by (intro conjI exI [of _ r] exI [of _ "[]"]) (auto simp: statuses_ok_def)
  have "board i p = Map.empty" using assms(3) e by (simp add: board_def plain_relation_def)
  with provider_board.commands [OF ok, of schema cs] obtain p' where p': "for_each (run_command P schema i) cs p = (Inr (), p')"
    "board_ok P i req p'" "board i p' = fold board_step cs Map.empty" by auto
  obtain m where "statuses_ok m" "board i p' = map_of m" "sorted (map fst m)" "fst (get_statuses P i p') = Inr (Some m)"
    by (rule board_okE [OF p'(2)]) auto
  with p' show ?thesis by (intro exI [of _ p'] exI [of _ m]) (auto simp: statuses_ok_def strict_sorted_iff)
qed

lemma sample_plain: "plain_relation 7 \<lparr>rd_local = [], rd_remote = Some sample_client, rd_remote_model = None\<rparr>
    [''username'', ''password''] sample_provider"
  unfolding plain_relation_def
  by (intro conjI exI [of _ sample_client] exI [of _ "[JStr ''username'', JStr ''password'']"] exI [of _ "[]"])
    (simp_all add: sample_client_fields, simp_all add: sample_client_def falsy_iff)

lemma sample_env_walks: "pe_leader sample_provider_env" "walks_sets sample_provider_env"
  by (simp_all add: sample_provider_env_def)

theorem statuses_refine_map_witness:
  "\<exists>p' m. for_each (run_command sample_provider_env [] 7)
      [Raise \<lparr>rs_code = 4001, rs_message = ''wait'', rs_resolution = []\<rparr>, Raise \<lparr>rs_code = 1000, rs_message = ''hi'', rs_resolution = []\<rparr>,
       Resolve 4001] sample_provider = (Inr (), p') \<and>
     fst (get_statuses sample_provider_env 7 p') = Inr (Some m) \<and> map_of m 4001 = None \<and>
     map_of m 1000 = Some \<lparr>rs_code = 1000, rs_message = ''hi'', rs_resolution = []\<rparr>"
proof -
  have "STATUS_FIELD \<notin> set [''username'', ''password'']" by (simp add: STATUS_FIELD_def)
  from statuses_refine_map [OF sample_env_walks sample_plain this, of "[]"
      "[Raise \<lparr>rs_code = 4001, rs_message = ''wait'', rs_resolution = []\<rparr>, Raise \<lparr>rs_code = 1000, rs_message = ''hi'', rs_resolution = []\<rparr>,
       Resolve 4001]"]
  obtain p' m where p': "for_each (run_command sample_provider_env [] 7)
      [Raise \<lparr>rs_code = 4001, rs_message = ''wait'', rs_resolution = []\<rparr>, Raise \<lparr>rs_code = 1000, rs_message = ''hi'', rs_resolution = []\<rparr>,
       Resolve 4001] sample_provider = (Inr (), p')" "fst (get_statuses sample_provider_env 7 p') = Inr (Some m)"
    "map_of m = fold board_step [Raise \<lparr>rs_code = 4001, rs_message = ''wait'', rs_resolution = []\<rparr>,
       Raise \<lparr>rs_code = 1000, rs_message = ''hi'', rs_resolution = []\<rparr>, Resolve 4001] Map.empty"
    by (auto simp: falsy_iff simp del: fold.simps for_each.simps)
  then show ?thesis by (intro exI [of _ p'] exI [of _ m]) (simp del: for_each.simps)
qed

text \<open>
  Other units than the leader get no statuses, and clearing is silently ignored there as all the writing methods of the
  library are, but raising and resolving end with the errors of the missing dictionary.
\<close>

lemma statuses_on_other_units:
  assumes "\<not> pe_leader P"
  shows "get_statuses P i p = (Inr None, p)" "clear_statuses P i p = (Inr (), p)"
    "resolve_status P i c p = (Inl (type_error ''NoneType''), p)"
    "status_of schema a = Inr s \<Longrightarrow> raise_status P schema i a p = (Inl (attribute_error ''update''), p)"
  using assms
  by (simp_all add: get_statuses_def clear_statuses_def delete_relation_data_def resolve_status_def raise_status_def leader_only_def
      bindM_def monad_simps)

text \<open>An undefined code is a \<open>KeyError\<close> and a dictionary without the three fields a \<open>TypeError\<close>, never a \<open>ValueError\<close>.\<close>

lemma raise_status_format:
  "map_of schema c = None \<Longrightarrow> raise_status P schema i (StatusCode c) p = (Inl (key_error (''Status code ['' @ str_int c @ ''] not defined.'')), p)"
  "map_of d ''code'' = None \<Longrightarrow> raise_status P schema i (StatusDict d) p = (Inl (type_error ''RelationStatus''), p)"
  by (simp_all add: raise_status_def status_of_def make_status_def bindM_def monad_simps)

section \<open>The dictionary view\<close>

text \<open>
  The dictionary view of a relation: on the leader an item that is not asked for as a secret is read as it was set, it is
  popped with this value, and afterwards it is gone from the own databag, so that popping it again is a \<open>KeyError\<close>.
\<close>

theorem data_dict_round_trip:
  assumes "pe_leader P" "walks_sets P" "plain_relation i r req p" "f \<notin> set req" "v \<noteq> []"
  shows "\<exists>p1 p2. dict_setitem P i f v p = (Inr (), p1) \<and> fst (dict_getitem P i f p1) = Inr v \<and>
    dict_pop P i f p1 = (Inr v, p2) \<and> (\<exists>m. fst (dict_pop P i f p2) = Inl (key_error m)) \<and>
    (\<forall>r2. pr_rels p2 i = Some r2 \<longrightarrow> map_of (rd_local r2) = (map_of (rd_local r))(f := None))"
proof -
  let ?r = "r\<lparr>rd_local := bag_put f v (rd_local r)\<rparr>"
  from update_plain [OF assms(1-4)] obtain p1 where p1: "dict_setitem P i f v p = (Inr (), p1)" "plain_relation i ?r req p1"
    unfolding dict_setitem_def using assms(3) by (fastforce simp: plain_relation_def)
  from fetch_my_plain [OF assms(1,2) p1(2) assms(4)] obtain ps where
    f: "fetch_my_relation_field P i f p1 = (Inr (Some v), p1\<lparr>local_secret_fields := req, remote_secret_fields := ps\<rparr>)"
    using assms(5) by (auto simp: bag_put_def update_conv')
  let ?q = "p1\<lparr>local_secret_fields := req, remote_secret_fields := ps\<rparr>" and ?s = "?r\<lparr>rd_local := AList.delete f (rd_local ?r)\<rparr>"
  have g: "fst (dict_getitem P i f p1) = Inr v"
    using f assms(1,5) by (simp add: dict_getitem_def bindM_def monad_simps falsy_iff)
  have "plain_relation i ?r req ?q" using p1(2) by simp
  from delete_plain [OF assms(1,2) this assms(4)] obtain p2 where
    p2: "delete_relation_data P i [f] ?q = (Inr (), p2)" "plain_relation i ?s req p2"
    using p1(2) by (fastforce simp: plain_relation_def)
  then have pop: "dict_pop P i f p1 = (Inr v, p2)"
    using f assms(5) by (simp add: dict_pop_def seqM_def bindM_def monad_simps falsy_iff)
  from fetch_my_plain [OF assms(1,2) p2(2) assms(4)] have "fst (dict_pop P i f p2) = Inl (key_error (''Item '' @ f @ '' doesn't exist.''))"
    by (auto simp: dict_pop_def bindM_def monad_simps falsy_iff delete_conv')
  moreover have "map_of (rd_local ?s) = (map_of (rd_local r))(f := None)"
    using assms(5) by (simp add: bag_put_def delete_conv' update_conv')
  ultimately show ?thesis using p1(1) g pop p2(2) by (auto simp: plain_relation_def)
qed

theorem data_dict_round_trip_witness:
  "\<exists>p1 p2. dict_setitem sample_provider_env 7 ''endpoints'' ''h:1'' sample_provider = (Inr (), p1) \<and>
     fst (dict_getitem sample_provider_env 7 ''endpoints'' p1) = Inr ''h:1'' \<and>
     dict_pop sample_provider_env 7 ''endpoints'' p1 = (Inr ''h:1'', p2)"
  using data_dict_round_trip [OF sample_env_walks sample_plain, of "''endpoints''" "''h:1''"] by auto

text \<open>\<open>in\<close> looks among the values of the dictionary, while \<open>has_key\<close> looks among its keys.\<close>

lemma contains_is_not_has_key:
  "fst (dict_has_key sample_provider_env 7 ''database'' sample_provider) = Inr True"
  "fst (dict_contains sample_provider_env 7 ''database'' sample_provider) = Inr False"
  "fst (dict_contains sample_provider_env 7 ''app'' sample_provider) = Inr True"
  by code_simp+

end
