(* ===== verification/Requirer.thy ===== *)
theory Requirer
  imports RelationStatus
begin

text \<open>
  The client half of the relation library (\<open>libs/data_platform_libs/v0/data_interfaces.py\<close>): the data and the event handlers
  of an application that asks for a database, and its composition with the provider half.

  A client keeps its databags, secrets and lists of secret fields in the state that the provider half has as well, as both
  are instances of the class \<open>Data\<close> (here \<open>rd_local\<close> is the databag of the client and \<open>rd_remote\<close> that of the provider), the
  databags of its own unit and of the remote units, and the events that it emitted, under an alias of the relation or none.  The
  order in which Python walks a set of status codes is a parameter, as are the relations of the model.
\<close>

section \<open>The state\<close>

datatype client_event = DatabaseCreated | DatabaseEntityCreated | EndpointsChanged | ReadOnlyEndpointsChanged
  | PrefixDatabasesChanged | StatusRaised relation_status | StatusResolved relation_status

record client =
  cl_data :: provider
  cl_unit :: "nat \<Rightarrow> string dict"
  cl_remote_units :: "nat \<Rightarrow> (string \<times> string dict) list"
  cl_events :: "(string option \<times> client_event \<times> nat) list"

text \<open>The arguments of \<open>DatabaseRequires\<close>, and what the client knows of its model.\<close>

record requirer =
  rq_app :: string
  rq_database :: string
  rq_extra_user_roles :: "string option"
  rq_relations_aliases :: "string list"
  rq_additional_secret_fields :: "string list"
  rq_external_node_connectivity :: bool
  rq_extra_group_roles :: "string option"
  rq_entity_type :: "string option"
  rq_entity_permissions :: "string option"
  rq_requested_entity_secret :: "string option"
  rq_requested_entity_name :: "string option"
  rq_requested_entity_password :: "string option"
  rq_prefix_matching :: "string option"
  rq_relations :: "nat list"
  rq_code_order :: "json option list \<Rightarrow> json option list"

type_synonym 'a cop = "(client, 'a) M"

definition on_data :: "'a pop \<Rightarrow> 'a cop" where
  "on_data m = (\<lambda>c. case m (cl_data c) of (r, p) \<Rightarrow> (r, c\<lparr>cl_data := p\<rparr>))"

section \<open>The arguments\<close>

definition illegal_operation :: "string \<Rightarrow> exn" where
  "illegal_operation m = Exn [OtherErrorC, DataInterfacesErrorC, PyException] m"

definition REQUIRER_SECRET_FIELDS :: "string list" where
  "REQUIRER_SECRET_FIELDS = [''username'', ''password'', ''tls'', ''tls-ca'', ''uris'', ''read-only-uris'',
     ''entity-name'', ''entity-password'']"

definition is_cross_model_relation :: "provider_env \<Rightarrow> relation_data list \<Rightarrow> bool" where
  "is_cross_model_relation P relations = (case relations of [] \<Rightarrow> False
     | r # _ \<Rightarrow> (case rd_remote_model r of None \<Rightarrow> False | Some u \<Rightarrow> pe_model_uuid P \<noteq> u))"

definition validate_entity_type :: "requirer \<Rightarrow> exn + unit" where
  "validate_entity_type Q =
     (if \<not> falsy (rq_entity_type Q) \<and> the (rq_entity_type Q) \<notin> {''USER'', ''GROUP''}
      then Inl (value_error ''Invalid entity-type. Possible values are USER and GROUP'')
      else if rq_entity_type Q = Some ''USER'' \<and> \<not> falsy (rq_extra_group_roles Q)
      then Inl (value_error ''Inconsistent entity information. Use extra_user_roles instead'')
      else if rq_entity_type Q = Some ''GROUP'' \<and> \<not> falsy (rq_extra_user_roles Q)
      then Inl (value_error ''Inconsistent entity information. Use extra_group_roles instead'')
      else Inr ())"

text \<open>Python's iteration over a value that \<open>json.loads\<close> returned.\<close>

fun json_iter :: "json \<Rightarrow> exn + json list" where
  "json_iter (JArr js) = Inr js"
| "json_iter (JObj ms) = Inr (map (JStr \<circ> fst) ms)"
| "json_iter (JStr s) = Inr (map (\<lambda>c. JStr [c]) s)"
| "json_iter (JInt i) = Inl (type_error ''int'')"

fun check_permissions :: "json list \<Rightarrow> exn + unit" where
  "check_permissions [] = Inr ()"
| "check_permissions (JObj ms # js) = (if set (dict_keys ms) \<noteq> {''resource_name'', ''resource_type'', ''privileges''}
     then Inl (value_error ''Invalid entity permissions format. See accepted keys'') else check_permissions js)"
| "check_permissions (_ # js) = Inl (attribute_error ''keys'')"

definition validate_entity_permissions :: "requirer \<Rightarrow> exn + unit" where
  "validate_entity_permissions Q =
     (if falsy (rq_entity_permissions Q) then Inr ()
      else (case json_loads (the (rq_entity_permissions Q)) of
        Inl _ \<Rightarrow> Inl (value_error ''Invalid entity permissions format. It must be JSON format'')
      | Inr j \<Rightarrow> (case json_iter j of Inl e \<Rightarrow> Inl e | Inr js \<Rightarrow> check_permissions js)))"

text \<open>\<open>RequirerData.__init__\<close>: the fields that the client asks for, and those that it provides, as secrets.\<close>

definition requirer_init :: "provider_env \<Rightarrow> requirer \<Rightarrow> relation_data list \<Rightarrow> exn + (string list \<times> string list)" where
  "requirer_init P Q relations =
     (if (\<not> falsy (rq_requested_entity_secret Q) \<or> \<not> falsy (rq_requested_entity_name Q)) \<and> \<not> pe_has_secrets P
      then Inl (secrets_unavailable ''Secrets unavailable on current Juju version'')
      else if \<not> falsy (rq_requested_entity_secret Q) \<and>
        (\<not> falsy (rq_requested_entity_name Q) \<or> \<not> falsy (rq_requested_entity_password Q))
      then Inl (illegal_operation ''Unable to use provided and automated entity name secret'')
      else if \<not> falsy (rq_requested_entity_password Q) \<and> falsy (rq_requested_entity_name Q)
      then Inl (illegal_operation ''Unable to set entity password without an entity name'')
      else (case validate_entity_type Q of Inl e \<Rightarrow> Inl e | Inr _ \<Rightarrow>
        (case validate_entity_permissions Q of Inl e \<Rightarrow> Inl e | Inr _ \<Rightarrow>
          Inr (REQUIRER_SECRET_FIELDS @ rq_additional_secret_fields Q,
            filter (\<lambda>f. f \<notin> set REQUIRER_SECRET_FIELDS \<and>
              \<not> (f \<in> set CROSS_MODEL_RELATION_CONSUMER_SECRETS \<and> is_cross_model_relation P relations))
              (map fst SECRET_LABEL_MAP)))))"

text \<open>\<open>DatabaseRequirerEventHandlers.__init__\<close>: one alias for every relation that the limit of the endpoint allows.\<close>

definition handlers_init :: "requirer \<Rightarrow> nat option \<Rightarrow> exn + unit" where
  "handlers_init Q limit = (if rq_relations_aliases Q \<noteq> [] \<and> Some (length (rq_relations_aliases Q)) \<noteq> limit
     then Inl (value_error ''The number of aliases must match the maximum number of connections allowed in the relation.'')
     else Inr ())"

section \<open>Reading and writing\<close>

definition read_unit :: "nat \<Rightarrow> string dict cop" where
  "read_unit i = seqM (on_data (the_relation i)) (gets (\<lambda>c. cl_unit c i))"

definition write_unit :: "nat \<Rightarrow> (string dict \<Rightarrow> string dict) \<Rightarrow> unit cop" where
  "write_unit i f = seqM (on_data (the_relation i)) (modify (\<lambda>c. c\<lparr>cl_unit := (cl_unit c)(i := f (cl_unit c i))\<rparr>))"

definition requirer_load_secrets :: "nat \<Rightarrow> unit cop" where
  "requirer_load_secrets i =
     bindM (read_unit i) (\<lambda>d.
     bindM (on_data (get_encoded_list d ''requested-secrets'')) (\<lambda>requested_secrets.
     bindM (on_data (get_encoded_list d ''provided-secrets'')) (\<lambda>provided_secrets. on_data (block
       [case requested_secrets of None \<Rightarrow> ret () | Some fs \<Rightarrow> if fs = [] then ret () else modify (\<lambda>p. p\<lparr>remote_secret_fields := fs\<rparr>),
        case provided_secrets of None \<Rightarrow> ret () | Some fs \<Rightarrow> if fs = [] then ret () else modify (\<lambda>p. p\<lparr>local_secret_fields := fs\<rparr>)]))))"

definition requirer_fetch :: "provider_env \<Rightarrow> nat \<Rightarrow> string list \<Rightarrow> string dict cop" where
  "requirer_fetch P i names =
     bindM (on_data (the_relation i)) (\<lambda>r. if rd_remote r = None then ret []
       else seqM (requirer_load_secrets i) (on_data
         (bindM (secret_fields P remote_secret_fields) (\<lambda>req. fetch_relation_data_with_secrets P (read_remote i) req i names))))"

definition requirer_fetch_field :: "provider_env \<Rightarrow> nat \<Rightarrow> string \<Rightarrow> string option cop" where
  "requirer_fetch_field P i f = bindM (requirer_fetch P i [f]) (\<lambda>d. ret (map_of d f))"

definition requirer_update :: "provider_env \<Rightarrow> nat \<Rightarrow> string dict \<Rightarrow> unit cop" where
  "requirer_update P i dat =
     (if \<not> pe_leader P then ret ()
      else seqM (on_data (the_relation i)) (seqM (requirer_load_secrets i) (on_data
        (bindM (secret_fields P local_secret_fields) (\<lambda>req.
         bindM (process_secret_fields P i req (dict_keys dat) (add_or_update_relation_secrets P dat)) (\<lambda>(_, normal_fields).
           update_relation_data_without_secrets P i (filter (\<lambda>(k, v). k \<in> set normal_fields) dat)))))))"

definition is_resource_created_for :: "provider_env \<Rightarrow> nat \<Rightarrow> bool cop" where
  "is_resource_created_for P i =
     bindM (on_data (the_relation i)) (\<lambda>r. if rd_remote r = None then ret False
       else bindM (requirer_fetch P i [''username'', ''password'', ''entity-name'', ''entity-password'']) (\<lambda>d.
         ret (\<not> falsy (map_of d ''username'') \<and> \<not> falsy (map_of d ''password'') \<or> \<not> falsy (map_of d ''entity-name''))))"

fun all_created :: "provider_env \<Rightarrow> nat list \<Rightarrow> bool cop" where
  "all_created P [] = ret True"
| "all_created P (i # is) = bindM (is_resource_created_for P i) (\<lambda>b. if b then all_created P is else ret False)"

definition is_resource_created :: "provider_env \<Rightarrow> requirer \<Rightarrow> nat option \<Rightarrow> bool cop" where
  "is_resource_created P Q relation_id = (case relation_id of
     Some i \<Rightarrow> if i \<in> set (rq_relations Q) then is_resource_created_for P i
       else raise (Exn [PyIndexError, PyException] (''relation id '' @ show_nat i @ '' cannot be accessed''))
   | None \<Rightarrow> if rq_relations Q = [] then ret False else all_created P (rq_relations Q))"

section \<open>The relation is created\<close>

definition base_on_created :: "provider_env \<Rightarrow> nat \<Rightarrow> unit cop" where
  "base_on_created P i =
     (if \<not> pe_leader P then ret ()
      else bindM (on_data (secret_fields P remote_secret_fields)) (\<lambda>remote.
        seqM (case remote of Some (f # fs) \<Rightarrow> (let v = JArr (map JStr (f # fs)) in block
            [on_data (set_encoded_field P i ''requested-secrets'' v), write_unit i (bag_put ''requested-secrets'' (json_dumps v))])
          | _ \<Rightarrow> ret ())
        (bindM (on_data (secret_fields P local_secret_fields)) (\<lambda>local. case local of
            Some (f # fs) \<Rightarrow> (let v = JArr (map JStr (f # fs)) in block
              [on_data (set_encoded_field P i ''provided-secrets'' v), write_unit i (bag_put ''provided-secrets'' (json_dumps v))])
          | _ \<Rightarrow> ret ()))))"

text \<open>\<open>list.remove\<close>, which fails for a missing element.\<close>

fun remove_aliases :: "string list \<Rightarrow> string option list \<Rightarrow> exn + string list" where
  "remove_aliases available [] = Inr available"
| "remove_aliases available (a # as) = (if falsy a then remove_aliases available as
     else if the a \<in> set available then remove_aliases (remove1 (the a) available) as
     else Inl (value_error ''list.remove(x): x not in list''))"

definition assign_relation_alias :: "provider_env \<Rightarrow> requirer \<Rightarrow> nat \<Rightarrow> unit cop" where
  "assign_relation_alias P Q i =
     (if rq_relations_aliases Q = [] then ret ()
      else bindM (read_unit i) (\<lambda>d. if \<not> falsy (map_of d ''alias'') then ret ()
        else bindM (gets (\<lambda>c. map (\<lambda>j. map_of (cl_unit c j) ''alias'') (rq_relations Q))) (\<lambda>assigned.
          bindM (lift (remove_aliases (rq_relations_aliases Q) assigned)) (\<lambda>available. case available of
            [] \<Rightarrow> raise index_error
          | a # _ \<Rightarrow> seqM (write_unit i (bag_put ''alias'' a))
              (if pe_leader P then requirer_update P i [(''alias'', a)] else ret ())))))"

definition optional_item :: "string \<Rightarrow> string option \<Rightarrow> string dict" where
  "optional_item k v = (if falsy v then [] else [(k, the v)])"

definition helper_secret :: "provider_env \<Rightarrow> requirer \<Rightarrow> nat \<Rightarrow> string dict pop" where
  "helper_secret P Q i =
     (if falsy (rq_requested_entity_name Q) \<or> \<not> falsy (rq_requested_entity_secret Q) then ret []
      else (let content = (''entity-name'', the (rq_requested_entity_name Q)) # optional_item ''password'' (rq_requested_entity_password Q)
        in seqM (check_content P content) (bindM (gets (\<lambda>p. pe_new_id P (pr_store p))) (\<lambda>new.
          seqM (modify (\<lambda>p. p\<lparr>pr_store := pr_store p @ [\<lparr>js_id = new,
              js_label = Some (pe_model_uuid P @ ''-'' @ show_nat i @ ''-requested-entity''), js_content = content, js_granted = [i]\<rparr>]\<rparr>))
            (if new = [] then raise (Exn [SecretErrorC, DataInterfacesErrorC, PyException] ''Secret helper missing Id'')
             else ret [(''requested-entity-secret'', new)])))))"

definition event_data :: "requirer \<Rightarrow> string dict" where
  "event_data Q = (''database'', rq_database Q) # optional_item ''extra-user-roles'' (rq_extra_user_roles Q) @
     optional_item ''extra-group-roles'' (rq_extra_group_roles Q) @ optional_item ''entity-type'' (rq_entity_type Q) @
     optional_item ''entity-permissions'' (rq_entity_permissions Q) @
     optional_item ''requested-entity-secret'' (rq_requested_entity_secret Q) @
     optional_item ''prefix-matching'' (rq_prefix_matching Q)"

definition on_created :: "provider_env \<Rightarrow> requirer \<Rightarrow> nat \<Rightarrow> unit cop" where
  "on_created P Q i = block [base_on_created P i, assign_relation_alias P Q i,
     if \<not> pe_leader P then ret ()
     else bindM (on_data (helper_secret P Q i)) (\<lambda>helper.
       requirer_update P i (event_data Q @ helper @
         (if rq_external_node_connectivity Q then [(''external-node-connectivity'', ''true'')] else [])))]"

section \<open>The relation changed\<close>

fun status_codes :: "json list \<Rightarrow> exn + json option list" where
  "status_codes [] = Inr []"
| "status_codes (JObj ms # js) = map_sum id (Cons (map_of ms ''code'')) (status_codes js)"
| "status_codes (_ # js) = Inl (attribute_error ''get'')"

definition load_items :: "json \<Rightarrow> exn + json list" where
  "load_items j = (case j of JStr text \<Rightarrow> (case json_loads text of Inl e \<Rightarrow> Inl e | Inr j \<Rightarrow> json_iter j)
     | _ \<Rightarrow> Inl (type_error ''the JSON object must be str, bytes or bytearray''))"

text \<open>\<open>next(s for s in statuses if s["code"] == status_code)\<close>, and the status of it.\<close>

fun next_status :: "json option \<Rightarrow> json list \<Rightarrow> exn + relation_status" where
  "next_status c [] = Inl (Exn [OtherErrorC, PyException] ''StopIteration'')"
| "next_status c (JObj ms # js) = (case map_of ms ''code'' of None \<Rightarrow> Inl (key_error ''code'')
     | Some k \<Rightarrow> if c = Some k then make_status ms else next_status c js)"
| "next_status c (_ # js) = Inl (type_error ''status'')"

definition emit_event :: "client_event \<Rightarrow> nat \<Rightarrow> unit cop" where
  "emit_event e i = modify (\<lambda>c. c\<lparr>cl_events := cl_events c @ [(None, e, i)]\<rparr>)"

definition requirer_on_status :: "provider_env \<Rightarrow> requirer \<Rightarrow> nat \<Rightarrow> unit cop" where
  "requirer_on_status P Q i =
     bindM (read_unit i) (\<lambda>d.
     bindM (on_data (get_encoded_dict d ''data'')) (\<lambda>old.
       let old_data = (case old of None \<Rightarrow> [] | Some d \<Rightarrow> d) in
     bindM (lift (load_items (case map_of old_data STATUS_FIELD of None \<Rightarrow> JStr ''[]'' | Some j \<Rightarrow> j))) (\<lambda>old_statuses.
     bindM (lift (status_codes old_statuses)) (\<lambda>previous_codes.
     bindM (requirer_fetch_field P i STATUS_FIELD) (\<lambda>field.
     bindM (lift (load_items (JStr (if falsy field then ''[]'' else the field)))) (\<lambda>current_statuses.
     bindM (lift (status_codes current_statuses)) (\<lambda>current_codes.
       let raised = rq_code_order Q (remdups (filter (\<lambda>c. c \<notin> set previous_codes) current_codes));
           resolved = rq_code_order Q (remdups (filter (\<lambda>c. c \<notin> set current_codes) previous_codes))
       in block
         [for_each (\<lambda>c. bindM (lift (next_status c current_statuses)) (\<lambda>s. emit_event (StatusRaised s) i)) raised,
          for_each (\<lambda>c. bindM (lift (next_status c old_statuses)) (\<lambda>s. emit_event (StatusResolved s) i)) resolved])))))))"

text \<open>The remote units by the names of the units, the last one counts.\<close>

definition remote_unit_data :: "requirer \<Rightarrow> (string \<times> string dict) list \<Rightarrow> string dict option" where
  "remote_unit_data Q units = (case rev (filter (\<lambda>(u, _). \<not> starts_with (rq_app Q) u) units) of
     [] \<Rightarrow> None | (_, d) # _ \<Rightarrow> Some d)"

definition requirer_diff :: "nat \<Rightarrow> key_diff cop" where
  "requirer_diff i =
     bindM (read_unit i) (\<lambda>d.
     bindM (on_data (get_encoded_dict d ''data'')) (\<lambda>old.
       let old_data = (case old of None \<Rightarrow> [] | Some d \<Rightarrow> d) in
     bindM (on_data (the_relation i)) (\<lambda>r.
       let new_data = (case rd_remote r of None \<Rightarrow> [] | Some d \<Rightarrow> filter (\<lambda>(k, v). k \<noteq> ''data'') d) in
     seqM (write_unit i (bag_put ''data'' (json_dumps (JObj (dict_map JStr new_data)))))
       (ret \<lparr>kd_added = filter (\<lambda>k. \<not> dict_has old_data k) (dict_keys new_data),
         kd_changed = filter (\<lambda>k. dict_has new_data k \<and> map_of old_data k \<noteq> map_option JStr (map_of new_data k)) (dict_keys old_data),
         kd_deleted = filter (\<lambda>k. \<not> dict_has new_data k) (dict_keys old_data)\<rparr>))))"

definition register_secrets :: "provider_env \<Rightarrow> nat \<Rightarrow> string list \<Rightarrow> unit pop" where
  "register_secrets P i params =
     bindM (the_relation i) (\<lambda>r. if rd_remote r = None then ret ()
       else for_each (\<lambda>g. if generate_secret_field_name g \<in> set params
           then bindM (get_secret_uri P i g) (\<lambda>uri. if falsy uri then ret ()
             else seqM (secret_meta (generate_secret_label (pe_relation_name P) i g) uri) (ret ()))
           else ret ()) [USER, TLS, MTLS, ENTITY, EXTRA])"

definition main_credentials_shared :: "key_diff \<Rightarrow> bool" where
  "main_credentials_shared diff \<longleftrightarrow> generate_secret_field_name USER \<in> set (kd_added diff) \<or>
     (''username'' \<in> set (kd_added diff) \<and> ''password'' \<in> set (kd_added diff))"

definition entity_credentials_shared :: "key_diff \<Rightarrow> bool" where
  "entity_credentials_shared diff \<longleftrightarrow> generate_secret_field_name ENTITY \<in> set (kd_added diff) \<or> ''entity-name'' \<in> set (kd_added diff)"

definition get_relation_alias :: "requirer \<Rightarrow> nat \<Rightarrow> string option cop" where
  "get_relation_alias Q i = gets (\<lambda>c. if i \<in> set (rq_relations Q) then map_of (cl_unit c i) ''alias'' else None)"

definition emit_aliased_event :: "requirer \<Rightarrow> client_event \<Rightarrow> nat \<Rightarrow> unit cop" where
  "emit_aliased_event Q e i = bindM (get_relation_alias Q i) (\<lambda>alias.
     if falsy alias then ret () else modify (\<lambda>c. c\<lparr>cl_events := cl_events c @ [(alias, e, i)]\<rparr>))"

definition clear_helper_secret :: "provider_env \<Rightarrow> requirer \<Rightarrow> json dict \<Rightarrow> unit pop" where
  "clear_helper_secret P Q app_databag =
     (if pe_leader P \<and> \<not> falsy (rq_requested_entity_name Q) then (case map_of app_databag ''requested-entity-secret'' of
        Some (JStr uri) \<Rightarrow> if uri = [] then ret ()
          else modify (\<lambda>p. p\<lparr>pr_store := filter (\<lambda>s. js_id s \<noteq> uri) (pr_store p)\<rparr>)
      | _ \<Rightarrow> ret ())
      else ret ())"

definition changed_keys :: "(string \<times> client_event) list" where
  "changed_keys = [(''endpoints'', EndpointsChanged), (''read-only-endpoints'', ReadOnlyEndpointsChanged),
     (''prefix-databases'', PrefixDatabasesChanged)]"

definition after_diff :: "provider_env \<Rightarrow> requirer \<Rightarrow> nat \<Rightarrow> key_diff \<Rightarrow> unit cop" where
  "after_diff P Q i diff =
     seqM (if list_ex is_secret_field (kd_added diff) then on_data (register_secrets P i (kd_added diff)) else ret ())
       (bindM (on_data (read_remote i)) (\<lambda>remote.
        bindM (on_data (get_encoded_dict remote ''data'')) (\<lambda>bag.
          let app_databag = (case bag of None \<Rightarrow> [] | Some d \<Rightarrow> d) in
          if main_credentials_shared diff \<and> \<not> dict_has app_databag ''entity-type''
          then block [emit_event DatabaseCreated i, emit_aliased_event Q DatabaseCreated i, on_data (clear_helper_secret P Q app_databag)]
          else if entity_credentials_shared diff \<and> dict_has app_databag ''entity-type''
          then block [emit_event DatabaseEntityCreated i, emit_aliased_event Q DatabaseEntityCreated i,
            on_data (clear_helper_secret P Q app_databag)]
          else (case find (\<lambda>(key, _). key \<in> set (kd_added diff) \<or> key \<in> set (kd_changed diff)) changed_keys of
            None \<Rightarrow> ret () | Some (_, e) \<Rightarrow> block [emit_event e i, emit_aliased_event Q e i]))))"

definition on_changed :: "provider_env \<Rightarrow> requirer \<Rightarrow> nat \<Rightarrow> unit cop" where
  "on_changed P Q i =
     seqM (requirer_on_status P Q i)
       (bindM (on_data (the_relation i)) (\<lambda>r. bindM (gets (\<lambda>c. remote_unit_data Q (cl_remote_units c i))) (\<lambda>unit_data.
          let is_subordinate = (case rd_remote r of None \<Rightarrow> False | Some d \<Rightarrow> map_of d ''subordinated'' = Some ''true'') in
          if is_subordinate \<and> (case unit_data of None \<Rightarrow> True | Some d \<Rightarrow> map_of d ''state'' \<noteq> Some ''ready'') then ret ()
          else bindM (requirer_diff i) (after_diff P Q i))))"

section \<open>What a handler reads of the event\<close>

definition event_plain :: "string \<Rightarrow> nat \<Rightarrow> string option pop" where
  "event_plain f i = bindM (the_relation i) (\<lambda>r. ret (case rd_remote r of None \<Rightarrow> None | Some d \<Rightarrow> map_of d f))"

definition event_get_secret :: "nat \<Rightarrow> secret_group \<Rightarrow> string dict pop" where
  "event_get_secret i g = bindM (the_relation i) (\<lambda>r. case rd_remote r of None \<Rightarrow> ret []
     | Some d \<Rightarrow> (let secret_uri = map_of d (generate_secret_field_name g) in
         if falsy secret_uri then ret []
         else bindM (gets (\<lambda>p. find_id (the secret_uri) (pr_store p))) (\<lambda>s. case s of
           None \<Rightarrow> raise secret_not_found | Some s \<Rightarrow> ret (js_content s))))"

definition event_field :: "provider_env \<Rightarrow> secret_group \<Rightarrow> string \<Rightarrow> nat \<Rightarrow> string option pop" where
  "event_field P g f i =
     bindM (the_relation i) (\<lambda>r. if rd_remote r = None then ret None
       else bindM (if pe_has_secrets P then event_get_secret i g else ret []) (\<lambda>secret.
         if secret \<noteq> [] then ret (map_of secret f) else event_plain f i))"

definition event_username :: "provider_env \<Rightarrow> nat \<Rightarrow> string option pop" where "event_username P = event_field P USER ''username''"
definition event_password :: "provider_env \<Rightarrow> nat \<Rightarrow> string option pop" where "event_password P = event_field P USER ''password''"
definition event_tls :: "provider_env \<Rightarrow> nat \<Rightarrow> string option pop" where "event_tls P = event_field P TLS ''tls''"
definition event_tls_ca :: "provider_env \<Rightarrow> nat \<Rightarrow> string option pop" where "event_tls_ca P = event_field P TLS ''tls-ca''"
definition event_uris :: "provider_env \<Rightarrow> nat \<Rightarrow> string option pop" where "event_uris P = event_field P USER ''uris''"
definition event_read_only_uris :: "provider_env \<Rightarrow> nat \<Rightarrow> string option pop" where
  "event_read_only_uris P = event_field P USER ''read-only-uris''"
definition event_entity_name :: "provider_env \<Rightarrow> nat \<Rightarrow> string option pop" where
  "event_entity_name P = event_field P ENTITY ''entity-name''"
definition event_entity_password :: "provider_env \<Rightarrow> nat \<Rightarrow> string option pop" where
  "event_entity_password P = event_field P ENTITY ''entity-password''"

definition created_database :: "nat \<Rightarrow> string option pop" where "created_database = event_plain ''database''"
definition event_endpoints :: "nat \<Rightarrow> string option pop" where "event_endpoints = event_plain ''endpoints''"
definition event_read_only_endpoints :: "nat \<Rightarrow> string option pop" where
  "event_read_only_endpoints = event_plain ''read-only-endpoints''"
definition event_replset :: "nat \<Rightarrow> string option pop" where "event_replset = event_plain ''replset''"
definition event_version :: "nat \<Rightarrow> string option pop" where "event_version = event_plain ''version''"

definition event_prefix_databases :: "nat \<Rightarrow> string list option pop" where
  "event_prefix_databases i = bindM (the_relation i) (\<lambda>r. ret (case rd_remote r of None \<Rightarrow> None
     | Some d \<Rightarrow> Some (if falsy (map_of d ''prefix-databases'') then []
         else split_char (CHR '','') (the (map_of d ''prefix-databases'')))))"

definition active_statuses :: "nat \<Rightarrow> relation_status list pop" where
  "active_statuses i = bindM (the_relation i) (\<lambda>r. case rd_remote r of None \<Rightarrow> ret []
     | Some d \<Rightarrow> bindM (lift (json_loads (get_default d STATUS_FIELD ''[]''))) (\<lambda>raw.
         bindM (lift (json_iter raw)) (mapM (\<lambda>item. lift (case item of JObj ms \<Rightarrow> make_status ms | _ \<Rightarrow> Inl (type_error ''mapping''))))))"

text \<open>The events of statuses are kept with the status as JSON.\<close>

definition status_snapshot :: "relation_status \<Rightarrow> string" where
  "status_snapshot s = json_dumps (asdict s)"

definition status_restore :: "string \<Rightarrow> exn + relation_status" where
  "status_restore t = (case json_loads t of Inl e \<Rightarrow> Inl e | Inr (JObj ms) \<Rightarrow> make_status ms
     | Inr _ \<Rightarrow> Inl (type_error ''mapping''))"

lemma status_snapshot_restore: "status_restore (status_snapshot s) = Inr s"
proof -
  have "json_loads (json_dumps (asdict s)) = Inr (asdict s)" by (rule json_round_trip) simp
  then show ?thesis
    using read_asdict [of s] by (simp add: status_restore_def status_snapshot_def asdict_def read_status_def dict_has_def dict_keys_def)
qed

section \<open>A request reaches the provider\<close>

lemma on_data_run: "m (cl_data c) = (r, p) \<Longrightarrow> on_data m c = (r, c\<lparr>cl_data := p\<rparr>)"
  by (simp add: on_data_def)

lemma client_same [simp]: "c\<lparr>cl_data := cl_data c\<rparr> = c"
  by simp

lemma unit_run:
  assumes "pr_rels (cl_data c) i = Some r"
  shows "read_unit i c = (Inr (cl_unit c i), c)" "write_unit i f c = (Inr (), c\<lparr>cl_unit := (cl_unit c)(i := f (cl_unit c i))\<rparr>)"
    "on_data (the_relation i) c = (Inr r, c)"
  using run_databags(1) [OF assms]
  by (simp_all add: read_unit_def write_unit_def seqM_def bindM_def on_data_def monad_simps)

text \<open>The lists of secret fields in the databag of the unit, if there are any, are those of the client.\<close>

definition lists_agree :: "string dict \<Rightarrow> string list \<Rightarrow> string list \<Rightarrow> bool" where
  "lists_agree d req ls \<longleftrightarrow> (\<exists>js ps. json_loads (get_default d ''requested-secrets'' ''[]'') = Inr (JArr js) \<and>
     json_strings js \<in> {[], req} \<and>
     json_loads (get_default d ''provided-secrets'' ''[]'') = Inr (JArr ps) \<and> json_strings ps \<in> {[], ls})"

lemma requirer_load_run:
  assumes "pr_rels (cl_data c) i = Some r" "lists_agree (cl_unit c i) (remote_secret_fields (cl_data c)) (local_secret_fields (cl_data c))"
  shows "requirer_load_secrets i c = (Inr (), c)"
proof -
  have s: "p\<lparr>remote_secret_fields := remote_secret_fields p\<rparr> = p" "p\<lparr>local_secret_fields := local_secret_fields p\<rparr> = p" for p :: provider
    by simp_all
  from assms show ?thesis
    by (auto simp: requirer_load_secrets_def lists_agree_def unit_run get_encoded_list_def on_data_def seqM_def bindM_def monad_simps s)
qed

lemma json_strings_map [simp]: "json_strings (map JStr xs) = xs"
  by (induction xs) auto

lemma map_of_bag_update:
  assumes "dict_ok e" "\<forall>(k, v) \<in> set e. v \<noteq> []"
  shows "map_of (bag_update d e) = map_of d ++ map_of e"
  using assms
proof (induction e arbitrary: d)
  case (Cons a e)
  obtain k v where a: "a = (k, v)" by force
  with Cons.prems have v: "v \<noteq> []" "k \<notin> fst ` set e" "dict_ok e" by (auto simp: dict_ok_def dict_keys_def)
  have "map_of e k = None" using v(2) by (simp add: map_of_eq_None_iff)
  with Cons.IH [OF v(3), of "bag_put k v d"] Cons.prems(2) a v(1) show ?case
    by (auto simp: bag_update_def bag_put_def update_conv' map_add_def fun_eq_iff split: option.splits)
qed (simp add: bag_update_def)

lemma requirer_update_run:
  assumes "pe_leader P" "walks_sets P" "pr_rels (cl_data c) i = Some r" "rd_remote r = Some d" "falsy (map_of d ''encryption-secret'')"
    and "lists_agree (cl_unit c i) (remote_secret_fields (cl_data c)) (local_secret_fields (cl_data c))"
    and "set (dict_keys e) \<inter> set (local_secret_fields (cl_data c)) = {}"
  shows "requirer_update P i e c = (Inr (), c\<lparr>cl_data := (cl_data c)\<lparr>pr_rels := (pr_rels (cl_data c))(i \<mapsto>
    r\<lparr>rd_local := bag_update (rd_local r) e\<rparr>)\<rparr>\<rparr>)"
proof -
  let ?p = "cl_data c"
  have "process_secret_fields P i (if pe_has_secrets P then Some (local_secret_fields ?p) else None) (dict_keys e)
      (add_or_update_relation_secrets P e) ?p = (Inr ([], dict_keys e), ?p)"
    using assms(7) by (intro process_plain_fields [OF assms(2,3)]) simp
  moreover have "get_encryption_key i ?p = (Inr None, ?p)"
    using assms(3-5) by (simp add: get_encryption_key_def run_databags bindM_def monad_simps Let_def)
  moreover have "filter (\<lambda>(k, v). k \<in> set (dict_keys e)) e = e" by (auto simp: dict_keys_def filter_id_conv intro: rev_image_eqI)
  ultimately show ?thesis
    using assms(1) run_databags(1) [OF assms(3)] run_databags(4) [OF assms(3,1)]
    by (simp add: requirer_update_def unit_run [OF assms(3)] requirer_load_run [OF assms(3,6)] seqM_def bindM_def secret_fields_def
        on_data_def update_relation_data_without_secrets_def monad_simps falsy_iff)
qed

lemma requirer_init_fields:
  assumes "requirer_init C Q rels = Inr (req, ls)"
  shows "req = REQUIRER_SECRET_FIELDS @ rq_additional_secret_fields Q" "ls = [] \<or> ls = [''mtls-cert'']"
proof -
  show "req = REQUIRER_SECRET_FIELDS @ rq_additional_secret_fields Q"
    using assms by (auto simp: requirer_init_def split: if_splits sum.splits)
  have "ls = filter (\<lambda>f. f \<notin> set REQUIRER_SECRET_FIELDS \<and>
      \<not> (f \<in> set CROSS_MODEL_RELATION_CONSUMER_SECRETS \<and> is_cross_model_relation C rels)) (map fst SECRET_LABEL_MAP)"
    using assms by (auto simp: requirer_init_def split: if_splits sum.splits)
  then show "ls = [] \<or> ls = [''mtls-cert'']"
    by (cases "is_cross_model_relation C rels")
      (simp_all add: REQUIRER_SECRET_FIELDS_def SECRET_LABEL_MAP_def CROSS_MODEL_RELATION_CONSUMER_SECRETS_def)
qed

definition encoded_list :: "string list \<Rightarrow> string" where
  "encoded_list xs = json_dumps (JArr (map JStr xs))"

definition secrets_bag :: "string list \<Rightarrow> string list \<Rightarrow> string dict" where
  "secrets_bag req ls = (''requested-secrets'', encoded_list req) # (if ls = [] then [] else [(''provided-secrets'', encoded_list ls)])"

lemma json_loads_strings [simp]: "json_loads (encoded_list xs) = Inr (JArr (map JStr xs))"
  unfolding encoded_list_def by (rule json_round_trip) (simp add: list_all_iff)

lemma json_loads_empty [simp]: "json_loads ''[]'' = Inr (JArr [])" "json_loads ''{}'' = Inr (JObj [])"
  using json_round_trip [of "JArr []"] json_round_trip [of "JObj []"] by (simp_all add: dict_ok_def dict_keys_def)

lemma secrets_bag_agrees: "lists_agree (secrets_bag req ls) req ls"
  by (simp add: lists_agree_def secrets_bag_def get_default_def)

lemma base_on_created_run:
  assumes "pe_leader P" "pe_has_secrets P" "pr_rels (cl_data c) i = Some r" "rd_local r = []" "cl_unit c i = []"
    and "remote_secret_fields (cl_data c) = req" "local_secret_fields (cl_data c) = ls" "req \<noteq> []"
  shows "base_on_created P i c = (Inr (), c\<lparr>cl_data := (cl_data c)\<lparr>pr_rels := (pr_rels (cl_data c))(i \<mapsto>
      r\<lparr>rd_local := secrets_bag req ls\<rparr>)\<rparr>, cl_unit := (cl_unit c)(i := secrets_bag req ls)\<rparr>)"
proof -
  obtain f fs where req: "req = f # fs" using assms(8) by (cases req) auto
  show ?thesis
  proof (cases ls)
    case Nil
    with assms req run_databags(4) [OF assms(3,1)] show ?thesis
      by (simp add: base_on_created_def secret_fields_def set_encoded_field_def write_unit_def on_data_def seqM_def bindM_def monad_simps
          Let_def bag_put_def secrets_bag_def encoded_list_def the_relation_def)
  next
    case (Cons g gs)
    with assms req show ?thesis
      by (simp add: base_on_created_def secret_fields_def set_encoded_field_def write_unit_def write_local_def on_data_def seqM_def bindM_def
          monad_simps Let_def bag_put_def secrets_bag_def encoded_list_def the_relation_def)
  qed
qed

definition request_data :: "requirer \<Rightarrow> string dict" where
  "request_data Q = event_data Q @ (if rq_external_node_connectivity Q then [(''external-node-connectivity'', ''true'')] else [])"

lemma optional_item_simps [simp]:
  "map_of (optional_item k v) x = (if x = k \<and> \<not> falsy v then v else None)"
  "distinct (map fst (optional_item k v))"
  by (auto simp: optional_item_def falsy_iff)

lemma optional_item_key: "x \<in> fst ` set (optional_item k v) \<Longrightarrow> x = k"
  by (auto simp: optional_item_def split: if_splits)

lemma optional_item_nonempty: "(k, x) \<in> set (optional_item l v) \<Longrightarrow> x \<noteq> []"
  by (auto simp: optional_item_def falsy_iff split: if_splits)

lemma request_data_props:
  "dict_ok (request_data Q)" "rq_database Q \<noteq> [] \<Longrightarrow> \<forall>(k, v) \<in> set (request_data Q). v \<noteq> []"
  "map_of (request_data Q) ''database'' = Some (rq_database Q)"
  "map_of (request_data Q) ''requested-secrets'' = None" "map_of (request_data Q) ''provided-secrets'' = None"
  "falsy (rq_entity_type Q) \<Longrightarrow> map_of (request_data Q) ''entity-type'' = None"
  "''mtls-cert'' \<notin> set (dict_keys (request_data Q))"
proof -
  show "dict_ok (request_data Q)"
    unfolding request_data_def event_data_def dict_ok_def dict_keys_def
    by (simp add: disjoint_iff image_Un split del: if_split) (intro conjI allI impI notI; auto dest!: optional_item_key split: if_splits)
  show "rq_database Q \<noteq> [] \<Longrightarrow> \<forall>(k, v) \<in> set (request_data Q). v \<noteq> []"
    by (auto simp: request_data_def event_data_def dest: optional_item_nonempty)
  show "''mtls-cert'' \<notin> set (dict_keys (request_data Q))"
    by (simp add: set_dict_keys domIff request_data_def event_data_def)
qed (simp_all add: request_data_def event_data_def)

lemma on_created_run:
  assumes "requirer_init P Q rels = Inr (req, ls)" "pe_leader P" "pe_has_secrets P" "walks_sets P" "rq_relations_aliases Q = []"
    and "falsy (rq_requested_entity_name Q)" "pr_rels (cl_data c) i = Some r" "rd_local r = []" "cl_unit c i = []"
    and "rd_remote r = Some d" "falsy (map_of d ''encryption-secret'')"
    and "remote_secret_fields (cl_data c) = req" "local_secret_fields (cl_data c) = ls"
  shows "on_created P Q i c = (Inr (), c\<lparr>cl_data := (cl_data c)\<lparr>pr_rels := (pr_rels (cl_data c))(i \<mapsto>
      r\<lparr>rd_local := bag_update (secrets_bag req ls) (request_data Q)\<rparr>)\<rparr>, cl_unit := (cl_unit c)(i := secrets_bag req ls)\<rparr>)"
proof -
  let ?c = "c\<lparr>cl_data := (cl_data c)\<lparr>pr_rels := (pr_rels (cl_data c))(i \<mapsto>
      r\<lparr>rd_local := secrets_bag req ls\<rparr>)\<rparr>, cl_unit := (cl_unit c)(i := secrets_bag req ls)\<rparr>"
  note init = requirer_init_fields [OF assms(1)]
  have "req \<noteq> []" using init(1) by (simp add: REQUIRER_SECRET_FIELDS_def)
  note b = base_on_created_run [OF assms(2,3,7-9,12,13) this]
  have k: "set (dict_keys (request_data Q)) \<inter> set ls = {}" using init(2) request_data_props(7) [of Q] by auto
  have r: "pr_rels (cl_data ?c) i = Some (r\<lparr>rd_local := secrets_bag req ls\<rparr>)" by simp
  have "requirer_update P i (request_data Q) ?c = (Inr (), ?c\<lparr>cl_data := (cl_data ?c)\<lparr>pr_rels := (pr_rels (cl_data ?c))(i \<mapsto>
      r\<lparr>rd_local := bag_update (secrets_bag req ls) (request_data Q)\<rparr>)\<rparr>\<rparr>)"
    using requirer_update_run [OF assms(2,4) r _ assms(11)] assms(10,12,13) secrets_bag_agrees [of req ls] k by simp
  with b assms(2,5,6) show ?thesis
    by (simp add: on_created_def assign_relation_alias_def helper_secret_def on_data_def seqM_def bindM_def monad_simps request_data_def)
qed

text \<open>What the provider finds in the databag of the client.\<close>

lemma request_bag:
  assumes "requirer_init P Q rels = Inr (req, ls)" "rq_database Q \<noteq> []" "list_all (\<lambda>k. \<not> is_secret_field k) (rq_additional_secret_fields Q)"
  defines "d \<equiv> bag_update (secrets_bag req ls) (request_data Q)"
  shows "client_asks d req" "map_of d ''database'' = Some (rq_database Q)"
    "falsy (rq_entity_type Q) \<Longrightarrow> map_of d ''entity-type'' = None"
proof -
  note init = requirer_init_fields [OF assms(1)]
  have m: "map_of d = map_of (secrets_bag req ls) ++ map_of (request_data Q)"
    unfolding d_def by (rule map_of_bag_update [OF request_data_props(1,2) [of Q]]) (rule assms(2))
  show "map_of d ''database'' = Some (rq_database Q)" by (simp add: m request_data_props map_add_def)
  show "falsy (rq_entity_type Q) \<Longrightarrow> map_of d ''entity-type'' = None"
    by (simp add: m request_data_props map_add_def secrets_bag_def)
  have l: "json_loads (get_default d ''requested-secrets'' ''[]'') = Inr (JArr (map JStr req))"
    "json_loads (get_default d ''provided-secrets'' ''[]'') = Inr (JArr (map JStr ls))"
    by (simp_all add: get_default_def m request_data_props map_add_def secrets_bag_def)
  have "{''username'', ''password''} \<subseteq> set req" "plain_request req" "''database'' \<notin> set ls"
    using init assms(3) by (auto simp: REQUIRER_SECRET_FIELDS_def is_secret_field_def starts_with_def)
  with l show "client_asks d req"
    unfolding client_asks_def by (intro exI [of _ "map JStr req"] exI [of _ "map JStr ls"]) simp
qed

lemma provider_announces:
  assumes "pe_leader P" "pr_rels p i = Some r" "rd_local r = []" "rd_remote r = Some d" "client_asks d req"
    and "map_of d ''database'' \<noteq> None" "map_of d ''entity-type'' = None"
  shows "\<exists>p'. provider_on_relation_changed P i p = (Inr (), p') \<and> pr_emitted p' = pr_emitted p @ [(DatabaseRequestedE, i)]"
proof -
  from assms(5) obtain js ps where "json_loads (get_default d ''requested-secrets'' ''[]'') = Inr (JArr js)"
    "json_loads (get_default d ''provided-secrets'' ''[]'') = Inr (JArr ps)" unfolding client_asks_def by blast
  then obtain p1 where b: "base_on_relation_changed i p = (Inr (), p1)"
    by (simp add: base_on_relation_changed_eq [OF assms(2,4)])
  have j: "json_loads (get_default (rd_local r) ''data'' ''{}'') = Inr (JObj [])" by (simp add: assms(3) get_default_def)
  have "dict_has (new_data d) ''database''" "\<not> dict_has (new_data d) ''entity-type''"
    using assms(6,7) by (auto simp: new_data_def dict_has_def dict_keys_def map_of_eq_None_iff intro: rev_image_eqI)
  then have "announced (compare (old_data (JObj [])) (new_data d)) = Some DatabaseRequestedE"
    "\<not> entity_changed (compare (old_data (JObj [])) (new_data d))"
    by (simp_all add: compare_def old_data_def announced_def entity_changed_def dict_has_def dict_keys_def)
  with provider_on_relation_changed_run [OF assms(1,2,4) b j] show ?thesis by auto
qed

text \<open>
  (C14) A request reaches the provider: when the relation of a client with valid arguments is created, the leader of the client
  writes its request and the lists of secret fields without error, and a provider that sees this databag for the first time
  announces to its charm, once, that the database was requested, under the name that the client gave, with the user name and
  the password among the fields to be shared as secrets.  The client has given no aliases, entity type or entity name.
\<close>

theorem request_reaches_provider:
  assumes "requirer_init C Q rels = Inr (req, ls)" "pe_leader C" "pe_has_secrets C" "walks_sets C" "rq_relations_aliases Q = []"
    and "falsy (rq_requested_entity_name Q)" "falsy (rq_entity_type Q)" "rq_database Q \<noteq> []"
    and "list_all (\<lambda>k. \<not> is_secret_field k) (rq_additional_secret_fields Q)"
    and "pr_rels (cl_data c) i = Some rc" "rd_local rc = []" "cl_unit c i = []" "rd_remote rc = Some dp"
    and "falsy (map_of dp ''encryption-secret'')" "remote_secret_fields (cl_data c) = req" "local_secret_fields (cl_data c) = ls"
    and "pe_leader P" "rd_local r = []" "pr_rels p i = Some (r\<lparr>rd_remote := map_option rd_local (pr_rels (cl_data (snd (on_created C Q i c))) i)\<rparr>)"
  shows "fst (on_created C Q i c) = Inr () \<and> (\<exists>r' p'. pr_rels p i = Some r' \<and> event_database r' = Some (rq_database Q) \<and>
    client_asks (the (rd_remote r')) req \<and> provider_on_relation_changed P i p = (Inr (), p') \<and>
    pr_emitted p' = pr_emitted p @ [(DatabaseRequestedE, i)])"
proof -
  let ?d = "bag_update (secrets_bag req ls) (request_data Q)"
  note run = on_created_run [OF assms(1-6,10-16)] and bag = request_bag [OF assms(1,8,9)]
  from assms(19) have r: "pr_rels p i = Some (r\<lparr>rd_remote := Some ?d\<rparr>)" by (simp add: run)
  from provider_announces [OF assms(17) r _ _ bag(1)] bag(2,3) assms(7,18) obtain p' where
    "provider_on_relation_changed P i p = (Inr (), p')" "pr_emitted p' = pr_emitted p @ [(DatabaseRequestedE, i)]" by auto
  with r bag(1,2) run show ?thesis by (simp add: event_database_def)
qed

section \<open>Credentials reach the client\<close>

lemma requirer_fetch_plain:
  assumes "walks_sets P" "pr_rels (cl_data c) i = Some r" "rd_remote r = Some d" "falsy (map_of d ''encryption-secret'')"
    and "lists_agree (cl_unit c i) (remote_secret_fields (cl_data c)) (local_secret_fields (cl_data c))"
    and "f \<notin> set (remote_secret_fields (cl_data c))"
  shows "requirer_fetch_field P i f c = (Inr (map_of d f), c)"
proof -
  let ?p = "cl_data c"
  have k: "get_encryption_key i ?p = (Inr None, ?p)"
    using assms(2-4) by (simp add: get_encryption_key_def run_databags bindM_def monad_simps Let_def)
  have "case (if pe_has_secrets P then Some (remote_secret_fields ?p) else None) of None \<Rightarrow> True | Some fs \<Rightarrow> f \<notin> set fs"
    using assms(6) by simp
  from fetch_with_plain [OF assms(1,2) k, of "read_remote i", OF run_databags(3) [OF assms(2,3)], OF this]
  obtain e where "fetch_relation_data_with_secrets P (read_remote i)
      (if pe_has_secrets P then Some (remote_secret_fields ?p) else None) i [f] ?p = (Inr e, ?p)" "map_of e f = map_of d f" by auto
  then show ?thesis
    using assms(3)
    by (simp add: requirer_fetch_field_def requirer_fetch_def run_databags(1) [OF assms(2)] requirer_load_run [OF assms(2,5)] secret_fields_def
        on_data_def seqM_def bindM_def monad_simps)
qed

text \<open>The first change of the databag of the provider that a unit of the client sees, without statuses in it.\<close>

definition first_change :: "nat \<Rightarrow> relation_data \<Rightarrow> string dict \<Rightarrow> client \<Rightarrow> bool" where
  "first_change i r d c \<longleftrightarrow> pr_rels (cl_data c) i = Some r \<and> rd_remote r = Some d \<and> falsy (map_of d ''encryption-secret'') \<and>
     map_of d STATUS_FIELD = None \<and> map_of d ''subordinated'' \<noteq> Some ''true'' \<and> map_of (cl_unit c i) ''data'' = None \<and>
     STATUS_FIELD \<notin> set (remote_secret_fields (cl_data c)) \<and>
     lists_agree (cl_unit c i) (remote_secret_fields (cl_data c)) (local_secret_fields (cl_data c))"

lemma no_status_run:
  assumes "first_change i r d c" "walks_sets P" "rq_code_order Q [] = []"
  shows "requirer_on_status P Q i c = (Inr (), c)"
proof -
  have c: "pr_rels (cl_data c) i = Some r" using assms(1) by (simp add: first_change_def)
  have "requirer_fetch_field P i STATUS_FIELD c = (Inr None, c)"
    using requirer_fetch_plain [OF assms(2), of c i r d STATUS_FIELD] assms(1) by (auto simp: first_change_def)
  then show ?thesis
    using assms(1,3)
    by (simp add: requirer_on_status_def unit_run [OF c] get_encoded_dict_def get_default_def first_change_def on_data_def seqM_def
        bindM_def monad_simps load_items_def falsy_iff)
qed

lemma requirer_diff_run:
  assumes "first_change i r d c"
  shows "requirer_diff i c = (Inr (compare [] (new_data d)), c\<lparr>cl_unit := (cl_unit c)(i := bag_put ''data'' (json_dumps (remembered d)) (cl_unit c i))\<rparr>)"
proof -
  have c: "pr_rels (cl_data c) i = Some r" "rd_remote r = Some d" "map_of (cl_unit c i) ''data'' = None"
    using assms by (simp_all add: first_change_def)
  show ?thesis
    using c(2,3)
    by (simp add: requirer_diff_def unit_run [OF c(1)] run_databags(1) [OF c(1)] get_encoded_dict_def get_default_def on_data_def seqM_def bindM_def monad_simps Let_def
        compare_def new_data_def remembered_def)
qed

lemma register_run:
  assumes "pe_has_secrets P" "pr_rels p i = Some r" "rd_remote r = Some d" "USER \<notin> set (my_secret_groups (local_secret_fields p))"
    and "''secret-user'' \<in> set params" "\<And>g. g \<noteq> USER \<Longrightarrow> generate_secret_field_name g \<notin> set params"
    and "map_of d ''secret-user'' = Some (js_id s)" "js_id s \<noteq> []" "find_id (js_id s) (pr_store p) = Some s"
    and l: "l = generate_secret_label (pe_relation_name P) i USER" and "find_label l (pr_store p) = None"
  shows "register_secrets P i params p = (Inr (), p\<lparr>pr_store := change_secret (js_id s) (\<lambda>s. s\<lparr>js_label := Some l\<rparr>) (pr_store p)\<rparr>)"
proof -
  have "get_secret_uri P i USER p = (Inr (Some (js_id s)), p)"
    using assms(1-4,7) by (simp add: get_secret_uri_def bindM_def monad_simps run_databags generate_secret_field_name_def)
  moreover have "secret_meta l (Some (js_id s)) p =
      (Inr (Some (js_id s)), p\<lparr>pr_store := change_secret (js_id s) (\<lambda>s. s\<lparr>js_label := Some l\<rparr>) (pr_store p)\<rparr>)"
    using assms(8,9,11) by (simp add: secret_meta_def bindM_def seqM_def monad_simps falsy_iff)
  moreover have "generate_secret_field_name USER \<in> set params" using assms(5) by (simp add: generate_secret_field_name_def)
  ultimately show ?thesis
    using assms(3,6,8) run_databags(1) [OF assms(2)]
    by (simp add: register_secrets_def bindM_def seqM_def monad_simps falsy_iff l [symmetric])
qed

lemma find_id_change: "(\<And>s. js_id (f s) = js_id s) \<Longrightarrow> find_id k (change_secret k f st) = map_option f (find_id k st)"
  by (induction st) (auto simp: find_id_def change_secret_def)

lemma on_changed_first_secret:
  assumes "first_change i r d c" "pe_has_secrets C" "walks_sets C" "rq_code_order Q [] = []" "falsy (rq_requested_entity_name Q)"
    and "USER \<notin> set (my_secret_groups (local_secret_fields (cl_data c)))" "falsy (map_of (cl_unit c i) ''alias'')"
    and "json_loads (get_default d ''data'' ''{}'') = Inr j" "\<not> dict_has (old_data j) ''entity-type''"
    and "map_of d ''secret-user'' = Some (js_id s)" "js_id s \<noteq> []" "\<And>g. g \<noteq> USER \<Longrightarrow> \<not> dict_has d (generate_secret_field_name g)"
    and "find_id (js_id s) (pr_store (cl_data c)) = Some s"
    and "find_label (generate_secret_label (pe_relation_name C) i USER) (pr_store (cl_data c)) = None"
  shows "\<exists>c'. on_changed C Q i c = (Inr (), c') \<and> cl_events c' = cl_events c @ [(None, DatabaseCreated, i)] \<and>
    pr_rels (cl_data c') = pr_rels (cl_data c) \<and> map_option js_content (find_id (js_id s) (pr_store (cl_data c'))) = Some (js_content s)"
proof -
  let ?p = "cl_data c" and ?added = "kd_added (compare [] (new_data d))" and ?l = "generate_secret_label (pe_relation_name C) i USER"
  let ?u = "(cl_unit c)(i := bag_put ''data'' (json_dumps (remembered d)) (cl_unit c i))"
  let ?st = "change_secret (js_id s) (\<lambda>s. s\<lparr>js_label := Some ?l\<rparr>) (pr_store ?p)"
  have c: "pr_rels ?p i = Some r" "rd_remote r = Some d" "map_of d ''subordinated'' \<noteq> Some ''true''" using assms(1) by (simp_all add: first_change_def)
  have added: "k \<in> set ?added \<longleftrightarrow> dict_has d k \<and> k \<noteq> ''data''" for k
    by (auto simp: compare_def new_data_def dict_has_def dict_keys_def)
  have su: "''secret-user'' \<in> set ?added" using assms(10) by (simp add: added dict_has_iff)
  then have ex: "list_ex is_secret_field ?added" by (auto simp: list_ex_iff is_secret_field_def starts_with_def intro!: bexI [of _ "''secret-user''"])
  have reg: "register_secrets C i ?added ?p = (Inr (), ?p\<lparr>pr_store := ?st\<rparr>)"
    by (rule register_run [OF assms(2) c(1,2) assms(6) su _ assms(10,11,13) refl assms(14)]) (simp add: added assms(12))
  have noal: "falsy (map_of (?u i) ''alias'')" using assms(7) by (simp add: bag_put_def update_conv' delete_conv')
  have "generate_secret_field_name USER = ''secret-user''" by (simp add: generate_secret_field_name_def)
  with su have m: "main_credentials_shared (compare [] (new_data d))" by (simp add: main_credentials_shared_def)
  have dict: "get_encoded_dict d ''data'' q = (Inr (case j of JObj ms \<Rightarrow> Some ms | _ \<Rightarrow> None), q)" for q
    using assms(8) by (simp add: get_encoded_dict_def bindM_def monad_simps)
  have bag: "(case (case j of JObj ms \<Rightarrow> Some ms | _ \<Rightarrow> None) of None \<Rightarrow> [] | Some d \<Rightarrow> d) = old_data j"
    by (simp add: old_data_def split: json.splits)
  have rr: "read_remote i (?p\<lparr>pr_store := ?st\<rparr>) = (Inr d, ?p\<lparr>pr_store := ?st\<rparr>)" using c by (intro run_databags(3)) simp_all
  have "after_diff C Q i (compare [] (new_data d)) (c\<lparr>cl_unit := ?u\<rparr>) =
      (Inr (), c\<lparr>cl_unit := ?u, cl_data := ?p\<lparr>pr_store := ?st\<rparr>, cl_events := cl_events c @ [(None, DatabaseCreated, i)]\<rparr>)"
    using ex reg rr dict m assms(5,9) noal
    by (auto simp: after_diff_def on_data_def seqM_def bindM_def monad_simps emit_event_def emit_aliased_event_def get_relation_alias_def
        clear_helper_secret_def bag falsy_iff)
  moreover have "find_id (js_id s) ?st = Some (s\<lparr>js_label := Some ?l\<rparr>)" using assms(13) by (subst find_id_change) simp_all
  ultimately show ?thesis
    using c(2,3) no_status_run [OF assms(1,3,4)] requirer_diff_run [OF assms(1)]
    by (simp add: on_changed_def unit_run [OF c(1)] seqM_def bindM_def monad_simps)
qed

lemma event_field_run:
  assumes "pe_has_secrets P" "pr_rels p i = Some r" "rd_remote r = Some d" "map_of d (generate_secret_field_name g) = Some k" "k \<noteq> []"
    and "map_option js_content (find_id k (pr_store p)) = Some e" "e \<noteq> []"
  shows "event_field P g f i p = (Inr (map_of e f), p)"
  using assms(1,3-7) run_databags(1) [OF assms(2)]
  by (auto simp: event_field_def event_get_secret_def bindM_def monad_simps falsy_iff)

text \<open>The secrets that a client sees: those granted to its relation, which have no label there yet.\<close>

definition granted_secrets :: "nat \<Rightarrow> provider \<Rightarrow> juju_secret list" where
  "granted_secrets i p = map (\<lambda>s. s\<lparr>js_label := None\<rparr>) (filter (\<lambda>s. i \<in> set (js_granted s)) (pr_store p))"

lemma find_granted:
  assumes "pr_store p = st @ [s]" "js_id s \<notin> js_id ` set st" "i \<in> set (js_granted s)"
  shows "find_id (js_id s) (granted_secrets i p) = Some (s\<lparr>js_label := None\<rparr>)" "find_label l (granted_secrets i p) = None"
proof -
  have "find (\<lambda>s'. js_id s' = js_id s) (map (\<lambda>s. s\<lparr>js_label := None\<rparr>) (filter (\<lambda>s. i \<in> set (js_granted s)) st) @ [s\<lparr>js_label := None\<rparr>])
      = Some (s\<lparr>js_label := None\<rparr>)"
    using assms(2) by (induction st) auto
  with assms(1,3) show "find_id (js_id s) (granted_secrets i p) = Some (s\<lparr>js_label := None\<rparr>)"
    by (simp add: granted_secrets_def find_id_def)
  show "find_label l (granted_secrets i p) = None" by (auto simp: granted_secrets_def find_label_def find_None_iff)
qed

text \<open>
  (C13) Credentials reach the client: once the provider published the first user name and password for a client that asked for
  them as secrets, any unit of the client that then sees the databag and the granted secrets of the provider for the first
  time emits exactly one event, that the database was created, and this event reads exactly the published user name and
  password.  The client has no aliases, and its provider is not subordinated and has raised no statuses.
\<close>

theorem credentials_reach_client:
  assumes "pe_leader P" "pe_has_secrets P" "walks_sets P" "\<And>st. pe_new_id P st \<notin> js_id ` set st"
    and "pr_rels p i = Some r" "rd_remote r = Some d" "client_asks d req" "\<forall>k \<in> set req. \<not> dict_has (rd_local r) k"
    and "\<And>g. \<not> dict_has (rd_local r) (generate_secret_field_name g)"
    and "pr_cache p (generate_secret_label (pe_relation_name P) i USER) = None"
    and "find_label (generate_secret_label (pe_relation_name P) i USER) (pr_store p) = None"
    and "json_loads (get_default (rd_local r) ''data'' ''{}'') = Inr j" "\<not> dict_has (old_data j) ''entity-type''"
    and "set_credentials P i u pw p = (Inr (), p')" "pr_rels p' i = Some r'"
    and "first_change i rc (rd_local r') c" "pr_store (cl_data c) = granted_secrets i p'" "pe_has_secrets C" "walks_sets C"
    and "rq_code_order Q [] = []" "falsy (rq_requested_entity_name Q)" "falsy (map_of (cl_unit c i) ''alias'')"
    and "USER \<notin> set (my_secret_groups (local_secret_fields (cl_data c)))"
  shows "\<exists>c'. on_changed C Q i c = (Inr (), c') \<and> cl_events c' = cl_events c @ [(None, DatabaseCreated, i)] \<and>
    fst (event_username C i (cl_data c')) = Inr (Some u) \<and> fst (event_password C i (cl_data c')) = Inr (Some pw)"
proof -
  have free: "secret_free i d req p" using assms(5,6,8) by (simp add: secret_free_def)
  have nu: "\<not> dict_has (rd_local r) ''secret-user''" using assms(9) [of USER] by (simp add: generate_secret_field_name_def)
  from set_credentials_links [OF assms(14,1,2) set_order_simps(3) [OF assms(3)] assms(7) free assms(5) nu assms(10,11)]
  obtain s where s: "pr_store p' = pr_store p @ [s]" "js_content s = [(''username'', u), (''password'', pw)]" "js_granted s = [i]"
    "js_id s = pe_new_id P (pr_store p)" "js_id s \<noteq> []"
    "pr_rels p' = (pr_rels p)(i \<mapsto> r\<lparr>rd_local := bag_put ''secret-user'' (js_id s) (rd_local r)\<rparr>)" by blast
  let ?d = "rd_local r'" and ?s = "s\<lparr>js_label := None\<rparr>"
  have r': "map_of ?d = (map_of (rd_local r))(''secret-user'' \<mapsto> js_id s)" using s(5,6) assms(15) by (auto simp: bag_put_def update_conv')
  have j: "json_loads (get_default ?d ''data'' ''{}'') = Inr j" using assms(12) by (simp add: get_default_def r')
  have other: "\<not> dict_has ?d (generate_secret_field_name g)" if "g \<noteq> USER" for g
    using that assms(9) [of g] by (cases g) (simp_all add: dict_has_iff r' generate_secret_field_name_def)
  have new: "js_id s \<notin> js_id ` set (pr_store p)" using assms(4) s(4) by simp
  have su: "map_of ?d ''secret-user'' = Some (js_id ?s)" "js_id ?s \<noteq> []" by (simp_all add: r' s(5))
  have st: "find_id (js_id ?s) (pr_store (cl_data c)) = Some ?s"
    "find_label (generate_secret_label (pe_relation_name C) i USER) (pr_store (cl_data c)) = None"
    using find_granted [OF s(1) new, of i] s(3) by (simp_all add: assms(17))
  from on_changed_first_secret [OF assms(16,18-21,23,22) j assms(13) su other st] obtain c' where
    c': "on_changed C Q i c = (Inr (), c')" "cl_events c' = cl_events c @ [(None, DatabaseCreated, i)]"
    "pr_rels (cl_data c') = pr_rels (cl_data c)" "map_option js_content (find_id (js_id s) (pr_store (cl_data c'))) = Some (js_content s)" by auto
  have "pr_rels (cl_data c') i = Some rc" "rd_remote rc = Some ?d" using assms(16) c'(3) by (simp_all add: first_change_def)
  from event_field_run [OF assms(18) this, of USER "js_id s"] su(1) s(2,5) c'(4)
  have "event_field C USER f i (cl_data c') = (Inr (map_of [(''username'', u), (''password'', pw)] f), cl_data c')" for f
    by (simp add: generate_secret_field_name_def)
  with c' show ?thesis by (simp add: event_username_def event_password_def)
qed

section \<open>The events of statuses\<close>

text \<open>A databag that shows these statuses, as a provider writes them.\<close>

definition shows_statuses :: "string dict \<Rightarrow> statuses \<Rightarrow> bool" where
  "shows_statuses d m \<longleftrightarrow> statuses_ok m \<and> (map_of d STATUS_FIELD = Some (serialized m) \<or> (m = [] \<and> map_of d STATUS_FIELD = None))"

definition shown_list :: "statuses \<Rightarrow> relation_status list" where
  "shown_list m = map snd (sorted_statuses m)"

lemma shown_list_props:
  assumes "statuses_ok m"
  shows "distinct (map rs_code (shown_list m))" "s \<in> set (shown_list m) \<longleftrightarrow> map_of m (rs_code s) = Some s"
    "set (map rs_code (shown_list m)) = dom (map_of m)"
proof -
  note p = sorted_statuses_props [OF assms]
  have codes: "map rs_code (shown_list m) = map fst (sorted_statuses m)"
    using p(1) by (auto simp: shown_list_def statuses_ok_def)
  then show "distinct (map rs_code (shown_list m))" using p(1) by (simp add: statuses_ok_def)
  show "set (map rs_code (shown_list m)) = dom (map_of m)"
    unfolding codes using p(2) by (simp add: dom_map_of_conv_image_fst flip: p(2))
  have "s \<in> set (shown_list m) \<longleftrightarrow> (rs_code s, s) \<in> set (sorted_statuses m)"
    using p(1) by (force simp: shown_list_def statuses_ok_def)
  also have "\<dots> \<longleftrightarrow> map_of (sorted_statuses m) (rs_code s) = Some s"
    using p(1) by (simp add: statuses_ok_def)
  finally show "s \<in> set (shown_list m) \<longleftrightarrow> map_of m (rs_code s) = Some s" by (simp add: p(2))
qed

lemma load_serialized: "load_items (JStr (serialized m)) = Inr (map asdict (shown_list m))"
proof -
  let ?j = "JArr (map asdict (shown_list m))"
  have "serialized m = json_dumps ?j" by (simp add: serialized_def shown_list_def sorted_statuses_def comp_def)
  moreover have "json_loads (json_dumps ?j) = Inr ?j" by (rule json_round_trip) (simp add: list_all_iff)
  ultimately show ?thesis by (simp add: load_items_def)
qed

lemma load_shown:
  "shows_statuses d m \<Longrightarrow> load_items (case map_of d STATUS_FIELD of None \<Rightarrow> JStr ''[]'' | Some t \<Rightarrow> JStr t) = Inr (map asdict (shown_list m))"
  by (auto simp: shows_statuses_def load_serialized) (simp add: load_items_def shown_list_def sorted_statuses_def)

definition code_json :: "relation_status \<Rightarrow> json option" where
  "code_json s = Some (JInt (rs_code s))"

lemma status_codes_asdict: "status_codes (map asdict ss) = Inr (map code_json ss)"
  by (induction ss) (simp_all add: asdict_def code_json_def)

lemma next_status_asdict:
  "distinct (map rs_code ss) \<Longrightarrow> s \<in> set ss \<Longrightarrow> next_status (code_json s) (map asdict ss) = Inr s"
proof (induction ss)
  case (Cons t ss)
  have "make_status [(''code'', JInt (rs_code t)), (''message'', JStr (rs_message t)), (''resolution'', JStr (rs_resolution t))] = Inr t"
    using read_asdict [of t] by (simp add: read_status_def asdict_def dict_has_def dict_keys_def)
  with Cons show ?case by (cases "rs_code t = rs_code s") (force simp: asdict_def code_json_def)+
qed simp

text \<open>Walking the codes of some of the statuses emits one event for each of them.\<close>

lemma emit_statuses:
  assumes "distinct (map rs_code ss)" "set cs \<subseteq> code_json ` set ss"
  shows "\<exists>xs. map code_json xs = cs \<and> set xs \<subseteq> set ss \<and>
    for_each (\<lambda>c. bindM (lift (next_status c (map asdict ss))) (\<lambda>s. emit_event (E s) i)) cs c =
      (Inr (), c\<lparr>cl_events := cl_events c @ map (\<lambda>s. (None, E s, i)) xs\<rparr>)"
  using assms(2)
proof (induction cs arbitrary: c)
  case (Cons k cs)
  then obtain s where s: "s \<in> set ss" "k = code_json s" by auto
  let ?c = "c\<lparr>cl_events := cl_events c @ [(None, E s, i)]\<rparr>"
  from Cons.IH [of ?c] Cons.prems obtain xs where "map code_json xs = cs" "set xs \<subseteq> set ss"
    "for_each (\<lambda>c. bindM (lift (next_status c (map asdict ss))) (\<lambda>s. emit_event (E s) i)) cs ?c =
      (Inr (), ?c\<lparr>cl_events := cl_events ?c @ map (\<lambda>s. (None, E s, i)) xs\<rparr>)" by auto
  moreover have "bindM (lift (next_status k (map asdict ss))) (\<lambda>s. emit_event (E s) i) c = (Inr (), ?c)"
    by (simp add: bindM_def monad_simps emit_event_def s(2) next_status_asdict [OF assms(1) s(1)])
  ultimately show ?case using s by (intro exI [of _ "s # xs"]) (simp add: seqM_simps(1))
qed (simp add: monad_simps)

lemma map_of_new_data: "k \<noteq> ''data'' \<Longrightarrow> map_of (new_data d) k = map_of d k"
  by (induction d) (auto simp: new_data_def)

text \<open>The codes that only one of two lists of statuses has, in the order in which Python walks the set of them.\<close>

lemma walked_codes:
  assumes "statuses_ok m" "statuses_ok m'" "\<forall>cs. mset (f cs) = mset cs"
  defines "cs \<equiv> f (remdups (filter (\<lambda>c. c \<notin> set (map code_json (shown_list m))) (map code_json (shown_list m'))))"
  shows "set cs \<subseteq> code_json ` set (shown_list m')" "distinct cs"
    "map code_json xs = cs \<Longrightarrow> set xs \<subseteq> set (shown_list m') \<Longrightarrow>
       distinct xs \<and> set xs = {s. map_of m' (rs_code s) = Some s \<and> map_of m (rs_code s) = None}"
proof -
  have e: "mset cs = mset (remdups (filter (\<lambda>c. c \<notin> set (map code_json (shown_list m))) (map code_json (shown_list m'))))"
    unfolding cs_def using assms(3) by blast
  have s: "set cs = {c \<in> code_json ` set (shown_list m'). c \<notin> code_json ` set (shown_list m)}"
    using mset_eq_setD [OF e] by auto
  then show "set cs \<subseteq> code_json ` set (shown_list m')" by auto
  show d: "distinct cs" using mset_eq_imp_distinct_iff [OF e] by simp
  assume xs: "map code_json xs = cs" "set xs \<subseteq> set (shown_list m')"
  have in_m: "code_json s \<in> code_json ` set (shown_list m) \<longleftrightarrow> map_of m (rs_code s) \<noteq> None" for s
  proof -
    have "code_json s \<in> code_json ` set (shown_list m) \<longleftrightarrow> rs_code s \<in> rs_code ` set (shown_list m)"
      by (simp add: image_iff code_json_def)
    with shown_list_props(3) [OF assms(1)] show ?thesis by (simp add: dom_def)
  qed
  have inj: "s = t" if "s \<in> set (shown_list m')" "t \<in> set (shown_list m')" "code_json s = code_json t" for s t
  proof -
    have "map_of m' (rs_code s) = Some s" by (rule shown_list_props(2) [OF assms(2), THEN iffD1, OF that(1)])
    moreover have "map_of m' (rs_code t) = Some t" by (rule shown_list_props(2) [OF assms(2), THEN iffD1, OF that(2)])
    moreover have "rs_code s = rs_code t" using that(3) unfolding code_json_def by blast
    ultimately show ?thesis by (metis option.inject)
  qed
  have "s \<in> set xs \<longleftrightarrow> s \<in> set (shown_list m') \<and> map_of m (rs_code s) = None" for s
  proof
    assume x: "s \<in> set xs"
    then have "code_json s \<in> set cs" using xs(1) by auto
    then show "s \<in> set (shown_list m') \<and> map_of m (rs_code s) = None" using s in_m x xs(2) by auto
  next
    assume x: "s \<in> set (shown_list m') \<and> map_of m (rs_code s) = None"
    then have "code_json s \<in> set cs" using s in_m by auto
    then obtain t where "t \<in> set xs" "code_json t = code_json s" unfolding xs(1) [symmetric] by auto
    with inj [of t s] x xs(2) show "s \<in> set xs" by auto
  qed
  moreover have "distinct xs" using d xs(1) distinct_map by blast
  ultimately show "distinct xs \<and> set xs = {s. map_of m' (rs_code s) = Some s \<and> map_of m (rs_code s) = None}"
    unfolding set_eq_iff mem_Collect_eq shown_list_props(2) [OF assms(2), symmetric] by blast
qed

text \<open>
  (C20) The client hears of statuses exactly what changed: when the provider shows the statuses \<open>m'\<close> and the unit of the client
  last remembered \<open>m\<close>, the status part of the handler of a changed relation emits one event for every status whose code is new, then one for every status whose
  code is gone, and no other event, in whatever order Python walks the sets of codes.
\<close>

theorem status_events_are_differences:
  assumes "walks_sets P" "\<forall>cs. mset (rq_code_order Q cs) = mset cs"
    and "pr_rels (cl_data c) i = Some r" "rd_remote r = Some d" "falsy (map_of d ''encryption-secret'')"
    and "lists_agree (cl_unit c i) (remote_secret_fields (cl_data c)) (local_secret_fields (cl_data c))"
    and "STATUS_FIELD \<notin> set (remote_secret_fields (cl_data c))"
    and "json_loads (get_default (cl_unit c i) ''data'' ''{}'') = Inr (remembered d0)"
    and "shows_statuses d m'" "shows_statuses d0 m"
  shows "\<exists>up down. requirer_on_status P Q i c = (Inr (), c\<lparr>cl_events := cl_events c @
      map (\<lambda>s. (None, StatusRaised s, i)) up @ map (\<lambda>s. (None, StatusResolved s, i)) down\<rparr>) \<and>
    distinct up \<and> set up = {s. map_of m' (rs_code s) = Some s \<and> map_of m (rs_code s) = None} \<and>
    distinct down \<and> set down = {s. map_of m (rs_code s) = Some s \<and> map_of m' (rs_code s) = None}"
proof -
  let ?new = "shown_list m'" and ?old = "shown_list m"
  have ok: "statuses_ok m" "statuses_ok m'" using assms(9,10) by (simp_all add: shows_statuses_def)
  have field: "requirer_fetch_field P i STATUS_FIELD c = (Inr (map_of d STATUS_FIELD), c)"
    by (rule requirer_fetch_plain [OF assms(1,3-7)])
  have cur: "load_items (JStr (if falsy (map_of d STATUS_FIELD) then ''[]'' else the (map_of d STATUS_FIELD))) = Inr (map asdict ?new)"
    using load_shown [OF assms(9)] assms(9) by (auto simp: shows_statuses_def falsy_iff serialized_def split: option.splits)
  have "map_of (new_data d0) STATUS_FIELD = map_of d0 STATUS_FIELD" by (rule map_of_new_data) (simp add: STATUS_FIELD_def)
  then have prev: "load_items (case map_of (old_data (remembered d0)) STATUS_FIELD of None \<Rightarrow> JStr ''[]'' | Some j \<Rightarrow> j) = Inr (map asdict ?old)"
    using load_shown [OF assms(10)] by (auto simp: old_data_def remembered_def new_data_def split: option.splits)
  have dict: "get_encoded_dict (cl_unit c i) ''data'' q = (Inr (Some (old_data (remembered d0))), q)" for q
    using assms(8) by (simp add: get_encoded_dict_def bindM_def monad_simps old_data_def remembered_def)
  note up = walked_codes [OF ok assms(2)] and down = walked_codes [OF ok(2,1) assms(2)]
  let ?ups = "rq_code_order Q (remdups (filter (\<lambda>c. c \<notin> set (map code_json ?old)) (map code_json ?new)))"
  let ?downs = "rq_code_order Q (remdups (filter (\<lambda>c. c \<notin> set (map code_json ?new)) (map code_json ?old)))"
  from emit_statuses [OF shown_list_props(1) [OF ok(2)] up(1), where E = StatusRaised and c = c and i = i] obtain xs where
    xs: "map code_json xs = ?ups" "set xs \<subseteq> set ?new"
    "for_each (\<lambda>c. bindM (lift (next_status c (map asdict ?new))) (\<lambda>s. emit_event (StatusRaised s) i)) ?ups c =
      (Inr (), c\<lparr>cl_events := cl_events c @ map (\<lambda>s. (None, StatusRaised s, i)) xs\<rparr>)" by blast
  let ?c = "c\<lparr>cl_events := cl_events c @ map (\<lambda>s. (None, StatusRaised s, i)) xs\<rparr>"
  from emit_statuses [OF shown_list_props(1) [OF ok(1)] down(1), where E = StatusResolved and c = ?c and i = i] obtain ys where
    ys: "map code_json ys = ?downs" "set ys \<subseteq> set ?old"
    "for_each (\<lambda>c. bindM (lift (next_status c (map asdict ?old))) (\<lambda>s. emit_event (StatusResolved s) i)) ?downs ?c =
      (Inr (), ?c\<lparr>cl_events := cl_events ?c @ map (\<lambda>s. (None, StatusResolved s, i)) ys\<rparr>)" by blast
  have "requirer_on_status P Q i c = (Inr (), c\<lparr>cl_events := cl_events c @
      map (\<lambda>s. (None, StatusRaised s, i)) xs @ map (\<lambda>s. (None, StatusResolved s, i)) ys\<rparr>)"
    using xs(3) ys(3) field cur prev dict unit_run(1) [OF assms(3)]
    by (simp add: requirer_on_status_def on_data_def bindM_def seqM_def monad_simps status_codes_asdict Let_def del: set_map)
  with up(3) [OF xs(1,2)] down(3) [OF ys(1,2)] show ?thesis by blast
qed

section \<open>A concrete pair of applications\<close>

definition sample_requirer :: requirer where
  "sample_requirer = \<lparr>rq_app = ''web'', rq_database = ''app'', rq_extra_user_roles = None, rq_relations_aliases = [],
     rq_additional_secret_fields = [], rq_external_node_connectivity = False, rq_extra_group_roles = None, rq_entity_type = None,
     rq_entity_permissions = None, rq_requested_entity_secret = None, rq_requested_entity_name = None,
     rq_requested_entity_password = None, rq_prefix_matching = None, rq_relations = [7], rq_code_order = (\<lambda>cs. cs)\<rparr>"

definition sample_side :: "string dict \<Rightarrow> string dict \<Rightarrow> juju_secret list \<Rightarrow> client" where
  "sample_side own remote st = \<lparr>cl_data = \<lparr>pr_rels = [7 \<mapsto> \<lparr>rd_local = own, rd_remote = Some remote, rd_remote_model = None\<rparr>],
       pr_store = st, pr_cache = Map.empty, local_secret_fields = [''mtls-cert''], remote_secret_fields = REQUIRER_SECRET_FIELDS,
       pr_emitted = []\<rparr>, cl_unit = (\<lambda>_. []), cl_remote_units = (\<lambda>_. []), cl_events = []\<rparr>"

lemma sample_init: "requirer_init sample_provider_env sample_requirer [] = Inr (REQUIRER_SECRET_FIELDS, [''mtls-cert''])"
  by code_simp

theorem request_reaches_provider_witness:
  "fst (on_created sample_provider_env sample_requirer 7 (sample_side [] [] [])) = Inr () \<and>
     (\<exists>p'. provider_on_relation_changed sample_provider_env 7 (sample_provider\<lparr>pr_rels := [7 \<mapsto> \<lparr>rd_local = [],
         rd_remote = map_option rd_local (pr_rels (cl_data (snd (on_created sample_provider_env sample_requirer 7 (sample_side [] [] [])))) 7),
         rd_remote_model = None\<rparr>]\<rparr>) = (Inr (), p') \<and> pr_emitted p' = [(DatabaseRequestedE, 7)])"
  using request_reaches_provider [OF sample_init sample_env_walks(1) sample_client_fields(6) sample_env_walks(2), of "sample_side [] [] []" 7
      "\<lparr>rd_local = [], rd_remote = Some [], rd_remote_model = None\<rparr>" "[]" sample_provider_env
      "\<lparr>rd_local = [], rd_remote = None, rd_remote_model = None\<rparr>"
      "sample_provider\<lparr>pr_rels := [7 \<mapsto> \<lparr>rd_local = [],
         rd_remote = map_option rd_local (pr_rels (cl_data (snd (on_created sample_provider_env sample_requirer 7 (sample_side [] [] [])))) 7),
         rd_remote_model = None\<rparr>]\<rparr>"]
  by (auto simp: sample_requirer_def sample_side_def sample_env_walks falsy_iff sample_provider_def)

definition sample_answered :: provider where
  "sample_answered = snd (set_credentials sample_provider_env 7 ''u'' ''pw'' sample_provider)"

lemma sample_answered_run:
  "set_credentials sample_provider_env 7 ''u'' ''pw'' sample_provider = (Inr (), sample_answered)"
  "map_option rd_local (pr_rels sample_answered 7) = Some [(''secret-user'', ''s'')]"
proof -
  have "fst (set_credentials sample_provider_env 7 ''u'' ''pw'' sample_provider) = Inr ()" by code_simp
  then show "set_credentials sample_provider_env 7 ''u'' ''pw'' sample_provider = (Inr (), sample_answered)"
    unfolding sample_answered_def by (simp add: prod_eq_iff)
  show "map_option rd_local (pr_rels sample_answered 7) = Some [(''secret-user'', ''s'')]" by code_simp
qed

lemma sample_first_change:
  "first_change 7 \<lparr>rd_local = sample_client, rd_remote = Some [(''secret-user'', ''s'')], rd_remote_model = None\<rparr> [(''secret-user'', ''s'')]
     (sample_side sample_client [(''secret-user'', ''s'')] st)"
  by (simp add: first_change_def sample_side_def STATUS_FIELD_def REQUIRER_SECRET_FIELDS_def lists_agree_def get_default_def falsy_iff)

theorem credentials_reach_client_witness:
  "\<exists>c'. on_changed sample_provider_env sample_requirer 7
       (sample_side sample_client [(''secret-user'', ''s'')] (granted_secrets 7 sample_answered)) = (Inr (), c') \<and>
     cl_events c' = [(None, DatabaseCreated, 7)] \<and>
     fst (event_username sample_provider_env 7 (cl_data c')) = Inr (Some ''u'') \<and>
     fst (event_password sample_provider_env 7 (cl_data c')) = Inr (Some ''pw'')"
proof -
  obtain r' where r': "pr_rels sample_answered 7 = Some r'" "rd_local r' = [(''secret-user'', ''s'')]"
    using sample_answered_run(2) by auto
  note rel = sample_client_fields(1)
  have j: "json_loads (get_default [] ''data'' ''{}'') = Inr (JObj [])" by (simp add: get_default_def)
  note walk = sample_env_walks and secrets = sample_client_fields(6)
  from credentials_reach_client [OF walk(1) secrets walk(2) sample_client_fields(8) rel _ sample_client_asks _ _ _ _ _ _
      sample_answered_run(1) r'(1), where j = "JObj []" and c = "sample_side sample_client [(''secret-user'', ''s'')] (granted_secrets 7 sample_answered)"
      and C = sample_provider_env and Q = sample_requirer and
      rc = "\<lparr>rd_local = sample_client, rd_remote = Some [(''secret-user'', ''s'')], rd_remote_model = None\<rparr>"]
    sample_first_change [of "granted_secrets 7 sample_answered"] j walk(2) secrets r'(2)
  show ?thesis
    by (auto simp: sample_provider_def sample_requirer_def sample_side_def dict_has_def dict_keys_def find_label_def old_data_def
        my_secret_groups_def SECRET_LABEL_MAP_def)
qed

definition sample_status :: relation_status where
  "sample_status = \<lparr>rs_code = 4001, rs_message = ''wait'', rs_resolution = ''none''\<rparr>"

theorem status_events_are_differences_witness:
  "\<exists>up. requirer_on_status sample_provider_env sample_requirer 7
       (sample_side [] [(STATUS_FIELD, serialized [(4001, sample_status)])] []) =
     (Inr (), (sample_side [] [(STATUS_FIELD, serialized [(4001, sample_status)])] [])\<lparr>cl_events := map (\<lambda>s. (None, StatusRaised s, 7)) up\<rparr>) \<and>
     set up = {sample_status}"
proof -
  let ?d = "[(STATUS_FIELD, serialized [(4001, sample_status)])]"
  have sh: "shows_statuses ?d [(4001, sample_status)]" "shows_statuses [] []"
    by (simp_all add: shows_statuses_def statuses_ok_def sample_status_def)
  have data: "json_loads (get_default (cl_unit (sample_side [] ?d []) 7) ''data'' ''{}'') = Inr (remembered [])"
    by (simp add: sample_side_def get_default_def remembered_def dict_map_def)
  have walk: "\<forall>cs. mset (rq_code_order sample_requirer cs) = mset cs" by (simp add: sample_requirer_def)
  have rel: "pr_rels (cl_data (sample_side [] ?d [])) 7 = Some \<lparr>rd_local = [], rd_remote = Some ?d, rd_remote_model = None\<rparr>"
    by (simp add: sample_side_def)
  have lists: "lists_agree (cl_unit (sample_side [] ?d []) 7) (remote_secret_fields (cl_data (sample_side [] ?d [])))
       (local_secret_fields (cl_data (sample_side [] ?d [])))"
    "STATUS_FIELD \<notin> set (remote_secret_fields (cl_data (sample_side [] ?d [])))"
    by (simp_all add: sample_side_def STATUS_FIELD_def REQUIRER_SECRET_FIELDS_def lists_agree_def get_default_def)
  have enc: "falsy (map_of ?d ''encryption-secret'')" by (simp add: STATUS_FIELD_def falsy_iff)
  obtain up down where "requirer_on_status sample_provider_env sample_requirer 7 (sample_side [] ?d []) =
      (Inr (), (sample_side [] ?d [])\<lparr>cl_events := cl_events (sample_side [] ?d []) @
        map (\<lambda>s. (None, StatusRaised s, 7)) up @ map (\<lambda>s. (None, StatusResolved s, 7)) down\<rparr>)"
    "set up = {s. map_of [(4001, sample_status)] (rs_code s) = Some s \<and> map_of [] (rs_code s) = None}"
    "set down = {s. map_of [] (rs_code s) = Some s \<and> map_of [(4001, sample_status)] (rs_code s) = None}"
    using status_events_are_differences [OF sample_env_walks(2) walk rel _ enc lists data sh] by force
  moreover have "{s. map_of [(4001, sample_status)] (rs_code s) = Some s \<and> map_of [] (rs_code s) = None} = {sample_status}"
    by (auto simp: sample_status_def split: if_splits)
  moreover have "cl_events (sample_side [] ?d []) = []" by (simp add: sample_side_def)
  ultimately show ?thesis by (intro exI [of _ up]) simp
qed

section \<open>A requested entity reaches the provider\<close>

text \<open>The helper secret that a client makes for the entity it wants is read by the provider as the name and the password that were given.\<close>

lemma requested_entity_reaches_provider:
  assumes "helper_secret C Q i p = (Inr e, p')" "\<not> falsy (rq_requested_entity_name Q)" "falsy (rq_requested_entity_secret Q)"
    and "\<And>st. pe_new_id C st \<notin> js_id ` set st"
    and "pr_rels q i = Some r" "rd_remote r = Some d" "map_of d ''requested-entity-secret'' = map_of e ''requested-entity-secret''"
    and "pr_store q = granted_secrets i p'"
  shows "requested_entity_secret_content i q =
    (Inr (Some (the (rq_requested_entity_name Q), if falsy (rq_requested_entity_password Q) then None else rq_requested_entity_password Q)), q)"
proof -
  let ?s = "\<lparr>js_id = pe_new_id C (pr_store p), js_label = Some (pe_model_uuid C @ ''-'' @ show_nat i @ ''-requested-entity''),
    js_content = (''entity-name'', the (rq_requested_entity_name Q)) # optional_item ''password'' (rq_requested_entity_password Q),
    js_granted = [i]\<rparr>"
  have h: "js_id ?s \<noteq> []" "e = [(''requested-entity-secret'', js_id ?s)]" "pr_store p' = pr_store p @ [?s]"
    using assms(1-3)
    by (auto simp: helper_secret_def check_content_def Let_def seqM_def bindM_def monad_simps split: if_splits option.splits)
  have "find_id (js_id ?s) (pr_store q) = Some (?s\<lparr>js_label := None\<rparr>)"
    unfolding assms(8) by (rule find_granted [OF h(3)]) (simp_all add: assms(4))
  then show ?thesis
    using assms(6,7) h(1,2) run_databags(1) [OF assms(5)]
    by (simp add: requested_entity_secret_content_def bindM_def monad_simps Let_def falsy_iff)
qed

section \<open>Relations to subordinated providers\<close>

text \<open>
  While no unit that counts as remote is ready, a change of a relation to a subordinated provider ends after the statuses.  The
  difference is not taken, nothing is remembered, and the next change compares with the same old statuses again.
\<close>

lemma not_ready_run:
  assumes "requirer_on_status P Q i c = (Inr (), c')" "pr_rels (cl_data c') i = Some r" "rd_remote r = Some d"
    and "map_of d ''subordinated'' = Some ''true''"
    and "case remote_unit_data Q (cl_remote_units c' i) of None \<Rightarrow> True | Some e \<Rightarrow> map_of e ''state'' \<noteq> Some ''ready''"
  shows "on_changed P Q i c = (Inr (), c')"
  using assms run_databags(1) [OF assms(2)]
  by (simp add: on_changed_def seqM_def bindM_def on_data_def monad_simps)

text \<open>
  A unit counts as remote only if its name does not start with the name of the own application, so the units of a provider
  whose name extends it (\<open>web\<close> and \<open>webdb\<close>) never count.
\<close>

lemma units_by_prefix:
  "remote_unit_data (Q\<lparr>rq_app := a\<rparr>) (map (\<lambda>(n, d). (a @ ''db/'' @ show_nat n, d)) units) = None"
proof -
  have "filter (\<lambda>(u, _). \<not> starts_with a u) (map (\<lambda>(n, d). (a @ ''db/'' @ show_nat n, d)) units) = []"
    by (auto simp: filter_empty_conv starts_with_iff)
  then show ?thesis by (simp add: remote_unit_data_def)
qed

end
