(* ===== verification/BackupListing.thy ===== *)
theory BackupListing
  imports Backup
begin

text \<open>
  What a run of the create-backup action leaves in the bucket, and what the list-backups action says of it.  The objects that
  \<open>xbcloud put\<close> writes are those of an external program: they are a parameter with a law.
\<close>

section \<open>Times as names\<close>

text \<open>A time in the format of the action has no slash and no suffix of its own.\<close>

definition stamp_char :: "char \<Rightarrow> bool" where
  "stamp_char c \<longleftrightarrow> is_digit c \<or> c = CHR '' '' \<or> to_upper c \<in> {CHR ''-'', CHR ''T'', CHR '':'', CHR ''Z''}"

lemma time_field_chars:
  assumes "time_field sep lo hi s = Some (n, r)" "sep \<in> {CHR ''-'', CHR ''T'', CHR '':'', CHR ''Z''}"
  shows "\<exists>p c. s = p @ c # r \<and> list_all stamp_char p \<and> stamp_char c \<and> to_upper c = sep"
proof -
  let ?f = "takeWhile (\<lambda>c. to_upper c \<noteq> sep) s" and ?r = "dropWhile (\<lambda>c. to_upper c \<noteq> sep) s"
  have "?r \<noteq> []" "list_all is_digit ?f" "r = tl ?r" using assms(1) by (auto simp: time_field_def Let_def split: if_splits)
  moreover from this(1) have "to_upper (hd ?r) = sep" using hd_dropWhile by blast
  moreover have "s = ?f @ ?r" by simp
  ultimately show ?thesis
    using assms(2) by (intro exI [where x = ?f] exI [where x = "hd ?r"]) (auto simp: stamp_char_def list_all_iff)
qed

lemma day_field_chars:
  assumes "day_field s = Some (n, r)"
  shows "\<exists>p. s = p @ r \<and> list_all stamp_char p"
proof (cases s)
  case (Cons c t)
  show ?thesis
  proof (cases "c = CHR '' '' \<and> length t > 1 \<and> to_upper (t ! 1) = CHR ''T''")
    case True
    with assms Cons obtain p d where "t = p @ d # r" "list_all stamp_char p" "stamp_char d"
      using time_field_chars [of "CHR ''T''" 1 9 t n r] by (auto simp: day_field_def)
    with True Cons show ?thesis by (intro exI [where x = "c # p @ [d]"]) (simp add: stamp_char_def)
  next
    case False
    with assms Cons obtain p d where "s = p @ d # r" "list_all stamp_char p" "stamp_char d"
      using time_field_chars [of "CHR ''T''" 1 31 s n r] by (auto simp: day_field_def split: if_splits)
    then show ?thesis by (intro exI [where x = "p @ [d]"]) simp
  qed
qed (use assms in \<open>simp add: day_field_def\<close>)

lemma year_field_chars:
  assumes "year_field s = Some (n, r)"
  shows "\<exists>p. s = p @ r \<and> list_all stamp_char p \<and> p \<noteq> []"
proof -
  have y: "length s > 4" "list_all is_digit (take 4 s)" "s ! 4 = CHR ''-''" "r = drop 5 s"
    using assms by (auto simp: year_field_def split: if_splits)
  have "s = take 4 s @ s ! 4 # drop (Suc 4) s" using y(1) by (rule id_take_nth_drop)
  then have "s = (take 4 s @ [CHR ''-'']) @ r" using y(3,4) by simp
  moreover have "stamp_char (CHR ''-'')" by code_simp
  then have "list_all stamp_char (take 4 s @ [CHR ''-''])"
    using y(2) by (simp add: list_all_iff) (simp add: stamp_char_def)
  ultimately show ?thesis by blast
qed

lemma case_field: "(case x of None \<Rightarrow> False | Some (a, b) \<Rightarrow> P a b) \<longleftrightarrow> (\<exists>a b. x = Some (a, b) \<and> P a b)"
  by (cases x) auto

lemma strptime_ok_chars:
  assumes "strptime_ok t"
  shows "CHR ''/'' \<notin> set t" "t \<noteq> []" "removesuffix ''.backup'' t = t"
proof -
  obtain y s1 m s2 d s3 h s4 n s5 z where f: "year_field t = Some (y, s1)" "time_field (CHR ''-'') 1 12 s1 = Some (m, s2)"
    "day_field s2 = Some (d, s3)" "time_field (CHR '':'') 0 23 s3 = Some (h, s4)" "time_field (CHR '':'') 0 59 s4 = Some (n, s5)"
    "time_field (CHR ''Z'') 0 61 s5 = Some (z, [])"
    using assms unfolding strptime_ok_def case_field by blast
  obtain p1 p2 c2 p3 where p: "t = p1 @ s1" "p1 \<noteq> []" "s1 = p2 @ c2 # s2" "s2 = p3 @ s3" and
    s: "list_all stamp_char p1" "list_all stamp_char p2" "stamp_char c2" "list_all stamp_char p3"
    using year_field_chars [OF f(1)] time_field_chars [OF f(2)] day_field_chars [OF f(3)] by auto
  obtain p4 c4 p5 c5 p6 c6 where q: "s3 = p4 @ c4 # s4" "s4 = p5 @ c5 # s5" "s5 = p6 @ [c6]" "to_upper c6 = CHR ''Z''" and
    u: "list_all stamp_char p4" "stamp_char c4" "list_all stamp_char p5" "stamp_char c5" "list_all stamp_char p6" "stamp_char c6"
    using time_field_chars [OF f(4)] time_field_chars [OF f(5)] time_field_chars [OF f(6)] by auto
  have "list_all stamp_char t" unfolding p(1,3,4) q(1-3) using s u by simp
  moreover have "\<not> stamp_char (CHR ''/'')" by code_simp
  ultimately show "CHR ''/'' \<notin> set t" by (auto simp: list_all_iff)
  show "t \<noteq> []" using p(1,2) by simp
  note \<open>t \<noteq> []\<close>
  have l: "last t = c6" unfolding p(1,3,4) q(1-3) by simp
  have "to_upper (CHR ''p'') \<noteq> CHR ''Z''" by code_simp
  then have "last t \<noteq> CHR ''p''" using q(4) unfolding l by blast
  moreover have "last t = CHR ''p''" if "ends_with ''.backup'' t"
    using that \<open>t \<noteq> []\<close> by (cases t rule: rev_cases) (simp_all add: ends_with_def starts_with_def)
  ultimately have "\<not> ends_with ''.backup'' t" by blast
  then show "removesuffix ''.backup'' t = t" by (simp add: removesuffix_def)
qed

section \<open>The names of the objects\<close>

lemma ids_of_object:
  assumes "CHR ''/'' \<notin> set t" "t \<noteq> []"
  shows "metadata_ids [p @ ''/'' @ t @ ''.metadata''] = (if strptime_ok t then [t] else [])"
    "checksum_ids [p @ ''/'' @ t @ ''.metadata''] = []" "log_ids [p @ ''/'' @ t @ ''.metadata''] = []"
    "metadata_ids [p @ ''/'' @ t @ ''.md5''] = []" "checksum_ids [p @ ''/'' @ t @ ''.md5''] = [t]"
    "log_ids [p @ ''/'' @ t @ ''.md5''] = []"
    "metadata_ids [p @ ''/'' @ t @ ''.log''] = []" "checksum_ids [p @ ''/'' @ t @ ''.log''] = []"
    "log_ids [p @ ''/'' @ t @ ''.log''] = [removesuffix ''.backup'' t]"
proof -
  have n: "path_name (p @ ''/'' @ t @ ''.'' @ x) = t @ ''.'' @ x" if "CHR ''/'' \<notin> set x" for x
    using path_name_last [of "t @ ''.'' @ x" p] assms that by (cases t) auto
  have s: "split_suffix (t @ ''.'' @ x) = (t, ''.'' @ x)" if "x \<noteq> []" "CHR ''.'' \<notin> set x" for x
    using split_suffix_name assms(2) that by blast
  show "metadata_ids [p @ ''/'' @ t @ ''.metadata''] = (if strptime_ok t then [t] else [])"
    "checksum_ids [p @ ''/'' @ t @ ''.metadata''] = []" "log_ids [p @ ''/'' @ t @ ''.metadata''] = []"
    using n [of "''metadata''"] s [of "''metadata''"] by (simp_all add: metadata_ids_def checksum_ids_def log_ids_def)
  show "metadata_ids [p @ ''/'' @ t @ ''.md5''] = []" "checksum_ids [p @ ''/'' @ t @ ''.md5''] = [t]"
    "log_ids [p @ ''/'' @ t @ ''.md5''] = []"
    using n [of "''md5''"] s [of "''md5''"] by (simp_all add: metadata_ids_def checksum_ids_def log_ids_def)
  show "metadata_ids [p @ ''/'' @ t @ ''.log''] = []" "checksum_ids [p @ ''/'' @ t @ ''.log''] = []"
    "log_ids [p @ ''/'' @ t @ ''.log''] = [removesuffix ''.backup'' t]"
    using n [of "''log''"] s [of "''log''"] by (simp_all add: metadata_ids_def checksum_ids_def log_ids_def)
qed

lemma ids_append:
  "metadata_ids (ks @ ls) = metadata_ids ks @ metadata_ids ls" "checksum_ids (ks @ ls) = checksum_ids ks @ checksum_ids ls"
  "log_ids (ks @ ls) = log_ids ks @ log_ids ls"
  by (simp_all add: metadata_ids_def checksum_ids_def log_ids_def)

text \<open>The objects of one backup, among others whose names say nothing to the list.\<close>

definition object_suffixes :: "string set" where
  "object_suffixes = {''.metadata'', ''.md5'', ''.log''}"

definition other_object :: "string \<Rightarrow> bool" where
  "other_object k \<longleftrightarrow> snd (split_suffix (path_name k)) \<notin> object_suffixes"

definition backup_object :: "string \<Rightarrow> string \<Rightarrow> bool" where
  "backup_object path k \<longleftrightarrow> k \<in> {path @ ''.metadata'', path @ ''.log'', path @ ''.md5''} \<or> other_object k"

lemma ids_of_other:
  "other_object k \<Longrightarrow> metadata_ids [k] = []" "other_object k \<Longrightarrow> checksum_ids [k] = []" "other_object k \<Longrightarrow> log_ids [k] = []"
  by (auto simp: other_object_def object_suffixes_def metadata_ids_def checksum_ids_def log_ids_def split: prod.splits)

lemma concat_single:
  "a \<notin> set xs \<Longrightarrow> concat (map (\<lambda>x. if x = a then [t] else []) xs) = []"
  "distinct xs \<Longrightarrow> a \<in> set xs \<Longrightarrow> concat (map (\<lambda>x. if x = a then [t] else []) xs) = [t]"
proof -
  show none: "a \<notin> set xs \<Longrightarrow> concat (map (\<lambda>x. if x = a then [t] else []) xs) = []" for xs
    by (induction xs) auto
  show "distinct xs \<Longrightarrow> a \<in> set xs \<Longrightarrow> concat (map (\<lambda>x. if x = a then [t] else []) xs) = [t]"
    by (induction xs) (auto simp: none)
qed

lemma ids_of_new:
  assumes t: "strptime_ok t" and d: "distinct ks"
    and k: "list_all (backup_object (p @ ''/'' @ t)) ks"
  shows "p @ ''/'' @ t @ ''.metadata'' \<in> set ks \<Longrightarrow> metadata_ids ks = [t]"
    "set (checksum_ids ks) = (if p @ ''/'' @ t @ ''.md5'' \<in> set ks then {t} else {})"
    "set (log_ids ks) = (if p @ ''/'' @ t @ ''.log'' \<in> set ks then {t} else {})"
proof -
  note c = strptime_ok_chars [OF t]
  note ids = ids_of_object [OF c(1,2), of p] ids_of_other c(3) t
  define m l s where "m = p @ ''/'' @ t @ ''.metadata''" and "l = p @ ''/'' @ t @ ''.log''" and "s = p @ ''/'' @ t @ ''.md5''"
  note ids' = ids [folded m_def l_def s_def]
  have ne: "m \<noteq> l" "m \<noteq> s" "l \<noteq> s" by (simp_all add: m_def l_def s_def)
  have o: "\<not> other_object m" "\<not> other_object l" "\<not> other_object s"
    using ids' by auto
  have one: "metadata_ids [k] = (if k = m then [t] else [])" "checksum_ids [k] = (if k = s then [t] else [])"
    "log_ids [k] = (if k = l then [t] else [])" if "k \<in> set ks" for k
  proof -
    have "k = m \<or> k = l \<or> k = s \<or> other_object k"
      using k that unfolding m_def l_def s_def by (auto simp: list_all_iff backup_object_def)
    then show "metadata_ids [k] = (if k = m then [t] else [])" "checksum_ids [k] = (if k = s then [t] else [])"
      "log_ids [k] = (if k = l then [t] else [])"
      using ids' ne o by auto
  qed
  have cm: "metadata_ids ks = concat (map (\<lambda>k. metadata_ids [k]) ks)" "checksum_ids ks = concat (map (\<lambda>k. checksum_ids [k]) ks)"
    "log_ids ks = concat (map (\<lambda>k. log_ids [k]) ks)"
    by (simp_all add: metadata_ids_def checksum_ids_def log_ids_def)
  show "metadata_ids ks = [t]" if "p @ ''/'' @ t @ ''.metadata'' \<in> set ks"
    unfolding cm using concat_single(2) [OF d that [folded m_def], of t] one by (simp cong: map_cong)
  show "set (checksum_ids ks) = (if p @ ''/'' @ t @ ''.md5'' \<in> set ks then {t} else {})"
    unfolding cm s_def [symmetric] using one by (auto split: if_splits)
  show "set (log_ids ks) = (if p @ ''/'' @ t @ ''.log'' \<in> set ks then {t} else {})"
    unfolding cm l_def [symmetric] using one by (auto split: if_splits)
qed

lemma mset_collect_backups:
  "mset (collect_backups ks) =
     image_mset (\<lambda>i. from_storage i (i \<in> set (checksum_ids ks)) (i \<in> set (log_ids ks))) (mset (metadata_ids ks))"
  by (simp add: collect_backups_def)

definition known_backup :: "string list \<Rightarrow> string \<Rightarrow> bool" where
  "known_backup keys i \<longleftrightarrow> i \<in> set (metadata_ids keys @ checksum_ids keys @ log_ids keys)"

lemma one_more_backup:
  assumes "strptime_ok t" "distinct new" "\<not> known_backup old t" "p @ ''/'' @ t @ ''.metadata'' \<in> set new"
    and "list_all (backup_object (p @ ''/'' @ t)) new"
    and "mset keys = mset (old @ new)"
  shows "mset (collect_backups keys) = add_mset
    (from_storage t (p @ ''/'' @ t @ ''.md5'' \<in> set new) (p @ ''/'' @ t @ ''.log'' \<in> set new)) (mset (collect_backups old))"
proof -
  note ids = ids_of_new [OF assms(1,2,5)]
  let ?g = "\<lambda>ks i. from_storage i (i \<in> set (checksum_ids ks)) (i \<in> set (log_ids ks))"
  have f: "t \<notin> set (metadata_ids old)" "t \<notin> set (checksum_ids old)" "t \<notin> set (log_ids old)"
    using assms(3) by (simp_all add: known_backup_def)
  have "?g (old @ new) i = ?g old i" if "i \<in> set (metadata_ids old)" for i
  proof -
    have "i \<noteq> t" using that f(1) by blast
    then show ?thesis by (simp add: ids_append ids(2,3))
  qed
  then have "image_mset (?g (old @ new)) (mset (metadata_ids old)) = image_mset (?g old) (mset (metadata_ids old))"
    by (intro image_mset_cong) simp
  moreover have "?g (old @ new) t = from_storage t (p @ ''/'' @ t @ ''.md5'' \<in> set new) (p @ ''/'' @ t @ ''.log'' \<in> set new)"
    using f by (simp add: ids_append ids(2,3))
  moreover have "mset (metadata_ids (old @ new)) = add_mset t (mset (metadata_ids old))"
    by (simp add: ids_append ids(1) [OF assms(4)])
  ultimately show ?thesis
    unfolding collect_backups_order [OF assms(6)] mset_collect_backups by simp
qed

section \<open>What a run stores\<close>

text \<open>The command of a process that runs beside the handler, in the calls that start it, read from it and wait for it.\<close>

definition process_command :: "event \<Rightarrow> string list" where
  "process_command e = (case e of Sys (SpawnProcess _ _ c _) \<Rightarrow> c | Sys (WaitProcess c) \<Rightarrow> c | Sys (ReadPipe c) \<Rightarrow> c
     | Wkl (ContainerSpawn _ _ c _) \<Rightarrow> c | Wkl (ContainerWait c) \<Rightarrow> c | _ \<Rightarrow> [])"

text \<open>
  \<open>xbcloud put --md5 ... path\<close> writes the parts of the backup, numbered files whose names say nothing to the list, and its checksum
  as \<open>path.md5\<close>; a process that is not started with \<open>--md5\<close> writes nothing that concerns the list.  When it has written what is open.
\<close>

definition xbcloud_objects :: "(event list \<Rightarrow> event \<Rightarrow> string list) \<Rightarrow> bool" where
  "xbcloud_objects written \<longleftrightarrow> (\<forall>tr e k. k \<in> set (written tr e) \<longrightarrow>
     (\<exists>c p. process_command e = c @ [p] \<and> ''--md5'' \<in> set c \<and> (k = p @ ''.md5'' \<or> other_object k)))"

definition stores :: "env \<Rightarrow> (event list \<Rightarrow> event \<Rightarrow> string list) \<Rightarrow> event list \<Rightarrow> event \<Rightarrow> string list" where
  "stores E written tr e = (case e of
     Sto (UploadObject _ _ k) \<Rightarrow> if ans_unit E tr e = Inr () then [k] else []
   | _ \<Rightarrow> written tr e)"

fun stored :: "env \<Rightarrow> (event list \<Rightarrow> event \<Rightarrow> string list) \<Rightarrow> event list \<Rightarrow> event list \<Rightarrow> string list" where
  "stored E written tr [] = []"
| "stored E written tr (e # es) = stores E written tr e @ stored E written (tr @ [e]) es"

lemma stored_append: "stored E written tr (es @ fs) = stored E written tr es @ stored E written (tr @ es) fs"
  by (induction es arbitrary: tr) simp_all

definition stores_nothing :: "event \<Rightarrow> bool" where
  "stores_nothing e \<longleftrightarrow> (\<forall>b f k. e \<noteq> Sto (UploadObject b f k)) \<and> ''--md5'' \<notin> set (process_command e)"

definition own_object :: "string \<Rightarrow> event \<Rightarrow> bool" where
  "own_object path e \<longleftrightarrow> (\<forall>b f k. e = Sto (UploadObject b f k) \<longrightarrow> k \<in> {path @ ''.metadata'', path @ ''.log''}) \<and>
     (\<forall>c p. process_command e = c @ [p] \<longrightarrow> ''--md5'' \<in> set c \<longrightarrow> p = path)"

lemma own_if_nothing: "stores_nothing e \<Longrightarrow> own_object path e"
  by (auto simp: stores_nothing_def own_object_def)

lemma stored_nothing:
  assumes "xbcloud_objects written"
  shows "list_all stores_nothing es \<Longrightarrow> stored E written tr es = []"
proof (induction es arbitrary: tr)
  case (Cons e es)
  have "written tr e = []"
  proof (rule ccontr)
    assume "written tr e \<noteq> []"
    then obtain k where "k \<in> set (written tr e)" by (cases "written tr e") auto
    with assms obtain c p where "process_command e = c @ [p]" "''--md5'' \<in> set c" unfolding xbcloud_objects_def by blast
    with Cons.prems show False by (auto simp: stores_nothing_def)
  qed
  then have "stores E written tr e = []"
    using Cons.prems by (auto simp: stores_def stores_nothing_def split: event.splits store_call.splits)
  with Cons show ?case by simp
qed simp

lemma stored_own:
  assumes "xbcloud_objects written"
  shows "list_all (own_object path) es \<Longrightarrow> list_all (backup_object path) (stored E written tr es)"
proof (induction es arbitrary: tr)
  case (Cons e es)
  have "backup_object path k" if k: "k \<in> set (stores E written tr e)" for k
  proof (cases "\<exists>b f k'. e = Sto (UploadObject b f k')")
    case True
    with k Cons.prems(1) show ?thesis by (auto simp: stores_def own_object_def backup_object_def split: if_splits)
  next
    case False
    with k have "k \<in> set (written tr e)" by (auto simp: stores_def split: event.splits store_call.splits)
    with assms obtain c p where "process_command e = c @ [p]" "''--md5'' \<in> set c" "k = p @ ''.md5'' \<or> other_object k"
      unfolding xbcloud_objects_def by blast
    with Cons.prems(1) show ?thesis by (auto simp: own_object_def backup_object_def)
  qed
  with Cons show ?case by (auto simp: list_all_iff)
qed simp

section \<open>The calls of the action\<close>

lemma emits_upload_file:
  assumes "\<And>e. stores_nothing e \<Longrightarrow> P e" "\<And>b f. P (Sto (UploadObject b f k))"
  shows "emits P (upload_file E c k)"
  unfolding upload_file_def build_backup_client_def
  by (intro emits assms) (simp_all add: assms(1) stores_nothing_def process_command_def)

lemma emits_create_checks:
  "emits stores_nothing (initialized E)" "emits stores_nothing (check_cluster E)" "emits stores_nothing (check_instance E)"
proof -
  show "emits stores_nothing (initialized E)"
    unfolding initialized_def server_running_def container_running_def snap_running_def
    by (intro emits) (simp_all add: stores_nothing_def process_command_def)
  show "emits stores_nothing (check_cluster E)" "emits stores_nothing (check_instance E)"
    unfolding check_cluster_def check_instance_def
    by (intro emits; simp add: stores_nothing_def process_command_def)+
qed

lemma binary_not_md5: "''--md5'' \<noteq> binary (system_paths s) c"
  by (cases s) (simp_all add: system_paths_def container_paths_def machine_paths_def path_div_def Let_def)

lemma emits_execute_async:
  assumes "\<And>u g. P (Sys (SpawnProcess u g c v))" "P (Sys (WaitProcess c))" "\<And>u g. P (Wkl (ContainerSpawn u g c v))"
    "P (Wkl (ContainerWait c))" "emits P body"
  shows "emits P (execute_async E c v body)"
  unfolding execute_async_def container_execute_async_def machine_execute_async_def
  by (cases "substrate E"; simp; intro emits assms)

lemma own_upload: "own_object path e" if "process_command e = upload_command E n args path" "\<And>b f k. e \<noteq> Sto (UploadObject b f k)"
  using that by (auto simp: own_object_def upload_command_def)

lemma own_backup: "own_object path e" if "process_command e = backup_command E n u p d" "\<And>b f k. e \<noteq> Sto (UploadObject b f k)"
proof -
  have "''--md5'' \<notin> set (backup_command E n u p d)" by (simp add: backup_command_def binary_not_md5 Let_def)
  with that show ?thesis by (auto simp: own_object_def)
qed

lemma emits_own_process:
  "emits (own_object path) (execute_async E (backup_command E n u p d) v
     (execute_async E (upload_command E n args path) v' (ask (ans_str E) (Sys (ReadPipe (upload_command E n args path))))))"
proof -
  have b: "own_object path (Sys (SpawnProcess a g (backup_command E n u p d) v))" "own_object path (Sys (WaitProcess (backup_command E n u p d)))"
    "own_object path (Wkl (ContainerSpawn a g (backup_command E n u p d) v))" "own_object path (Wkl (ContainerWait (backup_command E n u p d)))" for a g
    by (rule own_backup [of _ E n u p d]; simp add: process_command_def)+
  have c: "own_object path (Sys (SpawnProcess a g (upload_command E n args path) v'))" "own_object path (Sys (WaitProcess (upload_command E n args path)))"
    "own_object path (Wkl (ContainerSpawn a g (upload_command E n args path) v'))" "own_object path (Wkl (ContainerWait (upload_command E n args path)))"
    "own_object path (Sys (ReadPipe (upload_command E n args path)))" for a g
    by (rule own_upload [of _ E n args]; simp add: process_command_def)+
  show ?thesis by (intro emits_execute_async emits b c)
qed

lemma emits_isolated_backup: "emits (own_object path) (isolate_instance E (isolated_backup E path))"
proof -
  have n: "stores_nothing e \<Longrightarrow> own_object path e" for e by (rule own_if_nothing)
  have create: "emits (own_object path) (create_backup E path u p)" for u p
    unfolding create_backup_def create_temporary_ca_def create_temporary_dir_def secrets_choice_def get_cores_def
      container_get_cores_def get_container_cores_def get_node_cores_def get_container_limits_def node_name_def machine_get_cores_def
    by (intro emits emits_own_process n) (simp_all add: stores_nothing_def process_command_def)
  have log: "emits (own_object path) (upload_file E out (path @ ''.log''))" for out
  proof (rule emits_upload_file [OF n])
    show "own_object path (Sto (UploadObject b f (path @ ''.log'')))" for b f by (simp add: own_object_def process_command_def)
  qed
  have rm: "emits (own_object path) (remove_backup E)"
    unfolding remove_backup_def run_silent_def by (intro emits emits_execute_sync n) (simp_all add: stores_nothing_def process_command_def)
  have body: "emits (own_object path) (isolated_backup E path)"
    unfolding isolated_backup_def by (intro emits create log rm n)
  show ?thesis
    unfolding isolate_instance_def
    by (intro emits body n) (simp_all add: stores_nothing_def process_command_def)
qed

lemma temporary_file_Inr:
  assumes "temporary_file E contents body w = (Inr x, v)"
  shows "\<exists>p w1 v1 xs ys. trace w1 = trace w @ xs \<and> body p w1 = (Inr x, v1) \<and> trace v = trace v1 @ ys"
proof (cases "falsy contents")
  case True
  with assms show ?thesis
    by (intro exI [where x = None] exI [where x = w] exI [where x = v]) (simp add: temporary_file_def)
next
  case False
  let ?w = "\<lambda>p. w\<lparr>trace := trace w @ [Sys MakeTemp, Sys (WriteFile p (the contents))], files := (files w)(p \<mapsto> the contents)\<rparr>"
  from False assms obtain p where p: "try_finally (body (Some p)) (unlink_missing_ok E p) (?w p) = (Inr x, v)"
    by (auto simp: temporary_file_def make_temp_def write_text_Inr bindM_Inr_iff seqM_Inr_iff monad_simps)
  then obtain v1 where b: "body (Some p) (?w p) = (Inr x, v1)" "unlink_missing_ok E p v1 = (Inr (), v)"
    by (auto simp: try_finally_def split: prod.splits sum.splits)
  have "emits (\<lambda>_. True) (unlink_missing_ok E p)" unfolding unlink_missing_ok_def by (intro emits; simp)
  with b(2) obtain ys where "trace v = trace v1 @ ys" by (auto elim: emitsE)
  moreover have "trace (?w p) = trace w @ [Sys MakeTemp, Sys (WriteFile p (the contents))]" by simp
  ultimately show ?thesis using b(1) by blast
qed

lemma upload_file_stored:
  assumes "upload_file E c k w = (Inr (), v)"
  shows "\<exists>es. trace v = trace w @ es \<and> k \<in> set (stored E written (trace w) es)"
proof -
  obtain cfg b where "temporary_file E (ca_chain cfg) (\<lambda>ca. temporary_file E (Some c) (\<lambda>f.
      seqM (build_backup_client E ca) (act E (Sto (UploadObject b f k))))) w = (Inr (), v)"
    using assms by (auto simp: upload_file_def bindM_Inr_iff storage_def monad_simps split: sum.splits option.splits)
  from temporary_file_Inr [OF this] obtain ca w1 v1 xs ys where 1: "trace w1 = trace w @ xs" "trace v = trace v1 @ ys"
    "temporary_file E (Some c) (\<lambda>f. seqM (build_backup_client E ca) (act E (Sto (UploadObject b f k)))) w1 = (Inr (), v1)"
    by blast
  from temporary_file_Inr [OF 1(3)] obtain f w2 v2 xs' ys' where 2: "trace w2 = trace w1 @ xs'" "trace v1 = trace v2 @ ys'"
    "seqM (build_backup_client E ca) (act E (Sto (UploadObject b f k))) w2 = (Inr (), v2)"
    by blast
  then obtain w3 where 3: "build_backup_client E ca w2 = (Inr (), w3)" "ans_unit E (trace w3) (Sto (UploadObject b f k)) = Inr ()"
    "trace v2 = trace w3 @ [Sto (UploadObject b f k)]"
    by (auto simp: seqM_Inr_iff monad_simps)
  have "emits (\<lambda>_. True) (build_backup_client E ca)" unfolding build_backup_client_def by (intro emits; simp)
  with 3(1) obtain zs where "trace w3 = trace w2 @ zs" by (auto elim: emitsE)
  with 1 2 3 show ?thesis
    by (intro exI [where x = "(xs @ xs' @ zs) @ Sto (UploadObject b f k) # ys' @ ys"])
      (simp add: stored_append stores_def)
qed

section \<open>A run of the action\<close>

text \<open>Nothing was stored and no result was reported since the state \<open>w\<close>.\<close>

definition still :: "world \<Rightarrow> world \<Rightarrow> bool" where
  "still w v \<longleftrightarrow> (\<exists>es. trace v = trace w @ es \<and> list_all stores_nothing es) \<and> action_results v = action_results w"

lemma keeps_still:
  assumes "emits stores_nothing m" "keeps (\<lambda>v. action_results v = action_results w) m"
  shows "keeps (still w) m"
proof (rule keepsI)
  fix v assume "still w v"
  then obtain es where v: "trace v = trace w @ es" "list_all stores_nothing es" "action_results v = action_results w"
    by (auto simp: still_def)
  obtain fs where "trace (snd (m v)) = trace v @ fs" "list_all stores_nothing fs" using assms(1) unfolding emits_def by blast
  moreover have "action_results (snd (m v)) = action_results w" using assms(2) v(3) by (simp add: keeps_def)
  ultimately show "still w (snd (m v))" using v(1,2) by (simp add: still_def)
qed

text \<open>The run of \<open>m\<close> ends so, or in a state with \<open>Q\<close>.\<close>

definition still_or :: "world \<Rightarrow> (world \<Rightarrow> bool) \<Rightarrow> 'a op \<Rightarrow> world \<Rightarrow> bool" where
  "still_or w Q m v \<longleftrightarrow> still w (snd (m v)) \<or> Q (snd (m v))"

lemma still_or_keeps: "keeps (still w) m \<Longrightarrow> still w v \<Longrightarrow> still_or w Q m v"
  by (simp add: still_or_def keeps_def)

lemma still_or_bindM:
  assumes "keeps (still w) m" "still w v" "\<And>x u. m v = (Inr x, u) \<Longrightarrow> still w u \<Longrightarrow> still_or w Q (f x) u"
  shows "still_or w Q (bindM m f) v"
proof -
  obtain r u where r: "m v = (r, u)" by force
  with assms(1,2) have "still w u" by (metis keepsD)
  with r assms(3) show ?thesis by (cases r) (auto simp: bindM_def still_or_def)
qed

lemma still_or_if:
  "(b \<Longrightarrow> still_or w Q m v) \<Longrightarrow> (\<not> b \<Longrightarrow> still_or w Q n v) \<Longrightarrow> still_or w Q (if b then m else n) v"
  by simp

lemma keeps_results:
  fixes A defines "I \<equiv> \<lambda>v. action_results v = A"
  shows "keeps I (initialized E)" "keeps I (check_cluster E)" "keeps I (check_instance E)" "keeps I (event_fail m)"
    "keeps I (upload_file E c k)" "keeps I (isolate_instance E (isolated_backup E p))"
proof -
  have e: "keeps I (event_fail m)" for m by (simp add: keeps_def I_def monad_simps)
  have t: "keeps I (temporary_file E c body)" if "\<And>x. keeps I (body x)" for c and body :: "string option \<Rightarrow> 'x op"
    unfolding temporary_file_def make_temp_def unlink_missing_ok_def by (intro keeps that) (simp_all add: I_def keeps_def monad_simps)
  have u: "keeps I (upload_file E c k)" for c k
    unfolding upload_file_def by (intro keeps t; simp add: I_def)
  show "keeps I (initialized E)" "keeps I (check_cluster E)" "keeps I (check_instance E)"
    unfolding check_cluster_def check_instance_def by (intro keeps; simp add: I_def)+
  show "keeps I (event_fail m)" "keeps I (upload_file E c k)" by (rule e u)+
  have c: "keeps I (create_backup E p us pw)" for us pw
    unfolding create_backup_def create_temporary_ca_def create_temporary_dir_def secrets_choice_def build_backup_args_def build_backup_env_def
      get_cores_def container_get_cores_def get_container_cores_def get_node_cores_def get_container_limits_def node_name_def
      machine_get_cores_def execute_async_def container_execute_async_def machine_execute_async_def
    by (intro keeps; simp add: I_def)
  have b: "keeps I (isolated_backup E p)"
    unfolding isolated_backup_def or_fail_def remove_backup_def run_silent_def by (intro keeps e u c; simp add: I_def)
  show "keeps I (isolate_instance E (isolated_backup E p))"
    unfolding isolate_instance_def by (intro keeps b; simp add: I_def)
qed

abbreviation store_backup :: "env \<Rightarrow> string \<Rightarrow> string \<Rightarrow> unit op" where
  "store_backup E t path \<equiv>
     bindM (or_fail (upload_file E (build_backup_metadata E t) (path @ ''.metadata'')) [PyException] ''Failed to upload metadata: '')
       (\<lambda>uploaded. case uploaded of None \<Rightarrow> ret ()
        | Some _ \<Rightarrow> bindM (isolate_instance E (isolated_backup E path)) (\<lambda>go.
            if go then event_set_results [(''backup-id'', t)] else ret ()))"

text \<open>
  What the last part of the action leaves: only objects of its own backup, and the metadata among them whenever there is one at all
  or a result was reported.
\<close>

definition backup_run :: "env \<Rightarrow> (event list \<Rightarrow> event \<Rightarrow> string list) \<Rightarrow> string \<Rightarrow> string \<Rightarrow> world \<Rightarrow> world \<Rightarrow> bool" where
  "backup_run E written t path w w' \<longleftrightarrow> (\<exists>es. trace w' = trace w @ es \<and> list_all (own_object path) es \<and>
     action_results w' \<in> {action_results w, [(''backup-id'', t)]} \<and>
     (path @ ''.metadata'' \<in> set (stored E written (trace w) es) \<or>
      stored E written (trace w) es = [] \<and> action_results w' = action_results w))"

lemma stored_upload:
  assumes "xbcloud_objects written"
  shows "list_all (\<lambda>e. stores_nothing e \<or> (\<exists>b f. e = Sto (UploadObject b f k))) es \<Longrightarrow> set (stored E written tr es) \<subseteq> {k}"
proof (induction es arbitrary: tr)
  case (Cons e es)
  have "set (stores E written tr e) \<subseteq> {k}"
  proof (cases "stores_nothing e")
    case True
    with stored_nothing [OF assms, of "[e]" E tr] show ?thesis by simp
  qed (use Cons.prems in \<open>auto simp: stores_def\<close>)
  with Cons show ?case by simp
qed simp

lemma own_metadata: "own_object path (Sto (UploadObject b f (path @ ''.metadata'')))"
  by (simp add: own_object_def process_command_def)

lemma upload_failed_run:
  assumes x: "xbcloud_objects written" and s: "still w v"
    and u: "upload_file E c (path @ ''.metadata'') v = (Inl e, u)" and w': "trace w' = trace u" "action_results w' = action_results u"
  shows "backup_run E written t path w w'"
proof -
  let ?P = "\<lambda>e. stores_nothing e \<or> (\<exists>b f. e = Sto (UploadObject b f (path @ ''.metadata'')))"
  have "emits ?P (upload_file E c (path @ ''.metadata''))" by (rule emits_upload_file) auto
  then obtain fs where fs: "trace u = trace v @ fs" "list_all ?P fs" using u by (auto elim: emitsE)
  obtain es where es: "trace v = trace w @ es" "list_all stores_nothing es" "action_results v = action_results w"
    using s by (auto simp: still_def)
  have p: "own_object path e" if "?P e" for e
    using that own_if_nothing own_metadata by blast
  have "list_all (own_object path) (es @ fs)"
    using es(2) fs(2) p own_if_nothing unfolding list_all_iff set_append by blast
  moreover have "action_results u = action_results w" using keepsD [OF keeps_results(5) es(3) u] .
  moreover have "set (stored E written (trace w) (es @ fs)) \<subseteq> {path @ ''.metadata''}"
    using stored_upload [OF x fs(2), of E "trace w @ es"] stored_nothing [OF x es(2)] by (simp add: stored_append)
  then have "path @ ''.metadata'' \<in> set (stored E written (trace w) (es @ fs)) \<or> stored E written (trace w) (es @ fs) = []"
    by (cases "stored E written (trace w) (es @ fs)") auto
  ultimately show ?thesis
    unfolding backup_run_def using es(1) fs(1) w' by (intro exI [where x = "es @ fs"]) auto
qed

lemma uploaded_run:
  assumes s: "still w v" and u: "upload_file E c (path @ ''.metadata'') v = (Inr (), u)"
    and i: "isolate_instance E (isolated_backup E path) u = (ri, u2)"
    and w': "trace w' = trace u2" "action_results w' \<in> {action_results u2, [(''backup-id'', t)]}"
  shows "backup_run E written t path w w'"
proof -
  have "emits (own_object path) (upload_file E c (path @ ''.metadata''))"
    by (rule emits_upload_file) (rule own_if_nothing, assumption, rule own_metadata)
  then obtain fs where fs: "trace u = trace v @ fs" "list_all (own_object path) fs" using u by (auto elim: emitsE)
  obtain hs where hs: "trace u2 = trace u @ hs" "list_all (own_object path) hs" using emitsE [OF emits_isolated_backup i] by blast
  obtain es where es: "trace v = trace w @ es" "list_all stores_nothing es" "action_results v = action_results w"
    using s by (auto simp: still_def)
  have "path @ ''.metadata'' \<in> set (stored E written (trace v) fs)"
    using upload_file_stored [OF u, of written] fs(1) by auto
  then have m: "path @ ''.metadata'' \<in> set (stored E written (trace w) (es @ fs @ hs))" using es(1) by (simp add: stored_append)
  have "action_results u = action_results w" by (rule keepsD [OF keeps_results(5) es(3) u])
  then have "action_results u2 = action_results w" by (rule keepsD [OF keeps_results(6) _ i])
  moreover have "list_all (own_object path) (es @ fs @ hs)"
    using fs(2) hs(2) list.pred_mono_strong [OF es(2) own_if_nothing] by simp
  ultimately show ?thesis
    unfolding backup_run_def using m es(1) fs(1) hs(1) w' by (intro exI [where x = "es @ fs @ hs"]) auto
qed

lemma store_backup_run:
  assumes "xbcloud_objects written" "still w v"
  shows "backup_run E written t path w (snd (store_backup E t path v))"
proof -
  let ?up = "upload_file E (build_backup_metadata E t) (path @ ''.metadata'')"
  obtain ru u where u: "?up v = (ru, u)" by force
  show ?thesis
  proof (cases ru)
    case (Inl e)
    with u have "trace (snd (store_backup E t path v)) = trace u" "action_results (snd (store_backup E t path v)) = action_results u"
      by (simp_all add: or_fail_def try_else_def seqM_def bindM_def monad_simps)
    with assms u Inl show ?thesis by (blast intro: upload_failed_run)
  next
    case (Inr x)
    obtain ri u2 where i: "isolate_instance E (isolated_backup E path) u = (ri, u2)" by force
    from Inr u i have "trace (snd (store_backup E t path v)) = trace u2 \<and>
        action_results (snd (store_backup E t path v)) \<in> {action_results u2, [(''backup-id'', t)]}"
      by (cases ri) (simp_all add: or_fail_def try_else_def bindM_def monad_simps)
    with assms(2) u Inr i show ?thesis by (intro uploaded_run [where u = u]) auto
  qed
qed

text \<open>Before its last part the action stores nothing.\<close>

lemma keeps_still_checks:
  "keeps (still w) (initialized E)" "keeps (still w) (event_fail m)" "keeps (still w) (ask (ans_str E) (Sys CurrentTime))"
  "keeps (still w) (try_else (block [check_cluster E, check_instance E]) [PyRuntimeError]
     (\<lambda>e. if force then ret True else seqM (event_fail (f e)) (ret False)) (\<lambda>_. ret True))"
  "keeps (still w) (or_fail (bindM (storage E) (\<lambda>cfg. bindM (lift (bucket_path cfg)) (\<lambda>path. ret (path @ x)))) cs m')"
proof -
  show "keeps (still w) (initialized E)" "keeps (still w) (event_fail m)" "keeps (still w) (ask (ans_str E) (Sys CurrentTime))"
    by (rule keeps_still; intro emits emits_create_checks keeps keeps_results; simp add: stores_nothing_def process_command_def)+
  show "keeps (still w) (try_else (block [check_cluster E, check_instance E]) [PyRuntimeError]
     (\<lambda>e. if force then ret True else seqM (event_fail (f e)) (ret False)) (\<lambda>_. ret True))"
    by (rule keeps_still; intro emits emits_create_checks keeps keeps_results)
  show "keeps (still w) (or_fail (bindM (storage E) (\<lambda>cfg. bindM (lift (bucket_path cfg)) (\<lambda>path. ret (path @ x)))) cs m')"
    unfolding or_fail_def by (rule keeps_still; intro emits keeps keeps_results)
qed

lemma create_backup_run:
  fixes E w
  assumes "xbcloud_objects written"
  defines "Q \<equiv> \<lambda>w'. \<exists>cfg path tr t. configure E = Inr (Some cfg) \<and> bucket_path cfg = Inr path \<and>
    ans_str E tr (Sys CurrentTime) = Inr t \<and> backup_run E written t (path @ ''/'' @ t) w w'"
  shows "still_or w Q (on_create_backup E force) w"
proof -
  let ?path = "\<lambda>t. or_fail (bindM (storage E) (\<lambda>cfg. bindM (lift (bucket_path cfg)) (\<lambda>path. ret (path @ ''/'' @ t))))
    [PyRuntimeError] ''Failed to build metadata: ''"
  let ?rest = "\<lambda>t built. case built of None \<Rightarrow> ret () | Some p \<Rightarrow> store_backup E t p"
  note k = keeps_still_checks
  have s: "still w w" by (simp add: still_def)
  have fail: "still_or w Q (event_fail m) v" "still_or w Q (ret ()) v" if "still w v" for m v
    by (rule still_or_keeps [OF _ that]; intro k keeps)+
  have store: "still_or w Q (?rest t built) u"
    if u: "still w u" and b: "?path t v = (Inr built, u)" and t: "ans_str E tr (Sys CurrentTime) = Inr t" for t built u v tr
  proof (cases built)
    case (Some p)
    obtain cfg path where "configure E = Inr (Some cfg)" "bucket_path cfg = Inr path" "p = path @ ''/'' @ t"
      using or_fail_Some [OF b [unfolded Some]] by (auto simp: storage_def bindM_Inr_iff monad_simps split: sum.splits option.splits)
    with t Some store_backup_run [OF assms(1) u, of E t p] have "Q (snd (?rest t built u))" unfolding Q_def by auto
    then show ?thesis by (simp add: still_or_def)
  qed (simp add: fail u)
  have timed: "still_or w Q (bindM (ask (ans_str E) (Sys CurrentTime)) (\<lambda>t. bindM (?path t) (?rest t))) v" if "still w v" for v
  proof (rule still_or_bindM [OF k(3) that])
    fix t u assume "ask (ans_str E) (Sys CurrentTime) v = (Inr t, u)" and u: "still w u"
    then have t: "ans_str E (trace v) (Sys CurrentTime) = Inr t" by (simp add: monad_simps)
    show "still_or w Q (bindM (?path t) (?rest t)) u"
      by (rule still_or_bindM [OF k(5) u]) (rule store [OF _ _ t])
  qed
  show ?thesis
    unfolding on_create_backup_def
    by (rule still_or_if fail s still_or_bindM [OF k(1) s] still_or_bindM [OF k(4)] timed | assumption)+
qed

text \<open>
  (C27) What the create-backup action stores is what the list-backups action reads.  However a run of the action goes, either it has stored
  nothing, reported nothing and the list is as before, or the list has exactly one entry more: its id is the time that the run has asked for,
  which is the only id the action may report, and its status says how far the run came, finished when the checksum is there, failed
  when only the log is, in progress when only the metadata is.  The clock answers a new time in the format of the action, and the objects
  that \<open>xbcloud put\<close> writes are its own; the storage lists the older objects and those of the run, in any order.
\<close>

theorem created_backup_is_listed:
  assumes "on_create_backup E force w = (r, w')" and "trace w' = trace w @ es" and "xbcloud_objects written"
    and "\<forall>tr t. ans_str E tr (Sys CurrentTime) = Inr t \<longrightarrow> strptime_ok t \<and> \<not> known_backup old t"
    and "new = remdups (stored E written (trace w) es)" and "mset keys = mset (old @ new)"
  shows "new = [] \<and> action_results w' = action_results w \<and> collect_backups keys = collect_backups old \<or>
    (\<exists>cfg path tr t. configure E = Inr (Some cfg) \<and> bucket_path cfg = Inr path \<and> ans_str E tr (Sys CurrentTime) = Inr t \<and>
      action_results w' \<in> {action_results w, [(''backup-id'', t)]} \<and>
      mset (collect_backups keys) = add_mset \<lparr>bi_id = t, bi_status = (if path @ ''/'' @ t @ ''.md5'' \<in> set new then FINISHED
          else if path @ ''/'' @ t @ ''.log'' \<in> set new then FAILED else IN_PROGRESS)\<rparr> (mset (collect_backups old)))"
proof -
  have none: ?thesis if "stored E written (trace w) es = []" "action_results w' = action_results w"
    using that assms(5,6) collect_backups_order [of keys old] by simp
  from create_backup_run [OF assms(3), of w E force] assms(1)
  consider "still w w'" | cfg path tr t where "configure E = Inr (Some cfg)" "bucket_path cfg = Inr path"
      "ans_str E tr (Sys CurrentTime) = Inr t" "backup_run E written t (path @ ''/'' @ t) w w'"
    by (auto simp: still_or_def)
  then show ?thesis
  proof cases
    case 1
    then show ?thesis using assms(2) by (intro none) (auto simp: still_def stored_nothing [OF assms(3)])
  next
    case 2
    then have b: "list_all (own_object (path @ ''/'' @ t)) es" "action_results w' \<in> {action_results w, [(''backup-id'', t)]}"
      "path @ ''/'' @ t @ ''.metadata'' \<in> set (stored E written (trace w) es) \<or>
        stored E written (trace w) es = [] \<and> action_results w' = action_results w"
      using assms(2) by (auto simp: backup_run_def)
    have o: "list_all (backup_object (path @ ''/'' @ t)) new"
      using stored_own [OF assms(3) b(1), of E "trace w"] unfolding assms(5) by (simp add: list_all_iff)
    from b(3) show ?thesis
    proof
      assume "path @ ''/'' @ t @ ''.metadata'' \<in> set (stored E written (trace w) es)"
      then have "path @ ''/'' @ t @ ''.metadata'' \<in> set new" "distinct new" unfolding assms(5) by simp_all
      moreover have "strptime_ok t" "\<not> known_backup old t" using assms(4) 2(3) by blast+
      ultimately have "mset (collect_backups keys) = add_mset (from_storage t (path @ ''/'' @ t @ ''.md5'' \<in> set new)
          (path @ ''/'' @ t @ ''.log'' \<in> set new)) (mset (collect_backups old))"
        using o assms(6) by (intro one_more_backup)
      with 2 b(2) show ?thesis
        by (intro disjI2 exI [where x = cfg] exI [where x = path] exI [where x = tr] exI [where x = t]) (simp add: from_storage_def)
    qed (use none in blast)
  qed
qed

section \<open>A concrete run\<close>

text \<open>A single unit backs up its data; \<open>xbcloud\<close> has written the checksum when its output was read.\<close>

definition create_env :: env where
  "create_env = restore_env\<lparr>ans_ostr := \<lambda>_ _. Inr (Some ''ONLINE''), ans_status := \<lambda>_ _. Inr \<lparr>cs_role = ''PRIMARY'', cs_state = ''OK'',
       cs_primary = ''h0:3306'', cs_topology = [(''mysql-0'', sample_instance ''ONLINE'' ''R/W'')]\<rparr>,
     ans_str := \<lambda>_ e. Inr (if e = Sys CurrentTime then ''2026-02-28T23:59:59Z'' else ''x''), ans_proc := \<lambda>_ _. Inr (0, [])\<rparr>"

definition create_world :: world where
  "create_world = restore_world\<lparr>secrets := \<lambda>_. Some (\<lambda>_. Some ''pw'')\<rparr>"

definition put_checksum :: "event list \<Rightarrow> event \<Rightarrow> string list" where
  "put_checksum tr e = (case e of Sys (ReadPipe c) \<Rightarrow> if c \<noteq> [] \<and> ''--md5'' \<in> set (butlast c) then [last c @ ''.md5''] else [] | _ \<Rightarrow> [])"

lemma put_checksum_objects: "xbcloud_objects put_checksum"
  unfolding xbcloud_objects_def
proof (intro allI impI)
  fix tr e k assume "k \<in> set (put_checksum tr e)"
  then obtain c where "e = Sys (ReadPipe c)" "c \<noteq> []" "''--md5'' \<in> set (butlast c)" "k = last c @ ''.md5''"
    by (auto simp: put_checksum_def split: event.splits sys_call.splits if_splits)
  then show "\<exists>c p. process_command e = c @ [p] \<and> ''--md5'' \<in> set c \<and> (k = p @ ''.md5'' \<or> other_object k)"
    by (intro exI [where x = "butlast c"] exI [where x = "last c"]) (simp add: process_command_def)
qed

lemma create_answers:
  "substrate create_env = VM" "has_peers create_env" "has_backup_relation create_env" "refresh create_env = Some False"
  "client_host create_env = ''h0''" "client_cluster create_env = ''c''" "''OK'' \<in> set (ClusterState_members create_env)" "ans_unit create_env tr e = Inr ()"
  "ans_bool create_env tr e = Inr True" "ans_nat create_env tr e = Inr 0" "ans_ostr create_env tr e = Inr (Some ''ONLINE'')"
  "ans_str create_env tr e = Inr (if e = Sys CurrentTime then ''2026-02-28T23:59:59Z'' else ''x'')"
  "ans_strs create_env tr e = Inr [''c'']" "construct_endpoint create_env q = None" "ans_proc create_env tr e = Inr (0, [])"
  "ans_status create_env tr e = Inr \<lparr>cs_role = ''PRIMARY'', cs_state = ''OK'',
     cs_primary = ''h0:3306'', cs_topology = [(''mysql-0'', sample_instance ''ONLINE'' ''R/W'')]\<rparr>"
  by (simp_all add: create_env_def restore_env_def quiet_env_def)

lemma create_storage: "storage create_env = ret restore_cfg"
proof -
  have "storage create_env = storage restore_env" by (simp add: storage_def configure_def create_env_def)
  then show ?thesis by (simp add: restore_storage)
qed

lemma create_reads:
  "trace create_world = []" "app_get_cluster_name (app_bag create_world) = Some ''c''" "secrets create_world l = Some (\<lambda>_. Some ''pw'')"
  "files create_world ''/proc/cpuinfo'' = Some ''processor''" "action_results create_world = []"
  by (simp_all add: create_world_def restore_reads) (simp_all add: restore_world_def sample_world_def quiet_world_def)

text \<open>The parts of the run: each of them succeeds.\<close>

lemma create_initialized:
  "\<exists>v. initialized create_env create_world = (Inr True, v) \<and> files v = files create_world \<and> secrets v = secrets create_world"
  by (simp add: initialized_def server_running_def snap_running_def inst_fetch_cluster_labels_def cluster_name_def read_app_def
      create_answers create_reads falsy_iff try_except_def try_else_def bindM_def monad_simps)

lemma create_checked:
  "\<exists>v'. block [check_cluster create_env, check_instance create_env] v = (Inr (), v') \<and> files v' = files v \<and> secrets v' = secrets v"
  by (simp add: check_cluster_def check_instance_def fetch_instances_def fetch_cluster_status_def cluster_fetch_state_def enum_value_def
      count_cluster_members_def inst_fetch_role_def inst_fetch_state_def backup_in_progress_def sample_instance_def falsy_none_def
      create_answers try_else_def try_except_def bindM_def seqM_def monad_simps)

lemma create_uploads:
  "c \<noteq> [] \<Longrightarrow> \<exists>v'. upload_file create_env c k v = (Inr (), v') \<and> secrets v' = secrets v \<and>
     files v' ''/proc/cpuinfo'' = files v ''/proc/cpuinfo''"
  by (simp add: upload_file_def temporary_file_def make_temp_def write_text_def unlink_missing_ok_def suppress_def
      build_backup_client_def build_endpoint_def bucket_name_def falsy_iff create_answers create_storage restore_reads
      try_finally_def try_except_def bindM_def seqM_def monad_simps)

lemma create_puts:
  assumes "files v ''/proc/cpuinfo'' = Some ''processor''"
  shows "\<exists>v' d es. create_backup create_env path u p v = (Inr (''x'', d), v') \<and> trace v' = trace v @ es \<and>
    path @ ''.md5'' \<in> set (stored create_env put_checksum (trace v) es)"
  using assms
  by (simp add: create_backup_def get_cores_def machine_get_cores_def read_text_def create_temporary_ca_def create_temporary_dir_def secrets_choice_def
      build_backup_args_def build_backup_env_def execute_async_def machine_execute_async_def outcome_def falsy_iff Let_def four
      create_answers create_storage restore_reads stores_def put_checksum_def upload_command_def
      bindM_def seqM_def monad_simps)

lemma create_isolated:
  assumes "files v ''/proc/cpuinfo'' = Some ''processor''" "secrets v = secrets create_world"
  shows "\<exists>v' es. isolate_instance create_env (isolated_backup create_env path) v = (Inr True, v') \<and> trace v' = trace v @ es \<and>
    {path @ ''.md5'', path @ ''.log''} \<subseteq> set (stored create_env put_checksum (trace v) es)"
proof -
  let ?v = "v\<lparr>trace := trace v @ [Clu ''h0'' (FetchClusterStatus ''c'')], unit_status := MaintenanceStatus ''Creating backup''\<rparr>"
  let ?s = "stored create_env put_checksum"
  obtain v1 d xs where c: "create_backup create_env path USERNAME_BACKUPS ''pw'' ?v = (Inr (''x'', d), v1)"
    "trace v1 = trace ?v @ xs" "path @ ''.md5'' \<in> set (?s (trace ?v) xs)"
    using create_puts [of ?v path USERNAME_BACKUPS "''pw''"] assms(1) by auto
  obtain v2 where u: "upload_file create_env ''x'' (path @ ''.log'') v1 = (Inr (), v2)" using create_uploads [of "''x''"] by blast
  then obtain ys where ys: "trace v2 = trace v1 @ ys" "path @ ''.log'' \<in> set (?s (trace v1) ys)" using upload_file_stored by blast
  obtain v3 z where r: "remove_backup create_env v2 = (Inr (), v3)" "trace v3 = trace v2 @ [z]"
    by (simp add: remove_backup_def run_silent_def execute_sync_def machine_execute_sync_def create_answers bindM_def monad_simps)
  have "isolate_instance create_env (isolated_backup create_env path) v = (Inr True, v3)"
    using c(1) u r(1) assms(2)
    by (simp add: isolate_instance_def isolated_backup_def fetch_instances_def fetch_cluster_status_def secret_get_value_def get_secret_def
        set_unit_status_def refreshing_def or_fail_def falsy_iff create_answers create_reads try_else_def try_except_def bindM_def seqM_def monad_simps)
  moreover have "trace v3 = trace v @ Clu ''h0'' (FetchClusterStatus ''c'') # xs @ ys @ [z]" using c(2) ys(1) r(2) by simp
  moreover have "{path @ ''.md5'', path @ ''.log''} \<subseteq>
      set (?s (trace v) (Clu ''h0'' (FetchClusterStatus ''c'') # xs @ ys @ [z]))"
    using c(2,3) ys(2) by (simp add: stored_append)
  ultimately show ?thesis by blast
qed

lemma create_completes:
  fixes t defines "t \<equiv> ''2026-02-28T23:59:59Z''"
  shows "\<exists>w' es. on_create_backup create_env False create_world = (Inr (), w') \<and> trace w' = es \<and>
    action_results w' = [(''backup-id'', t)] \<and> ''p/'' @ t @ ''.md5'' \<in> set (stored create_env put_checksum [] es)"
proof -
  obtain v0 where v0: "initialized create_env create_world = (Inr True, v0)" "files v0 = files create_world"
    "secrets v0 = secrets create_world"
    using create_initialized by blast
  obtain v1 where v1: "block [check_cluster create_env, check_instance create_env] v0 = (Inr (), v1)" "files v1 = files v0" "secrets v1 = secrets v0"
    using create_checked by blast
  let ?v2 = "v1\<lparr>trace := trace v1 @ [Sys CurrentTime]\<rparr>"
  have "build_backup_metadata create_env t \<noteq> []" by (simp add: build_backup_metadata_def)
  from create_uploads [OF this, of "(''p/'' @ t) @ ''.metadata''" ?v2] obtain v3 where
    v3: "upload_file create_env (build_backup_metadata create_env t) ((''p/'' @ t) @ ''.metadata'') ?v2 = (Inr (), v3)"
    "secrets v3 = secrets v1" "files v3 ''/proc/cpuinfo'' = files v1 ''/proc/cpuinfo''"
    by auto
  have f: "files v3 ''/proc/cpuinfo'' = Some ''processor''" "secrets v3 = secrets create_world"
    using v0 v1 v3 by (simp_all add: create_reads)
  obtain v4 es where v4: "isolate_instance create_env (isolated_backup create_env (''p/'' @ t)) v3 = (Inr True, v4)"
    "trace v4 = trace v3 @ es" "(''p/'' @ t) @ ''.md5'' \<in> set (stored create_env put_checksum (trace v3) es)"
    using create_isolated [OF f, of "''p/'' @ t"] by auto
  have "on_create_backup create_env False create_world = (Inr (), v4\<lparr>action_results := [(''backup-id'', t)]\<rparr>)"
    using v0(1) v1(1) v3(1) v4(1)
    by (simp add: on_create_backup_def refreshing_def create_answers create_storage restore_reads bucket_path_def or_fail_def t_def
        try_else_def bindM_def monad_simps del: block.simps)
  moreover have "(''p/'' @ t) @ ''.md5'' \<in> set (stored create_env put_checksum [] (trace v3 @ es))"
    using v4(3) by (simp add: stored_append)
  ultimately show ?thesis using v4(2) by auto
qed

theorem created_backup_is_listed_witness:
  "collect_backups (remdups (stored create_env put_checksum [] (trace (snd (on_create_backup create_env False create_world))))) =
     [\<lparr>bi_id = ''2026-02-28T23:59:59Z'', bi_status = FINISHED\<rparr>]"
proof -
  obtain w' es where r: "on_create_backup create_env False create_world = (Inr (), w')" "trace w' = es"
    "''p/'' @ ''2026-02-28T23:59:59Z'' @ ''.md5'' \<in> set (stored create_env put_checksum [] es)"
    using create_completes by auto
  let ?new = "remdups (stored create_env put_checksum (trace create_world) es)"
  have ok: "strptime_ok ''2026-02-28T23:59:59Z''" by code_simp
  then have a: "\<forall>tr t. ans_str create_env tr (Sys CurrentTime) = Inr t \<longrightarrow> strptime_ok t \<and> \<not> known_backup [] t"
    by (simp add: create_answers known_backup_def metadata_ids_def checksum_ids_def log_ids_def)
  have e: "collect_backups [] = []" by (simp add: collect_backups_def metadata_ids_def)
  have c: "configure create_env = Inr (Some cfg) \<Longrightarrow> bucket_path cfg = Inr path \<Longrightarrow> path = ''p''" for cfg path
  proof -
    have "configure create_env = configure restore_env" by (simp add: configure_def create_env_def)
    moreover have "configure restore_env = Inr (Some restore_cfg)" by code_simp
    moreover have "bucket_path restore_cfg = Inr ''p''" by (simp add: bucket_path_def restore_reads)
    ultimately show "configure create_env = Inr (Some cfg) \<Longrightarrow> bucket_path cfg = Inr path \<Longrightarrow> path = ''p''" by simp
  qed
  have "trace w' = trace create_world @ es" using r(2) by (simp add: create_reads)
  from created_backup_is_listed [OF r(1) this put_checksum_objects a refl, of ?new] r(3)
  have "mset (collect_backups ?new) = {#\<lparr>bi_id = ''2026-02-28T23:59:59Z'', bi_status = FINISHED\<rparr>#}"
    by (auto simp: e create_reads create_answers dest!: c)
  with r(1,2) show ?thesis by (simp add: create_reads)
qed

end
