(* ===== verification/Spec2Isabelle.thy ===== *)
theory Spec2Isabelle
  imports Wiring DatabaseRelation Requirer BackupListing
begin

text \<open>
  The operator core of Charmed MySQL (\<open>src/common/src/single_kernel\<close>): a Juju operator, in Python, that runs a MySQL
  InnoDB cluster on machines (a snap) or on Kubernetes (a container).

  \<^bold>\<open>The program.\<close>  Juju runs a hook or an action on one unit at a time.  The \<^emph>\<open>handlers\<close> (\<open>events/handlers\<close>) decide what to
  do, from the state of the charm (\<open>charm/\<close>, \<open>state/\<close>, \<open>events/helpers\<close>); the \<^emph>\<open>managers\<close> (\<open>managers/managers\<close>) do
  it, through the \<^emph>\<open>clients\<close> of MySQL Shell (\<open>managers/clients\<close>) and the \<^emph>\<open>workload\<close> (\<open>workload/\<close>: paths, shells,
  runtimes, the services of the server and of the metrics exporter).  Background processes (\<open>services/\<close>) dispatch further events.
  The units of an application share its databags and one secret; everything else is private to a unit.

  \<^bold>\<open>The model.\<close>  Python code becomes programs of a state-and-exception monad (\<open>Prelude\<close>): \<open>try\<close>, \<open>except\<close>,
  \<open>else\<close>, \<open>finally\<close>, \<open>with\<close> and \<open>suppress\<close> are its combinators, and an exception carries its classes.  The state (\<open>World\<close>)
  has the databags, secrets, files, statuses and the outcome of the event, and the \<^emph>\<open>trace\<close> of all calls to code that is
  not part of the sources: MySQL Shell, Juju, Pebble, snapd, the Kubernetes API, the object storage, the operating
  system.  These are a parameter, the record \<open>env\<close>, whose answers may depend on the whole history, may raise anything, and are
  otherwise arbitrary; what a theorem needs of them is a premise.  Logging has no counterpart, and an \<open>except\<close>
  clause that only logs and raises again is left out.

  \<^item> \<open>Prelude\<close>, \<open>PyString\<close>, \<open>PyDict\<close>, \<open>Json\<close>: the monad with its rules for invariants (\<open>keeps\<close>) and calls (\<open>calls\<close>,
    \<open>emits\<close>, in \<open>World\<close>), Python's strings and dictionaries, and \<open>json\<close> with a proof that what is written reads back.
  \<^item> \<open>Paths\<close>: \<open>workload/systems/paths\<close>.
  \<^item> \<open>ConfigProfile\<close>, \<open>ConfigParser\<close>, \<open>ServerConfig\<close>: \<open>managers/managers/config\<close>, \<open>charm/config.py\<close>, and the part of \<open>configparser\<close>
    they use.  The buffer pool fits the memory; the written file reads back; differences of two configurations are
    exact; what the validators accept.
  \<^item> \<open>PeerState\<close>: \<open>state/\<close> and \<open>managers/models\<close>.  The databags refine records of typed fields.
  \<^item> \<open>Clients\<close>: \<open>managers/clients\<close>.  The lock protocol of the cluster, generated passwords, names within their bounds.
  \<^item> \<open>Workload\<close>, \<open>Exporter\<close>: \<open>workload/systems\<close> and \<open>workload/services\<close> on both substrates.  Services are stopped, started and
    then connected to, credentials do not stay on disk, those of the exporter survive their JSON file.
  \<^item> \<open>Charm\<close>: \<open>charm/operator\<close>, \<open>charm/secrets.py\<close>, \<open>events/helpers\<close>.  Published endpoints are exact, on machines from the status of
    the cluster and the databags, on Kubernetes the names of the two services; applying an unchanged configuration does nothing.
  \<^item> \<open>SelfHealing\<close>, \<open>Lifecycle\<close>, \<open>Cluster\<close>, \<open>RollingOps\<close>, \<open>Database\<close>, \<open>BackupStorage\<close> and \<open>Backup\<close>, \<open>Tls\<close>, \<open>LogRotation\<close>,
    \<open>Address\<close>: one theory per handler of \<open>events/handlers\<close> with its manager (\<open>RollingOps\<close> also has \<open>charm/refresh\<close>).  When a
    cluster is rebooted or recreated, who joins and leaves it, that the primary restarts last, which users are created and
    deleted, in which order a restore destroys data, that isolation is undone.
  \<^item> \<open>BackupListing\<close>: the create-backup and the list-backups action together: what a run of the first stores in the bucket is one entry
    more in the list of the second.  The objects that \<open>xbcloud\<close> writes are a parameter with a law.
  \<^item> \<open>PrivateKey\<close>: how a private key of TLS is read from a secret (\<open>managers/managers/tls.py\<close>), with base64 and UTF-8 decoding; which keys
    the cryptography library accepts is a parameter.  The base64 form of a key is read as this key;
    a key in its PEM form, not encoded, is refused.
  \<^item> \<open>DataInterfaces\<close>, \<open>Provider\<close>: the provider half of \<open>libs/data_platform_libs/v0/data_interfaces.py\<close>, which the database handler is built
    on: databags and Juju secrets, the cache of secrets, groups of secret fields, fetching, updating and deleting of fields, and
    the difference of databags from which a request is announced.  Requested secrets never reach the databag; what is published
    reads back.
  \<^item> \<open>RelationStatus\<close>: the rest of the provider half: reading several relations, the dictionary view \<open>DataDict\<close>, and the statuses of a
    relation, which refine a map from codes to statuses (\<open>raise_status\<close>, \<open>resolve_status\<close>, \<open>clear_statuses\<close>, \<open>get_statuses\<close>).
  \<^item> \<open>Requirer\<close>: the client half of the same library, an application that asks for a database (\<open>RequirerData\<close>, \<open>DatabaseRequirerData\<close>,
    \<open>DatabaseRequirerEventHandlers\<close> and the events), composed with the provider half: the databag that one side writes is the one that the
    other side reads.  A request reaches the provider; published credentials reach the client; the client hears of statuses exactly what
    changed.
  \<^item> \<open>DatabaseRelation\<close>: the database handler on top of this library: a client reads the credentials with which its user was created;
    and a request that is deferred while the leader changes is lost.
  \<^item> \<open>OperatorServices\<close>: \<open>services/\<close>.  A service is started once; its loop dispatches exactly the changes.
  \<^item> \<open>Operator\<close>: all hooks together, as steps of a deployment of several units.  Invariants of the shared state by induction
    over the steps.
  \<^item> \<open>Platform\<close>, \<open>Wiring\<close>: \<open>charm/architecture.py\<close>, the entry points, and the constructors of the charms and of the handlers (\<open>charm/operator\<close>,
    \<open>events/handlers\<close>): which handlers exist, in which order, what they observe, and what runs before any observer.  A dispatch is the
    constructor, the deferred events and the observers in order; the invariants of \<open>Operator\<close> hold over dispatches.  Settings that are
    refused stop every event.

  \<^bold>\<open>Interfaces.\<close>  Locales state what one part promises another: \<open>bag_field\<close> and \<open>two_bag_fields\<close> (a typed key of a databag), \<open>mutex\<close> (the
  lock of the cluster), \<open>service\<close> and \<open>reliable_service\<close> (start and stop of a workload service, and when they return), \<open>rolling_operation\<close> (the callbacks of the rolling
  operations), \<open>tls_manager\<close>, \<open>pid_store\<close> (the abstract methods of a background service), \<open>shared_invariant\<close> (what an
  invariant has to withstand), \<open>codec\<close> and \<open>codec_chain\<close> (encodings that read back, and two in a row), \<open>databag_invariant\<close> (what an invariant of
  the databag of a relation has to withstand), \<open>status_board\<close> (the statuses of a relation as a map) and \<open>relation_library\<close> (what the database handler relies on).  Each is interpreted on the definitions of the model.

  \<^bold>\<open>Bounds.\<close>  A loop without a bound in the code has fuel from the environment (\<open>loop_fuel\<close>); running out of it raises an
  exception that nothing catches, so no theorem takes it for a result, and \<open>create_password_returns_strong\<close> says how much is
  enough.  A retry that is bounded by time makes \<open>retry_budget\<close> further attempts.  The endless loops of the background services
  are modelled by their first \<open>n\<close> turns, for every \<open>n\<close>.  Integers are unbounded, as in Python; characters are those of one byte.

  \<^bold>\<open>Not modelled.\<close>  Abstract base classes and containers of two fields, which have no code of their own; the peer half of
  \<open>data_interfaces.py\<close>, its relations of other products and its check of PostgreSQL plugins, which the operator does not use; the other libraries under \<open>libs/\<close> (dashboards, log and metrics
  endpoints, the observability agent), which are vendored code the operator only hands arguments to; what these libraries observe on
  their own; tests and documentation.
\<close>

end
